(* ===== verification/Prelude.thy ===== *)
theory Prelude
  imports Main "HOL-Library.Word" "HOL-Library.List_Lexorder" "HOL-Library.Char_ord"
begin

text \<open>
  Shared vocabulary of the development: results and their sequencing, the byte-string
  operations of the Rust standard library the services use, HTTP header maps, machine
  integers, and the ordered map (\<open>BTreeMap\<close>) behind JSON objects, with the lemma
  collections the component theories rely on.

  A Rust \<open>String\<close> is its UTF-8 byte sequence, so \<open>length\<close> is \<open>len()\<close>. Names of the
  operations follow the Rust names.
\<close>

named_theorems str_simps \<open>characterisations of the byte-string operations\<close>
named_theorems map_simps \<open>lookup after update in ordered maps and header maps\<close>

type_synonym u8 = "8 word"
type_synonym u16 = "16 word"
type_synonym u32 = "32 word"
type_synonym u64 = "64 word"
type_synonym i64 = "64 word"

section \<open>Results\<close>

text \<open>A \<open>Result<T, E>\<close> is a sum with the error on the left; \<open>res_bind\<close> is \<open>?\<close>.\<close>

definition res_bind :: "'e + 'a \<Rightarrow> ('a \<Rightarrow> 'e + 'b) \<Rightarrow> 'e + 'b" where
  "res_bind r f = (case r of Inl e \<Rightarrow> Inl e | Inr x \<Rightarrow> f x)"

definition ok_or :: "'a option \<Rightarrow> 'e \<Rightarrow> 'e + 'a" where
  "ok_or r e = (case r of None \<Rightarrow> Inl e | Some x \<Rightarrow> Inr x)"

lemma res_bind_simps [simp]:
  "res_bind (Inl e) f = Inl e"
  "res_bind (Inr x) f = f x"
  by (simp_all add: res_bind_def)

lemma ok_or_simps [simp]:
  "ok_or None e = Inl e"
  "ok_or (Some x) e = Inr x"
  by (simp_all add: ok_or_def)

lemma res_bind_eq_Inr: "res_bind r f = Inr y \<longleftrightarrow> (\<exists>x. r = Inr x \<and> f x = Inr y)"
  by (cases r) auto

lemma ok_or_eq_Inr: "ok_or r e = Inr y \<longleftrightarrow> r = Some y"
  by (cases r) auto

text \<open>Mapping a fallible function over a vector stops at the first error.\<close>

fun res_map :: "('a \<Rightarrow> 'e + 'b) \<Rightarrow> 'a list \<Rightarrow> 'e + 'b list" where
  "res_map f [] = Inr []"
| "res_map f (x # xs) = res_bind (f x) (\<lambda>y. res_bind (res_map f xs) (\<lambda>ys. Inr (y # ys)))"

lemma res_map_Inr: "(\<And>x. x \<in> set xs \<Longrightarrow> f x = Inr (g x)) \<Longrightarrow> res_map f xs = Inr (map g xs)"
  by (induction xs) auto

lemma res_map_length: "res_map f xs = Inr ys \<Longrightarrow> length ys = length xs"
  by (induction xs arbitrary: ys) (auto simp: res_bind_eq_Inr)

section \<open>Byte strings\<close>

definition starts_with :: "string \<Rightarrow> string \<Rightarrow> bool" where
  "starts_with s p \<longleftrightarrow> take (length p) s = p"

definition strip_prefix :: "string \<Rightarrow> string \<Rightarrow> string option" where
  "strip_prefix s p = (if starts_with s p then Some (drop (length p) s) else None)"

fun contains_str :: "string \<Rightarrow> string \<Rightarrow> bool" where
  "contains_str [] n = (n = [])"
| "contains_str (c # cs) n = (starts_with (c # cs) n \<or> contains_str cs n)"

text \<open>\<open>str::find\<close>: the offset of the first occurrence.\<close>

fun find_str :: "string \<Rightarrow> string \<Rightarrow> nat option" where
  "find_str [] n = (if n = [] then Some 0 else None)"
| "find_str (c # cs) n =
     (if starts_with (c # cs) n then Some 0 else map_option Suc (find_str cs n))"

text \<open>\<open>str::replacen(from, to, 1)\<close>: only the first occurrence is replaced.\<close>

definition replacen1 :: "string \<Rightarrow> string \<Rightarrow> string \<Rightarrow> string" where
  "replacen1 s old new =
     (case find_str s old of None \<Rightarrow> s
      | Some i \<Rightarrow> take i s @ new @ drop (i + length old) s)"

text \<open>
  \<open>trim_start_matches\<close> drops occurrences of the given patterns from the front as long as one
  is there; \<open>trim\<close> drops the UTF-8 encodings of the \<open>White_Space\<close> characters at both ends.
\<close>

function trim_front :: "string list \<Rightarrow> string \<Rightarrow> string" where
  "trim_front ps [] = []"
| "trim_front ps (c # cs) =
     (case find (\<lambda>p. p \<noteq> [] \<and> starts_with (c # cs) p) ps of
        None \<Rightarrow> c # cs
      | Some p \<Rightarrow> trim_front ps (drop (length p - 1) cs))"
  by pat_completeness auto
termination by (relation "measure (\<lambda>(ps, s). length s)") auto

definition ws_chars :: "string list" where
  "ws_chars = [[CHR 0x20], [CHR 0x09], [CHR 0x0A], [CHR 0x0B], [CHR 0x0C], [CHR 0x0D],
     [CHR 0xC2, CHR 0x85], [CHR 0xC2, CHR 0xA0], [CHR 0xE1, CHR 0x9A, CHR 0x80],
     [CHR 0xE2, CHR 0x80, CHR 0x80], [CHR 0xE2, CHR 0x80, CHR 0x81], [CHR 0xE2, CHR 0x80, CHR 0x82],
     [CHR 0xE2, CHR 0x80, CHR 0x83], [CHR 0xE2, CHR 0x80, CHR 0x84], [CHR 0xE2, CHR 0x80, CHR 0x85],
     [CHR 0xE2, CHR 0x80, CHR 0x86], [CHR 0xE2, CHR 0x80, CHR 0x87], [CHR 0xE2, CHR 0x80, CHR 0x88],
     [CHR 0xE2, CHR 0x80, CHR 0x89], [CHR 0xE2, CHR 0x80, CHR 0x8A], [CHR 0xE2, CHR 0x80, CHR 0xA8],
     [CHR 0xE2, CHR 0x80, CHR 0xA9], [CHR 0xE2, CHR 0x80, CHR 0xAF], [CHR 0xE2, CHR 0x81, CHR 0x9F],
     [CHR 0xE3, CHR 0x80, CHR 0x80]]"

definition trim_start :: "string \<Rightarrow> string" where
  "trim_start s = trim_front ws_chars s"

definition trim_ws :: "string \<Rightarrow> string" where
  "trim_ws s = rev (trim_front (map rev ws_chars) (rev (trim_start s)))"

definition trim_end_char :: "char \<Rightarrow> string \<Rightarrow> string" where
  "trim_end_char c s = rev (dropWhile (\<lambda>x. x = c) (rev s))"

fun split_char :: "char \<Rightarrow> string \<Rightarrow> string list" where
  "split_char d [] = [[]]"
| "split_char d (c # cs) =
     (if c = d then [] # split_char d cs
      else (case split_char d cs of [] \<Rightarrow> [[c]] | w # ws \<Rightarrow> (c # w) # ws))"

definition ascii_lower_char :: "char \<Rightarrow> char" where
  "ascii_lower_char c =
     (if 65 \<le> (of_char c :: nat) \<and> (of_char c :: nat) \<le> 90
      then char_of ((of_char c :: nat) + 32) else c)"

definition ascii_upper_char :: "char \<Rightarrow> char" where
  "ascii_upper_char c =
     (if 97 \<le> (of_char c :: nat) \<and> (of_char c :: nat) \<le> 122
      then char_of ((of_char c :: nat) - 32) else c)"

definition ascii_lower :: "string \<Rightarrow> string" where
  "ascii_lower s = map ascii_lower_char s"

definition ascii_upper :: "string \<Rightarrow> string" where
  "ascii_upper s = map ascii_upper_char s"

definition is_digit :: "char \<Rightarrow> bool" where
  "is_digit c \<longleftrightarrow> 48 \<le> (of_char c :: nat) \<and> (of_char c :: nat) \<le> 57"

lemma starts_with_iff [str_simps]: "starts_with s p \<longleftrightarrow> (\<exists>r. s = p @ r)"
  unfolding starts_with_def by (metis append_eq_conv_conj append_take_drop_id)

lemma strip_prefix_Some [str_simps]: "strip_prefix s p = Some r \<longleftrightarrow> s = p @ r"
  by (auto simp: strip_prefix_def starts_with_iff)

lemma contains_str_iff [str_simps]: "contains_str s n \<longleftrightarrow> (\<exists>u v. s = u @ n @ v)"
proof (induction s)
  case Nil
  show ?case by simp
next
  case (Cons c cs)
  have "(\<exists>u v. c # cs = u @ n @ v) \<longleftrightarrow>
      (\<exists>v. c # cs = n @ v) \<or> (\<exists>u v. cs = u @ n @ v)" (is "?L \<longleftrightarrow> ?R")
  proof
    assume ?L
    then obtain u v where "c # cs = u @ n @ v" by blast
    then show ?R by (cases u) auto
  next
    assume ?R
    then show ?L by (metis append_Cons append_Nil)
  qed
  with Cons.IH show ?case by (simp add: starts_with_iff)
qed

lemma find_str_None [str_simps]: "find_str s n = None \<longleftrightarrow> \<not> contains_str s n"
  by (induction s) auto

lemma find_str_Some: "find_str s n = Some i \<Longrightarrow> \<exists>v. s = take i s @ n @ v"
proof (induction s arbitrary: i)
  case Nil
  then show ?case by (simp split: if_splits)
next
  case (Cons c cs)
  then show ?case
    by (fastforce simp: starts_with_iff split: if_splits)
qed

lemma find_str_parts:
  "find_str s n = Some i \<Longrightarrow> take i s @ n @ drop (i + length n) s = s"
  by (metis append_take_drop_id append_eq_conv_conj drop_drop find_str_Some add.commute)

lemma replacen1_absent [str_simps]: "\<not> contains_str s old \<Longrightarrow> replacen1 s old new = s"
  by (simp add: replacen1_def find_str_None [THEN iffD2])

text \<open>Decimal rendering of an unsigned integer.\<close>

fun show_nat :: "nat \<Rightarrow> string" where
  "show_nat n = (if n < 10 then [char_of (48 + n)] else show_nat (n div 10) @ [char_of (48 + n mod 10)])"

declare show_nat.simps [simp del]

definition show_int :: "int \<Rightarrow> string" where
  "show_int i = (if i < 0 then ''-'' @ show_nat (nat (- i)) else show_nat (nat i))"

section \<open>HTTP headers\<close>

text \<open>
  A header map lists its entries; \<open>get\<close> finds the first value of a name and \<open>insert\<close>
  drops every earlier value of that name. A value is readable as a string
  (\<open>to_str\<close>) only when all its bytes are visible ASCII or a tab.
\<close>

type_synonym headers = "(string \<times> string) list"

definition hdr_visible :: "char \<Rightarrow> bool" where
  "hdr_visible c \<longleftrightarrow>
     c = CHR 0x09 \<or> 32 \<le> (of_char c :: nat) \<and> (of_char c :: nat) < 127"

definition hdr_str :: "headers \<Rightarrow> string \<Rightarrow> string option" where
  "hdr_str hs k =
     (case map_of hs k of None \<Rightarrow> None
      | Some v \<Rightarrow> if list_all hdr_visible v then Some v else None)"

definition hdr_insert :: "string \<Rightarrow> string \<Rightarrow> headers \<Rightarrow> headers" where
  "hdr_insert k v hs = (k, v) # filter (\<lambda>e. fst e \<noteq> k) hs"

lemma map_of_filter_neq:
  "map_of (filter (\<lambda>e. fst e \<noteq> k) m) = (map_of m)(k := None)"
  by (induction m) auto

lemma map_of_hdr_insert [map_simps]: "map_of (hdr_insert k v hs) = (map_of hs)(k \<mapsto> v)"
  by (auto simp: hdr_insert_def map_of_filter_neq)

lemma hdr_str_insert [map_simps]:
  "hdr_str (hdr_insert k v hs) j =
     (if j = k then (if list_all hdr_visible v then Some v else None) else hdr_str hs j)"
  by (simp add: hdr_str_def map_of_hdr_insert)

section \<open>Ordered maps\<close>

text \<open>
  \<open>BTreeMap\<close> as an association list in key order: iteration visits the keys in order,
  insertion replaces, removal drops the entry.
\<close>

fun bt_insert :: "'k::linorder \<Rightarrow> 'v \<Rightarrow> ('k \<times> 'v) list \<Rightarrow> ('k \<times> 'v) list" where
  "bt_insert k v [] = [(k, v)]"
| "bt_insert k v ((a, b) # m) =
     (if k < a then (k, v) # (a, b) # m
      else if k = a then (k, v) # m
      else (a, b) # bt_insert k v m)"

definition bt_remove :: "'k \<Rightarrow> ('k \<times> 'v) list \<Rightarrow> ('k \<times> 'v) list" where
  "bt_remove k m = filter (\<lambda>e. fst e \<noteq> k) m"

definition bt_ordered :: "('k::linorder \<times> 'v) list \<Rightarrow> bool" where
  "bt_ordered m \<longleftrightarrow> sorted_wrt (<) (map fst m)"

lemma map_of_bt_insert [map_simps]: "map_of (bt_insert k v m) = (map_of m)(k \<mapsto> v)"
  by (induction k v m rule: bt_insert.induct) (auto simp: fun_eq_iff)

lemma map_of_bt_remove [map_simps]: "map_of (bt_remove k m) = (map_of m)(k := None)"
  by (simp add: bt_remove_def map_of_filter_neq)

lemma keys_bt_insert: "set (map fst (bt_insert k v m)) = insert k (set (map fst m))"
  by (induction k v m rule: bt_insert.induct) auto

lemma bt_ordered_insert: "bt_ordered m \<Longrightarrow> bt_ordered (bt_insert k v m)"
proof (induction k v m rule: bt_insert.induct)
  case (1 k v)
  show ?case by (simp add: bt_ordered_def)
next
  case (2 k v a b m)
  then show ?case
    using keys_bt_insert [of k v m]
    by (auto simp: bt_ordered_def dest: less_trans)
qed

lemma bt_ordered_remove: "bt_ordered m \<Longrightarrow> bt_ordered (bt_remove k m)"
  by (simp add: bt_ordered_def bt_remove_def sorted_wrt_map sorted_wrt_filter)

text \<open>The interface JSON objects rely on, and the ordered list as its provider.\<close>

locale ordered_map =
  fixes look :: "'m \<Rightarrow> 'k \<Rightarrow> 'v option"
    and ins :: "'k \<Rightarrow> 'v \<Rightarrow> 'm \<Rightarrow> 'm"
    and del :: "'k \<Rightarrow> 'm \<Rightarrow> 'm"
    and inv :: "'m \<Rightarrow> bool"
  assumes look_ins: "look (ins k v m) j = (if j = k then Some v else look m j)"
    and look_del: "look (del k m) j = (if j = k then None else look m j)"
    and inv_ins: "inv m \<Longrightarrow> inv (ins k v m)"
    and inv_del: "inv m \<Longrightarrow> inv (del k m)"
begin

lemma look_ins_same: "look (ins k v m) k = Some v"
  by (simp add: look_ins)

lemma look_del_ins_other: "j \<noteq> k \<Longrightarrow> look (del k (ins j v m)) j = Some v"
  by (simp add: look_ins look_del)

lemma frame: "j \<notin> set ks \<Longrightarrow> look (foldr del ks m) j = look m j"
  by (induction ks) (auto simp: look_del)

lemma inv_dels: "inv m \<Longrightarrow> inv (foldr del ks m)"
  by (induction ks) (auto intro: inv_del)

end

interpretation bt: ordered_map "map_of :: ('k::linorder \<times> 'v) list \<Rightarrow> 'k \<Rightarrow> 'v option"
  bt_insert bt_remove bt_ordered
  by unfold_locales
    (auto simp: map_of_bt_insert map_of_bt_remove intro: bt_ordered_insert bt_ordered_remove)

section \<open>Machine integers\<close>

text \<open>\<open>u64::saturating_sub\<close>.\<close>

definition saturating_sub_u64 :: "u64 \<Rightarrow> u64 \<Rightarrow> u64" where
  "saturating_sub_u64 a b = (if a < b then 0 else a - b)"

lemma unat_saturating_sub: "unat (saturating_sub_u64 a b) = unat a - unat b"
  by (auto simp: saturating_sub_u64_def unat_sub word_less_nat_alt not_less word_le_nat_alt)

lemma uint_less_nat: "uint w < int n \<longleftrightarrow> unat w < n"
  by (metis int_nat_eq nat_less_iff uint_nonnegative unat_eq_nat_uint)

text \<open>\<open>x as u32\<close> for a length keeps the low 32 bits.\<close>

definition usize_as_u32 :: "nat \<Rightarrow> u32" where
  "usize_as_u32 n = of_nat n"

lemma unat_usize_as_u32: "unat (usize_as_u32 n) = n mod 2 ^ 32"
  by (simp add: usize_as_u32_def unat_of_nat)

text \<open>\<open>str::parse::<u64>\<close>.\<close>

definition parse_u64 :: "string \<Rightarrow> u64 option" where
  "parse_u64 s =
     (let ds = (case strip_prefix s ''+'' of Some r \<Rightarrow> r | None \<Rightarrow> s);
          n = foldl (\<lambda>a c. 10 * a + ((of_char c :: nat) - 48)) 0 ds
      in if ds \<noteq> [] \<and> list_all is_digit ds \<and> n < 2 ^ 64 then Some (of_nat n) else None)"

definition or_zero :: "u64 option \<Rightarrow> u64" where
  "or_zero x = (case x of None \<Rightarrow> 0 | Some n \<Rightarrow> n)"

lemma digits_read: "foldl (\<lambda>a c. 10 * a + ((of_char c :: nat) - 48)) 0 (show_nat n) = n \<and> list_all is_digit (show_nat n) \<and>
    (\<forall>r. show_nat n \<noteq> CHR ''+'' # r) \<and> show_nat n \<noteq> []"
proof (induction n rule: show_nat.induct)
  case (1 n)
  have d: "of_char (char_of (48 + m :: nat) :: char) = 48 + m" if "m < 10" for m :: nat using that by simp
  show ?case
  proof (cases "n < 10")
    case True
    have "char_of (48 + n :: nat) \<noteq> CHR ''+''"
    proof
      assume "char_of (48 + n :: nat) = CHR ''+''"
      then have "of_char (char_of (48 + n :: nat) :: char) = (of_char (CHR ''+'') :: nat)" by simp
      with d [OF True] show False by simp
    qed
    with True d [OF True] show ?thesis by (simp add: show_nat.simps [of n] is_digit_def)
  next
    case False
    with 1 d [of "n mod 10"] show ?thesis
      by (auto simp: show_nat.simps [of n] is_digit_def append_eq_Cons_conv)
  qed
qed

lemma parse_show: "n < 2 ^ 64 \<Longrightarrow> parse_u64 (show_nat n) = Some (of_nat n)"
proof -
  assume n: "n < 2 ^ 64"
  have "strip_prefix (show_nat n) ''+'' = None"
    using digits_read [of n] by (cases "strip_prefix (show_nat n) ''+''") (auto simp: strip_prefix_Some)
  with n digits_read [of n] show ?thesis by (simp add: parse_u64_def)
qed

end
