(* ===== verification/Json.thy ===== *)
theory Json
  imports Prelude
begin

text \<open>
  JSON values as \<open>serde_json::Value\<close> has them (object keys in \<open>BTreeMap\<close> order, a
  number is a \<open>u64\<close>, a negative \<open>i64\<close> or an \<open>f64\<close> given by its bit pattern), the
  accessors the services chain, and what the services use of the \<open>serde_json\<close> crate:
  parsing and printing are fields of the record \<open>serde\<close>, arguments of the definitions
  that call them.
\<close>

type_synonym f64 = "64 word"

datatype jnum = PosInt u64 | NegInt i64 | Float f64

datatype json =
    JNull
  | JBool bool
  | JNum jnum
  | JStr string
  | JArr "json list"
  | JObj "(string \<times> json) list"

section \<open>Accessors\<close>

text \<open>\<open>Value::get\<close> with a key, \<open>as_str\<close>, \<open>as_array\<close>, \<open>as_object\<close>, \<open>as_bool\<close>, \<open>as_u64\<close>.\<close>

fun jget :: "json \<Rightarrow> string \<Rightarrow> json option" where
  "jget (JObj ob) k = map_of ob k"
| "jget _ k = None"

fun as_str :: "json \<Rightarrow> string option" where
  "as_str (JStr s) = Some s"
| "as_str _ = None"

fun as_arr :: "json \<Rightarrow> json list option" where
  "as_arr (JArr xs) = Some xs"
| "as_arr _ = None"

fun as_obj :: "json \<Rightarrow> (string \<times> json) list option" where
  "as_obj (JObj ob) = Some ob"
| "as_obj _ = None"

fun as_bool :: "json \<Rightarrow> bool option" where
  "as_bool (JBool b) = Some b"
| "as_bool _ = None"

fun as_u64 :: "json \<Rightarrow> u64 option" where
  "as_u64 (JNum (PosInt n)) = Some n"
| "as_u64 _ = None"

text \<open>\<open>arr.first()\<close> and \<open>Value::get\<close> with an index.\<close>

definition first_of :: "'a list \<Rightarrow> 'a option" where
  "first_of xs = (case xs of [] \<Rightarrow> None | x # _ \<Rightarrow> Some x)"

definition jget_str :: "json \<Rightarrow> string \<Rightarrow> string option" where
  "jget_str v k = Option.bind (jget v k) as_str"

definition jget_arr :: "json \<Rightarrow> string \<Rightarrow> json list option" where
  "jget_arr v k = Option.bind (jget v k) as_arr"

definition jget_u64 :: "json \<Rightarrow> string \<Rightarrow> u64 option" where
  "jget_u64 v k = Option.bind (jget v k) as_u64"

text \<open>A pointer path whose steps are keys and the index 0 (\<open>/choices/0/message\<close>).\<close>

datatype pstep = Key string | Idx0

fun jpointer :: "json \<Rightarrow> pstep list \<Rightarrow> json option" where
  "jpointer v [] = Some v"
| "jpointer v (Key k # ps) = (case jget v k of None \<Rightarrow> None | Some w \<Rightarrow> jpointer w ps)"
| "jpointer v (Idx0 # ps) =
     (case Option.bind (as_arr v) first_of of None \<Rightarrow> None | Some w \<Rightarrow> jpointer w ps)"

definition jpointer_str :: "json \<Rightarrow> pstep list \<Rightarrow> string option" where
  "jpointer_str v ps = Option.bind (jpointer v ps) as_str"

text \<open>\<open>v[k]\<close> on an immutable value: null where the key is missing or \<open>v\<close> is no object.\<close>

definition jindex :: "json \<Rightarrow> string \<Rightarrow> json" where
  "jindex v k = (case jget v k of None \<Rightarrow> JNull | Some w \<Rightarrow> w)"

definition jindex0 :: "json \<Rightarrow> json" where
  "jindex0 v = (case Option.bind (as_arr v) first_of of None \<Rightarrow> JNull | Some w \<Rightarrow> w)"

text \<open>An object literal of \<open>json!\<close>: its entries inserted in order.\<close>

definition jobject :: "(string \<times> json) list \<Rightarrow> json" where
  "jobject kvs = JObj (fold (\<lambda>(k, v). bt_insert k v) kvs [])"

definition jnat :: "u64 \<Rightarrow> json" where
  "jnat n = JNum (PosInt n)"

text \<open>Optional fields with \<open>skip_serializing_if = "Option::is_none"\<close> are left out.\<close>

definition opt_field :: "string \<Rightarrow> ('a \<Rightarrow> json) \<Rightarrow> 'a option \<Rightarrow> (string \<times> json) list" where
  "opt_field k f x = (case x of None \<Rightarrow> [] | Some y \<Rightarrow> [(k, f y)])"

text \<open>Update of one field of an object, as through \<open>as_object_mut\<close>.\<close>

fun jset :: "string \<Rightarrow> json \<Rightarrow> json \<Rightarrow> json" where
  "jset k w (JObj ob) = JObj (bt_insert k w ob)"
| "jset k w v = v"

fun jremove :: "string \<Rightarrow> json \<Rightarrow> json" where
  "jremove k (JObj ob) = JObj (bt_remove k ob)"
| "jremove k v = v"

section \<open>Serialisation\<close>

text \<open>
  What the services call of \<open>serde_json\<close> and \<open>simd-json\<close>: \<open>from_slice\<close> (or
  \<open>from_str\<close>) into a value, the typed extraction of \<open>model\<close> (\<open>from_slice::<ExtractModel>\<close>)
  and of \<open>stream\<close>, and \<open>to_vec\<close> / \<open>to_string\<close>.
\<close>

record serde =
  parse_value :: "string \<Rightarrow> json option"
  parse_model :: "string \<Rightarrow> string option option"
  parse_stream :: "string \<Rightarrow> bool option option"
  print_value :: "json \<Rightarrow> string"

text \<open>The documented behaviour of printing: parsing the output gives the value back.\<close>

definition serde_roundtrip :: "serde \<Rightarrow> bool" where
  "serde_roundtrip sd \<longleftrightarrow> (\<forall>v. parse_value sd (print_value sd v) = Some v)"

section \<open>Lemmas\<close>

lemma fold_insert_map_of:
  "map_of (fold (\<lambda>(k, v). bt_insert k v) kvs m) j =
     (case map_of (rev kvs) j of None \<Rightarrow> map_of m j | Some w \<Rightarrow> Some w)"
  by (induction kvs arbitrary: m)
    (auto simp: map_of_bt_insert map_add_def split: option.splits)

lemma jget_jobject [map_simps, simp]: "jget (jobject kvs) j = map_of (rev kvs) j"
  by (simp add: jobject_def fold_insert_map_of split: option.splits)

lemma jget_jset [map_simps]:
  "jget (jset k w v) j = (if j = k \<and> as_obj v \<noteq> None then Some w else jget v j)"
  by (cases v) (auto simp: map_of_bt_insert)

lemma jget_jremove [map_simps]: "jget (jremove k v) j = (if j = k then None else jget v j)"
  by (cases v) (auto simp: map_of_bt_remove)

lemma as_obj_jset [simp]: "(as_obj (jset k w v) = None) = (as_obj v = None)"
  by (cases v) auto

lemma as_obj_jremove [simp]: "(as_obj (jremove k v) = None) = (as_obj v = None)"
  by (cases v) auto

lemma as_obj_jobject [simp]: "as_obj (jobject kvs) \<noteq> None"
  by (simp add: jobject_def)

lemma jget_None_no_object: "as_obj v = None \<Longrightarrow> jget v k = None"
  by (cases v) auto

lemma jget_Some_object: "jget v k = Some w \<Longrightarrow> \<exists>ob. v = JObj ob \<and> map_of ob k = Some w"
  by (cases v) auto

lemma jpointer_append:
  "jpointer v (ps @ qs) = (case jpointer v ps of None \<Rightarrow> None | Some w \<Rightarrow> jpointer w qs)"
  by (induction v ps rule: jpointer.induct) (auto split: option.splits)

text \<open>Objects all the way down keep their keys in order.\<close>

fun wf_json :: "json \<Rightarrow> bool" where
  "wf_json (JArr xs) = (\<forall>x \<in> set xs. wf_json x)"
| "wf_json (JObj ob) = (bt_ordered ob \<and> (\<forall>e \<in> set ob. wf_json (snd e)))"
| "wf_json _ = True"

lemma set_bt_insert: "set (bt_insert k v m) \<subseteq> insert (k, v) (set m)"
  by (induction k v m rule: bt_insert.induct) auto

lemma wf_json_jset: "wf_json v \<Longrightarrow> wf_json w \<Longrightarrow> wf_json (jset k w v)"
  using set_bt_insert by (cases v) (fastforce intro: bt_ordered_insert)+

lemma wf_json_jremove: "wf_json v \<Longrightarrow> wf_json (jremove k v)"
proof (cases v)
  case (JObj ob)
  then have "set (bt_remove k ob) \<subseteq> set ob" by (auto simp: bt_remove_def)
  with JObj show "wf_json v \<Longrightarrow> wf_json (jremove k v)"
    by (auto intro: bt_ordered_remove)
qed auto

lemma wf_json_fold:
  "wf_json (JObj m) \<Longrightarrow> (\<And>e. e \<in> set kvs \<Longrightarrow> wf_json (snd e)) \<Longrightarrow>
   wf_json (JObj (fold (\<lambda>(k, v). bt_insert k v) kvs m))"
proof (induction kvs arbitrary: m)
  case Nil
  then show ?case by simp
next
  case (Cons e kvs)
  obtain k v where e: "e = (k, v)" by (cases e)
  have "wf_json (JObj (bt_insert k v m))"
    using wf_json_jset [of "JObj m" v k] Cons.prems(1) Cons.prems(2) [of e] by (simp add: e)
  then show ?case using Cons.IH [of "bt_insert k v m"] Cons.prems by (simp add: e)
qed

lemma wf_json_jobject: "(\<And>e. e \<in> set kvs \<Longrightarrow> wf_json (snd e)) \<Longrightarrow> wf_json (jobject kvs)"
  unfolding jobject_def by (rule wf_json_fold) (auto simp: bt_ordered_def)

end
