(* ===== verification/Redis.thy ===== *)
theory Redis
  imports Json "HOL-Library.AList"
begin

text \<open>
  The Redis server the gateway and the configuration service talk to is not part of the
  repository: a command is executed by a function \<open>exec\<close>, an argument of every
  definition that calls it. The locale \<open>redis_server\<close> states the documented behaviour of
  the commands in use, over what a client can observe of the keyspace (\<open>view\<close>), and
  \<open>ref_exec\<close> is a keyspace that has it. Times are milliseconds of the server clock.
\<close>

section \<open>Commands and replies\<close>

text \<open>
  A string value holds an integer, a float or some other text. The scores of a sorted set are
  integers where they are times and floats where they are latencies.
\<close>

datatype rstr = Dec int | Flt f64 | Raw string

datatype rdata =
    DStr rstr
  | DList "string list"
  | DZset "(string \<times> nat) list"
  | DRanks "(string \<times> f64) list"

datatype rcmd =
    GET string
  | SETEX string rstr nat
  | SET string rstr
  | DEL string
  | INCRBY string int
  | INCRBYFLOAT string f64
  | EXPIRE string nat
  | TTL string
  | LRANGE string nat
  | LPUSH string string
  | LTRIM string nat
  | ZREMRANGEBYSCORE string nat
  | ZADD string nat string
  | ZADDF string f64 string
  | ZCOUNT string

datatype rval = ROk | RNil | RInt int | RBulk rstr | RArr "string list" | RErr

type_synonym keyspace = "string \<Rightarrow> (rdata \<times> nat option) option"

text \<open>
  Binary floating point: the operations of the processor and of the standard library
  the services apply to \<open>f64\<close> values. \<open>f_dec m e\<close> is the literal \<open>m / 10 ^ e\<close>,
  \<open>f_text\<close> reads the text of a Redis value (\<open>str::parse::<f64>\<close>), \<open>f_incr\<close> is the
  server's float increment.
\<close>

record f64_ops =
  f_ge :: "f64 \<Rightarrow> f64 \<Rightarrow> bool"
  f_is_zero :: "f64 \<Rightarrow> bool"
  f_mul :: "f64 \<Rightarrow> f64 \<Rightarrow> f64"
  f_div :: "f64 \<Rightarrow> f64 \<Rightarrow> f64"
  f_round :: "f64 \<Rightarrow> f64"
  f_of_u64 :: "u64 \<Rightarrow> f64"
  f_of_i64 :: "i64 \<Rightarrow> f64"
  f_dec :: "int \<Rightarrow> nat \<Rightarrow> f64"
  f_text :: "rstr \<Rightarrow> f64 option"
  f_incr :: "rstr option \<Rightarrow> f64 \<Rightarrow> rstr option"

section \<open>Documented behaviour\<close>

definition at_time :: "nat \<Rightarrow> (rdata \<times> nat option) option \<Rightarrow> (rdata \<times> nat option) option" where
  "at_time t e = (case e of Some (d, Some dl) \<Rightarrow> if t < dl then e else None | _ \<Rightarrow> e)"

definition i64_range :: "int \<Rightarrow> bool" where
  "i64_range x \<longleftrightarrow> - (2 ^ 63) \<le> x \<and> x < 2 ^ 63"

definition ttl_of :: "(rdata \<times> nat option) option \<Rightarrow> nat option" where
  "ttl_of e = Option.bind e snd"

definition int_at :: "(rdata \<times> nat option) option \<Rightarrow> int option" where
  "int_at e = (case e of None \<Rightarrow> Some 0 | Some (DStr (Dec i), _) \<Rightarrow> Some i | _ \<Rightarrow> None)"

definition list_at :: "(rdata \<times> nat option) option \<Rightarrow> string list option" where
  "list_at e = (case e of None \<Rightarrow> Some [] | Some (DList xs, _) \<Rightarrow> Some xs | _ \<Rightarrow> None)"

definition zset_at :: "(rdata \<times> nat option) option \<Rightarrow> (string \<times> nat) list option" where
  "zset_at e = (case e of None \<Rightarrow> Some [] | Some (DZset z, _) \<Rightarrow> Some z | _ \<Rightarrow> None)"

definition ranks_at :: "(rdata \<times> nat option) option \<Rightarrow> (string \<times> f64) list option" where
  "ranks_at e = (case e of None \<Rightarrow> Some [] | Some (DRanks z, _) \<Rightarrow> Some z | _ \<Rightarrow> None)"

definition str_at :: "(rdata \<times> nat option) option \<Rightarrow> rstr option option" where
  "str_at e = (case e of None \<Rightarrow> Some None | Some (DStr v, _) \<Rightarrow> Some (Some v) | _ \<Rightarrow> None)"

text \<open>The reply to a command, from the entry of its key at the time of the call.\<close>

fun cmd_key :: "rcmd \<Rightarrow> string" where
  "cmd_key (GET k) = k" | "cmd_key (SETEX k _ _) = k" | "cmd_key (SET k _) = k"
| "cmd_key (DEL k) = k" | "cmd_key (INCRBY k _) = k" | "cmd_key (INCRBYFLOAT k _) = k"
| "cmd_key (EXPIRE k _) = k" | "cmd_key (TTL k) = k" | "cmd_key (LRANGE k _) = k"
| "cmd_key (LPUSH k _) = k" | "cmd_key (LTRIM k _) = k"
| "cmd_key (ZREMRANGEBYSCORE k _) = k" | "cmd_key (ZADD k _ _) = k" | "cmd_key (ZADDF k _ _) = k" | "cmd_key (ZCOUNT k) = k"

fun cmd_reply :: "f64_ops \<Rightarrow> nat \<Rightarrow> rcmd \<Rightarrow> (rdata \<times> nat option) option \<Rightarrow> rval" where
  "cmd_reply F t (GET k) e =
     (case str_at e of None \<Rightarrow> RErr | Some None \<Rightarrow> RNil | Some (Some v) \<Rightarrow> RBulk v)"
| "cmd_reply F t (SETEX k v ttl) e = (if ttl = 0 then RErr else ROk)"
| "cmd_reply F t (SET k v) e = ROk"
| "cmd_reply F t (DEL k) e = RInt (if e = None then 0 else 1)"
| "cmd_reply F t (INCRBY k n) e =
     (case int_at e of None \<Rightarrow> RErr | Some i \<Rightarrow> if i64_range (i + n) then RInt (i + n) else RErr)"
| "cmd_reply F t (INCRBYFLOAT k x) e =
     (case str_at e of None \<Rightarrow> RErr
      | Some v \<Rightarrow> (case f_incr F v x of None \<Rightarrow> RErr | Some w \<Rightarrow> RBulk w))"
| "cmd_reply F t (EXPIRE k ttl) e = RInt (if e = None then 0 else 1)"
| "cmd_reply F t (TTL k) e =
     RInt (case e of None \<Rightarrow> - 2 | Some (_, None) \<Rightarrow> - 1
           | Some (_, Some dl) \<Rightarrow> int ((dl - t + 500) div 1000))"
| "cmd_reply F t (LRANGE k n) e =
     (case list_at e of None \<Rightarrow> RErr | Some xs \<Rightarrow> RArr (take (Suc n) xs))"
| "cmd_reply F t (LPUSH k x) e =
     (case list_at e of None \<Rightarrow> RErr | Some xs \<Rightarrow> RInt (int (Suc (length xs))))"
| "cmd_reply F t (LTRIM k n) e = (case list_at e of None \<Rightarrow> RErr | Some _ \<Rightarrow> ROk)"
| "cmd_reply F t (ZREMRANGEBYSCORE k hi) e =
     (case zset_at e of None \<Rightarrow> RErr
      | Some z \<Rightarrow> RInt (int (length (filter (\<lambda>m. snd m \<le> hi) z))))"
| "cmd_reply F t (ZADD k sc m) e =
     (case zset_at e of None \<Rightarrow> RErr
      | Some z \<Rightarrow> RInt (if m \<in> fst ` set z then 0 else 1))"
| "cmd_reply F t (ZADDF k sc m) e =
     (case ranks_at e of None \<Rightarrow> RErr
      | Some z \<Rightarrow> if f_ge F sc sc then RInt (if m \<in> fst ` set z then 0 else 1) else RErr)"
| "cmd_reply F t (ZCOUNT k) e =
     (case zset_at e of None \<Rightarrow> RErr | Some z \<Rightarrow> RInt (int (length z)))"

text \<open>The entry after the command; an emptied list or sorted set is removed.\<close>

definition list_entry :: "string list \<Rightarrow> nat option \<Rightarrow> (rdata \<times> nat option) option" where
  "list_entry xs dl = (if xs = [] then None else Some (DList xs, dl))"

definition zset_entry :: "(string \<times> nat) list \<Rightarrow> nat option \<Rightarrow> (rdata \<times> nat option) option" where
  "zset_entry z dl = (if z = [] then None else Some (DZset z, dl))"

fun cmd_effect ::
  "f64_ops \<Rightarrow> nat \<Rightarrow> rcmd \<Rightarrow> (rdata \<times> nat option) option \<Rightarrow> (rdata \<times> nat option) option" where
  "cmd_effect F t (SETEX k v ttl) e = (if ttl = 0 then e else Some (DStr v, Some (t + 1000 * ttl)))"
| "cmd_effect F t (SET k v) e = Some (DStr v, None)"
| "cmd_effect F t (DEL k) e = None"
| "cmd_effect F t (INCRBY k n) e =
     (case int_at e of None \<Rightarrow> e
      | Some i \<Rightarrow> if i64_range (i + n) then Some (DStr (Dec (i + n)), ttl_of e) else e)"
| "cmd_effect F t (INCRBYFLOAT k x) e =
     (case str_at e of None \<Rightarrow> e
      | Some v \<Rightarrow> (case f_incr F v x of None \<Rightarrow> e | Some w \<Rightarrow> Some (DStr w, ttl_of e)))"
| "cmd_effect F t (EXPIRE k ttl) e =
     (case e of None \<Rightarrow> None
      | Some (d, _) \<Rightarrow> if ttl = 0 then None else Some (d, Some (t + 1000 * ttl)))"
| "cmd_effect F t (LPUSH k x) e =
     (case list_at e of None \<Rightarrow> e | Some xs \<Rightarrow> Some (DList (x # xs), ttl_of e))"
| "cmd_effect F t (LTRIM k n) e =
     (case list_at e of None \<Rightarrow> e | Some xs \<Rightarrow> list_entry (take (Suc n) xs) (ttl_of e))"
| "cmd_effect F t (ZREMRANGEBYSCORE k hi) e =
     (case zset_at e of None \<Rightarrow> e
      | Some z \<Rightarrow> zset_entry (filter (\<lambda>m. hi < snd m) z) (ttl_of e))"
| "cmd_effect F t (ZADD k sc m) e =
     (case zset_at e of None \<Rightarrow> e
      | Some z \<Rightarrow> Some (DZset ((m, sc) # filter (\<lambda>x. fst x \<noteq> m) z), ttl_of e))"
| "cmd_effect F t (ZADDF k sc m) e =
     (case ranks_at e of None \<Rightarrow> e
      | Some z \<Rightarrow> if f_ge F sc sc then Some (DRanks (AList.update m sc z), ttl_of e) else e)"
| "cmd_effect F t c e = e"

section \<open>Transport\<close>

text \<open>
  A call may fail before the server sees the commands or after they took effect; the
  client cannot tell the two apart. A script or a transaction runs as one step.
\<close>

datatype fault = Delivered | LostRequest | LostReply

definition redis_call :: "fault \<Rightarrow> ('s \<Rightarrow> 'a \<times> 's) \<Rightarrow> 's \<Rightarrow> 'a option \<times> 's" where
  "redis_call f body s =
     (case f of Delivered \<Rightarrow> (Some (fst (body s)), snd (body s))
      | LostRequest \<Rightarrow> (None, s)
      | LostReply \<Rightarrow> (None, snd (body s)))"

fun exec_all :: "(rcmd \<Rightarrow> 's \<Rightarrow> rval \<times> 's) \<Rightarrow> rcmd list \<Rightarrow> 's \<Rightarrow> rval list \<times> 's" where
  "exec_all ex [] s = ([], s)"
| "exec_all ex (c # cs) s =
     (let s1 = snd (ex c s)
      in (fst (ex c s) # fst (exec_all ex cs s1), snd (exec_all ex cs s1)))"

lemma redis_call_simps [simp]:
  "redis_call Delivered body s = (Some (fst (body s)), snd (body s))"
  "redis_call LostRequest body s = (None, s)"
  "redis_call LostReply body s = (None, snd (body s))"
  by (simp_all add: redis_call_def)

lemma redis_call_state: "snd (redis_call f body s) \<in> {s, snd (body s)}"
  by (cases f) auto

section \<open>The interface\<close>

locale redis_server =
  fixes F :: f64_ops
    and exec :: "nat \<Rightarrow> rcmd \<Rightarrow> 's \<Rightarrow> rval \<times> 's"
    and view :: "'s \<Rightarrow> nat \<Rightarrow> keyspace"
  assumes exec_reply: "fst (exec t c s) = cmd_reply F t c (view s t (cmd_key c))"
    and exec_view: "view (snd (exec t c s)) t =
      (view s t)(cmd_key c := at_time t (cmd_effect F t c (view s t (cmd_key c))))"
    and time_passes: "t \<le> t' \<Longrightarrow> view s t' k = at_time t' (view s t k)"
begin

lemma live: "at_time t (view s t k) = view s t k"
  using time_passes [of t t s k] by simp

lemma exec_pair: "exec t c s = (cmd_reply F t c (view s t (cmd_key c)), snd (exec t c s))"
  by (metis exec_reply prod.collapse)

lemma exec_frame: "j \<noteq> cmd_key c \<Longrightarrow> view (snd (exec t c s)) t j = view s t j"
  by (simp add: exec_view)

lemma exec_frame_later:
  "j \<noteq> cmd_key c \<Longrightarrow> t \<le> t' \<Longrightarrow> view (snd (exec t c s)) t' j = view s t' j"
  by (simp add: time_passes [of t t'] exec_view)

lemma exec_key: "view (snd (exec t c s)) t (cmd_key c) = at_time t (cmd_effect F t c (view s t (cmd_key c)))"
  by (simp add: exec_view)

lemma gone_stays_gone: "view s t k = None \<Longrightarrow> t \<le> t' \<Longrightarrow> view s t' k = None"
  by (simp add: time_passes [of t t'] at_time_def)

lemma exec_all_frame:
  "\<forall>c \<in> set cs. cmd_key c \<noteq> j \<Longrightarrow> view (snd (exec_all (exec t) cs s)) t j = view s t j"
proof (induction cs arbitrary: s)
  case Nil
  then show ?case by simp
next
  case (Cons c cs)
  then have "view (snd (exec_all (exec t) cs (snd (exec t c s)))) t j = view (snd (exec t c s)) t j"
    by simp
  also have "\<dots> = view s t j" using Cons.prems exec_frame [of j c] by auto
  finally show ?case by (simp add: Let_def)
qed

end

section \<open>A keyspace with this behaviour\<close>

definition ref_exec :: "f64_ops \<Rightarrow> nat \<Rightarrow> rcmd \<Rightarrow> keyspace \<Rightarrow> rval \<times> keyspace" where
  "ref_exec F t c s =
     (let k = cmd_key c; e = at_time t (s k)
      in (cmd_reply F t c e, s(k := at_time t (cmd_effect F t c e))))"

definition ref_view :: "keyspace \<Rightarrow> nat \<Rightarrow> keyspace" where
  "ref_view s t k = at_time t (s k)"

lemma at_time_mono: "t \<le> t' \<Longrightarrow> at_time t' (at_time t e) = at_time t' e"
  by (auto simp: at_time_def split: option.splits prod.splits)

interpretation ref: redis_server F "ref_exec F" ref_view
  by unfold_locales
    (auto simp: ref_exec_def ref_view_def Let_def fun_eq_iff at_time_mono)

end
