(* ===== verification/Gateway_Error.thy ===== *)
theory Gateway_Error
  imports Json
begin

text \<open>
  The gateway's error type and its rendering as an HTTP response
  (\<open>redeye_gateway/src/error.rs\<close>), and the response record the gateway's handlers
  share. Detail text that a library error appends to a message is left out.
\<close>

datatype gateway_error =
    Unauthorized
  | ResponseBuild string
  | UpstreamUnreachable bool  \<comment> \<open>whether the transport error is a timeout\<close>
  | ComplianceFailure string
  | RateLimitExceeded string
  | LoopDetected string
  | AgentLoopBudgetExceeded string
  | BurnRateExceeded string
  | ProxyError bool
  | ModelNotConfigured
  | RoutingStateMissing
  | NoActiveKeys

datatype resp_body = BJson json | BBytes string | BStream "string list" | BEmpty

record response =
  rstatus :: nat
  rheaders :: headers
  rbody :: resp_body

text \<open>\<open>(status, Json(v)).into_response()\<close>.\<close>

definition json_response :: "nat \<Rightarrow> json \<Rightarrow> response" where
  "json_response st v =
     \<lparr>rstatus = st, rheaders = [(''content-type'', ''application/json'')], rbody = BJson v\<rparr>"

lemma json_response_simps [simp]:
  "rstatus (json_response st v) = st" "rbody (json_response st v) = BJson v"
  "rheaders (json_response st v) = [(''content-type'', ''application/json'')]"
  by (simp_all add: json_response_def)

fun error_parts :: "gateway_error \<Rightarrow> nat \<times> string \<times> string" where
  "error_parts Unauthorized = (401, ''UNAUTHORIZED'', ''Missing or invalid API key.'')"
| "error_parts (ResponseBuild _) =
     (500, ''INTERNAL_ERROR'', ''An internal error occurred while building the response.'')"
| "error_parts (UpstreamUnreachable timeout) =
     (if timeout then (504, ''GATEWAY_TIMEOUT'', ''The upstream request timed out.'')
      else (503, ''UPSTREAM_ERROR'', ''The upstream LLM service is currently unreachable.''))"
| "error_parts (ComplianceFailure _) =
     (503, ''COMPLIANCE_ERROR'',
      ''Request blocked: the compliance service is unavailable or rejected this payload.'')"
| "error_parts (RateLimitExceeded _) =
     (429, ''RATE_LIMITED'', ''Rate limit exceeded. Please try again later.'')"
| "error_parts (LoopDetected _) =
     (429, ''AGENT_LOOP_DETECTED'',
      ''Agent recursive loop detected. This session has been blocked to prevent runaway costs.'')"
| "error_parts (AgentLoopBudgetExceeded _) =
     (429, ''agent_loop_exceeded'', ''RedEye Guard: Agent loop budget exceeded...'')"
| "error_parts (BurnRateExceeded _) =
     (429, ''BURN_RATE_EXCEEDED'',
      ''Session burn rate exceeded. Spending has been paused to prevent runaway costs.'')"
| "error_parts (ProxyError _) =
     (500, ''INTERNAL_ERROR'',
      ''An internal error occurred while communicating with backend cluster services.'')"
| "error_parts ModelNotConfigured =
     (400, ''MODEL_NOT_CONFIGURED'', ''The requested model is not configured for this tenant.'')"
| "error_parts RoutingStateMissing =
     (500, ''ROUTING_STATE_MISSING'', ''Routing state is missing or unavailable.'')"
| "error_parts NoActiveKeys =
     (503, ''ALL_KEYS_EXHAUSTED'', ''All configured keys exhausted.'')"

fun is_loop_budget :: "gateway_error \<Rightarrow> bool" where
  "is_loop_budget (AgentLoopBudgetExceeded _) = True"
| "is_loop_budget _ = False"

definition error_response :: "gateway_error \<Rightarrow> response" where
  "error_response e =
     (case error_parts e of (st, code, msg) \<Rightarrow>
        if is_loop_budget e then
          (let res = json_response st (jobject [(''error'', jobject
             [(''message'', JStr ''RedEye Guard: Agent loop budget exceeded...''),
              (''type'', JStr ''redeye_loop_limit''),
              (''code'', JStr ''agent_loop_exceeded''),
              (''param'', JNull)])])
           in res\<lparr>rheaders := hdr_insert ''retry-after'' ''300'' (rheaders res)\<rparr>)
        else
          json_response st (jobject [(''error'', jobject
            [(''code'', JStr code), (''message'', JStr msg)])]))"

text \<open>\<open>Display\<close> of an error, the text telemetry records.\<close>

fun error_text :: "gateway_error \<Rightarrow> string" where
  "error_text Unauthorized = ''Missing or invalid API key''"
| "error_text (ResponseBuild m) = ''Failed to build proxy request/response: '' @ m"
| "error_text (UpstreamUnreachable _) = ''LLM Provider unreachable: ''"
| "error_text (ComplianceFailure m) = ''Compliance block: '' @ m"
| "error_text (RateLimitExceeded m) = ''Rate Limit Exceeded: '' @ m"
| "error_text (LoopDetected m) = ''Agent loop detected: '' @ m"
| "error_text (AgentLoopBudgetExceeded m) = ''Agent loop budget exceeded: '' @ m"
| "error_text (BurnRateExceeded m) = ''Burn rate exceeded: '' @ m"
| "error_text (ProxyError _) = ''Gateway internal error: ''"
| "error_text ModelNotConfigured = ''Model not configured for this tenant''"
| "error_text RoutingStateMissing = ''Routing state missing''"
| "error_text NoActiveKeys = ''No active keys available for routing''"

lemma error_status_class: "400 \<le> rstatus (error_response e) \<and> rstatus (error_response e) < 600"
  by (cases e) (auto simp: error_response_def)

text \<open>
  A guard error is never rendered as a server error a client would retry blindly: the
  four throttling errors are the ones with status 429.
\<close>

lemma error_429:
  "rstatus (error_response e) = 429 \<longleftrightarrow>
     (\<exists>m. e \<in> {RateLimitExceeded m, LoopDetected m, AgentLoopBudgetExceeded m, BurnRateExceeded m})"
  by (cases e) (auto simp: error_response_def)

end
