(* ===== verification/Guards.thy ===== *)
theory Guards
  imports Redis Gateway_Error
begin

text \<open>
  The gateway's admission guards over Redis: loop detection, the agentic loop budget with
  its in-process fallback, burn-rate control (\<open>usecases/behavior_guard.rs\<close>), the tenant
  token bucket (\<open>usecases/proxy.rs\<close>) and the fixed-window rate limiter
  (\<open>api/middleware/rate_limit.rs\<close>).

  Every Redis call takes the server time and the transport outcome of that call as a
  pair \<open>(t, f)\<close>; \<open>exec\<close> is the server and \<open>sha\<close> the hex SHA-256 digest.
\<close>

type_synonym call = "nat \<times> fault"

section \<open>Loop detection\<close>

definition loop_window :: nat where "loop_window = 3"
definition max_history :: nat where "max_history = 5"
definition session_hash_ttl :: nat where "session_hash_ttl = 3600"

definition compute_body_hash :: "serde \<Rightarrow> (string \<Rightarrow> string) \<Rightarrow> json \<Rightarrow> string" where
  "compute_body_hash sd sha body =
     (let m = jget body ''messages''; tl = jget body ''tools''
      in if m \<noteq> None \<or> tl \<noteq> None
         then sha ((case m of None \<Rightarrow> [] | Some v \<Rightarrow> print_value sd v) @
                   (case tl of None \<Rightarrow> [] | Some v \<Rightarrow> print_value sd v))
         else sha (print_value sd body))"

definition hashes_key :: "string \<Rightarrow> string" where
  "hashes_key session = ''session:'' @ session @ '':hashes''"

definition loop_push :: "string \<Rightarrow> string \<Rightarrow> rcmd list" where
  "loop_push key h =
     [LPUSH key h, LTRIM key (max_history - 1), EXPIRE key session_hash_ttl]"

definition enforce_loop_detection ::
  "(nat \<Rightarrow> rcmd \<Rightarrow> 's \<Rightarrow> rval \<times> 's) \<Rightarrow> serde \<Rightarrow> (string \<Rightarrow> string) \<Rightarrow> call \<Rightarrow> call \<Rightarrow>
   string \<Rightarrow> json \<Rightarrow> 's \<Rightarrow> (gateway_error + unit) \<times> 's" where
  "enforce_loop_detection exec sd sha rd wr session body s =
     (let h = compute_body_hash sd sha body; key = hashes_key session;
          r = redis_call (snd rd) (exec (fst rd) (LRANGE key (loop_window - 1))) s
      in case fst r of
           Some (RArr hs) \<Rightarrow>
             if loop_window \<le> length hs \<and> list_all (\<lambda>x. x = h) hs
             then (Inl (LoopDetected
                ''Agent recursive loop detected. Session blocked to prevent runaway costs.''), snd r)
             else (Inr (), snd (redis_call (snd wr) (exec_all (exec (fst wr)) (loop_push key h)) (snd r)))
         | _ \<Rightarrow> (Inr (), snd r))"

section \<open>Agentic loop budget\<close>

definition budget_window_ms :: nat where "budget_window_ms = 300000"

definition loops_key :: "string \<Rightarrow> string" where
  "loops_key session = ''session:'' @ session @ '':agent_loops''"

text \<open>\<open>now\<close> is the gateway clock in milliseconds, \<open>uuid\<close> the fresh identifier.\<close>

definition loop_member :: "nat \<Rightarrow> string \<Rightarrow> string" where
  "loop_member now uuid = show_nat now @ '':'' @ uuid"

definition budget_cmds :: "string \<Rightarrow> nat \<Rightarrow> string \<Rightarrow> rcmd list" where
  "budget_cmds key now uuid =
     [ZREMRANGEBYSCORE key (now - budget_window_ms), ZADD key now (loop_member now uuid),
      ZCOUNT key, EXPIRE key 300]"

text \<open>
  The fallback counters live in an in-process cache from session to counter; \<open>get_with\<close>
  creates a zero counter where there is none, and the counter wraps like \<open>fetch_add\<close>.
\<close>

type_synonym counters = "string \<rightharpoonup> u64"

definition fallback_count :: "string \<Rightarrow> counters \<Rightarrow> u64 \<times> counters" where
  "fallback_count session m =
     (let c = (case m session of None \<Rightarrow> 0 | Some c \<Rightarrow> c) + 1 in (c, m(session \<mapsto> c)))"

definition budget_exceeded :: gateway_error where
  "budget_exceeded = AgentLoopBudgetExceeded ''Agent loop budget exceeded''"

text \<open>The clock reads \<open>None\<close> when the system time lies before the epoch.\<close>

definition enforce_agentic_loop_budget ::
  "(nat \<Rightarrow> rcmd \<Rightarrow> 's \<Rightarrow> rval \<times> 's) \<Rightarrow> call \<Rightarrow> nat option \<Rightarrow> string \<Rightarrow> string \<Rightarrow>
   's \<times> counters \<Rightarrow> (gateway_error + nat) \<times> ('s \<times> counters)" where
  "enforce_agentic_loop_budget exec c clock uuid session sm =
     (case clock of None \<Rightarrow> (Inl (AgentLoopBudgetExceeded ''System time drift''), sm)
      | Some now \<Rightarrow>
     let key = loops_key session;
          r = redis_call (snd c) (exec_all (exec (fst c)) (budget_cmds key now uuid)) (fst sm)
      in case fst r of
           Some [RInt _, RInt _, RInt n, RInt _] \<Rightarrow>
             (if n > 15 then Inl budget_exceeded else Inr (nat n), (snd r, snd sm))
         | _ \<Rightarrow>
             (let fc = fallback_count session (snd sm)
              in (if 5 < unat (fst fc) then Inl budget_exceeded else Inr (unat (fst fc)),
                  (snd r, snd fc))))"

section \<open>Burn rate\<close>

definition burn_key :: "string \<Rightarrow> nat \<Rightarrow> string" where
  "burn_key session now = ''session:'' @ session @ '':burn:'' @ show_nat (now div 60000)"

definition max_burn_rate :: "f64_ops \<Rightarrow> f64" where
  "max_burn_rate F = f_dec F 5 3"

definition enforce_burn_rate ::
  "f64_ops \<Rightarrow> (nat \<Rightarrow> rcmd \<Rightarrow> 's \<Rightarrow> rval \<times> 's) \<Rightarrow> call \<Rightarrow> nat \<Rightarrow> string \<Rightarrow> 's \<Rightarrow>
   (gateway_error + unit) \<times> 's" where
  "enforce_burn_rate F exec c now session s =
     (let r = redis_call (snd c) (exec (fst c) (GET (burn_key session now))) s;
          verdict = (\<lambda>x. if f_ge F x (max_burn_rate F)
            then Inl (BurnRateExceeded ''Session burn rate exceeded. Paused to prevent runaway costs.'')
            else Inr ())
      in (case fst r of
            Some (RBulk v) \<Rightarrow>
              (case f_text F v of
                 None \<Rightarrow> Inl (BurnRateExceeded
                   ''Burn rate limit enforcement failed due to corrupted tracking data'')
               | Some x \<Rightarrow> verdict x)
          | Some RNil \<Rightarrow> verdict (f_dec F 0 0)
          | _ \<Rightarrow> Inr (), snd r))"

definition spend_cost :: "f64_ops \<Rightarrow> u32 \<Rightarrow> f64" where
  "spend_cost F tokens = f_mul F (f_div F (f_of_u64 F (ucast tokens)) (f_dec F 1000 0)) (f_dec F 2 3)"

definition record_session_spend ::
  "f64_ops \<Rightarrow> (nat \<Rightarrow> rcmd \<Rightarrow> 's \<Rightarrow> rval \<times> 's) \<Rightarrow> call \<Rightarrow> nat \<Rightarrow> string \<Rightarrow> u32 \<Rightarrow> 's \<Rightarrow> 's" where
  "record_session_spend F exec c now session tokens s =
     (let cost = spend_cost F tokens; key = burn_key session now
      in if f_is_zero F cost then s
         else snd (redis_call (snd c)
                (exec_all (exec (fst c)) [INCRBYFLOAT key cost, EXPIRE key 120]) s))"

section \<open>Token bucket\<close>

definition token_bucket_capacity :: int where "token_bucket_capacity = 100000"
definition token_bucket_ttl :: nat where "token_bucket_ttl = 86400"

definition estimate_tokens :: "string \<Rightarrow> nat" where
  "estimate_tokens s = max (length s div 4) 1"

definition bucket_key :: "string \<Rightarrow> string" where
  "bucket_key tenant = ''tb:tokens:'' @ tenant"

text \<open>
  The Lua script, one atomic step of the server. Comparing a value that is no number
  raises a script error. \<open>DECRBY k n\<close> is \<open>INCRBY k (- n)\<close>.
\<close>

definition bucket_script ::
  "(rcmd \<Rightarrow> 's \<Rightarrow> rval \<times> 's) \<Rightarrow> string \<Rightarrow> int \<Rightarrow> 's \<Rightarrow> rval \<times> 's" where
  "bucket_script ex key n s =
     (let g = ex (GET key) s
      in case fst g of
           RBulk (Dec val) \<Rightarrow>
             if val < n then (RInt 0, snd g)
             else (RInt 1, snd (ex (INCRBY key (- n)) (snd g)))
         | RNil \<Rightarrow>
             (let s1 = snd (ex (SETEX key (Dec token_bucket_capacity) token_bucket_ttl) (snd g))
              in (RInt 1, snd (ex (INCRBY key (- n)) s1)))
         | _ \<Rightarrow> (RErr, snd g))"

definition enforce_token_bucket ::
  "(nat \<Rightarrow> rcmd \<Rightarrow> 's \<Rightarrow> rval \<times> 's) \<Rightarrow> call \<Rightarrow> string \<Rightarrow> string \<Rightarrow> 's \<Rightarrow>
   (gateway_error + unit) \<times> 's" where
  "enforce_token_bucket exec c tenant prompt s =
     (let r = redis_call (snd c)
                (bucket_script (exec (fst c)) (bucket_key tenant) (int (estimate_tokens prompt))) s
      in (if fst r = Some (RInt 0)
          then Inl (RateLimitExceeded ''Token limit exceeded for this billing cycle.'')
          else Inr (), snd r))"

definition sync_token_bucket ::
  "(nat \<Rightarrow> rcmd \<Rightarrow> 's \<Rightarrow> rval \<times> 's) \<Rightarrow> call \<Rightarrow> string \<Rightarrow> u32 \<Rightarrow> u32 \<Rightarrow> 's \<Rightarrow> 's" where
  "sync_token_bucket exec c tenant estimated actual s =
     (let delta = uint estimated - uint actual
      in if delta = 0 then s
         else snd (redis_call (snd c) (exec (fst c) (INCRBY (bucket_key tenant) delta)) s))"

section \<open>Rate limiting\<close>

definition extract_identifiers :: "headers \<Rightarrow> string \<Rightarrow> string \<times> string" where
  "extract_identifiers hs ip =
     ((case hdr_str hs ''x-tenant-id'' of None \<Rightarrow> ip | Some v \<Rightarrow> v),
      (case hdr_str hs ''x-user-id'' of None \<Rightarrow> ''anon_user'' | Some v \<Rightarrow> v))"

definition rate_key :: "string \<Rightarrow> string \<Rightarrow> string" where
  "rate_key tenant user = ''rl:'' @ tenant @ '':u:'' @ user"

definition rate_script :: "(rcmd \<Rightarrow> 's \<Rightarrow> rval \<times> 's) \<Rightarrow> string \<Rightarrow> nat \<Rightarrow> 's \<Rightarrow> rval \<times> 's" where
  "rate_script ex key window s =
     (let r = ex (INCRBY key 1) s
      in if fst r = RInt 1 then (RInt 1, snd (ex (EXPIRE key window) (snd r))) else r)"

record rate_decision =
  rd_current :: int
  rd_remaining :: int
  rd_ttl :: int
  rd_blocked :: bool

definition rate_check ::
  "(nat \<Rightarrow> rcmd \<Rightarrow> 's \<Rightarrow> rval \<times> 's) \<Rightarrow> u32 \<Rightarrow> u32 \<Rightarrow> call \<Rightarrow> call \<Rightarrow> string \<Rightarrow> 's \<Rightarrow>
   rate_decision \<times> 's" where
  "rate_check exec limit window c1 c2 key s =
     (let r = redis_call (snd c1) (rate_script (exec (fst c1)) key (unat window)) s;
          current = (case fst r of Some (RInt i) \<Rightarrow> i | _ \<Rightarrow> 0);
          q = (if current = 1 then (Some (RInt (uint window)), snd r)
               else redis_call (snd c2) (exec (fst c2) (TTL key)) (snd r));
          ttl = (case fst q of Some (RInt i) \<Rightarrow> i | _ \<Rightarrow> uint window)
      in (\<lparr>rd_current = current, rd_remaining = max 0 (uint limit - current), rd_ttl = ttl,
           rd_blocked = (uint limit < current)\<rparr>, snd q))"

definition rate_headers :: "u32 \<Rightarrow> int \<Rightarrow> int \<Rightarrow> headers \<Rightarrow> headers" where
  "rate_headers limit remaining ttl hs =
     hdr_insert ''x-ratelimit-reset'' (show_int ttl)
       (hdr_insert ''x-ratelimit-remaining'' (show_int remaining)
         (hdr_insert ''x-ratelimit-limit'' (show_int (uint limit)) hs))"

definition rate_limited_response :: "u32 \<Rightarrow> u32 \<Rightarrow> int \<Rightarrow> response" where
  "rate_limited_response limit window ttl =
     (let res = json_response 429 (jobject [(''error'', jobject
        [(''code'', jnat 429),
         (''message'', JStr (''Rate limit exceeded. Maximum '' @ show_int (uint limit) @
            '' requests per '' @ show_int (uint window) @ '' seconds.''))])])
      in res\<lparr>rheaders := rate_headers limit 0 ttl (rheaders res)\<rparr>)"

text \<open>The middleware around the rest of the stack, \<open>next\<close>.\<close>

definition rate_limit_middleware ::
  "(nat \<Rightarrow> rcmd \<Rightarrow> 's \<Rightarrow> rval \<times> 's) \<Rightarrow> u32 \<Rightarrow> u32 \<Rightarrow> call \<Rightarrow> call \<Rightarrow> string \<Rightarrow>
   (headers \<Rightarrow> 's \<Rightarrow> response \<times> 's) \<Rightarrow> headers \<Rightarrow> 's \<Rightarrow> response \<times> 's" where
  "rate_limit_middleware exec limit window c1 c2 ip next hs s =
     (let ids = extract_identifiers hs ip;
          d = rate_check exec limit window c1 c2 (rate_key (fst ids) (snd ids)) s
      in if rd_blocked (fst d)
         then (rate_limited_response limit window (rd_ttl (fst d)), snd d)
         else (let r = next hs (snd d)
               in ((fst r)\<lparr>rheaders := rate_headers limit (rd_remaining (fst d)) (rd_ttl (fst d))
                     (rheaders (fst r))\<rparr>, snd r)))"

end
