(* ===== verification/Guards_Laws.thy ===== *)
theory Guards_Laws
  imports Guards
begin

text \<open>
  What the admission guards guarantee against any server with the documented behaviour
  (\<open>redis_server\<close>): per-call functional descriptions, and the properties of whole runs
  of requests that follow from them.
\<close>

section \<open>Runs of requests\<close>

text \<open>A run threads the server state through the guard; the verdicts are collected.\<close>

fun loop_run ::
  "(nat \<Rightarrow> rcmd \<Rightarrow> 's \<Rightarrow> rval \<times> 's) \<Rightarrow> serde \<Rightarrow> (string \<Rightarrow> string) \<Rightarrow> string \<Rightarrow>
   (nat \<times> json) list \<Rightarrow> 's \<Rightarrow> (gateway_error + unit) list \<times> 's" where
  "loop_run exec sd sha session [] s = ([], s)"
| "loop_run exec sd sha session ((t, body) # rs) s =
     (let r = enforce_loop_detection exec sd sha (t, Delivered) (t, Delivered) session body s;
          q = loop_run exec sd sha session rs (snd r)
      in (fst r # fst q, snd q))"

text \<open>The hashes of the bodies a run admits, oldest first.\<close>

definition admitted_hashes ::
  "serde \<Rightarrow> (string \<Rightarrow> string) \<Rightarrow> (nat \<times> json) list \<Rightarrow> (gateway_error + unit) list \<Rightarrow> string list" where
  "admitted_hashes sd sha rs vs =
     map (\<lambda>p. compute_body_hash sd sha (snd (fst p))) (filter (\<lambda>p. snd p = Inr ()) (zip rs vs))"

definition no_four_equal :: "'a list \<Rightarrow> bool" where
  "no_four_equal xs \<longleftrightarrow>
     (\<forall>i. i + 3 < length xs \<longrightarrow> \<not> (xs ! i = xs ! (i + 1) \<and> xs ! i = xs ! (i + 2) \<and> xs ! i = xs ! (i + 3)))"

text \<open>The same over a list with the newest element first, by recursion.\<close>

fun quiet :: "'a list \<Rightarrow> bool" where
  "quiet [] = True"
| "quiet (x # xs) = (\<not> (3 \<le> length xs \<and> list_all (\<lambda>y. y = x) (take 3 xs)) \<and> quiet xs)"

lemma take3: "3 \<le> length xs \<Longrightarrow> take 3 xs = [xs ! 0, xs ! 1, xs ! 2]"
  by (cases xs; cases "tl xs"; cases "tl (tl xs)") (auto simp: eval_nat_numeral)

lemma quiet_no_four: "quiet xs \<Longrightarrow> no_four_equal (rev xs)"
proof (induction xs)
  case Nil
  show ?case by (simp add: no_four_equal_def)
next
  case (Cons x xs)
  have IH: "no_four_equal (rev xs)" using Cons by simp
  show ?case
    unfolding no_four_equal_def
  proof (intro allI impI)
    fix i assume i: "i + 3 < length (rev (x # xs))"
    show "\<not> (rev (x # xs) ! i = rev (x # xs) ! (i + 1) \<and> rev (x # xs) ! i = rev (x # xs) ! (i + 2)
        \<and> rev (x # xs) ! i = rev (x # xs) ! (i + 3))"
    proof (cases "i + 3 < length xs")
      case True
      then show ?thesis using IH by (auto simp: no_four_equal_def nth_append)
    next
      case False
      then have len: "length xs = i + 3" using i by simp
      have "\<not> list_all (\<lambda>y. y = x) (take 3 xs)" using Cons.prems len by simp
      then have "\<not> (xs ! 0 = x \<and> xs ! 1 = x \<and> xs ! 2 = x)" using take3 [of xs] len by auto
      moreover have "rev xs ! (i + 2) = xs ! 0" "rev xs ! (i + 1) = xs ! 1" "rev xs ! i = xs ! 2"
        using len by (simp_all add: rev_nth numeral_eq_Suc)
      ultimately show ?thesis using len by (auto simp: nth_append)
    qed
  qed
qed

section \<open>Loop detection\<close>

context redis_server
begin

lemma at_deadline [simp]: "at_time t (Some (d, Some (t + 1000 * n))) = (if n = 0 then None else Some (d, Some (t + 1000 * n)))"
  by (simp add: at_time_def)

lemma exec_simps:
  "view (snd (exec t c s)) t (cmd_key c) = at_time t (cmd_effect F t c (view s t (cmd_key c)))"
  by (rule exec_key)

lemma push_effect:
  assumes "list_at (view s t key) = Some hs"
  shows "view (snd (exec_all (exec t) (loop_push key h) s)) t key =
     Some (DList (take 5 (h # hs)), Some (t + 3600000))"
proof -
  let ?s1 = "snd (exec t (LPUSH key h) s)"
  let ?s2 = "snd (exec t (LTRIM key 4) ?s1)"
  have 1: "view ?s1 t key = Some (DList (h # hs), ttl_of (view s t key))"
    using exec_key [of t "LPUSH key h" s] assms live [of t s key]
    by (auto simp: at_time_def ttl_of_def split: option.splits prod.splits)
  have 2: "view ?s2 t key = Some (DList (take 5 (h # hs)), ttl_of (view s t key))"
    using exec_key [of t "LTRIM key 4" ?s1] 1 live [of t ?s1 key]
    by (auto simp: at_time_def ttl_of_def list_at_def list_entry_def eval_nat_numeral
        split: option.splits prod.splits if_splits)
  show ?thesis
    using exec_key [of t "EXPIRE key 3600" ?s2] 2
    by (simp add: loop_push_def max_history_def session_hash_ttl_def Let_def at_time_def)
qed

definition repeats :: "string \<Rightarrow> string list \<Rightarrow> bool" where
  "repeats h hs \<longleftrightarrow> 3 \<le> length hs \<and> list_all (\<lambda>x. x = h) (take 3 hs)"

lemma loop_step:
  fixes sd :: serde and sha :: "string \<Rightarrow> string" and body :: json
  assumes "list_at (view s t (hashes_key session)) = Some hs"
  defines "h \<equiv> compute_body_hash sd sha body"
  defines "r \<equiv> enforce_loop_detection exec sd sha (t, Delivered) (t, Delivered) session body s"
  shows "fst r = Inr () \<longleftrightarrow> \<not> repeats h hs"
    and "view (snd r) t (hashes_key session) =
      (if repeats h hs then view s t (hashes_key session)
       else Some (DList (take 5 (h # hs)), Some (t + 3600000)))"
proof -
  let ?k = "hashes_key session"
  let ?q = "exec t (LRANGE ?k 2) s"
  have q: "fst ?q = RArr (take 3 hs)"
    using assms(1) exec_reply [of t "LRANGE ?k 2" s] by (simp add: eval_nat_numeral)
  have v: "view (snd ?q) t ?k = view s t ?k"
    using exec_key [of t "LRANGE ?k 2" s] live by simp
  have len: "loop_window \<le> length (take 3 hs) \<longleftrightarrow> 3 \<le> length hs"
    by (simp add: loop_window_def)
  show "fst r = Inr () \<longleftrightarrow> \<not> repeats h hs"
    unfolding r_def enforce_loop_detection_def Let_def h_def repeats_def
    using q len by (simp add: loop_window_def)
  show "view (snd r) t ?k =
      (if repeats h hs then view s t ?k
       else Some (DList (take 5 (h # hs)), Some (t + 3600000)))"
    unfolding r_def enforce_loop_detection_def Let_def h_def repeats_def
    using q len v push_effect [of "snd ?q" t ?k hs "compute_body_hash sd sha body"] assms(1)
    by (auto simp: loop_window_def)
qed

text \<open>The stored history is the newest five admitted hashes while the key lives.\<close>

definition loop_inv :: "nat \<Rightarrow> nat \<Rightarrow> string \<Rightarrow> string list \<Rightarrow> 's \<Rightarrow> bool" where
  "loop_inv t0 t key hs s \<longleftrightarrow>
     list_at (view s t key) = Some (take 5 hs) \<and>
     (view s t key = None \<or> (\<exists>d dl. view s t key = Some (d, Some dl) \<and> t0 + 3600000 \<le> dl))"

lemma loop_inv_later:
  assumes "loop_inv t0 t key hs s" "t \<le> t'" "t' < t0 + 3600000"
  shows "loop_inv t0 t' key hs s"
proof (cases "view s t key")
  case None
  then show ?thesis using assms(1) gone_stays_gone [OF None assms(2)] by (simp add: loop_inv_def)
next
  case (Some e)
  with assms obtain d dl where e: "view s t key = Some (d, Some dl)" "t0 + 3600000 \<le> dl"
    by (auto simp: loop_inv_def)
  then have "view s t' key = Some (d, Some dl)"
    using assms(3) by (simp add: time_passes [OF assms(2)] at_time_def)
  moreover have "list_at (Some (d, Some dl)) = Some (take 5 hs)"
    using assms(1) e(1) by (simp add: loop_inv_def)
  ultimately show ?thesis using e(2) by (simp add: loop_inv_def)
qed

lemma repeats_take5: "repeats h (take 5 hs) = repeats h hs"
  by (simp add: repeats_def min_def)

lemma loop_run_quiet:
  assumes "loop_inv t0 t (hashes_key session) hs s" "quiet hs"
    and "sorted (t # map fst rs)" "t0 \<le> t" "\<forall>r \<in> set rs. fst r < t0 + 3600000"
  shows "quiet (rev (admitted_hashes sd sha rs (fst (loop_run exec sd sha session rs s))) @ hs)"
  using assms
proof (induction rs arbitrary: t hs s)
  case Nil
  then show ?case by (simp add: admitted_hashes_def)
next
  case (Cons r rs)
  obtain u body where r: "r = (u, body)" by (cases r)
  let ?h = "compute_body_hash sd sha body"
  let ?r = "enforce_loop_detection exec sd sha (u, Delivered) (u, Delivered) session body s"
  have I: "loop_inv t0 u (hashes_key session) hs s"
  proof (rule loop_inv_later [OF Cons.prems(1)])
    show "t \<le> u" using Cons.prems(3) by (simp add: r)
    show "u < t0 + 3600000" using Cons.prems(5) by (simp add: r)
  qed
  then have la: "list_at (view s u (hashes_key session)) = Some (take 5 hs)"
    by (simp add: loop_inv_def)
  note st = loop_step [OF la, of sd sha body]
  have sorted: "sorted (u # map fst rs)" and u: "t0 \<le> u"
    using Cons.prems(3,4) by (simp_all add: r)
  have later: "\<forall>r \<in> set rs. fst r < t0 + 3600000" using Cons.prems(5) by simp
  show ?case
  proof (cases "repeats ?h hs")
    case True
    then have "loop_inv t0 u (hashes_key session) hs (snd ?r)"
      using st I by (simp add: loop_inv_def repeats_take5)
    from Cons.IH [OF this Cons.prems(2) sorted u later]
    have "quiet (rev (admitted_hashes sd sha rs (fst (loop_run exec sd sha session rs (snd ?r)))) @ hs)" .
    with True st(1) show ?thesis
      by (simp add: r admitted_hashes_def Let_def repeats_take5)
  next
    case False
    then have v: "view (snd ?r) u (hashes_key session) =
        Some (DList (take 5 (?h # take 5 hs)), Some (u + 3600000))"
      using st by (simp add: repeats_take5)
    have "take 5 (?h # take 5 hs) = take 5 (?h # hs)" by (simp add: eval_nat_numeral)
    with v have I': "loop_inv t0 u (hashes_key session) (?h # hs) (snd ?r)"
      using u by (simp add: loop_inv_def list_at_def)
    have q: "quiet (?h # hs)" using False Cons.prems(2) by (simp add: repeats_def)
    from Cons.IH [OF I' q sorted u later]
    have "quiet (rev (admitted_hashes sd sha rs (fst (loop_run exec sd sha session rs (snd ?r)))) @ ?h # hs)" .
    with False st(1) show ?thesis
      by (simp add: r admitted_hashes_def Let_def repeats_take5)
  qed
qed

end

end
