(* ===== verification/Guards_Budget.thy ===== *)
theory Guards_Budget
  imports Guards_Laws
begin

text \<open>
  Laws of the counting guards: the sliding-window loop budget and its in-process
  fallback, the tenant token bucket with its reconciliation, and the fixed-window rate
  limiter, each over whole runs of requests.
\<close>

section \<open>Loop budget\<close>

text \<open>One event is the clock (server and gateway in step) and the fresh identifier.\<close>

fun budget_run ::
  "(nat \<Rightarrow> rcmd \<Rightarrow> 's \<Rightarrow> rval \<times> 's) \<Rightarrow> string \<Rightarrow> (nat \<times> string) list \<Rightarrow> 's \<times> counters \<Rightarrow>
   (gateway_error + nat) list" where
  "budget_run exec session [] sm = []"
| "budget_run exec session ((t, u) # es) sm =
     (let r = enforce_agentic_loop_budget exec (t, Delivered) (Some t) u session sm
      in fst r # budget_run exec session es (snd r))"

text \<open>How many events up to and including the last fall in the window ending at it.\<close>

definition in_window :: "nat \<Rightarrow> (nat \<times> string) list \<Rightarrow> nat" where
  "in_window t es = length (filter (\<lambda>e. t - budget_window_ms < fst e) es)"

definition budget_verdict :: "nat \<Rightarrow> gateway_error + nat" where
  "budget_verdict n = (if 15 < n then Inl budget_exceeded else Inr n)"

fun budget_spec :: "(nat \<times> string) list \<Rightarrow> (nat \<times> string) list \<Rightarrow> (gateway_error + nat) list" where
  "budget_spec seen [] = []"
| "budget_spec seen (e # es) =
     budget_verdict (Suc (in_window (fst e) seen)) # budget_spec (e # seen) es"

definition members :: "(nat \<times> string) list \<Rightarrow> (string \<times> nat) list" where
  "members es = map (\<lambda>e. (loop_member (fst e) (snd e), fst e)) es"

definition window_set :: "nat \<Rightarrow> (nat \<times> string) list \<Rightarrow> (string \<times> nat) list" where
  "window_set t es = filter (\<lambda>m. t - budget_window_ms < snd m) (members es)"

lemma length_window_set: "length (window_set t es) = in_window t es"
  by (simp add: window_set_def members_def in_window_def filter_map comp_def)

lemma window_set_later: "t \<le> t' \<Longrightarrow> filter (\<lambda>m. t' - budget_window_ms < snd m) (window_set t es) = window_set t' es"
  by (auto simp: window_set_def intro!: filter_cong)

lemma window_set_expired: "\<forall>e \<in> set es. fst e \<le> t \<Longrightarrow> t + budget_window_ms \<le> t' \<Longrightarrow> window_set t' es = []"
  by (auto simp: window_set_def members_def filter_empty_conv)

context redis_server
begin

lemma budget_cmds_result:
  assumes "zset_at (view s t key) = Some Z" "m = loop_member t u" "m \<notin> fst ` set Z"
  defines "Z' \<equiv> (m, t) # filter (\<lambda>x. t - budget_window_ms < snd x) Z"
  defines "q \<equiv> exec_all (exec t) (budget_cmds key t u) s"
  shows "fst q = [RInt (int (length (filter (\<lambda>x. snd x \<le> t - budget_window_ms) Z))), RInt 1,
      RInt (int (length Z')), RInt 1]"
    and "view (snd q) t key = Some (DZset Z', Some (t + 300000))"
proof -
  let ?w = "t - budget_window_ms"
  let ?Y = "filter (\<lambda>x. ?w < snd x) Z"
  let ?c1 = "ZREMRANGEBYSCORE key ?w" and ?c2 = "ZADD key t m" and ?c3 = "ZCOUNT key"
  let ?s1 = "snd (exec t ?c1 s)"
  let ?s2 = "snd (exec t ?c2 ?s1)"
  let ?s3 = "snd (exec t ?c3 ?s2)"
  have a: "at_time t (view s t key) = view s t key" by (rule live)
  have z1: "zset_at (view ?s1 t key) = Some ?Y"
    using exec_key [of t ?c1 s] assms(1) a
    by (auto simp: zset_at_def zset_entry_def at_time_def ttl_of_def
        split: option.splits prod.splits rdata.splits if_splits)
  have fr: "filter (\<lambda>x. fst x \<noteq> m) ?Y = ?Y"
    using assms(3) by (intro filter_True) (metis filter_is_subset image_eqI subset_iff)
  have z2: "\<exists>dl. view ?s2 t key = Some (DZset Z', dl)"
    using exec_key [of t ?c2 ?s1] z1 live [of t ?s1 key] fr
    by (auto simp: Z'_def zset_at_def at_time_def ttl_of_def split: option.splits prod.splits rdata.splits)
  then obtain dl where z2: "view ?s2 t key = Some (DZset Z', dl)" ..
  have z3: "view ?s3 t key = Some (DZset Z', dl)"
    using exec_key [of t ?c3 ?s2] z2 live [of t ?s2 key] by simp
  have r1: "fst (exec t ?c1 s) = RInt (int (length (filter (\<lambda>x. snd x \<le> ?w) Z)))"
    using assms(1) by (simp add: exec_reply)
  have "m \<notin> fst ` set ?Y" using assms(3) by auto
  then have r2: "fst (exec t ?c2 ?s1) = RInt 1" using z1 by (simp add: exec_reply)
  have r3: "fst (exec t ?c3 ?s2) = RInt (int (length Z'))"
    using z2 by (simp add: exec_reply zset_at_def)
  have r4: "fst (exec t (EXPIRE key 300) ?s3) = RInt 1"
    using z3 by (simp add: exec_reply)
  show "fst q = [RInt (int (length (filter (\<lambda>x. snd x \<le> ?w) Z))), RInt 1,
      RInt (int (length Z')), RInt 1]"
    using r1 r2 r3 r4 assms(2) by (simp add: q_def budget_cmds_def Let_def)
  show "view (snd q) t key = Some (DZset Z', Some (t + 300000))"
    using exec_key [of t "EXPIRE key 300" ?s3] z3 assms(2)
    by (simp add: q_def budget_cmds_def Let_def at_time_def)
qed

definition budget_inv :: "nat \<Rightarrow> string \<Rightarrow> (nat \<times> string) list \<Rightarrow> 's \<Rightarrow> bool" where
  "budget_inv t key seen s \<longleftrightarrow>
     (case seen of [] \<Rightarrow> view s t key = None
      | e # _ \<Rightarrow> fst e \<le> t \<and> view s (fst e) key =
          Some (DZset (window_set (fst e) seen), Some (fst e + 300000)))"

lemma budget_inv_zset:
  assumes "budget_inv t key seen s" "t \<le> t'" "\<forall>e \<in> set seen. fst e \<le> fst (hd seen)"
  shows "\<exists>Z. zset_at (view s t' key) = Some Z \<and>
    filter (\<lambda>m. t' - budget_window_ms < snd m) Z = window_set t' seen \<and> set Z \<subseteq> set (members seen)"
proof (cases seen)
  case Nil
  then have "view s t' key = None"
    using assms gone_stays_gone [of s t key t'] by (simp add: budget_inv_def)
  with Nil show ?thesis by (simp add: zset_at_def window_set_def members_def)
next
  case (Cons e es)
  let ?v = "Some (DZset (window_set (fst e) seen), Some (fst e + 300000))"
  have e: "fst e \<le> t'" and v0: "view s (fst e) key = ?v"
    using assms Cons by (auto simp: budget_inv_def)
  have v: "view s t' key = at_time t' ?v"
    using time_passes [OF e, of s key] v0 by simp
  show ?thesis
  proof (cases "t' < fst e + 300000")
    case True
    with v have "view s t' key = ?v" by (simp add: at_time_def)
    then show ?thesis
      using window_set_later [OF e, of seen] by (auto simp: zset_at_def window_set_def)
  next
    case False
    then have "window_set t' seen = []"
      using assms(3) Cons by (intro window_set_expired [of _ "fst e"]) (auto simp: budget_window_ms_def)
    with False v show ?thesis by (simp add: zset_at_def at_time_def)
  qed
qed

lemma budget_run_spec:
  assumes "budget_inv t (loops_key session) seen s" "sorted (t # map fst es)"
    and "\<forall>e \<in> set seen. fst e \<le> fst (hd seen)"
    and "distinct (map fst (members (es @ seen)))" and "0 < t"
  shows "budget_run exec session es (s, m) = budget_spec seen es"
  using assms
proof (induction es arbitrary: t seen s)
  case Nil
  then show ?case by simp
next
  case (Cons e es)
  obtain u i where e: "e = (u, i)" by (cases e)
  let ?k = "loops_key session"
  have u: "t \<le> u" using Cons.prems by (simp add: e)
  from budget_inv_zset [OF Cons.prems(1) u Cons.prems(3)] obtain Z where
    Z: "zset_at (view s u ?k) = Some Z"
      "filter (\<lambda>m. u - budget_window_ms < snd m) Z = window_set u seen" "set Z \<subseteq> set (members seen)"
    by blast
  have "loop_member u i \<notin> fst ` set Z"
    using Z(3) Cons.prems(4) by (auto simp: e members_def image_iff)
  note res = budget_cmds_result [OF Z(1) refl this, unfolded Z(2)]
  let ?q = "exec_all (exec u) (budget_cmds ?k u i) s"
  let ?r = "enforce_agentic_loop_budget exec (u, Delivered) (Some u) i session (s, m)"
  have r: "fst ?r = budget_verdict (Suc (in_window u seen))" "snd ?r = (snd ?q, m)"
    unfolding enforce_agentic_loop_budget_def Let_def
    using res by (simp_all add: budget_verdict_def length_window_set nat_add_distrib)
  have pos: "0 < u" using u Cons.prems(5) by simp
  then have ws: "(loop_member u i, u) # window_set u seen = window_set u (e # seen)"
    by (simp add: e window_set_def members_def budget_window_ms_def)
  have le: "\<forall>e' \<in> set seen. fst e' \<le> u"
  proof
    fix e' assume "e' \<in> set seen"
    then have "fst e' \<le> fst (hd seen)" "fst (hd seen) \<le> t"
      using Cons.prems(1,3) by (auto simp: budget_inv_def split: list.splits)
    with u show "fst e' \<le> u" by simp
  qed
  have I: "budget_inv u ?k (e # seen) (snd ?q)"
    using res(2) ws by (simp add: budget_inv_def e)
  from Cons.IH [OF I] have "budget_run exec session es (snd ?q, m) = budget_spec (e # seen) es"
    using Cons.prems(2,4) le pos by (auto simp: e members_def)
  with r show ?case by (simp add: e Let_def)
qed

text \<open>The window bound: an admitted call sees at most fifteen calls in its window.\<close>

end

lemma budget_spec_nth:
  "i < length es \<Longrightarrow> budget_spec seen es ! i =
     budget_verdict (Suc (in_window (fst (es ! i)) (rev (take i es) @ seen)))"
proof (induction es arbitrary: seen i)
  case Nil
  then show ?case by simp
next
  case (Cons e es)
  then show ?case by (cases i) simp_all
qed

lemma length_budget_spec [simp]: "length (budget_spec seen es) = length es"
  by (induction seen es rule: budget_spec.induct) simp_all

lemma in_window_rev: "in_window t (rev es) = in_window t es"
  by (simp add: in_window_def rev_filter [symmetric])

section \<open>In-process fallback\<close>

text \<open>When Redis does not answer, the verdict depends on the session's counter alone.\<close>

lemma budget_fallback:
  assumes "f \<noteq> Delivered"
  shows "enforce_agentic_loop_budget exec (t, f) (Some now) u session (s, m) =
    (let c = fst (fallback_count session m)
     in (if 5 < unat c then Inl budget_exceeded else Inr (unat c),
         (snd (redis_call f (exec_all (exec t) (budget_cmds (loops_key session) now u)) s),
          m(session \<mapsto> c))))"
  using assms
  by (cases f) (simp_all add: enforce_agentic_loop_budget_def fallback_count_def Let_def)

section \<open>Token bucket\<close>

context redis_server
begin

lemma bucket_script_live:
  assumes "view s t key = Some (DStr (Dec v), dl)" "i64_range (v - n)"
  shows "fst (bucket_script (exec t) key n s) = (if v < n then RInt 0 else RInt 1)"
    and "view (snd (bucket_script (exec t) key n s)) t key =
      Some (DStr (Dec (if v < n then v else v - n)), dl)"
proof -
  let ?g = "exec t (GET key) s"
  have g: "fst ?g = RBulk (Dec v)" "view (snd ?g) t key = Some (DStr (Dec v), dl)"
    using assms(1) exec_key [of t "GET key" s] live [of t s key]
    by (simp_all add: exec_reply str_at_def)
  have d: "view (snd (exec t (INCRBY key (- n)) (snd ?g))) t key = Some (DStr (Dec (v - n)), dl)"
    using exec_key [of t "INCRBY key (- n)" "snd ?g"] g(2) assms(2) live [of t "snd ?g" key]
    by (auto simp: int_at_def ttl_of_def at_time_def split: option.splits)
  show "fst (bucket_script (exec t) key n s) = (if v < n then RInt 0 else RInt 1)"
    using g by (simp add: bucket_script_def Let_def)
  show "view (snd (bucket_script (exec t) key n s)) t key =
      Some (DStr (Dec (if v < n then v else v - n)), dl)"
    using g d by (simp add: bucket_script_def Let_def)
qed

lemma bucket_script_fresh:
  assumes "view s t key = None" "i64_range (token_bucket_capacity - n)"
  shows "fst (bucket_script (exec t) key n s) = RInt 1"
    and "view (snd (bucket_script (exec t) key n s)) t key =
      Some (DStr (Dec (token_bucket_capacity - n)), Some (t + 86400000))"
proof -
  let ?g = "exec t (GET key) s"
  let ?c = "SETEX key (Dec token_bucket_capacity) token_bucket_ttl"
  let ?s1 = "snd (exec t ?c (snd ?g))"
  have g: "fst ?g = RNil" using assms(1) by (simp add: exec_reply str_at_def)
  have s1: "view ?s1 t key = Some (DStr (Dec token_bucket_capacity), Some (t + 86400000))"
    using exec_key [of t ?c "snd ?g"] by (simp add: token_bucket_ttl_def at_time_def)
  have "view (snd (exec t (INCRBY key (- n)) ?s1)) t key =
      Some (DStr (Dec (token_bucket_capacity - n)), Some (t + 86400000))"
    using exec_key [of t "INCRBY key (- n)" ?s1] s1 assms(2)
    by (simp add: int_at_def ttl_of_def at_time_def)
  with g show "view (snd (bucket_script (exec t) key n s)) t key =
      Some (DStr (Dec (token_bucket_capacity - n)), Some (t + 86400000))"
    by (simp add: bucket_script_def Let_def)
  show "fst (bucket_script (exec t) key n s) = RInt 1"
    using g by (simp add: bucket_script_def Let_def)
qed

lemma sync_missing:
  assumes "view s t (bucket_key tenant) = None" "estimated \<noteq> actual"
  shows "view (sync_token_bucket exec (t, Delivered) tenant estimated actual s) t (bucket_key tenant) =
    Some (DStr (Dec (uint estimated - uint actual)), None)"
proof -
  let ?d = "uint estimated - uint actual"
  have "?d \<noteq> 0" using assms(2) by (simp add: word_uint_eq_iff)
  moreover have "i64_range ?d"
  proof -
    have "uint x < 4294967296" for x :: u32
      using uint_bounded [of x] by simp
    from this [of estimated] this [of actual]
    have "uint estimated - uint actual < 4294967296" "- 4294967296 < uint estimated - uint actual"
      using uint_nonnegative [of estimated] uint_nonnegative [of actual] by linarith+
    then show ?thesis by (simp add: i64_range_def)
  qed
  ultimately show ?thesis
    using exec_key [of t "INCRBY (bucket_key tenant) ?d" s] assms(1)
    by (simp add: sync_token_bucket_def Let_def int_at_def ttl_of_def at_time_def)
qed

lemma no_deadline_persists:
  "view s t k = Some (d, None) \<Longrightarrow> t \<le> t' \<Longrightarrow> view s t' k = Some (d, None)"
  by (simp add: time_passes [of t t'] at_time_def)

end

text \<open>Admission decisions of a run of prompts against one tenant's bucket.\<close>

fun bucket_run ::
  "(nat \<Rightarrow> rcmd \<Rightarrow> 's \<Rightarrow> rval \<times> 's) \<Rightarrow> string \<Rightarrow> (nat \<times> string) list \<Rightarrow> 's \<Rightarrow> bool list \<times> 's" where
  "bucket_run exec tenant [] s = ([], s)"
| "bucket_run exec tenant ((t, prompt) # rs) s =
     (let r = enforce_token_bucket exec (t, Delivered) tenant prompt s;
          q = bucket_run exec tenant rs (snd r)
      in ((fst r = Inr ()) # fst q, snd q))"

definition admitted_tokens :: "(nat \<times> string) list \<Rightarrow> bool list \<Rightarrow> int" where
  "admitted_tokens rs bs =
     sum_list (map (\<lambda>p. int (estimate_tokens (snd (fst p)))) (filter snd (zip rs bs)))"

lemma admitted_tokens_Cons [simp]:
  "admitted_tokens (r # rs) (b # bs) =
     (if b then int (estimate_tokens (snd r)) else 0) + admitted_tokens rs bs"
  by (simp add: admitted_tokens_def)

context redis_server
begin

definition bucket_holds :: "nat \<Rightarrow> nat option \<Rightarrow> string \<Rightarrow> int \<Rightarrow> 's \<Rightarrow> bool" where
  "bucket_holds t dl tenant v s \<longleftrightarrow> view s t (bucket_key tenant) = Some (DStr (Dec v), dl)"

lemma enforce_bucket_step:
  assumes "bucket_holds t dl tenant v s" "0 \<le> v" "v < 2 ^ 62"
    and "int (estimate_tokens prompt) < 2 ^ 62"
  defines "r \<equiv> enforce_token_bucket exec (t, Delivered) tenant prompt s"
  shows "fst r = Inr () \<longleftrightarrow> int (estimate_tokens prompt) \<le> v"
    and "bucket_holds t dl tenant
      (if int (estimate_tokens prompt) \<le> v then v - int (estimate_tokens prompt) else v) (snd r)"
proof -
  let ?n = "int (estimate_tokens prompt)"
  have "i64_range (v - ?n)" using assms(2,3,4) by (simp add: i64_range_def)
  note st = bucket_script_live [OF assms(1) [unfolded bucket_holds_def] this]
  show "fst r = Inr () \<longleftrightarrow> ?n \<le> v"
    using st(1) by (simp add: r_def enforce_token_bucket_def Let_def)
  show "bucket_holds t dl tenant (if ?n \<le> v then v - ?n else v) (snd r)"
    using st(2) by (simp add: r_def enforce_token_bucket_def Let_def bucket_holds_def not_less)
qed

lemma bucket_holds_later:
  "bucket_holds t dl tenant v s \<Longrightarrow> t \<le> t' \<Longrightarrow> (\<forall>d. dl = Some d \<longrightarrow> t' < d) \<Longrightarrow>
   bucket_holds t' dl tenant v s"
  by (auto simp: bucket_holds_def time_passes [of t t'] at_time_def split: option.splits)

lemma bucket_run_account:
  assumes "bucket_holds t dl tenant v s" "0 \<le> v" "v < 2 ^ 62"
    and "sorted (t # map fst rs)" "\<forall>r \<in> set rs. int (estimate_tokens (snd r)) < 2 ^ 62"
    and "\<forall>r \<in> set rs. \<forall>d. dl = Some d \<longrightarrow> fst r < d"
  shows "\<exists>w t'. bucket_holds t' dl tenant w (snd (bucket_run exec tenant rs s)) \<and> 0 \<le> w \<and>
    w + admitted_tokens rs (fst (bucket_run exec tenant rs s)) = v"
  using assms
proof (induction rs arbitrary: t v s)
  case Nil
  then show ?case by (auto simp: admitted_tokens_def)
next
  case (Cons r rs)
  obtain u prompt where r: "r = (u, prompt)" by (cases r)
  let ?n = "int (estimate_tokens prompt)"
  let ?e = "enforce_token_bucket exec (u, Delivered) tenant prompt s"
  let ?v = "if ?n \<le> v then v - ?n else v"
  have "bucket_holds u dl tenant v s"
  proof (rule bucket_holds_later [OF Cons.prems(1)])
    show "t \<le> u" using Cons.prems(4) by (simp add: r)
    show "\<forall>d. dl = Some d \<longrightarrow> u < d" using Cons.prems(6) by (simp add: r)
  qed
  moreover have "?n < 2 ^ 62" using Cons.prems(5) by (simp add: r)
  ultimately have st: "fst ?e = Inr () \<longleftrightarrow> ?n \<le> v" "bucket_holds u dl tenant ?v (snd ?e)"
    using enforce_bucket_step [of u dl tenant v s prompt] Cons.prems(2,3) by simp_all
  have "0 \<le> ?v" "?v < 2 ^ 62" using Cons.prems(2,3) by auto
  moreover have "sorted (u # map fst rs)" using Cons.prems(4) by (simp add: r)
  ultimately obtain w t' where "bucket_holds t' dl tenant w (snd (bucket_run exec tenant rs (snd ?e)))"
    "0 \<le> w" "w + admitted_tokens rs (fst (bucket_run exec tenant rs (snd ?e))) = ?v"
    using Cons.IH [OF st(2)] Cons.prems(5,6) by auto
  with st(1) show ?case
    by (intro exI [of _ w] exI [of _ t']) (auto simp: r Let_def)
qed

end

section \<open>Fixed-window rate limiting\<close>

text \<open>The admissions of requests under one key, at the given times.\<close>

fun rate_run ::
  "(nat \<Rightarrow> rcmd \<Rightarrow> 's \<Rightarrow> rval \<times> 's) \<Rightarrow> u32 \<Rightarrow> u32 \<Rightarrow> string \<Rightarrow> nat list \<Rightarrow> 's \<Rightarrow> bool list" where
  "rate_run exec limit window key [] s = []"
| "rate_run exec limit window key (t # ts) s =
     (let r = rate_check exec limit window (t, Delivered) (t, Delivered) key s
      in (\<not> rd_blocked (fst r)) # rate_run exec limit window key ts (snd r))"

text \<open>The admissions of requests from one address with the given header maps.\<close>

fun rate_run_headers ::
  "(nat \<Rightarrow> rcmd \<Rightarrow> 's \<Rightarrow> rval \<times> 's) \<Rightarrow> u32 \<Rightarrow> u32 \<Rightarrow> string \<Rightarrow> (nat \<times> headers) list \<Rightarrow> 's \<Rightarrow>
   bool list" where
  "rate_run_headers exec limit window ip [] s = []"
| "rate_run_headers exec limit window ip ((t, hs) # rs) s =
     (let ids = extract_identifiers hs ip;
          r = rate_check exec limit window (t, Delivered) (t, Delivered) (rate_key (fst ids) (snd ids)) s
      in (\<not> rd_blocked (fst r)) # rate_run_headers exec limit window ip rs (snd r))"

definition request_key :: "string \<Rightarrow> headers \<Rightarrow> string" where
  "request_key ip hs = rate_key (fst (extract_identifiers hs ip)) (snd (extract_identifiers hs ip))"

context redis_server
begin

definition rate_holds :: "nat \<Rightarrow> nat \<Rightarrow> string \<Rightarrow> nat \<Rightarrow> 's \<Rightarrow> bool" where
  "rate_holds t dl key c s \<longleftrightarrow> view s t key = Some (DStr (Dec (int c)), Some dl)"

lemma ttl_keeps: "view (snd (exec t (TTL k) s)) t j = view s t j"
  using exec_key [of t "TTL k" s] exec_frame [of j "TTL k" t s] live [of t s k]
  by (cases "j = k") simp_all

lemma rate_first:
  fixes limit :: u32
  assumes "view s t key = None" "window \<noteq> 0"
  defines "r \<equiv> rate_check exec limit window (t, Delivered) (t, Delivered) key s"
  shows "rd_blocked (fst r) \<longleftrightarrow> unat limit < 1"
    and "rate_holds t (t + 1000 * unat window) key 1 (snd r)"
proof -
  let ?i = "exec t (INCRBY key 1) s"
  have i: "fst ?i = RInt 1" "view (snd ?i) t key = Some (DStr (Dec 1), None)"
    using assms(1) exec_key [of t "INCRBY key 1" s]
    by (simp_all add: exec_reply int_at_def ttl_of_def at_time_def i64_range_def)
  have w: "0 < unat window" using assms(2) by (simp add: unat_gt_0)
  have "view (snd (exec t (EXPIRE key (unat window)) (snd ?i))) t key =
      Some (DStr (Dec 1), Some (t + 1000 * unat window))"
    using exec_key [of t "EXPIRE key (unat window)" "snd ?i"] i w by (simp add: at_time_def)
  then show "rate_holds t (t + 1000 * unat window) key 1 (snd r)"
    using i by (simp add: r_def rate_check_def rate_script_def Let_def rate_holds_def)
  show "rd_blocked (fst r) \<longleftrightarrow> unat limit < 1"
    using i uint_less_nat [of limit 1] by (simp add: r_def rate_check_def rate_script_def Let_def)
qed

lemma rate_again:
  fixes limit window :: u32
  assumes "rate_holds t dl key c s" "0 < c" "c < 2 ^ 62"
  defines "r \<equiv> rate_check exec limit window (t, Delivered) (t, Delivered) key s"
  shows "rd_blocked (fst r) \<longleftrightarrow> unat limit < Suc c"
    and "rate_holds t dl key (Suc c) (snd r)"
proof -
  let ?i = "exec t (INCRBY key 1) s"
  have i: "fst ?i = RInt (int (Suc c))" "view (snd ?i) t key = Some (DStr (Dec (int (Suc c))), Some dl)"
    using assms(1,3) exec_key [of t "INCRBY key 1" s] live [of t s key]
    by (auto simp: rate_holds_def exec_reply int_at_def ttl_of_def at_time_def i64_range_def
        split: if_splits)
  have c: "int (Suc c) \<noteq> 1" using assms(2) by simp
  show "rd_blocked (fst r) \<longleftrightarrow> unat limit < Suc c"
    using i c uint_less_nat [of limit "Suc c"]
    by (simp add: r_def rate_check_def rate_script_def Let_def del: of_nat_Suc)
  show "rate_holds t dl key (Suc c) (snd r)"
    using i c ttl_keeps [of t key "snd ?i" key]
    by (simp add: r_def rate_check_def rate_script_def Let_def rate_holds_def)
qed

lemma rate_holds_later:
  "rate_holds t dl key c s \<Longrightarrow> t \<le> t' \<Longrightarrow> t' < dl \<Longrightarrow> rate_holds t' dl key c s"
  by (simp add: rate_holds_def time_passes [of t t'] at_time_def)

lemma rate_run_from:
  assumes "rate_holds t dl key c s" "0 < c" "c + length ts < 2 ^ 62"
    and "sorted (t # ts)" "\<forall>u \<in> set ts. u < dl"
  shows "rate_run exec limit window key ts s = map (\<lambda>i. c + i < unat limit) [0..<length ts]"
  using assms
proof (induction ts arbitrary: t c s)
  case Nil
  then show ?case by simp
next
  case (Cons u ts)
  have h: "rate_holds u dl key c s"
    by (rule rate_holds_later [OF Cons.prems(1)]) (use Cons.prems(4,5) in auto)
  let ?r = "rate_check exec limit window (u, Delivered) (u, Delivered) key s"
  have c: "c < 2 ^ 62" using Cons.prems(3) by simp
  note st = rate_again [OF h Cons.prems(2) c, of limit window]
  have "rate_run exec limit window key ts (snd ?r) = map (\<lambda>i. Suc c + i < unat limit) [0..<length ts]"
    by (rule Cons.IH [OF st(2)]) (use Cons.prems in auto)
  then show ?case
    using st(1) by (auto simp: Let_def map_upt_Suc simp del: upt_Suc)
qed

lemma rate_run_fresh:
  assumes "view s (hd ts) key = None" "window \<noteq> 0" "sorted ts" "length ts < 2 ^ 62"
    and "\<forall>t \<in> set ts. t < hd ts + 1000 * unat window"
  shows "rate_run exec limit window key ts s = map (\<lambda>i. i < unat limit) [0..<length ts]"
proof (cases ts)
  case Nil
  then show ?thesis by simp
next
  case (Cons t us)
  let ?r = "rate_check exec limit window (t, Delivered) (t, Delivered) key s"
  have n: "view s t key = None" using assms(1) Cons by simp
  note st = rate_first [OF n assms(2), of limit]
  have "rate_run exec limit window key us (snd ?r) = map (\<lambda>i. 1 + i < unat limit) [0..<length us]"
    by (rule rate_run_from [OF st(2)]) (use assms Cons in auto)
  then show ?thesis
    using st(1) by (auto simp: Cons Let_def map_upt_Suc simp del: upt_Suc)
qed

lemma rate_check_frame:
  assumes "j \<noteq> key"
  shows "view (snd (rate_check exec limit window (t, Delivered) (t, Delivered) key s)) t j = view s t j"
  using assms ttl_keeps
  by (auto simp: rate_check_def rate_script_def Let_def exec_frame)

lemma rate_rotation:
  assumes "distinct (map (\<lambda>r. request_key ip (snd r)) rs)" "sorted (t0 # map fst rs)"
    and "\<forall>r \<in> set rs. view s t0 (request_key ip (snd r)) = None"
    and "1 \<le> unat limit" "window \<noteq> 0"
  shows "False \<notin> set (rate_run_headers exec limit window ip rs s)"
  using assms
proof (induction rs arbitrary: t0 s)
  case Nil
  then show ?case by simp
next
  case (Cons r rs)
  obtain t hs where r: "r = (t, hs)" by (cases r)
  let ?k = "request_key ip hs"
  let ?q = "rate_check exec limit window (t, Delivered) (t, Delivered) ?k s"
  have t: "t0 \<le> t" using Cons.prems(2) by (simp add: r)
  have n: "view s t ?k = None"
    using Cons.prems(3) gone_stays_gone [OF _ t] by (simp add: r)
  note st = rate_first [OF n Cons.prems(5), of limit]
  have "\<forall>x \<in> set rs. view (snd ?q) t (request_key ip (snd x)) = None"
  proof
    fix x assume x: "x \<in> set rs"
    then have "request_key ip (snd x) \<noteq> ?k" using Cons.prems(1) by (auto simp: r image_iff)
    moreover have "view s t (request_key ip (snd x)) = None"
      using Cons.prems(3) x gone_stays_gone [OF _ t] by simp
    ultimately show "view (snd ?q) t (request_key ip (snd x)) = None"
      by (simp add: rate_check_frame)
  qed
  from Cons.IH [OF _ _ this Cons.prems(4,5)]
  have "False \<notin> set (rate_run_headers exec limit window ip rs (snd ?q))"
    using Cons.prems(1,2) by (simp add: r)
  then show ?case
    using st(1) Cons.prems(4) by (simp add: r Let_def request_key_def)
qed

end

end
