(* ===== verification/Fixtures.thy ===== *)
theory Fixtures
  imports Guards
begin

text \<open>
  Concrete instances of the parameters for the witnesses: a JSON library that reads and
  prints a few values, integer-valued floats, and the identity as digest.
\<close>

definition sd0 :: serde where
  "sd0 = \<lparr>parse_value = (\<lambda>s. if s = ''{}'' then Some (JObj []) else Some (JStr s)),
          parse_model = (\<lambda>s. Some (Some s)),
          parse_stream = (\<lambda>s. Some None),
          print_value = (\<lambda>v. case v of JStr s \<Rightarrow> s | _ \<Rightarrow> ''{}'')\<rparr>"

definition F0 :: f64_ops where
  "F0 = \<lparr>f_ge = (\<lambda>a b. b \<le> a), f_is_zero = (\<lambda>a. a = 0), f_mul = (*),
         f_div = (\<lambda>a b. if b = 0 then 0 else a div b), f_round = id, f_of_u64 = id, f_of_i64 = id,
         f_dec = (\<lambda>m e. of_int m),
         f_text = (\<lambda>v. case v of Flt x \<Rightarrow> Some x | Dec i \<Rightarrow> Some (of_int i) | Raw _ \<Rightarrow> None),
         f_incr = (\<lambda>v x. case v of None \<Rightarrow> Some (Flt x) | Some (Flt y) \<Rightarrow> Some (Flt (x + y)) | _ \<Rightarrow> None)\<rparr>"

lemmas fixture_defs = sd0_def F0_def

end
