(* ===== verification/Guards_Properties.thy ===== *)
theory Guards_Properties
  imports Guards_Budget Fixtures
begin

text \<open>The properties of the admission guards, each over any documented Redis server.\<close>







text \<open>Reconciling a bucket that expired meanwhile recreates it with no expiry. When the
  usage was under-estimated it is recreated below zero, and from then on every prompt of the
  tenant is refused, however much later it comes.\<close>

theorem token_bucket_lockout:
  assumes "redis_server F exec view"
    and "view s t (bucket_key tenant) = None" and "uint estimated < uint actual" and "t \<le> t'"
    and "int (estimate_tokens prompt) < 2 ^ 62"
  shows "fst (enforce_token_bucket exec (t', Delivered) tenant prompt
      (sync_token_bucket exec (t, Delivered) tenant estimated actual s)) =
    Inl (RateLimitExceeded ''Token limit exceeded for this billing cycle.'')"
proof -
  let ?s = "sync_token_bucket exec (t, Delivered) tenant estimated actual s"
  let ?v = "uint estimated - uint actual"
  have "view ?s t (bucket_key tenant) = Some (DStr (Dec ?v), None)"
    by (rule redis_server.sync_missing [OF assms(1,2)]) (use assms(3) in auto)
  from redis_server.no_deadline_persists [OF assms(1) this assms(4)]
  have v: "view ?s t' (bucket_key tenant) = Some (DStr (Dec ?v), None)" .
  have "uint actual < 4294967296" using uint_bounded [of actual] by simp
  then have "- 4294967296 < ?v" using uint_nonnegative [of estimated] by linarith
  then have "i64_range (?v - int (estimate_tokens prompt))"
    using assms(3,5) by (simp add: i64_range_def)
  from redis_server.bucket_script_live(1) [OF assms(1) v this] show ?thesis
    using assms(3) by (simp add: enforce_token_bucket_def Let_def)
qed

theorem token_bucket_lockout_witness:
  "fst (enforce_token_bucket (ref_exec F0) (10 ^ 15, Delivered) ''t'' ''hi''
      (sync_token_bucket (ref_exec F0) (1, Delivered) ''t'' 1 2 Map.empty)) =
    Inl (RateLimitExceeded ''Token limit exceeded for this billing cycle.'')"
  by (rule token_bucket_lockout [OF ref.redis_server_axioms])
    (simp_all add: ref_view_def at_time_def estimate_tokens_def)

text \<open>Within one window of a key, exactly the first \<open>limit\<close> requests are admitted.\<close>

theorem rate_limit_exact:
  assumes "redis_server F exec view"
    and "view s (hd ts) key = None" and "window \<noteq> 0" and "sorted ts" and "length ts < 2 ^ 62"
    and "\<forall>t \<in> set ts. t < hd ts + 1000 * unat window"
  shows "rate_run exec limit window key ts s = map (\<lambda>i. i < unat limit) [0..<length ts]"
  by (rule redis_server.rate_run_fresh [OF assms])

theorem rate_limit_exact_witness:
  "rate_run (ref_exec F0) 2 60 ''k'' [5, 6, 7] Map.empty = map (\<lambda>i. i < unat (2 :: u32)) [0..<length [5, 6, 7 :: nat]]"
  by (rule rate_limit_exact [OF ref.redis_server_axioms]) (simp_all add: ref_view_def at_time_def)

text \<open>The limiter keys on headers the client sends: requests that each carry identifiers not
  used before are all admitted, however many there are.\<close>

theorem rate_limit_header_rotation:
  assumes "redis_server F exec view"
    and "distinct (map (\<lambda>r. request_key ip (snd r)) rs)" and "sorted (t0 # map fst rs)"
    and "\<forall>r \<in> set rs. view s t0 (request_key ip (snd r)) = None"
    and "1 \<le> unat limit" and "window \<noteq> 0"
  shows "False \<notin> set (rate_run_headers exec limit window ip rs s)"
  by (rule redis_server.rate_rotation [OF assms])

theorem rate_limit_header_rotation_witness:
  "False \<notin> set (rate_run_headers (ref_exec F0) 1 60 ''10.0.0.1''
     [(1, [(''x-tenant-id'', ''a'')]), (2, [(''x-tenant-id'', ''b'')]), (3, [(''x-tenant-id'', ''c'')])] Map.empty)"
  by (rule rate_limit_header_rotation [OF ref.redis_server_axioms, where ?t0.0 = 1])
    (simp_all add: ref_view_def at_time_def request_key_def extract_identifiers_def hdr_str_def
      hdr_visible_def rate_key_def)

text \<open>When every Redis call of the budget fails, before or after it took effect, the in-process
  counter admits the first five calls of a session, numbered, and refuses every later one.\<close>

fun fallback_run ::
  "(nat \<Rightarrow> rcmd \<Rightarrow> 's \<Rightarrow> rval \<times> 's) \<Rightarrow> string \<Rightarrow> (nat \<times> fault \<times> string) list \<Rightarrow> 's \<times> counters \<Rightarrow>
   (gateway_error + nat) list" where
  "fallback_run exec session [] sm = []"
| "fallback_run exec session ((t, f, u) # es) sm =
     (let r = enforce_agentic_loop_budget exec (t, f) (Some t) u session sm
      in fst r # fallback_run exec session es (snd r))"

lemma fallback_run_from:
  assumes "\<forall>e \<in> set es. fst (snd e) \<noteq> Delivered" "n + length es < 2 ^ 64"
    and "(case m session of None \<Rightarrow> 0 | Some c \<Rightarrow> c) = of_nat n"
  shows "fallback_run exec session es (s, m) =
    map (\<lambda>i. if 5 < Suc (n + i) then Inl budget_exceeded else Inr (Suc (n + i))) [0..<length es]"
  using assms
proof (induction es arbitrary: n m s)
  case Nil
  then show ?case by simp
next
  case (Cons e es)
  obtain t f u where e: "e = (t, f, u)" by (cases e)
  have f: "f \<noteq> Delivered" using Cons.prems(1) by (simp add: e)
  have c: "fst (fallback_count session m) = of_nat (Suc n)"
    using Cons.prems(3) by (simp add: fallback_count_def Let_def)
  have u: "unat (of_nat (Suc n) :: u64) = Suc n"
    using Cons.prems(2) by (simp add: unat_of_nat del: of_nat_Suc)
  note IH = Cons.IH [of "Suc n" "m(session \<mapsto> of_nat (Suc n))"]
  have "fallback_run exec session es (s', m(session \<mapsto> of_nat (Suc n))) =
      map (\<lambda>i. if 5 < Suc (Suc n + i) then Inl budget_exceeded else Inr (Suc (Suc n + i))) [0..<length es]" for s'
    by (rule IH) (use Cons.prems(1,2) in simp_all)
  then show ?case
    using c u budget_fallback [OF f, of exec t t u session s m]
    by (simp add: e Let_def map_upt_Suc del: upt_Suc of_nat_Suc)
qed

theorem agentic_budget_without_redis:
  assumes "\<forall>e \<in> set es. fst (snd e) \<noteq> Delivered" and "length es < 2 ^ 64" and "m session = None"
  shows "fallback_run exec session es (s, m) =
    map (\<lambda>i. if i < 5 then Inr (Suc i) else Inl budget_exceeded) [0..<length es]"
  using fallback_run_from [OF assms(1), of 0 m session exec s] assms(2,3)
  by (auto simp: not_less)

theorem agentic_budget_without_redis_witness:
  "fallback_run (ref_exec F0) ''s'' [(1, LostRequest, ''a''), (2, LostReply, ''b'')] (Map.empty, Map.empty) =
    map (\<lambda>i. if i < 5 then Inr (Suc i) else Inl budget_exceeded)
      [0..<length [(1 :: nat, LostRequest, ''a''), (2, LostReply, ''b'')]]"
  by (rule agentic_budget_without_redis) simp_all

end
