(* ===== verification/Gateway_Models.thy ===== *)
theory Gateway_Models
  imports Redis Gateway_Error
begin

text \<open>
  The gateway's domain model (\<open>redeye_gateway/src/domain/models.rs\<close>): routing
  configuration, trace context, telemetry rows and the Universal Middleman Schema, with
  the serialised form of the telemetry row.
\<close>

record key_config =
  key_alias :: string
  kc_api_key :: string
  kc_priority :: int
  kc_weight :: int

record model_config =
  mc_base_url :: string
  mc_schema_format :: string
  mc_keys :: "key_config list"

type_synonym routing_map = "string \<rightharpoonup> model_config"

record trace_context =
  tr_trace_id :: string
  tr_session_id :: string
  tr_parent :: "string option"

record log_payload =
  lp_id :: string
  lp_trace :: trace_context
  lp_tenant :: string
  lp_model :: string
  lp_status :: nat
  lp_latency :: u32
  lp_tokens :: u32
  lp_total_tokens :: u32
  lp_cache_hit :: bool
  lp_prompt :: string
  lp_response :: string
  lp_error :: string
  lp_requested :: string
  lp_executed :: string
  lp_hot_swapped :: nat

definition opt_json :: "string option \<Rightarrow> json" where
  "opt_json x = (case x of None \<Rightarrow> JNull | Some s \<Rightarrow> JStr s)"

definition log_payload_json :: "log_payload \<Rightarrow> json" where
  "log_payload_json p = jobject
     [(''id'', JStr (lp_id p)), (''trace_id'', JStr (tr_trace_id (lp_trace p))),
      (''session_id'', JStr (tr_session_id (lp_trace p))),
      (''parent_trace_id'', opt_json (tr_parent (lp_trace p))),
      (''tenant_id'', JStr (lp_tenant p)), (''model'', JStr (lp_model p)),
      (''status'', jnat (of_nat (lp_status p))), (''latency_ms'', jnat (ucast (lp_latency p))),
      (''tokens'', jnat (ucast (lp_tokens p))), (''total_tokens'', jnat (ucast (lp_total_tokens p))),
      (''cache_hit'', JBool (lp_cache_hit p)), (''prompt_content'', JStr (lp_prompt p)),
      (''response_content'', JStr (lp_response p)), (''error_message'', JStr (lp_error p)),
      (''requested_provider'', JStr (lp_requested p)), (''executed_provider'', JStr (lp_executed p)),
      (''is_hot_swapped'', jnat (of_nat (lp_hot_swapped p)))]"

section \<open>Universal Middleman Schema\<close>

datatype redeye_role = RSystem | RUser | RAssistant | RTool

datatype redeye_content =
    CText string
  | CImageUrl string
  | CToolCall string string json
  | CToolResult string string

record redeye_message =
  rm_role :: redeye_role
  rm_content :: "redeye_content list"

record redeye_conversation =
  cv_system :: "string option"
  cv_messages :: "redeye_message list"
  cv_tools :: "json list option"
  cv_temperature :: "f64 option"
  cv_top_p :: "f64 option"
  cv_max_tokens :: "u32 option"
  cv_stop :: "string list option"
  cv_stream :: "bool option"
  cv_model :: "string option"

section \<open>Reading structures from JSON\<close>

text \<open>
  What the derived \<open>Deserialize\<close> accepts for a structure: an object, whose missing fields
  are looked up as absent, or an array with exactly the fields in order. \<open>None\<close> is a
  parse error.
\<close>

definition struct_view :: "string list \<Rightarrow> json \<Rightarrow> (string \<Rightarrow> json option) option" where
  "struct_view ks v =
     (case v of JObj ob \<Rightarrow> Some (map_of ob)
      | JArr xs \<Rightarrow> if length xs = length ks then Some (map_of (zip ks xs)) else None
      | _ \<Rightarrow> None)"

lemma struct_view_jobject: "struct_view ks (jobject kvs) = Some (map_of (rev kvs))"
  by (simp add: struct_view_def jobject_def fold_insert_map_of fun_eq_iff split: option.split)

definition de_req :: "(json \<Rightarrow> 'a option) \<Rightarrow> json option \<Rightarrow> 'a option" where
  "de_req f v = Option.bind v f"

definition de_opt :: "(json \<Rightarrow> 'a option) \<Rightarrow> json option \<Rightarrow> 'a option option" where
  "de_opt f v = (case v of None \<Rightarrow> Some None | Some JNull \<Rightarrow> Some None
     | Some w \<Rightarrow> map_option Some (f w))"

fun opt_all :: "'a option list \<Rightarrow> 'a list option" where
  "opt_all [] = Some []"
| "opt_all (x # xs) = (case x of None \<Rightarrow> None | Some y \<Rightarrow> map_option (Cons y) (opt_all xs))"

definition de_vec :: "(json \<Rightarrow> 'a option) \<Rightarrow> json \<Rightarrow> 'a list option" where
  "de_vec f v = (case v of JArr xs \<Rightarrow> opt_all (map f xs) | _ \<Rightarrow> None)"

fun de_u32 :: "json \<Rightarrow> u32 option" where
  "de_u32 (JNum (PosInt n)) = (if unat n < 2 ^ 32 then Some (ucast n) else None)"
| "de_u32 _ = None"

fun de_f64 :: "f64_ops \<Rightarrow> json \<Rightarrow> f64 option" where
  "de_f64 F (JNum (Float x)) = Some x"
| "de_f64 F (JNum (PosInt n)) = Some (f_of_u64 F n)"
| "de_f64 F (JNum (NegInt n)) = Some (f_of_i64 F n)"
| "de_f64 F _ = None"

lemma opt_all_map_Some: "(\<And>x. x \<in> set xs \<Longrightarrow> f x = Some (g x)) \<Longrightarrow> opt_all (map f xs) = Some (map g xs)"
  by (induction xs) auto

lemma de_vec_map: "(\<And>x. x \<in> set xs \<Longrightarrow> f (g x) = Some x) \<Longrightarrow> de_vec f (JArr (map g xs)) = Some xs"
  unfolding de_vec_def by (induction xs) auto

lemma de_opt_simps [simp]:
  "de_opt f None = Some None"
  "w \<noteq> JNull \<Longrightarrow> de_opt f (Some w) = map_option Some (f w)"
  by (simp_all add: de_opt_def split: json.split)

end
