(* ===== verification/Translators.thy ===== *)
theory Translators
  imports Gateway_Models
begin

text \<open>
  Provider translation (\<open>infrastructure/translators.rs\<close>, \<open>infrastructure/schema_mapper.rs\<close>):
  the Universal Middleman Schema read from and written to the OpenAI form, written to the
  Anthropic and Gemini forms, and provider responses and stream chunks unified to the
  OpenAI form. Error texts a library appends are left out.
\<close>

unbundle bit_operations_syntax

type_synonym app_error = string

section \<open>Tool schemas\<close>

definition default_parameters :: json where
  "default_parameters = jobject [(''type'', JStr ''object''), (''properties'', jobject [])]"

definition map_tool_to_anthropic :: "json \<Rightarrow> json option" where
  "map_tool_to_anthropic tool =
     (if jget_str tool ''type'' \<noteq> Some ''function'' then None
      else case Option.bind (jget tool ''function'') as_obj of
        None \<Rightarrow> None
      | Some ob \<Rightarrow>
          (case jget_str (JObj ob) ''name'' of
             None \<Rightarrow> None
           | Some name \<Rightarrow> Some (jobject
               [(''name'', JStr name),
                (''description'', JStr (case jget_str (JObj ob) ''description'' of
                   Some d \<Rightarrow> d | None \<Rightarrow> '''')),
                (''input_schema'', case jget (JObj ob) ''parameters'' of
                   Some p \<Rightarrow> p | None \<Rightarrow> default_parameters)])))"

definition non_empty :: "'a list \<Rightarrow> 'a list option" where
  "non_empty xs = (if xs = [] then None else Some xs)"

definition map_openai_tools_to_anthropic :: "json list option \<Rightarrow> json list option" where
  "map_openai_tools_to_anthropic tools =
     (case tools of None \<Rightarrow> None | Some ts \<Rightarrow> non_empty (List.map_filter map_tool_to_anthropic ts))"

definition map_block_to_call :: "serde \<Rightarrow> json \<Rightarrow> json option" where
  "map_block_to_call sd block =
     (if jget_str block ''type'' \<noteq> Some ''tool_use'' then None
      else case (jget_str block ''id'', jget_str block ''name'', Option.bind (jget block ''input'') as_obj) of
        (Some i, Some name, Some inp) \<Rightarrow> Some (jobject
          [(''id'', JStr i), (''type'', JStr ''function''),
           (''function'', jobject [(''name'', JStr name), (''arguments'', JStr (print_value sd (JObj inp)))])])
      | _ \<Rightarrow> None)"

definition map_anthropic_tool_use_to_openai_calls :: "serde \<Rightarrow> json list \<Rightarrow> json list option" where
  "map_anthropic_tool_use_to_openai_calls sd blocks =
     non_empty (List.map_filter (map_block_to_call sd) blocks)"

section \<open>OpenAI form\<close>

record openai_function_call =
  of_name :: string
  of_arguments :: string

record openai_tool_call =
  ot_id :: string
  ot_type :: string
  ot_function :: openai_function_call

record openai_message =
  om_role :: string
  om_content :: "json option"
  om_tool_calls :: "openai_tool_call list option"
  om_tool_call_id :: "string option"

record openai_request =
  or_messages :: "openai_message list"
  or_tools :: "json list option"
  or_temperature :: "f64 option"
  or_top_p :: "f64 option"
  or_max_tokens :: "u32 option"
  or_stop :: "string list option"
  or_stream :: "bool option"
  or_model :: "string option"

definition de_function_call :: "json \<Rightarrow> openai_function_call option" where
  "de_function_call v = Option.bind (struct_view [''name'', ''arguments''] v) (\<lambda>g.
     Option.bind (de_req as_str (g ''name'')) (\<lambda>n.
     Option.bind (de_req as_str (g ''arguments'')) (\<lambda>a.
     Some \<lparr>of_name = n, of_arguments = a\<rparr>)))"

definition de_tool_call :: "json \<Rightarrow> openai_tool_call option" where
  "de_tool_call v = Option.bind (struct_view [''id'', ''type'', ''function''] v) (\<lambda>g.
     Option.bind (de_req as_str (g ''id'')) (\<lambda>i.
     Option.bind (de_req as_str (g ''type'')) (\<lambda>t.
     Option.bind (de_req de_function_call (g ''function'')) (\<lambda>f.
     Some \<lparr>ot_id = i, ot_type = t, ot_function = f\<rparr>))))"

definition de_message :: "json \<Rightarrow> openai_message option" where
  "de_message v =
     Option.bind (struct_view [''role'', ''content'', ''tool_calls'', ''tool_call_id''] v) (\<lambda>g.
     Option.bind (de_req as_str (g ''role'')) (\<lambda>r.
     Option.bind (de_opt Some (g ''content'')) (\<lambda>c.
     Option.bind (de_opt (de_vec de_tool_call) (g ''tool_calls'')) (\<lambda>tc.
     Option.bind (de_opt as_str (g ''tool_call_id'')) (\<lambda>ti.
     Some \<lparr>om_role = r, om_content = c, om_tool_calls = tc, om_tool_call_id = ti\<rparr>)))))"

definition de_request :: "f64_ops \<Rightarrow> json \<Rightarrow> openai_request option" where
  "de_request F v =
     Option.bind (struct_view [''messages'', ''tools'', ''temperature'', ''top_p'', ''max_tokens'',
       ''stop'', ''stream'', ''model''] v) (\<lambda>g.
     Option.bind (de_req (de_vec de_message) (g ''messages'')) (\<lambda>ms.
     Option.bind (de_opt as_arr (g ''tools'')) (\<lambda>ts.
     Option.bind (de_opt (de_f64 F) (g ''temperature'')) (\<lambda>te.
     Option.bind (de_opt (de_f64 F) (g ''top_p'')) (\<lambda>tp.
     Option.bind (de_opt de_u32 (g ''max_tokens'')) (\<lambda>mt.
     Option.bind (de_opt (de_vec as_str) (g ''stop'')) (\<lambda>st.
     Option.bind (de_opt as_bool (g ''stream'')) (\<lambda>sr.
     Option.bind (de_opt as_str (g ''model'')) (\<lambda>mo.
     Some \<lparr>or_messages = ms, or_tools = ts, or_temperature = te, or_top_p = tp,
           or_max_tokens = mt, or_stop = st, or_stream = sr, or_model = mo\<rparr>)))))))))"

text \<open>Text parts of an array content: \<open>type\<close> text with a string \<open>text\<close>.\<close>

definition part_text :: "json \<Rightarrow> string option" where
  "part_text p = (if jget_str p ''type'' = Some ''text'' then jget_str p ''text'' else None)"

definition system_text :: "json \<Rightarrow> string option" where
  "system_text c =
     (case c of JStr s \<Rightarrow> Some s
      | JArr ps \<Rightarrow> first_of (List.map_filter part_text ps)
      | _ \<Rightarrow> None)"

definition part_content :: "json \<Rightarrow> redeye_content option" where
  "part_content p =
     (case jget_str p ''type'' of
        None \<Rightarrow> None
      | Some ty \<Rightarrow>
          if ty = ''text'' then map_option CText (jget_str p ''text'')
          else if ty = ''image_url''
          then map_option CImageUrl (Option.bind (jget p ''image_url'') (\<lambda>u. jget_str u ''url''))
          else None)"

definition message_parts :: "json option \<Rightarrow> redeye_content list" where
  "message_parts c =
     (case c of
        Some (JStr s) \<Rightarrow> if s = [] then [] else [CText s]
      | Some (JArr ps) \<Rightarrow> List.map_filter part_content ps
      | _ \<Rightarrow> [])"

definition tool_call_content :: "serde \<Rightarrow> openai_tool_call \<Rightarrow> app_error + redeye_content" where
  "tool_call_content sd tc =
     (case parse_value sd (of_arguments (ot_function tc)) of
        None \<Rightarrow> Inl ''Invalid tool arguments JSON''
      | Some a \<Rightarrow> Inr (CToolCall (ot_id tc) (of_name (ot_function tc)) a))"

fun content_text :: "redeye_content \<Rightarrow> string" where
  "content_text (CText t) = t"
| "content_text _ = []"

definition openai_role :: "string \<Rightarrow> app_error + redeye_role" where
  "openai_role r =
     (if r = ''user'' then Inr RUser
      else if r = ''assistant'' then Inr RAssistant
      else if r = ''tool'' \<or> r = ''function'' then Inr RTool
      else Inl (''Unknown OpenAI role: '' @ r))"

definition message_contents :: "serde \<Rightarrow> redeye_role \<Rightarrow> openai_message \<Rightarrow> app_error + redeye_content list" where
  "message_contents sd role msg =
     res_bind (res_map (tool_call_content sd)
       (case om_tool_calls msg of None \<Rightarrow> [] | Some tcs \<Rightarrow> tcs)) (\<lambda>calls.
     let cs = message_parts (om_content msg) @ calls
     in Inr (case om_tool_call_id msg of
          Some ti \<Rightarrow> if role = RTool then [CToolResult ti (concat (map content_text cs))] else cs
        | None \<Rightarrow> cs))"

text \<open>The loop over the messages: the system prompt so far and the messages, in order.\<close>

fun universal_messages ::
  "serde \<Rightarrow> string option \<Rightarrow> openai_message list \<Rightarrow> app_error + (string option \<times> redeye_message list)" where
  "universal_messages sd sp [] = Inr (sp, [])"
| "universal_messages sd sp (msg # msgs) =
     (if om_role msg = ''system'' then
        universal_messages sd
          (case Option.bind (om_content msg) system_text of None \<Rightarrow> sp | Some s \<Rightarrow> Some s) msgs
      else
        res_bind (openai_role (om_role msg)) (\<lambda>role.
        res_bind (message_contents sd role msg) (\<lambda>cs.
        res_bind (universal_messages sd sp msgs) (\<lambda>r.
        Inr (fst r, if cs = [] then snd r else \<lparr>rm_role = role, rm_content = cs\<rparr> # snd r)))))"

definition openai_to_universal :: "f64_ops \<Rightarrow> serde \<Rightarrow> json \<Rightarrow> app_error + redeye_conversation" where
  "openai_to_universal F sd payload =
     (case de_request F payload of
        None \<Rightarrow> Inl ''OpenAI parse error''
      | Some req \<Rightarrow>
          res_bind (universal_messages sd None (or_messages req)) (\<lambda>r.
          Inr \<lparr>cv_system = fst r, cv_messages = snd r, cv_tools = or_tools req,
               cv_temperature = or_temperature req, cv_top_p = or_top_p req,
               cv_max_tokens = or_max_tokens req, cv_stop = or_stop req,
               cv_stream = or_stream req, cv_model = or_model req\<rparr>))"

text \<open>Writing a message: texts joined by newlines, calls collected, the last tool id kept.\<close>

fun push_text :: "string \<Rightarrow> string \<Rightarrow> string" where
  "push_text acc t = (if acc = [] then t else acc @ [CHR 0x0A] @ t)"

fun openai_parts ::
  "serde \<Rightarrow> string \<Rightarrow> openai_tool_call list \<Rightarrow> string option \<Rightarrow> redeye_content list \<Rightarrow>
   string \<times> openai_tool_call list \<times> string option" where
  "openai_parts sd txt tcs ti [] = (txt, tcs, ti)"
| "openai_parts sd txt tcs ti (CText t # cs) = openai_parts sd (push_text txt t) tcs ti cs"
| "openai_parts sd txt tcs ti (CImageUrl u # cs) = openai_parts sd txt tcs ti cs"
| "openai_parts sd txt tcs ti (CToolCall i n a # cs) =
     openai_parts sd txt (tcs @ [\<lparr>ot_id = i, ot_type = ''function'',
       ot_function = \<lparr>of_name = n, of_arguments = print_value sd a\<rparr>\<rparr>]) ti cs"
| "openai_parts sd txt tcs ti (CToolResult i c # cs) =
     openai_parts sd (push_text txt c) tcs (Some i) cs"

fun role_str :: "redeye_role \<Rightarrow> string" where
  "role_str RSystem = ''system''" | "role_str RUser = ''user''"
| "role_str RAssistant = ''assistant''" | "role_str RTool = ''tool''"

definition openai_message_of :: "serde \<Rightarrow> redeye_message \<Rightarrow> openai_message" where
  "openai_message_of sd msg =
     (case openai_parts sd [] [] None (rm_content msg) of (txt, tcs, ti) \<Rightarrow>
        \<lparr>om_role = role_str (rm_role msg),
         om_content = (if txt \<noteq> [] then Some (JStr txt) else None),
         om_tool_calls = (if tcs = [] then None else Some tcs),
         om_tool_call_id = ti\<rparr>)"

definition ser_function_call :: "openai_function_call \<Rightarrow> json" where
  "ser_function_call f = jobject [(''name'', JStr (of_name f)), (''arguments'', JStr (of_arguments f))]"

definition ser_tool_call :: "openai_tool_call \<Rightarrow> json" where
  "ser_tool_call tc = jobject [(''id'', JStr (ot_id tc)), (''type'', JStr (ot_type tc)),
     (''function'', ser_function_call (ot_function tc))]"

definition ser_message :: "openai_message \<Rightarrow> json" where
  "ser_message m = jobject ((''role'', JStr (om_role m)) # opt_field ''content'' id (om_content m) @
     opt_field ''tool_calls'' (\<lambda>tcs. JArr (map ser_tool_call tcs)) (om_tool_calls m) @
     opt_field ''tool_call_id'' JStr (om_tool_call_id m))"

text \<open>A float serialises as null when its exponent field marks an infinity or a NaN.\<close>

definition f64_finite :: "f64 \<Rightarrow> bool" where
  "f64_finite x \<longleftrightarrow> drop_bit 52 x AND 0x7FF \<noteq> 0x7FF"

definition json_f64 :: "f64 \<Rightarrow> json" where
  "json_f64 x = (if f64_finite x then JNum (Float x) else JNull)"

definition json_u32 :: "u32 \<Rightarrow> json" where
  "json_u32 n = jnat (ucast n)"

definition ser_request :: "openai_request \<Rightarrow> json" where
  "ser_request r = jobject ((''messages'', JArr (map ser_message (or_messages r))) #
     opt_field ''tools'' JArr (or_tools r) @ opt_field ''temperature'' json_f64 (or_temperature r) @
     opt_field ''top_p'' json_f64 (or_top_p r) @ opt_field ''max_tokens'' json_u32 (or_max_tokens r) @
     opt_field ''stop'' (\<lambda>ss. JArr (map JStr ss)) (or_stop r) @
     opt_field ''stream'' JBool (or_stream r) @ opt_field ''model'' JStr (or_model r))"

definition openai_from_universal :: "serde \<Rightarrow> redeye_conversation \<Rightarrow> app_error + json" where
  "openai_from_universal sd conv =
     Inr (ser_request
       \<lparr>or_messages =
          (case cv_system conv of None \<Rightarrow> []
           | Some sp \<Rightarrow> [\<lparr>om_role = ''system'', om_content = Some (JStr sp),
                          om_tool_calls = None, om_tool_call_id = None\<rparr>])
          @ map (openai_message_of sd) (cv_messages conv),
        or_tools = cv_tools conv, or_temperature = cv_temperature conv, or_top_p = cv_top_p conv,
        or_max_tokens = cv_max_tokens conv, or_stop = cv_stop conv, or_stream = cv_stream conv,
        or_model = cv_model conv\<rparr>)"

definition openai_unify_response :: "json \<Rightarrow> app_error + json" where
  "openai_unify_response raw = Inr raw"

definition openai_unify_chunk :: "string \<Rightarrow> app_error + string" where
  "openai_unify_chunk chunk = Inr chunk"

section \<open>Anthropic form\<close>

datatype anthropic_content =
    AText string
  | AImage string string string
  | AToolUse string string json
  | AToolResult string string

record anthropic_message =
  am_role :: string
  am_content :: "anthropic_content list"

record anthropic_request =
  ar_system :: "string option"
  ar_messages :: "anthropic_message list"
  ar_tools :: "json list option"
  ar_temperature :: "f64 option"
  ar_top_p :: "f64 option"
  ar_max_tokens :: u32
  ar_stop_sequences :: "string list option"
  ar_stream :: "bool option"
  ar_model :: "string option"

fun anthropic_part :: "redeye_content \<Rightarrow> anthropic_content" where
  "anthropic_part (CText t) = AText t"
| "anthropic_part (CImageUrl u) = AImage ''url'' ''image/jpeg'' u"
| "anthropic_part (CToolCall i n a) = AToolUse i n a"
| "anthropic_part (CToolResult i c) = AToolResult i c"

fun anthropic_role :: "redeye_role \<Rightarrow> string option" where
  "anthropic_role RSystem = None"
| "anthropic_role RUser = Some ''user''"
| "anthropic_role RTool = Some ''user''"
| "anthropic_role RAssistant = Some ''assistant''"

definition dummy_message :: "string \<Rightarrow> anthropic_message" where
  "dummy_message r = \<lparr>am_role = (if r = ''user'' then ''assistant'' else ''user''),
                      am_content = [AText ''<dummy>'']\<rparr>"

definition anthropic_step :: "anthropic_message list \<Rightarrow> redeye_message \<Rightarrow> anthropic_message list" where
  "anthropic_step acc msg =
     (case anthropic_role (rm_role msg) of
        None \<Rightarrow> acc
      | Some r \<Rightarrow>
          (if acc \<noteq> [] \<and> am_role (last acc) = r then acc @ [dummy_message r] else acc)
          @ [\<lparr>am_role = r, am_content = map anthropic_part (rm_content msg)\<rparr>])"

definition anthropic_messages :: "redeye_message list \<Rightarrow> anthropic_message list" where
  "anthropic_messages ms = foldl anthropic_step [] ms"

fun ser_anthropic_content :: "anthropic_content \<Rightarrow> json" where
  "ser_anthropic_content (AText t) = jobject [(''type'', JStr ''text''), (''text'', JStr t)]"
| "ser_anthropic_content (AImage ty mt d) = jobject [(''type'', JStr ''image''),
     (''source'', jobject [(''type'', JStr ty), (''media_type'', JStr mt), (''data'', JStr d)])]"
| "ser_anthropic_content (AToolUse i n a) = jobject
     [(''type'', JStr ''tool_use''), (''id'', JStr i), (''name'', JStr n), (''input'', a)]"
| "ser_anthropic_content (AToolResult i c) = jobject
     [(''type'', JStr ''tool_result''), (''tool_use_id'', JStr i), (''content'', JStr c)]"

definition ser_anthropic_message :: "anthropic_message \<Rightarrow> json" where
  "ser_anthropic_message m = jobject
     [(''role'', JStr (am_role m)), (''content'', JArr (map ser_anthropic_content (am_content m)))]"

definition ser_anthropic_request :: "anthropic_request \<Rightarrow> json" where
  "ser_anthropic_request r = jobject (opt_field ''system'' JStr (ar_system r) @
     [(''messages'', JArr (map ser_anthropic_message (ar_messages r)))] @
     opt_field ''tools'' JArr (ar_tools r) @ opt_field ''temperature'' json_f64 (ar_temperature r) @
     opt_field ''top_p'' json_f64 (ar_top_p r) @ [(''max_tokens'', json_u32 (ar_max_tokens r))] @
     opt_field ''stop_sequences'' (\<lambda>ss. JArr (map JStr ss)) (ar_stop_sequences r) @
     opt_field ''stream'' JBool (ar_stream r) @ opt_field ''model'' JStr (ar_model r))"

definition anthropic_request_of :: "redeye_conversation \<Rightarrow> anthropic_request" where
  "anthropic_request_of conv =
     \<lparr>ar_system = cv_system conv, ar_messages = anthropic_messages (cv_messages conv),
      ar_tools = map_openai_tools_to_anthropic (cv_tools conv),
      ar_temperature = cv_temperature conv, ar_top_p = cv_top_p conv,
      ar_max_tokens = (case cv_max_tokens conv of None \<Rightarrow> 4096 | Some n \<Rightarrow> n),
      ar_stop_sequences = cv_stop conv, ar_stream = cv_stream conv, ar_model = cv_model conv\<rparr>"

definition anthropic_from_universal :: "redeye_conversation \<Rightarrow> app_error + json" where
  "anthropic_from_universal conv = Inr (ser_anthropic_request (anthropic_request_of conv))"

definition str_or :: "string \<Rightarrow> string option \<Rightarrow> string" where
  "str_or d x = (case x of None \<Rightarrow> d | Some s \<Rightarrow> s)"

definition u64_or_zero :: "u64 option \<Rightarrow> u64" where
  "u64_or_zero x = (case x of None \<Rightarrow> 0 | Some n \<Rightarrow> n)"

text \<open>The OpenAI completion both translators build; the token sum wraps as \<open>u64\<close>.\<close>

definition openai_completion :: "string \<Rightarrow> string \<Rightarrow> json \<Rightarrow> string \<Rightarrow> u64 \<Rightarrow> u64 \<Rightarrow> json" where
  "openai_completion i model message finish inp out = jobject
     [(''id'', JStr i), (''object'', JStr ''chat.completion''), (''created'', jnat 0),
      (''model'', JStr model),
      (''choices'', JArr [jobject [(''index'', jnat 0), (''message'', message),
                                   (''finish_reason'', JStr finish)]]),
      (''usage'', jobject [(''prompt_tokens'', jnat inp), (''completion_tokens'', jnat out),
                           (''total_tokens'', jnat (inp + out))])]"

definition anthropic_text :: "json \<Rightarrow> string" where
  "anthropic_text raw = str_or [] (Option.bind (jget_arr raw ''content'') (\<lambda>bs.
     Option.bind (find (\<lambda>b. jget_str b ''type'' = Some ''text'') bs) (\<lambda>b. jget_str b ''text'')))"

definition anthropic_unify_response :: "serde \<Rightarrow> json \<Rightarrow> app_error + json" where
  "anthropic_unify_response sd raw =
     (let calls = Option.bind (jget_arr raw ''content'') (map_anthropic_tool_use_to_openai_calls sd);
          msg = jobject [(''role'', JStr ''assistant''), (''content'', JStr (anthropic_text raw))]
      in Inr (openai_completion (str_or ''chatcmpl-fallback'' (jget_str raw ''id''))
           (str_or ''claude'' (jget_str raw ''model''))
           (case calls of None \<Rightarrow> msg | Some cs \<Rightarrow> jset ''tool_calls'' (JArr cs) msg)
           (if calls \<noteq> None then ''tool_calls'' else ''stop'')
           (u64_or_zero (Option.bind (jget raw ''usage'') (\<lambda>u. jget_u64 u ''input_tokens'')))
           (u64_or_zero (Option.bind (jget raw ''usage'') (\<lambda>u. jget_u64 u ''output_tokens'')))))"

definition openai_delta_chunk :: "string \<Rightarrow> json" where
  "openai_delta_chunk txt = jobject
     [(''id'', JStr ''chatcmpl-stream''), (''object'', JStr ''chat.completion.chunk''),
      (''created'', jnat 0), (''model'', JStr ''claude''),
      (''choices'', JArr [jobject [(''index'', jnat 0),
         (''delta'', jobject [(''content'', JStr txt)]), (''finish_reason'', JNull)]])]"

definition anthropic_unify_chunk :: "serde \<Rightarrow> string \<Rightarrow> app_error + string" where
  "anthropic_unify_chunk sd chunk =
     (let js = trim_ws (trim_front [''data: ''] chunk)
      in if \<not> starts_with chunk ''data: '' \<or> chunk = ''data: [DONE]'' then Inr chunk
         else if js = [] then Inr chunk
         else (case parse_value sd js of
             None \<Rightarrow> Inr []
           | Some v \<Rightarrow>
               (let ty = str_or [] (jget_str v ''type'') in
                if ty = ''content_block_delta'' then
                  Inr (''data: '' @ print_value sd (openai_delta_chunk
                    (str_or [] (Option.bind (jget v ''delta'') (\<lambda>d. jget_str d ''text'')))))
                else if ty = ''message_stop'' then Inr ''data: [DONE]''
                else Inr [])))"

section \<open>Gemini form\<close>

fun gemini_role :: "redeye_role \<Rightarrow> string" where
  "gemini_role RSystem = ''user''" | "gemini_role RUser = ''user''"
| "gemini_role RAssistant = ''model''" | "gemini_role RTool = ''model''"

fun gemini_part :: "redeye_content \<Rightarrow> json option" where
  "gemini_part (CText t) = Some (jobject [(''text'', JStr t)])"
| "gemini_part _ = None"

definition gemini_message :: "redeye_message \<Rightarrow> json" where
  "gemini_message m = jobject [(''role'', JStr (gemini_role (rm_role m))),
     (''parts'', JArr (List.map_filter gemini_part (rm_content m)))]"

definition generation_config :: "redeye_conversation \<Rightarrow> (string \<times> json) list" where
  "generation_config conv =
     opt_field ''temperature'' json_f64 (cv_temperature conv) @
     opt_field ''topP'' json_f64 (cv_top_p conv) @
     opt_field ''maxOutputTokens'' json_u32 (cv_max_tokens conv) @
     opt_field ''stopSequences'' (\<lambda>ss. JArr (map JStr ss)) (cv_stop conv)"

definition gemini_from_universal :: "redeye_conversation \<Rightarrow> app_error + json" where
  "gemini_from_universal conv =
     (let req = jobject [(''contents'', JArr (map gemini_message (cv_messages conv)))];
          req = (case cv_system conv of None \<Rightarrow> req
            | Some sp \<Rightarrow> jset ''systemInstruction''
                (jobject [(''parts'', JArr [jobject [(''text'', JStr sp)]])]) req)
      in Inr (if generation_config conv = [] then req
              else jset ''generationConfig'' (jobject (generation_config conv)) req))"

definition gemini_text :: "json \<Rightarrow> string" where
  "gemini_text raw = str_or []
     (jpointer_str raw [Key ''candidates'', Idx0, Key ''content'', Key ''parts'', Idx0, Key ''text''])"

definition gemini_unify_response :: "json \<Rightarrow> app_error + json" where
  "gemini_unify_response raw = Inr (openai_completion ''chatcmpl-gemini'' ''gemini''
     (jobject [(''role'', JStr ''assistant''), (''content'', JStr (gemini_text raw))]) ''stop'' 0 0)"

definition gemini_unify_chunk :: "string \<Rightarrow> app_error + string" where
  "gemini_unify_chunk chunk = (if starts_with chunk ''data: '' then Inr chunk else Inr [])"

text \<open>Only the OpenAI translator reads requests.\<close>

definition anthropic_to_universal :: "json \<Rightarrow> app_error + redeye_conversation" where
  "anthropic_to_universal payload = Inl ''Anthropic to_universal not fully implemented''"

definition gemini_to_universal :: "json \<Rightarrow> app_error + redeye_conversation" where
  "gemini_to_universal payload = Inl ''Gemini to_universal not fully implemented''"

end
