(* ===== verification/Translator_Laws.thy ===== *)
theory Translator_Laws
  imports Translators "HOL-Library.Sublist"
begin

text \<open>
  What the translators promise: an interface every provider meets (totality, an object as
  request body), its extension for the providers whose replies are rebuilt in the OpenAI
  form, the alternation of Anthropic roles, and the round trip of the OpenAI form.
\<close>

section \<open>Interfaces\<close>

locale translator =
  fixes from_u :: "redeye_conversation \<Rightarrow> app_error + json"
    and unify :: "json \<Rightarrow> app_error + json"
    and unify_chunk :: "string \<Rightarrow> app_error + string"
  assumes from_total: "\<exists>ob. from_u conv = Inr (JObj ob)"
    and unify_total: "\<exists>v. unify raw = Inr v"
    and chunk_total: "\<exists>c. unify_chunk s = Inr c"
begin

lemma from_never_fails: "from_u conv \<noteq> Inl e"
  using from_total [of conv] by auto

lemma unify_never_fails: "unify raw \<noteq> Inl e"
  using unify_total [of raw] by auto

lemma chunks_never_fail: "\<exists>cs. res_map unify_chunk ss = Inr cs \<and> length cs = length ss"
proof (induction ss)
  case (Cons s ss)
  then show ?case using chunk_total [of s] by auto
qed simp

end

text \<open>A provider whose replies are rebuilt: the client reads content and usage from them.\<close>

definition completion_content :: "json \<Rightarrow> string option" where
  "completion_content v = jpointer_str v [Key ''choices'', Idx0, Key ''message'', Key ''content'']"

definition completion_tokens :: "json \<Rightarrow> u64 option" where
  "completion_tokens v = Option.bind (jget v ''usage'') (\<lambda>u. jget_u64 u ''total_tokens'')"

locale completion_translator = translator +
  assumes unified_content: "unify raw = Inr v \<Longrightarrow> completion_content v \<noteq> None"
    and unified_tokens: "unify raw = Inr v \<Longrightarrow> completion_tokens v \<noteq> None"
begin

lemma unified_readable:
  "\<exists>v s n. unify raw = Inr v \<and> completion_content v = Some s \<and> completion_tokens v = Some n"
  using unify_total [of raw] unified_content [of raw] unified_tokens [of raw] by blast

end

lemma completion_content_simp [simp]:
  "completion_content (openai_completion i m msg fin a b) = jget_str msg ''content''"
  by (simp add: completion_content_def openai_completion_def jpointer_str_def first_of_def
      jget_str_def split: option.split)

lemma completion_tokens_simp [simp]:
  "completion_tokens (openai_completion i m msg fin a b) = Some (a + b)"
  by (simp add: completion_tokens_def openai_completion_def jget_u64_def jnat_def)

lemma jobject_JObj: "\<exists>ob. jobject kvs = JObj ob"
  by (simp add: jobject_def)

lemma jset_JObj: "\<exists>ob. v = JObj ob \<Longrightarrow> \<exists>ob. jset k w v = JObj ob"
  by auto

interpretation openai_tr: translator "openai_from_universal sd" openai_unify_response openai_unify_chunk
  by unfold_locales
    (simp_all add: openai_from_universal_def ser_request_def jobject_JObj
      openai_unify_response_def openai_unify_chunk_def)

interpretation anthropic_tr: completion_translator anthropic_from_universal
  "anthropic_unify_response sd" "anthropic_unify_chunk sd"
  by unfold_locales
    (auto simp: anthropic_from_universal_def ser_anthropic_request_def jobject_JObj Let_def
      anthropic_unify_response_def anthropic_unify_chunk_def jget_str_def jget_jset
      split: option.splits)

interpretation gemini_tr: completion_translator gemini_from_universal
  gemini_unify_response gemini_unify_chunk
  by unfold_locales
    (auto simp: gemini_from_universal_def jobject_JObj Let_def gemini_unify_response_def
      gemini_unify_chunk_def jget_str_def intro!: jset_JObj split: option.splits)

section \<open>Anthropic alternation\<close>

text \<open>The messages as converted, without the inserted ones.\<close>

definition anthropic_convert :: "redeye_message \<Rightarrow> anthropic_message option" where
  "anthropic_convert msg = map_option (\<lambda>r. \<lparr>am_role = r, am_content = map anthropic_part (rm_content msg)\<rparr>)
     (anthropic_role (rm_role msg))"

definition is_dummy :: "anthropic_message \<Rightarrow> bool" where
  "is_dummy m \<longleftrightarrow> am_content m = [AText ''<dummy>'']"

definition anthropic_roles_ok :: "anthropic_message list \<Rightarrow> bool" where
  "anthropic_roles_ok ms \<longleftrightarrow> successively (\<noteq>) (map am_role ms) \<and>
     set (map am_role ms) \<subseteq> {''user'', ''assistant''}"

lemma anthropic_role_cases: "anthropic_role r = Some s \<Longrightarrow> s = ''user'' \<or> s = ''assistant''"
  by (cases r) auto

lemma anthropic_step_roles:
  "anthropic_roles_ok acc \<Longrightarrow> anthropic_roles_ok (anthropic_step acc msg)"
proof (cases "anthropic_role (rm_role msg)")
  case (Some r)
  assume ok: "anthropic_roles_ok acc"
  have r: "r = ''user'' \<or> r = ''assistant''" by (rule anthropic_role_cases [OF Some])
  from ok r Some show ?thesis
    by (cases "acc = []")
      (auto simp: anthropic_roles_ok_def anthropic_step_def dummy_message_def
        successively_append_iff last_map)
qed (simp add: anthropic_step_def)

lemma anthropic_messages_roles: "anthropic_roles_ok (foldl anthropic_step acc ms)"
  if "anthropic_roles_ok acc"
  using that by (induction ms arbitrary: acc) (auto intro: anthropic_step_roles)

lemma anthropic_step_real:
  "filter (Not \<circ> is_dummy) (anthropic_step acc msg) =
   filter (Not \<circ> is_dummy) acc @
   filter (Not \<circ> is_dummy) (case anthropic_convert msg of None \<Rightarrow> [] | Some m \<Rightarrow> [m])"
  by (auto simp: anthropic_step_def anthropic_convert_def is_dummy_def dummy_message_def
      split: option.split)

lemma anthropic_messages_real:
  "filter (Not \<circ> is_dummy) (foldl anthropic_step acc ms) =
   filter (Not \<circ> is_dummy) acc @ filter (Not \<circ> is_dummy) (List.map_filter anthropic_convert ms)"
  by (induction ms arbitrary: acc)
    (auto simp: anthropic_step_real map_filter_simps split: option.split)

lemma anthropic_step_subseq:
  "subseq (acc @ (case anthropic_convert msg of None \<Rightarrow> [] | Some m \<Rightarrow> [m])) (anthropic_step acc msg)"
  by (auto simp: anthropic_step_def anthropic_convert_def split: option.split intro: list_emb_append2)

lemma anthropic_messages_subseq:
  "subseq (xs @ List.map_filter anthropic_convert ms) (foldl anthropic_step acc ms)"
  if "subseq xs acc"
  using that
proof (induction ms arbitrary: xs acc)
  case (Cons m ms)
  let ?c = "case anthropic_convert m of None \<Rightarrow> [] | Some m \<Rightarrow> [m]"
  have "subseq (xs @ ?c) (anthropic_step acc m)"
    using Cons.prems anthropic_step_subseq [of acc m]
    by (meson list_emb_append_mono subseq_order.order_refl subseq_order.order_trans)
  from Cons.IH [OF this] show ?case
    by (simp add: map_filter_simps split: option.splits)
qed (simp add: map_filter_simps)

section \<open>The OpenAI round trip\<close>

text \<open>
  Conversations the OpenAI form can express without loss: a message is at most one
  non-empty text followed by tool calls, or one tool result in a tool message; floats
  are finite.
\<close>

fun is_call :: "redeye_content \<Rightarrow> bool" where
  "is_call (CToolCall i n a) = True"
| "is_call _ = False"

definition plain_contents :: "redeye_content list \<Rightarrow> bool" where
  "plain_contents cs \<longleftrightarrow> cs \<noteq> [] \<and>
     (case cs of CText t # rest \<Rightarrow> t \<noteq> [] \<and> list_all is_call rest | _ \<Rightarrow> list_all is_call cs)"

definition canonical_message :: "redeye_message \<Rightarrow> bool" where
  "canonical_message m \<longleftrightarrow> rm_role m \<noteq> RSystem \<and>
     (plain_contents (rm_content m) \<or>
      rm_role m = RTool \<and> (\<exists>i c. rm_content m = [CToolResult i c]))"

definition canonical_conversation :: "redeye_conversation \<Rightarrow> bool" where
  "canonical_conversation c \<longleftrightarrow> list_all canonical_message (cv_messages c) \<and>
     pred_option f64_finite (cv_temperature c) \<and> pred_option f64_finite (cv_top_p c)"

definition call_of :: "serde \<Rightarrow> redeye_content \<Rightarrow> openai_tool_call" where
  "call_of sd c = (case c of CToolCall i n a \<Rightarrow>
     \<lparr>ot_id = i, ot_type = ''function'', ot_function = \<lparr>of_name = n, of_arguments = print_value sd a\<rparr>\<rparr>)"

lemma openai_parts_calls:
  "list_all is_call cs \<Longrightarrow> openai_parts sd txt tcs ti cs = (txt, tcs @ map (call_of sd) cs, ti)"
proof (induction cs arbitrary: tcs)
  case (Cons c cs)
  then show ?case by (cases c) (auto simp: call_of_def)
qed simp

lemma calls_read_back:
  assumes "serde_roundtrip sd" "list_all is_call cs"
  shows "res_map (tool_call_content sd) (map (call_of sd) cs) = Inr cs"
proof -
  have "tool_call_content sd (call_of sd c) = Inr c" if "is_call c" for c
    using that assms(1)
    by (cases c) (auto simp: tool_call_content_def call_of_def serde_roundtrip_def)
  then show ?thesis using assms(2) by (induction cs) auto
qed

lemma role_read_back: "r \<noteq> RSystem \<Longrightarrow> openai_role (role_str r) = Inr r"
  by (cases r) (auto simp: openai_role_def)

lemma plain_contents_cases:
  assumes "plain_contents cs"
  obtains (lead) t rest where "cs = CText t # rest" "t \<noteq> []" "list_all is_call rest"
    | (calls) "list_all is_call cs" "cs \<noteq> []"
  using assms unfolding plain_contents_def
  by (auto split: list.splits redeye_content.splits)

lemma contents_read_back:
  assumes sd: "serde_roundtrip sd" and c: "canonical_message m"
  shows "message_contents sd (rm_role m) (openai_message_of sd m) = Inr (rm_content m)"
proof -
  consider (plain) "plain_contents (rm_content m)"
    | (result) i c where "rm_role m = RTool" "rm_content m = [CToolResult i c]"
    using c by (auto simp: canonical_message_def)
  then show ?thesis
  proof cases
    case plain
    then show ?thesis
    proof (cases rule: plain_contents_cases)
      case (lead t rest)
      then show ?thesis using calls_read_back [OF sd lead(3)]
        by (auto simp: message_contents_def openai_message_of_def openai_parts_calls
            message_parts_def Let_def split: if_splits)
    next
      case calls
      then show ?thesis using calls_read_back [OF sd calls(1)]
        by (auto simp: message_contents_def openai_message_of_def openai_parts_calls
            message_parts_def Let_def)
    qed
  next
    case result
    then show ?thesis
      by (auto simp: message_contents_def openai_message_of_def message_parts_def Let_def)
  qed
qed

lemma canonical_nonempty: "canonical_message m \<Longrightarrow> rm_content m \<noteq> []"
  by (auto simp: canonical_message_def plain_contents_def)

lemma messages_read_back:
  assumes sd: "serde_roundtrip sd" and c: "list_all canonical_message ms"
  shows "universal_messages sd sp (map (openai_message_of sd) ms) = Inr (sp, ms)"
  using c
proof (induction ms)
  case (Cons m ms)
  then have m: "canonical_message m" and role: "rm_role m \<noteq> RSystem"
    by (auto simp: canonical_message_def)
  have "om_role (openai_message_of sd m) = role_str (rm_role m)"
    by (simp add: openai_message_of_def split: prod.split)
  moreover have "role_str (rm_role m) \<noteq> ''system''" using role by (cases "rm_role m") auto
  ultimately show ?case
    using Cons contents_read_back [OF sd m] role_read_back [OF role] canonical_nonempty [OF m]
    by simp
qed simp

text \<open>The serialised structures read back as they were written.\<close>

lemma de_function_call_ser: "de_function_call (ser_function_call f) = Some f"
  by (simp add: de_function_call_def ser_function_call_def struct_view_def jobject_def de_req_def)

lemma de_tool_call_ser: "de_tool_call (ser_tool_call tc) = Some tc"
  by (simp add: de_tool_call_def ser_tool_call_def struct_view_def jobject_def de_req_def
      de_function_call_ser)

lemma rev_opt_field [simp]: "rev (opt_field k f x) = opt_field k f x"
  by (simp add: opt_field_def split: option.split)

lemma map_of_opt_field: "map_of (opt_field k f x) j = (if j = k then map_option f x else None)"
  by (simp add: opt_field_def split: option.split)

lemma map_add_if:
  "(m ++ map_of (opt_field k f x)) j =
     (if j = k \<and> x \<noteq> None then map_option f x else m j)"
  by (cases x) (auto simp: map_add_def map_of_opt_field split: option.split)

lemma de_opt_read:
  "(\<And>y. x = Some y \<Longrightarrow> f (g y) = Some y \<and> g y \<noteq> JNull) \<Longrightarrow> de_opt f (map_option g x) = Some x"
  by (cases x) auto

lemma de_message_ser:
  assumes "om_content m \<noteq> Some JNull"
  shows "de_message (ser_message m) = Some m"
proof -
  have tc: "de_opt (de_vec de_tool_call) (map_option (\<lambda>tcs. JArr (map ser_tool_call tcs)) x) = Some x" for x
    by (rule de_opt_read) (simp add: de_vec_map de_tool_call_ser)
  have ti: "de_opt as_str (map_option JStr x) = Some x" for x
    by (rule de_opt_read) simp
  have c: "de_opt Some (om_content m) = Some (om_content m)"
    using assms by (cases "om_content m") auto
  show ?thesis
    using tc [of "om_tool_calls m"] ti [of "om_tool_call_id m"] c
    by (simp add: de_message_def ser_message_def struct_view_jobject map_add_if map_of_opt_field de_req_def
        option.map_id)
qed

lemma ucast_u64_u32:
  fixes n :: u32
  shows "unat (ucast n :: u64) < 2 ^ 32" and "(ucast (ucast n :: u64) :: u32) = n"
proof -
  have "unat n < 2 ^ 32" using unsigned_less [of n, where ?'a = nat] by simp
  then show "unat (ucast n :: u64) < 2 ^ 32"
    by (simp add: unsigned_ucast_eq take_bit_nat_eq_self)
  show "(ucast (ucast n :: u64) :: u32) = n"
    by (rule bit_word_eqI) (simp add: bit_ucast_iff)
qed

lemma de_u32_ser: "de_u32 (json_u32 n) = Some n"
  using ucast_u64_u32 [of n] by (simp add: json_u32_def jnat_def)

lemma de_request_ser:
  assumes "list_all (\<lambda>m. om_content m \<noteq> Some JNull) (or_messages r)"
    and "pred_option f64_finite (or_temperature r)" and "pred_option f64_finite (or_top_p r)"
  shows "de_request F (ser_request r) = Some r"
proof -
  have ms: "de_vec de_message (JArr (map ser_message (or_messages r))) = Some (or_messages r)"
    by (rule de_vec_map) (use assms(1) in \<open>auto simp: list_all_iff intro: de_message_ser\<close>)
  have ts: "de_opt as_arr (map_option JArr x) = Some x" for x by (rule de_opt_read) simp
  have fl: "de_opt (de_f64 F) (map_option json_f64 x) = Some x" if "pred_option f64_finite x" for x
    by (rule de_opt_read) (use that in \<open>simp add: json_f64_def\<close>)
  have u: "de_opt de_u32 (map_option json_u32 x) = Some x" for x
    by (rule de_opt_read) (simp only: de_u32_ser, simp add: json_u32_def jnat_def)
  have st: "de_opt (de_vec as_str) (map_option (\<lambda>ss. JArr (map JStr ss)) x) = Some x" for x
    by (rule de_opt_read) (simp add: de_vec_map)
  have b: "de_opt as_bool (map_option JBool x) = Some x" for x by (rule de_opt_read) simp
  have s: "de_opt as_str (map_option JStr x) = Some x" for x by (rule de_opt_read) simp
  show ?thesis
    using ms ts [of "or_tools r"] fl [OF assms(2)] fl [OF assms(3)] u [of "or_max_tokens r"]
      st [of "or_stop r"] b [of "or_stream r"] s [of "or_model r"]
    by (simp add: de_request_def ser_request_def struct_view_jobject map_add_if map_of_opt_field de_req_def)
qed

end
