(* ===== verification/Json_Codec.thy ===== *)
theory Json_Codec
  imports Json
begin

text \<open>
  A concrete JSON library for the witnesses: a prefix encoding of values with a parser
  that reads it back, so that \<open>serde_roundtrip\<close> has an instance that computes.
\<close>

fun enc_str :: "string \<Rightarrow> string" where
  "enc_str [] = [CHR 0x22]"
| "enc_str (c # cs) =
     (if c = CHR 0x22 \<or> c = CHR 0x5C then CHR 0x5C # c # enc_str cs else c # enc_str cs)"

fun dec_str :: "string \<Rightarrow> (string \<times> string) option" where
  "dec_str (a # r) =
     (if a = CHR 0x22 then Some ([], r)
      else if a = CHR 0x5C then
        (case r of [] \<Rightarrow> None | c # r' \<Rightarrow> map_option (\<lambda>(s, q). (c # s, q)) (dec_str r'))
      else map_option (\<lambda>(s, q). (a # s, q)) (dec_str r))"
| "dec_str [] = None"

definition enc_word :: "u64 \<Rightarrow> string" where
  "enc_word w = map (\<lambda>i. if bit w i then CHR 0x31 else CHR 0x30) [0..<64]"

definition dec_word :: "string \<Rightarrow> u64" where
  "dec_word s = horner_sum of_bool 2 (map (\<lambda>c. c = CHR 0x31) s)"

fun enc_num :: "jnum \<Rightarrow> string" where
  "enc_num (PosInt w) = CHR 0x70 # enc_word w"
| "enc_num (NegInt w) = CHR 0x6D # enc_word w"
| "enc_num (Float w) = CHR 0x64 # enc_word w"

fun enc_json :: "json \<Rightarrow> string" where
  "enc_json JNull = [CHR 0x6E]"
| "enc_json (JBool b) = [if b then CHR 0x74 else CHR 0x66]"
| "enc_json (JNum x) = enc_num x"
| "enc_json (JStr s) = CHR 0x73 # enc_str s"
| "enc_json (JArr xs) = CHR 0x5B # concat (map (\<lambda>x. CHR 0x2C # enc_json x) xs) @ [CHR 0x5D]"
| "enc_json (JObj ob) =
     CHR 0x7B # concat (map (\<lambda>e. CHR 0x2C # enc_str (fst e) @ enc_json (snd e)) ob) @ [CHR 0x7D]"

text \<open>The parser: \<open>n\<close> bounds the nesting and the number of steps.\<close>

fun dec_json :: "nat \<Rightarrow> string \<Rightarrow> (json \<times> string) option"
  and dec_arr :: "nat \<Rightarrow> string \<Rightarrow> (json list \<times> string) option"
  and dec_obj :: "nat \<Rightarrow> string \<Rightarrow> ((string \<times> json) list \<times> string) option" where
  "dec_json 0 s = None"
| "dec_json (Suc n) [] = None"
| "dec_json (Suc n) (c # r) =
     (if c = CHR 0x6E then Some (JNull, r)
      else if c = CHR 0x74 then Some (JBool True, r)
      else if c = CHR 0x66 then Some (JBool False, r)
      else if c = CHR 0x70 then Some (JNum (PosInt (dec_word (take 64 r))), drop 64 r)
      else if c = CHR 0x6D then Some (JNum (NegInt (dec_word (take 64 r))), drop 64 r)
      else if c = CHR 0x64 then Some (JNum (Float (dec_word (take 64 r))), drop 64 r)
      else if c = CHR 0x73 then map_option (map_prod JStr id) (dec_str r)
      else if c = CHR 0x5B then map_option (map_prod JArr id) (dec_arr n r)
      else if c = CHR 0x7B then map_option (map_prod JObj id) (dec_obj n r)
      else None)"
| "dec_arr 0 s = None"
| "dec_arr (Suc n) [] = None"
| "dec_arr (Suc n) (c # r) =
     (if c = CHR 0x2C then
        (case dec_json n r of None \<Rightarrow> None
         | Some (x, q) \<Rightarrow> map_option (map_prod (Cons x) id) (dec_arr n q))
      else Some ([], r))"
| "dec_obj 0 s = None"
| "dec_obj (Suc n) [] = None"
| "dec_obj (Suc n) (c # r) =
     (if c = CHR 0x2C then
        (case dec_str r of None \<Rightarrow> None
         | Some (k, q) \<Rightarrow>
             (case dec_json n q of None \<Rightarrow> None
              | Some (x, q') \<Rightarrow> map_option (map_prod (Cons (k, x)) id) (dec_obj n q')))
      else Some ([], r))"

lemma dec_enc_str [simp]: "dec_str (enc_str s @ r) = Some (s, r)"
  by (induction s) auto

lemma enc_word_length [simp]: "length (enc_word w) = 64"
  by (simp add: enc_word_def)

lemma dec_enc_word [simp]: "dec_word (enc_word w) = w"
proof -
  have "map (\<lambda>c. c = CHR 0x31) (enc_word w) = map (bit w) [0..<64]"
    by (simp add: enc_word_def)
  then have "dec_word (enc_word w) = horner_sum of_bool 2 (map (bit w) [0..<64])"
    by (simp only: dec_word_def)
  then show ?thesis
    using horner_sum_bit_eq_take_bit [of w 64] take_bit_word_eq_self [of 64 w] by simp
qed

lemma dec_enc_num:
  "dec_json (Suc n) (enc_num x @ r) = Some (JNum x, r)"
  by (cases x) auto

text \<open>Steps a value needs, at most the size of its encoding.\<close>

lemma dec_enc_arr:
  assumes "\<And>x n r. x \<in> set xs \<Longrightarrow> length (enc_json x) \<le> n \<Longrightarrow> dec_json n (enc_json x @ r) = Some (x, r)"
    and "length (concat (map (\<lambda>x. CHR 0x2C # enc_json x) xs)) < n"
  shows "dec_arr n (concat (map (\<lambda>x. CHR 0x2C # enc_json x) xs) @ CHR 0x5D # r) = Some (xs, r)"
  using assms
proof (induction xs arbitrary: n)
  case Nil
  then obtain m where "n = Suc m" by (cases n) auto
  then show ?case by simp
next
  case (Cons x xs)
  then obtain m where n: "n = Suc m" by (cases n) auto
  have "dec_json m (enc_json x @ q) = Some (x, q)" for q
    using Cons.prems n by simp
  moreover have "dec_arr m (concat (map (\<lambda>x. CHR 0x2C # enc_json x) xs) @ CHR 0x5D # r) = Some (xs, r)"
    using Cons.prems n by (intro Cons.IH) auto
  ultimately show ?case by (simp add: n)
qed

lemma dec_enc_obj:
  assumes "\<And>e n r. e \<in> set ob \<Longrightarrow> length (enc_json (snd e)) \<le> n \<Longrightarrow>
      dec_json n (enc_json (snd e) @ r) = Some (snd e, r)"
    and "length (concat (map (\<lambda>e. CHR 0x2C # enc_str (fst e) @ enc_json (snd e)) ob)) < n"
  shows "dec_obj n (concat (map (\<lambda>e. CHR 0x2C # enc_str (fst e) @ enc_json (snd e)) ob) @ CHR 0x7D # r)
      = Some (ob, r)"
  using assms
proof (induction ob arbitrary: n)
  case Nil
  then obtain m where "n = Suc m" by (cases n) auto
  then show ?case by simp
next
  case (Cons e ob)
  then obtain m where n: "n = Suc m" by (cases n) auto
  have "dec_json m (enc_json (snd e) @ q) = Some (snd e, q)" for q
    using Cons.prems n by simp
  moreover have "dec_obj m (concat (map (\<lambda>e. CHR 0x2C # enc_str (fst e) @ enc_json (snd e)) ob) @
      CHR 0x7D # r) = Some (ob, r)"
    using Cons.prems n by (intro Cons.IH) auto
  ultimately show ?case by (simp add: n)
qed

lemma dec_enc_json: "length (enc_json v) \<le> n \<Longrightarrow> dec_json n (enc_json v @ r) = Some (v, r)"
proof (induction v arbitrary: n r)
  case (JNum x)
  then obtain m where "n = Suc m" by (cases n; cases x) auto
  then show ?case using dec_enc_num [of m x r] by simp
next
  case (JArr xs)
  then obtain m where n: "n = Suc m" by (cases n) auto
  have "dec_arr m (concat (map (\<lambda>x. CHR 0x2C # enc_json x) xs) @ CHR 0x5D # r) = Some (xs, r)"
    by (rule dec_enc_arr) (use JArr n in auto)
  then show ?case by (simp add: n)
next
  case (JObj ob)
  then obtain m where n: "n = Suc m" by (cases n) auto
  have "dec_obj m (concat (map (\<lambda>e. CHR 0x2C # enc_str (fst e) @ enc_json (snd e)) ob) @ CHR 0x7D # r)
      = Some (ob, r)"
    by (rule dec_enc_obj) (use JObj.IH JObj.prems n in \<open>auto simp: snds.simps\<close>)
  then show ?case by (simp add: n)
qed (case_tac n, auto)+

definition parse_json :: "string \<Rightarrow> json option" where
  "parse_json s = (case dec_json (length s) s of Some (v, []) \<Rightarrow> Some v | _ \<Rightarrow> None)"

definition parse_json_model :: "string \<Rightarrow> string option option" where
  "parse_json_model s = Option.bind (parse_json s) (\<lambda>v.
     case (v, jget v ''model'') of
       (JObj _, None) \<Rightarrow> Some None
     | (JObj _, Some JNull) \<Rightarrow> Some None
     | (JObj _, Some (JStr m)) \<Rightarrow> Some (Some m)
     | _ \<Rightarrow> None)"

definition parse_json_stream :: "string \<Rightarrow> bool option option" where
  "parse_json_stream s = Option.bind (parse_json s) (\<lambda>v.
     case (v, jget v ''stream'') of
       (JObj _, None) \<Rightarrow> Some None
     | (JObj _, Some JNull) \<Rightarrow> Some None
     | (JObj _, Some (JBool b)) \<Rightarrow> Some (Some b)
     | _ \<Rightarrow> None)"

definition sd1 :: serde where
  "sd1 = \<lparr>parse_value = parse_json, parse_model = parse_json_model,
          parse_stream = parse_json_stream, print_value = enc_json\<rparr>"

lemma parse_enc [simp]: "parse_json (enc_json v) = Some v"
  using dec_enc_json [of v "length (enc_json v)" "[]"] by (simp add: parse_json_def)

lemma sd1_simps [simp]:
  "parse_value sd1 = parse_json" "print_value sd1 = enc_json"
  "parse_model sd1 = parse_json_model" "parse_stream sd1 = parse_json_stream"
  by (simp_all add: sd1_def)

declare enc_json.simps [simp del]

lemma sd1_roundtrip: "serde_roundtrip sd1"
  by (simp add: serde_roundtrip_def)

end
