(* ===== verification/Translator_Properties.thy ===== *)
theory Translator_Properties
  imports Translator_Laws Json_Codec Fixtures
begin

text \<open>The properties of provider translation, each with a concrete instance.\<close>

text \<open>C26. OpenAI round trip: a conversation the OpenAI form can express, written by
  \<open>from_universal\<close>, is read back by \<open>to_universal\<close> exactly, system prompt, tools, sampling
  parameters, tool calls with their JSON arguments and tool results included, when the JSON
  library reads back what it prints.\<close>

theorem openai_roundtrip:
  assumes "serde_roundtrip sd" and "canonical_conversation conv"
  shows "\<exists>j. openai_from_universal sd conv = Inr j \<and> openai_to_universal F sd j = Inr conv"
proof -
  let ?req = "\<lparr>or_messages = (case cv_system conv of None \<Rightarrow> []
           | Some sp \<Rightarrow> [\<lparr>om_role = ''system'', om_content = Some (JStr sp),
                          om_tool_calls = None, om_tool_call_id = None\<rparr>])
          @ map (openai_message_of sd) (cv_messages conv),
        or_tools = cv_tools conv, or_temperature = cv_temperature conv, or_top_p = cv_top_p conv,
        or_max_tokens = cv_max_tokens conv, or_stop = cv_stop conv, or_stream = cv_stream conv,
        or_model = cv_model conv\<rparr>"
  have "om_content (openai_message_of sd m) \<noteq> Some JNull" for m
    by (auto simp: openai_message_of_def split: prod.split)
  then have de: "de_request F (ser_request ?req) = Some ?req"
    using assms(2) by (intro de_request_ser)
      (auto simp: canonical_conversation_def list_all_iff split: option.split)
  have ms: "universal_messages sd None (or_messages ?req) = Inr (cv_system conv, cv_messages conv)"
    using messages_read_back [OF assms(1)] assms(2)
    by (auto simp: canonical_conversation_def system_text_def split: option.split)
  show ?thesis
    using de ms by (simp add: openai_from_universal_def openai_to_universal_def)
qed

definition conv_sample :: redeye_conversation where
  "conv_sample = \<lparr>cv_system = Some ''be brief'',
     cv_messages = [\<lparr>rm_role = RUser, rm_content = [CText ''hi'']\<rparr>,
       \<lparr>rm_role = RAssistant, rm_content = [CText ''ok'', CToolCall ''c1'' ''f'' (JArr [JNull])]\<rparr>,
       \<lparr>rm_role = RTool, rm_content = [CToolResult ''c1'' ''42'']\<rparr>],
     cv_tools = Some [JNull], cv_temperature = Some 0, cv_top_p = None, cv_max_tokens = Some 7,
     cv_stop = Some [''x''], cv_stream = Some True, cv_model = Some ''gpt''\<rparr>"

lemma openai_roundtrip_witness:
  "\<exists>j. openai_from_universal sd1 conv_sample = Inr j \<and> openai_to_universal F0 sd1 j = Inr conv_sample"
proof -
  have "canonical_conversation conv_sample"
    by (simp add: canonical_conversation_def conv_sample_def canonical_message_def plain_contents_def
        f64_finite_def)
  from openai_roundtrip [OF sd1_roundtrip this] show ?thesis .
qed

text \<open>Anthropic roles alternate: in the messages sent to an Anthropic provider two neighbours
  never have the same role and every role is user or assistant; system messages are left
  out; the converted messages appear in order, and what is added to them is only the
  \<open><dummy>\<close> filler.\<close>

theorem anthropic_messages_alternate:
  "successively (\<noteq>) (map am_role (anthropic_messages ms)) \<and>
   set (map am_role (anthropic_messages ms)) \<subseteq> {''user'', ''assistant''} \<and>
   subseq (List.map_filter anthropic_convert ms) (anthropic_messages ms) \<and>
   filter (Not \<circ> is_dummy) (anthropic_messages ms) =
     filter (Not \<circ> is_dummy) (List.map_filter anthropic_convert ms)"
proof -
  have "anthropic_roles_ok []" by (simp add: anthropic_roles_ok_def)
  from anthropic_messages_roles [OF this, of ms]
  show ?thesis
    using anthropic_messages_real [of "[]" ms] anthropic_messages_subseq [of "[]" "[]" ms]
    by (simp add: anthropic_roles_ok_def anthropic_messages_def)
qed

text \<open>Anthropic replies in OpenAI form: the rebuilt completion carries the text of the first
  text block, the tool calls of exactly the well-formed \<open>tool_use\<close> blocks with their
  inputs as JSON text, \<open>finish_reason\<close> "tool_calls" exactly when there is such a call, and
  the token total as the 64-bit sum of the usage counters.\<close>

theorem anthropic_unify_shape:
  "\<exists>v. anthropic_unify_response sd raw = Inr v \<and>
     completion_content v = Some (anthropic_text raw) \<and>
     jpointer v [Key ''choices'', Idx0, Key ''message'', Key ''tool_calls''] =
       (case List.map_filter (map_block_to_call sd) (case jget_arr raw ''content'' of None \<Rightarrow> [] | Some bs \<Rightarrow> bs)
        of [] \<Rightarrow> None | c # cs \<Rightarrow> Some (JArr (c # cs))) \<and>
     jpointer v [Key ''choices'', Idx0, Key ''finish_reason''] =
       Some (JStr (if \<exists>b \<in> set (case jget_arr raw ''content'' of None \<Rightarrow> [] | Some bs \<Rightarrow> bs).
                        map_block_to_call sd b \<noteq> None then ''tool_calls'' else ''stop'')) \<and>
     completion_tokens v = Some (u64_or_zero (Option.bind (jget raw ''usage'') (\<lambda>u. jget_u64 u ''input_tokens''))
       + u64_or_zero (Option.bind (jget raw ''usage'') (\<lambda>u. jget_u64 u ''output_tokens'')))"
proof -
  define bs where "bs = (case jget_arr raw ''content'' of None \<Rightarrow> [] | Some bs \<Rightarrow> bs)"
  have some: "List.map_filter (map_block_to_call sd) bs = [] \<longleftrightarrow> (\<forall>b \<in> set bs. map_block_to_call sd b = None)"
    by (auto simp: List.map_filter_def filter_empty_conv)
  have calls: "Option.bind (jget_arr raw ''content'') (map_anthropic_tool_use_to_openai_calls sd) =
      non_empty (List.map_filter (map_block_to_call sd) bs)"
    by (auto simp: bs_def map_anthropic_tool_use_to_openai_calls_def non_empty_def List.map_filter_def
        split: option.split)
  show ?thesis
    unfolding bs_def [symmetric] anthropic_unify_response_def Let_def calls
    using some
    by (cases "List.map_filter (map_block_to_call sd) bs")
      (auto simp: non_empty_def jget_str_def jget_jset openai_completion_def first_of_def
        completion_content_def completion_tokens_def jpointer_str_def jget_u64_def jnat_def)
qed

end
