(* ===== verification/Ttl_Cache.thy ===== *)
theory Ttl_Cache
  imports Prelude
begin

text \<open>
  The in-process caches of the gateway (\<open>moka::future::Cache\<close> with a time to live: the
  circuit breaker, the exact cache) are third-party code. The operations are arguments of
  the definitions that use them; \<open>ttl_cache\<close> is the documented behaviour below the
  cache's capacity, and \<open>dl_get\<close>, \<open>dl_ins\<close> a map with deadlines that has it. Times are
  milliseconds.
\<close>

locale ttl_cache =
  fixes get :: "'c \<Rightarrow> nat \<Rightarrow> string \<Rightarrow> 'v option"
    and ins :: "'c \<Rightarrow> nat \<Rightarrow> string \<Rightarrow> 'v \<Rightarrow> 'c"
    and ttl :: nat
  assumes get_ins: "t \<le> t' \<Longrightarrow> get (ins c t k v) t' j =
      (if j = k then (if t' < t + ttl then Some v else None) else get c t' j)"
    and expired: "get c t k = None \<Longrightarrow> t \<le> t' \<Longrightarrow> get c t' k = None"
begin

definition ins_all :: "(nat \<times> string) list \<Rightarrow> 'v \<Rightarrow> 'c \<Rightarrow> 'c" where
  "ins_all ts v c = foldl (\<lambda>c e. ins c (fst e) (snd e) v) c ts"

lemma ins_all_simps [simp]:
  "ins_all [] v c = c"
  "ins_all (e # ts) v c = ins_all ts v (ins c (fst e) (snd e) v)"
  "ins_all (ts @ [e]) v c = ins (ins_all ts v c) (fst e) (snd e) v"
  by (simp_all add: ins_all_def)

lemma kept: "t \<le> t' \<Longrightarrow> t' < t + ttl \<Longrightarrow> get (ins c t k v) t' k = Some v"
  by (simp add: get_ins)

text \<open>A batch of insertions: a key is live exactly while its last insertion is.\<close>

lemma get_ins_all_other:
  "\<forall>e \<in> set ts. fst e \<le> t' \<Longrightarrow> j \<notin> snd ` set ts \<Longrightarrow> get (ins_all ts v c) t' j = get c t' j"
  by (induction ts arbitrary: c) (auto simp: get_ins)

lemma get_ins_all_live:
  "\<forall>e \<in> set ts. fst e \<le> t' \<Longrightarrow> (t, j) \<in> set ts \<Longrightarrow> t' < t + ttl \<Longrightarrow>
   sorted (map fst ts) \<Longrightarrow> get (ins_all ts v c) t' j = Some v"
proof (induction ts rule: rev_induct)
  case (snoc e ts)
  have sorted: "sorted (map fst ts)" and last: "\<forall>x \<in> set ts. fst x \<le> fst e"
    using snoc.prems(4) by (auto simp: sorted_append)
  show ?case
  proof (cases "j = snd e")
    case True
    have "t \<le> fst e" using snoc.prems(2) last by auto
    with True snoc.prems show ?thesis by (simp add: get_ins)
  next
    case False
    then have "(t, j) \<in> set ts" using snoc.prems(2) by auto
    with False snoc sorted show ?thesis by (simp add: get_ins)
  qed
qed simp

lemma get_ins_all_gone:
  "\<forall>e \<in> set ts. fst e \<le> t' \<Longrightarrow> \<forall>e \<in> set ts. snd e = j \<longrightarrow> fst e + ttl \<le> t' \<Longrightarrow>
   get c t' j = None \<Longrightarrow> get (ins_all ts v c) t' j = None"
  by (induction ts arbitrary: c) (auto simp: get_ins)

end

section \<open>A map with deadlines\<close>

type_synonym 'v deadlines = "string \<Rightarrow> ('v \<times> nat) option"

definition dl_get :: "'v deadlines \<Rightarrow> nat \<Rightarrow> string \<Rightarrow> 'v option" where
  "dl_get c t k = (case c k of None \<Rightarrow> None | Some (v, d) \<Rightarrow> if t < d then Some v else None)"

definition dl_ins :: "nat \<Rightarrow> 'v deadlines \<Rightarrow> nat \<Rightarrow> string \<Rightarrow> 'v \<Rightarrow> 'v deadlines" where
  "dl_ins ttl c t k v = c(k \<mapsto> (v, t + ttl))"

interpretation dl: ttl_cache dl_get "dl_ins ttl" ttl
  by unfold_locales (auto simp: dl_get_def dl_ins_def split: option.splits if_splits)

end
