(* ===== verification/Router.thy ===== *)
theory Router
  imports Translator_Laws Ttl_Cache
begin

text \<open>
  The multi-provider router (\<open>infrastructure/llm_router.rs\<close>): choice of keys by priority and
  circuit breaker, construction of the upstream request, and the fallback loop; the
  routing strategy header and the routing-map subscriber.

  A request that is sent is answered by \<open>net\<close>: the attempt's number and the request give
  the outcome and the time at which it is there. \<open>lc\<close> is \<open>str::to_lowercase\<close>.
\<close>

section \<open>HTTP exchanges\<close>

datatype chunk = Chunk string | ChunkErr bool

record http_response =
  hr_status :: nat
  hr_headers :: headers
  hr_body :: "chunk list"

datatype http_result = HOk http_response | HErr bool

record upstream_req =
  ur_url :: string
  ur_headers :: headers
  ur_body :: string

type_synonym net = "nat \<Rightarrow> upstream_req \<Rightarrow> http_result \<times> nat"

text \<open>\<open>response.bytes()\<close>: the chunks together, or the transport error.\<close>

fun body_bytes :: "chunk list \<Rightarrow> bool + string" where
  "body_bytes [] = Inr []"
| "body_bytes (Chunk b # cs) = res_bind (body_bytes cs) (\<lambda>r. Inr (b @ r))"
| "body_bytes (ChunkErr e # cs) = Inl e"

section \<open>Providers\<close>

datatype auth_scheme = Bearer | XApiKey | GoogleApiKey
datatype schema_format = OpenAI | Anthropic | Gemini

record provider_config =
  pc_id :: string
  pc_base_url :: string
  pc_auth :: auth_scheme
  pc_schema :: schema_format

definition get_provider_config :: "(string \<Rightarrow> string) \<Rightarrow> string \<Rightarrow> provider_config" where
  "get_provider_config lc name =
     (let p = lc name;
          sa = (if contains_str p ''anthropic'' then (Anthropic, XApiKey)
                else if contains_str p ''gemini'' then (Gemini, GoogleApiKey)
                else (OpenAI, Bearer))
      in \<lparr>pc_id = p, pc_base_url = [], pc_auth = snd sa, pc_schema = fst sa\<rparr>)"

fun translator_from :: "serde \<Rightarrow> schema_format \<Rightarrow> redeye_conversation \<Rightarrow> app_error + json" where
  "translator_from sd OpenAI c = openai_from_universal sd c"
| "translator_from sd Anthropic c = anthropic_from_universal c"
| "translator_from sd Gemini c = gemini_from_universal c"

fun translator_unify :: "serde \<Rightarrow> schema_format \<Rightarrow> json \<Rightarrow> app_error + json" where
  "translator_unify sd OpenAI v = openai_unify_response v"
| "translator_unify sd Anthropic v = anthropic_unify_response sd v"
| "translator_unify sd Gemini v = gemini_unify_response v"

fun translator_chunk :: "serde \<Rightarrow> schema_format \<Rightarrow> string \<Rightarrow> app_error + string" where
  "translator_chunk sd OpenAI s = openai_unify_chunk s"
| "translator_chunk sd Anthropic s = anthropic_unify_chunk sd s"
| "translator_chunk sd Gemini s = gemini_unify_chunk s"

definition is_retryable_error :: "nat \<Rightarrow> bool" where
  "is_retryable_error st \<longleftrightarrow> st \<in> {429, 500, 502, 503, 504}"

datatype routing_strategy = Default | LeastLatency | CostOptimized

definition strategy_from_header :: "string option \<Rightarrow> routing_strategy" where
  "strategy_from_header v =
     (if v = Some ''least_latency'' then LeastLatency
      else if v = Some ''cost_optimized'' then CostOptimized else Default)"

section \<open>Building a request\<close>

definition provider_endpoint ::
  "serde \<Rightarrow> provider_config \<Rightarrow> string \<Rightarrow> string \<Rightarrow> string \<Rightarrow> gateway_error + string" where
  "provider_endpoint sd pc base model body =
     (case pc_schema pc of
        Anthropic \<Rightarrow> Inr (base @ ''/messages'')
      | Gemini \<Rightarrow>
          (case parse_stream sd body of
             None \<Rightarrow> Inl (ResponseBuild ''Invalid JSON body for stream check: '')
           | Some st \<Rightarrow> Inr (base @ ''/'' @ model @
               (if st = Some True then '':streamGenerateContent'' else '':generateContent'')))
      | OpenAI \<Rightarrow> Inr (base @ ''/chat/completions''))"

definition auth_headers :: "provider_config \<Rightarrow> key_config \<Rightarrow> headers" where
  "auth_headers pc key =
     (case pc_auth pc of
        Bearer \<Rightarrow> [(''authorization'', ''Bearer '' @ kc_api_key key)]
      | GoogleApiKey \<Rightarrow> [(''x-goog-api-key'', kc_api_key key)]
      | XApiKey \<Rightarrow>
          (if pc_schema pc = Anthropic
           then [(''x-api-key'', kc_api_key key), (''anthropic-version'', ''2023-06-01'')]
           else [(''x-api-key'', kc_api_key key)]))"

definition provider_body ::
  "f64_ops \<Rightarrow> serde \<Rightarrow> provider_config \<Rightarrow> string \<Rightarrow> string \<Rightarrow> gateway_error + string" where
  "provider_body F sd pc model body =
     (if pc_schema pc = OpenAI then Inr body
      else res_bind (ok_or (parse_value sd body) (ResponseBuild ''Invalid JSON for translation: '')) (\<lambda>v.
        case openai_to_universal F sd v of
          Inl e \<Rightarrow> Inl (ResponseBuild (''Incoming translation failed: Translation error: '' @ e))
        | Inr conv \<Rightarrow>
            (case translator_from sd (pc_schema pc) (conv\<lparr>cv_model := Some model\<rparr>) of
               Inl e \<Rightarrow> Inl (ResponseBuild (''Translation error: Translation error: '' @ e))
             | Inr j \<Rightarrow> Inr (print_value sd j))))"

definition build_provider_request ::
  "f64_ops \<Rightarrow> serde \<Rightarrow> provider_config \<Rightarrow> string \<Rightarrow> key_config \<Rightarrow> string \<Rightarrow> string \<Rightarrow> string \<Rightarrow>
   gateway_error + upstream_req" where
  "build_provider_request F sd pc base key model body accept =
     res_bind (provider_endpoint sd pc base model body) (\<lambda>url.
     res_bind (provider_body F sd pc model body) (\<lambda>b.
     Inr \<lparr>ur_url = url,
          ur_headers = [(''content-type'', ''application/json''), (''accept'', accept)] @ auth_headers pc key,
          ur_body = b\<rparr>))"

section \<open>Preparation\<close>

record prepared =
  pr_request :: upstream_req
  pr_alias :: string
  pr_fallbacks :: "key_config list"
  pr_config :: provider_config
  pr_base_url :: string
  pr_model :: string
  pr_requested :: string
  pr_executed :: string
  pr_hot_swapped :: nat
  pr_accept :: string

text \<open>The breaker lookups are made one after another at the times \<open>tb\<close> gives them.\<close>

definition healthy_keys ::
  "('c \<Rightarrow> nat \<Rightarrow> string \<Rightarrow> unit option) \<Rightarrow> (nat \<Rightarrow> nat) \<Rightarrow> 'c \<Rightarrow> key_config list \<Rightarrow> key_config list" where
  "healthy_keys cget tb cb keys =
     map snd (filter (\<lambda>p. cget cb (tb (fst p)) (key_alias (snd p)) = None)
       (enumerate 0 (sort_key kc_priority keys)))"

definition prep_upstream_request ::
  "f64_ops \<Rightarrow> serde \<Rightarrow> (string \<Rightarrow> string) \<Rightarrow> ('c \<Rightarrow> nat \<Rightarrow> string \<Rightarrow> unit option) \<Rightarrow> (nat \<Rightarrow> nat) \<Rightarrow>
   routing_map \<Rightarrow> string \<Rightarrow> string \<Rightarrow> 'c \<Rightarrow> gateway_error + prepared" where
  "prep_upstream_request F sd lc cget tb routes body accept cb =
     res_bind (ok_or (parse_model sd body) (ResponseBuild ''Invalid JSON request: '')) (\<lambda>m.
     res_bind (ok_or m (ResponseBuild (''Missing '' @ [CHR 0x27] @ ''model'' @ [CHR 0x27] @
       '' field in JSON request''))) (\<lambda>model.
     res_bind (ok_or (routes model) ModelNotConfigured) (\<lambda>mc.
     if mc_keys mc = [] then Inl NoActiveKeys
     else
       let healthy = healthy_keys cget tb cb (mc_keys mc);
           pc = get_provider_config lc (mc_schema_format mc)
       in case healthy of
            [] \<Rightarrow> Inl NoActiveKeys
          | key # rest \<Rightarrow>
              res_bind (build_provider_request F sd pc (mc_base_url mc) key model body accept) (\<lambda>req.
              Inr \<lparr>pr_request = req, pr_alias = key_alias key, pr_fallbacks = rest, pr_config = pc,
                   pr_base_url = mc_base_url mc, pr_model = model, pr_requested = pc_id pc,
                   pr_executed = pc_id pc, pr_hot_swapped = 0, pr_accept = accept\<rparr>))))"

section \<open>Execution\<close>

text \<open>
  The loop over the fallback keys: the breaker, the number of the next attempt and the
  error so far; with the result come the breaker and the requests sent, in order.
\<close>

definition attempt_ok :: "http_result \<Rightarrow> bool" where
  "attempt_ok r = (case r of HOk resp \<Rightarrow> \<not> is_retryable_error (hr_status resp) | HErr _ \<Rightarrow> False)"

definition attempt_error :: "http_result \<Rightarrow> gateway_error" where
  "attempt_error r = (case r of HOk resp \<Rightarrow> ResponseBuild (''Provider returned '' @ show_nat (hr_status resp))
     | HErr timeout \<Rightarrow> UpstreamUnreachable timeout)"

fun fallback_loop ::
  "f64_ops \<Rightarrow> serde \<Rightarrow> ('c \<Rightarrow> nat \<Rightarrow> string \<Rightarrow> unit \<Rightarrow> 'c) \<Rightarrow> net \<Rightarrow> prepared \<Rightarrow> string \<Rightarrow>
   key_config list \<Rightarrow> nat \<Rightarrow> gateway_error \<Rightarrow> 'c \<Rightarrow>
   (gateway_error + http_response) \<times> 'c \<times> upstream_req list" where
  "fallback_loop F sd cins net prep body [] i err cb = (Inl err, cb, [])"
| "fallback_loop F sd cins net prep body (key # keys) i err cb =
     (case build_provider_request F sd (pr_config prep) (pr_base_url prep) key (pr_model prep) body
             (pr_accept prep) of
        Inl e \<Rightarrow> (Inl e, cb, [])
      | Inr req \<Rightarrow>
          (case net i req of (r, t) \<Rightarrow>
             (case r of HOk resp \<Rightarrow>
                if \<not> is_retryable_error (hr_status resp) then (Inr resp, cb, [req])
                else (let q = fallback_loop F sd cins net prep body keys (Suc i) (attempt_error r)
                            (cins cb t (key_alias key) ())
                      in (fst q, fst (snd q), req # snd (snd q)))
              | HErr e \<Rightarrow>
                  (let q = fallback_loop F sd cins net prep body keys (Suc i) (attempt_error r)
                            (cins cb t (key_alias key) ())
                   in (fst q, fst (snd q), req # snd (snd q))))))"

definition execute_upstream_request ::
  "f64_ops \<Rightarrow> serde \<Rightarrow> ('c \<Rightarrow> nat \<Rightarrow> string \<Rightarrow> unit \<Rightarrow> 'c) \<Rightarrow> net \<Rightarrow> prepared \<Rightarrow> string \<Rightarrow> 'c \<Rightarrow>
   (gateway_error + http_response) \<times> 'c \<times> upstream_req list" where
  "execute_upstream_request F sd cins net prep body cb =
     (case net 0 (pr_request prep) of (r, t) \<Rightarrow>
        (case r of
           HOk resp \<Rightarrow>
             if \<not> is_retryable_error (hr_status resp) then (Inr resp, cb, [pr_request prep])
             else (let q = fallback_loop F sd cins net prep body (pr_fallbacks prep) 1
                         (ResponseBuild ''Primary provider failed'') (cins cb t (pr_alias prep) ())
                   in (fst q, fst (snd q), pr_request prep # snd (snd q)))
         | HErr e \<Rightarrow>
             (let q = fallback_loop F sd cins net prep body (pr_fallbacks prep) 1
                    (ResponseBuild ''Primary provider failed'') (cins cb t (pr_alias prep) ())
              in (fst q, fst (snd q), pr_request prep # snd (snd q)))))"

definition route_chat_completion ::
  "f64_ops \<Rightarrow> serde \<Rightarrow> (string \<Rightarrow> string) \<Rightarrow> ('c \<Rightarrow> nat \<Rightarrow> string \<Rightarrow> unit option) \<Rightarrow>
   ('c \<Rightarrow> nat \<Rightarrow> string \<Rightarrow> unit \<Rightarrow> 'c) \<Rightarrow> (nat \<Rightarrow> nat) \<Rightarrow> net \<Rightarrow> routing_map \<Rightarrow> string \<Rightarrow> string \<Rightarrow> 'c \<Rightarrow>
   (gateway_error + http_response) \<times> 'c \<times> upstream_req list" where
  "route_chat_completion F sd lc cget cins tb net routes body accept cb =
     (case prep_upstream_request F sd lc cget tb routes body accept cb of
        Inl e \<Rightarrow> (Inl e, cb, [])
      | Inr prep \<Rightarrow> execute_upstream_request F sd cins net prep body cb)"

section \<open>The routing-map subscriber\<close>

definition de_i32 :: "json \<Rightarrow> int option" where
  "de_i32 v = (case v of
       JNum (PosInt n) \<Rightarrow> if uint n < 2 ^ 31 then Some (uint n) else None
     | JNum (NegInt n) \<Rightarrow> if - (2 ^ 31) \<le> sint n then Some (sint n) else None
     | _ \<Rightarrow> None)"

definition de_key_config :: "json \<Rightarrow> key_config option" where
  "de_key_config v =
     Option.bind (struct_view [''key_alias'', ''api_key'', ''priority'', ''weight''] v) (\<lambda>g.
     Option.bind (de_req as_str (g ''key_alias'')) (\<lambda>a.
     Option.bind (de_req as_str (g ''api_key'')) (\<lambda>k.
     Option.bind (de_req de_i32 (g ''priority'')) (\<lambda>p.
     Option.bind (de_req de_i32 (g ''weight'')) (\<lambda>w.
     Some \<lparr>key_alias = a, kc_api_key = k, kc_priority = p, kc_weight = w\<rparr>)))))"

definition de_model_config :: "json \<Rightarrow> model_config option" where
  "de_model_config v =
     Option.bind (struct_view [''base_url'', ''schema_format'', ''keys''] v) (\<lambda>g.
     Option.bind (de_req as_str (g ''base_url'')) (\<lambda>b.
     Option.bind (de_req as_str (g ''schema_format'')) (\<lambda>s.
     Option.bind (de_req (de_vec de_key_config) (g ''keys'')) (\<lambda>ks.
     Some \<lparr>mc_base_url = b, mc_schema_format = s, mc_keys = ks\<rparr>))))"

definition de_routing_map :: "json \<Rightarrow> routing_map option" where
  "de_routing_map v =
     Option.bind (as_obj v) (\<lambda>ob.
     map_option (\<lambda>cs. map_of (zip (map fst ob) cs)) (opt_all (map (de_model_config \<circ> snd) ob)))"

text \<open>One message of the channel; a payload that is no text or no map leaves the state.\<close>

definition routing_update :: "serde \<Rightarrow> string option \<Rightarrow> routing_map \<Rightarrow> routing_map" where
  "routing_update sd payload rs =
     (case Option.bind payload (\<lambda>p. Option.bind (parse_value sd p) de_routing_map) of
        None \<Rightarrow> rs | Some m \<Rightarrow> m)"

text \<open>The task: it returns at once when it cannot connect or subscribe.\<close>

definition config_subscriber ::
  "serde \<Rightarrow> bool \<Rightarrow> bool \<Rightarrow> string option list \<Rightarrow> routing_map \<Rightarrow> routing_map" where
  "config_subscriber sd connected subscribed msgs rs =
     (if connected \<and> subscribed then fold (routing_update sd) msgs rs else rs)"

end
