(* ===== verification/Router_Laws.thy ===== *)
theory Router_Laws
  imports Router
begin

text \<open>
  The router against a reference: keys tried in order until one attempt is not retryable,
  every failed attempt tripping its key's breaker.
\<close>

section \<open>Building does not depend on the key\<close>

lemma build_other_key:
  "build_provider_request F sd pc base key model body accept = Inr req \<Longrightarrow>
   \<exists>req'. build_provider_request F sd pc base key' model body accept = Inr req' \<and>
     ur_url req' = ur_url req \<and> ur_body req' = ur_body req"
  by (auto simp: build_provider_request_def res_bind_eq_Inr)

lemma build_shape:
  assumes "build_provider_request F sd pc base key model body accept = Inr req"
  shows "starts_with (ur_url req) base" and "drop 2 (ur_headers req) = auth_headers pc key"
  using assms
  by (auto simp: build_provider_request_def res_bind_eq_Inr provider_endpoint_def starts_with_iff
      split: schema_format.splits option.splits)

context translator
begin

text \<open>Translation is the only fallible step after parsing, and it does not fail.\<close>

lemma translated: "\<exists>ob. from_u (conv\<lparr>cv_model := Some model\<rparr>) = Inr (JObj ob)"
  by (rule from_total)

end

lemma translator_from_object: "\<exists>ob. translator_from sd sf conv = Inr (JObj ob)"
  by (cases sf)
    (simp_all add: openai_tr.from_total anthropic_tr.from_total gemini_tr.from_total)

lemma provider_body_ok:
  "parse_value sd body = Some v \<Longrightarrow> openai_to_universal F sd v = Inr conv \<Longrightarrow>
   \<exists>b. provider_body F sd pc model body = Inr b"
  using translator_from_object [of sd "pc_schema pc" "conv\<lparr>cv_model := Some model\<rparr>"]
  by (auto simp: provider_body_def)

section \<open>The reference loop\<close>

text \<open>Outcome, breaker insertions with their times, and requests sent.\<close>

fun failover ::
  "net \<Rightarrow> nat \<Rightarrow> (string \<times> upstream_req) list \<Rightarrow> gateway_error \<Rightarrow>
   (gateway_error + http_response) \<times> (nat \<times> string) list \<times> upstream_req list" where
  "failover net i [] err = (Inl err, [], [])"
| "failover net i (aq # xs) err =
     (let rt = net i (snd aq) in
      if attempt_ok (fst rt) then
        (case fst rt of HOk resp \<Rightarrow> (Inr resp, [], [snd aq]) | HErr e \<Rightarrow> (Inl err, [], [snd aq]))
      else (let f = failover net (Suc i) xs (attempt_error (fst rt))
            in (fst f, (snd rt, fst aq) # fst (snd f), snd aq # snd (snd f))))"

definition key_request ::
  "f64_ops \<Rightarrow> serde \<Rightarrow> prepared \<Rightarrow> string \<Rightarrow> key_config \<Rightarrow> string \<times> upstream_req" where
  "key_request F sd p body key = (key_alias key,
     projr (build_provider_request F sd (pr_config p) (pr_base_url p) key (pr_model p) body (pr_accept p)))"

definition key_requests :: "f64_ops \<Rightarrow> serde \<Rightarrow> prepared \<Rightarrow> string \<Rightarrow> (string \<times> upstream_req) list" where
  "key_requests F sd p body =
     (pr_alias p, pr_request p) # map (key_request F sd p body) (pr_fallbacks p)"

definition trip_all ::
  "('c \<Rightarrow> nat \<Rightarrow> string \<Rightarrow> unit \<Rightarrow> 'c) \<Rightarrow> (nat \<times> string) list \<Rightarrow> 'c \<Rightarrow> 'c" where
  "trip_all cins ts c = foldl (\<lambda>c e. cins c (fst e) (snd e) ()) c ts"

lemma fallback_loop_failover:
  assumes "\<forall>key \<in> set keys. \<exists>req. build_provider_request F sd (pr_config p) (pr_base_url p) key
      (pr_model p) body (pr_accept p) = Inr req"
  shows "fallback_loop F sd cins net p body keys i err cb =
    (let f = failover net i (map (key_request F sd p body) keys) err
     in (fst f, trip_all cins (fst (snd f)) cb, snd (snd f)))"
  using assms
proof (induction keys arbitrary: i err cb)
  case Nil
  show ?case by (simp add: trip_all_def)
next
  case (Cons key keys)
  then obtain req where req: "build_provider_request F sd (pr_config p) (pr_base_url p) key
      (pr_model p) body (pr_accept p) = Inr req"
    by auto
  have IH: "fallback_loop F sd cins net p body keys (Suc i) e c =
    (let f = failover net (Suc i) (map (key_request F sd p body) keys) e
     in (fst f, trip_all cins (fst (snd f)) c, snd (snd f)))" for e c
    using Cons by simp
  have kr: "key_request F sd p body key = (key_alias key, req)"
    by (simp add: key_request_def req)
  show ?case
    by (cases "net i req")
      (auto simp: req kr IH attempt_ok_def attempt_error_def trip_all_def Let_def
        split: http_result.split)
qed

lemma execute_failover:
  assumes "\<forall>key \<in> set (pr_fallbacks p). \<exists>req. build_provider_request F sd (pr_config p) (pr_base_url p)
      key (pr_model p) body (pr_accept p) = Inr req"
  shows "execute_upstream_request F sd cins net p body cb =
    (let rt = net 0 (pr_request p) in
     if attempt_ok (fst rt) then (case fst rt of HOk resp \<Rightarrow> Inr resp | HErr e \<Rightarrow> Inl NoActiveKeys, cb, [pr_request p])
     else let f = failover net 1 (map (key_request F sd p body) (pr_fallbacks p))
                (ResponseBuild ''Primary provider failed'')
          in (fst f, trip_all cins ((snd rt, pr_alias p) # fst (snd f)) cb, pr_request p # snd (snd f)))"
  by (cases "net 0 (pr_request p)")
    (auto simp: fallback_loop_failover [OF assms] execute_upstream_request_def attempt_ok_def trip_all_def Let_def split: http_result.split)

text \<open>What the reference loop does, by position of the first attempt that is not retryable.\<close>

definition first_ok :: "net \<Rightarrow> nat \<Rightarrow> (string \<times> upstream_req) list \<Rightarrow> nat" where
  "first_ok net i xs = length (takeWhile (\<lambda>p. \<not> attempt_ok (fst (net (fst p) (snd (snd p))))) (enumerate i xs))"

lemma first_ok_simps [simp]:
  "first_ok net i [] = 0"
  "first_ok net i (aq # xs) = (if attempt_ok (fst (net i (snd aq))) then 0 else Suc (first_ok net (Suc i) xs))"
  by (simp_all add: first_ok_def)

lemma failover_sent: "snd (snd (failover net i xs err)) = map snd (take (Suc (first_ok net i xs)) xs)"
  by (induction net i xs err rule: failover.induct)
    (auto simp: Let_def attempt_ok_def split: http_result.split)

lemma failover_trips:
  "fst (snd (failover net i xs err)) =
   map (\<lambda>p. (snd (net (fst p) (snd (snd p))), fst (snd p))) (take (first_ok net i xs) (enumerate i xs))"
  by (induction net i xs err rule: failover.induct)
    (auto simp: Let_def attempt_ok_def split: http_result.split)

lemma failover_result:
  "first_ok net i xs < length xs \<Longrightarrow>
   \<exists>resp. fst (net (i + first_ok net i xs) (snd (xs ! first_ok net i xs))) = HOk resp \<and>
     \<not> is_retryable_error (hr_status resp) \<and> fst (failover net i xs err) = Inr resp"
  by (induction net i xs err rule: failover.induct)
    (auto simp: Let_def attempt_ok_def split: http_result.splits)

lemma failover_exhausted:
  "first_ok net i xs = length xs \<Longrightarrow> \<exists>e. fst (failover net i xs err) = Inl e"
  by (induction net i xs err rule: failover.induct) (auto simp: Let_def split: if_splits)

lemma first_ok_le: "first_ok net i xs \<le> length xs"
  by (induction xs arbitrary: i) auto

lemma first_ok_before: "j < first_ok net i xs \<Longrightarrow> \<not> attempt_ok (fst (net (i + j) (snd (xs ! j))))"
proof (induction xs arbitrary: i j)
  case (Cons aq xs)
  then show ?case
    by (cases j) (auto split: if_splits dest: Cons.IH [of _ "Suc i"])
qed simp

section \<open>Preparation\<close>

lemma prep_Inr:
  assumes "prep_upstream_request F sd lc cget tb routes body accept cb = Inr p"
  obtains mc key where "parse_model sd body = Some (Some (pr_model p))" "routes (pr_model p) = Some mc"
    "healthy_keys cget tb cb (mc_keys mc) = key # pr_fallbacks p" "pr_alias p = key_alias key"
    "pr_base_url p = mc_base_url mc" "pr_config p = get_provider_config lc (mc_schema_format mc)"
    "pr_accept p = accept"
    "build_provider_request F sd (pr_config p) (pr_base_url p) key (pr_model p) body accept = Inr (pr_request p)"
  using assms
  by (auto simp: prep_upstream_request_def res_bind_eq_Inr ok_or_eq_Inr Let_def split: if_splits list.splits)

lemma prep_builds:
  assumes "prep_upstream_request F sd lc cget tb routes body accept cb = Inr p"
  shows "\<exists>req. build_provider_request F sd (pr_config p) (pr_base_url p) key (pr_model p) body
    (pr_accept p) = Inr req"
  using assms by (elim prep_Inr) (metis build_other_key)

lemma healthy_keys_subset: "set (healthy_keys cget tb cb keys) \<subseteq> set keys"
proof -
  have "set (map snd (filter P (enumerate n xs))) \<subseteq> set xs" for P n and xs :: "key_config list"
    by (induction xs arbitrary: n) auto
  from this [of _ 0 "sort_key kc_priority keys"] show ?thesis
    by (simp add: healthy_keys_def)
qed

lemma map_snd_filter_enumerate:
  "(\<forall>i k. Q i k = Q' k) \<Longrightarrow> map snd (filter (\<lambda>p. Q (fst p) (snd p)) (enumerate n xs)) = filter Q' xs"
  by (induction xs arbitrary: n) auto

lemma sorted_healthy: "sorted (map kc_priority (healthy_keys cget tb cb keys))"
proof -
  have "sorted (map kc_priority (map snd (filter P (enumerate n xs))))"
    if "sorted (map kc_priority xs)" for P n and xs :: "key_config list"
    using that
  proof (induction xs arbitrary: n)
    case (Cons x xs)
    then have "\<forall>y \<in> set (map snd (filter P (enumerate (Suc n) xs))). kc_priority x \<le> kc_priority y"
      by (auto dest!: in_set_enumerate_eq [THEN iffD1])
    with Cons show ?case by auto
  qed simp
  then show ?thesis by (simp add: healthy_keys_def del: map_map)
qed

section \<open>Breaker and selection together\<close>

context ttl_cache
begin

lemma trip_all_ins_all: "trip_all (\<lambda>c t k u. ins c t k v) ts c = ins_all ts v c"
  by (simp add: trip_all_def ins_all_def)

end

lemma trip_all_is_ins_all:
  assumes "ttl_cache cget cins ttl"
  shows "trip_all cins ts c = ttl_cache.ins_all cins ts () c"
  by (simp add: trip_all_def ttl_cache.ins_all_def [OF assms])

lemma healthy_open_excluded:
  "(\<forall>i. cget cb (tb i) a \<noteq> None) \<Longrightarrow> key \<in> set (healthy_keys cget tb cb keys) \<Longrightarrow> key_alias key \<noteq> a"
  by (auto simp: healthy_keys_def)

lemma execute_reference:
  assumes "prep_upstream_request F sd lc cget tb routes body accept cb0 = Inr p"
  defines "xs \<equiv> key_requests F sd p body"
  shows "snd (snd (execute_upstream_request F sd cins net p body cb)) =
           map snd (take (Suc (first_ok net 0 xs)) xs)"
    and "fst (snd (execute_upstream_request F sd cins net p body cb)) =
           trip_all cins (map (\<lambda>q. (snd (net (fst q) (snd (snd q))), fst (snd q)))
             (take (first_ok net 0 xs) (enumerate 0 xs))) cb"
    and "first_ok net 0 xs < length xs \<Longrightarrow>
           \<exists>resp. fst (execute_upstream_request F sd cins net p body cb) = Inr resp \<and>
             fst (net (first_ok net 0 xs) (snd (xs ! first_ok net 0 xs))) = HOk resp \<and>
             \<not> is_retryable_error (hr_status resp)"
    and "first_ok net 0 xs = length xs \<Longrightarrow>
           \<exists>e. fst (execute_upstream_request F sd cins net p body cb) = Inl e"
proof -
  have b: "\<forall>key \<in> set (pr_fallbacks p). \<exists>req. build_provider_request F sd (pr_config p) (pr_base_url p)
      key (pr_model p) body (pr_accept p) = Inr req"
    using prep_builds [OF assms(1)] build_other_key by blast
  note ex = execute_failover [OF b, of cins net cb]
  let ?ys = "map (key_request F sd p body) (pr_fallbacks p)"
  have xs: "xs = (pr_alias p, pr_request p) # ?ys" by (simp add: xs_def key_requests_def)
  show "snd (snd (execute_upstream_request F sd cins net p body cb)) =
      map snd (take (Suc (first_ok net 0 xs)) xs)"
    by (simp add: ex xs Let_def failover_sent)
  show "fst (snd (execute_upstream_request F sd cins net p body cb)) =
      trip_all cins (map (\<lambda>q. (snd (net (fst q) (snd (snd q))), fst (snd q)))
        (take (first_ok net 0 xs) (enumerate 0 xs))) cb"
    by (simp add: ex xs Let_def failover_trips trip_all_def)
  show "\<exists>resp. fst (execute_upstream_request F sd cins net p body cb) = Inr resp \<and>
      fst (net (first_ok net 0 xs) (snd (xs ! first_ok net 0 xs))) = HOk resp \<and>
      \<not> is_retryable_error (hr_status resp)" if "first_ok net 0 xs < length xs"
  proof (cases "attempt_ok (fst (net 0 (pr_request p)))")
    case True
    then show ?thesis by (auto simp: ex xs attempt_ok_def split: http_result.splits)
  next
    case False
    with that failover_result [of net 1 ?ys "ResponseBuild ''Primary provider failed''"]
    show ?thesis by (auto simp: ex xs Let_def)
  qed
  show "\<exists>e. fst (execute_upstream_request F sd cins net p body cb) = Inl e"
    if "first_ok net 0 xs = length xs"
    using that failover_exhausted [of net 1 ?ys "ResponseBuild ''Primary provider failed''"]
    by (auto simp: ex xs Let_def split: if_splits)
qed

end
