(* ===== verification/Router_Properties.thy ===== *)
theory Router_Properties
  imports Router_Laws Json_Codec Fixtures
begin

text \<open>The properties of the router, each with a concrete instance.\<close>

text \<open>C6. Fail-over: the prepared keys are tried strictly in order, one request each, up to the
  first reply that is not retryable; that reply is returned, and every key tried before it, and
  no other, has its breaker tripped. When every attempt fails the result is an error.\<close>

theorem router_failover:
  fixes body :: string and net :: net and cins :: "'c \<Rightarrow> nat \<Rightarrow> string \<Rightarrow> unit \<Rightarrow> 'c" and cb :: 'c
  assumes "prep_upstream_request F sd lc cget tb routes body accept cb0 = Inr p"
  defines "xs \<equiv> key_requests F sd p body"
  defines "n \<equiv> first_ok net 0 xs"
  defines "r \<equiv> execute_upstream_request F sd cins net p body cb"
  shows "(\<forall>j < n. \<not> attempt_ok (fst (net j (snd (xs ! j))))) \<and> snd (snd r) = map snd (take (Suc n) xs) \<and>
    fst (snd r) = trip_all cins (map (\<lambda>q. (snd (net (fst q) (snd (snd q))), fst (snd q)))
      (take n (enumerate 0 xs))) cb \<and>
    (if n < length xs then \<exists>resp. fst r = Inr resp \<and> fst (net n (snd (xs ! n))) = HOk resp \<and>
        \<not> is_retryable_error (hr_status resp)
     else \<exists>e. fst r = Inl e)"
  using execute_reference [OF assms(1), where net = net and cins = cins and cb = cb, folded xs_def n_def r_def]
    first_ok_before [of _ net 0 xs] first_ok_le [of net 0 xs]
  by (auto simp: n_def [symmetric])

definition keys_sample :: "key_config list" where
  "keys_sample = [\<lparr>key_alias = ''b'', kc_api_key = ''kb'', kc_priority = 2, kc_weight = 1\<rparr>,
                  \<lparr>key_alias = ''a'', kc_api_key = ''ka'', kc_priority = 1, kc_weight = 1\<rparr>]"

definition routes_sample :: routing_map where
  "routes_sample = [''m'' \<mapsto> \<lparr>mc_base_url = ''u'', mc_schema_format = ''openai'', mc_keys = keys_sample\<rparr>]"

definition body_sample :: string where
  "body_sample = enc_json (JObj [(''model'', JStr ''m'')])"

definition req_sample :: "string \<Rightarrow> upstream_req" where
  "req_sample k = \<lparr>ur_url = ''u/chat/completions'',
     ur_headers = [(''content-type'', ''application/json''), (''accept'', ''x''),
       (''authorization'', ''Bearer '' @ k)], ur_body = body_sample\<rparr>"

definition prep_sample :: prepared where
  "prep_sample = \<lparr>pr_request = req_sample ''ka'', pr_alias = ''a'', pr_fallbacks = [keys_sample ! 0],
     pr_config = \<lparr>pc_id = ''openai'', pc_base_url = [], pc_auth = Bearer, pc_schema = OpenAI\<rparr>,
     pr_base_url = ''u'', pr_model = ''m'', pr_requested = ''openai'', pr_executed = ''openai'',
     pr_hot_swapped = 0, pr_accept = ''x''\<rparr>"

lemma prep_sample_ok:
  "prep_upstream_request F0 sd1 id dl_get (\<lambda>i. 0) routes_sample body_sample ''x'' Map.empty = Inr prep_sample"
  by (simp add: prep_upstream_request_def body_sample_def parse_json_model_def routes_sample_def
      keys_sample_def healthy_keys_def dl_get_def get_provider_config_def starts_with_def
      build_provider_request_def provider_endpoint_def provider_body_def auth_headers_def
      prep_sample_def req_sample_def Let_def)

definition net_sample :: net where
  "net_sample i q = (if i = 0 then HErr True else HOk \<lparr>hr_status = 200, hr_headers = [], hr_body = []\<rparr>, i)"

lemma requests_sample:
  "key_requests F0 sd1 prep_sample body_sample = [(''a'', req_sample ''ka''), (''b'', req_sample ''kb'')]"
  by (simp add: key_requests_def prep_sample_def keys_sample_def key_request_def
      build_provider_request_def provider_endpoint_def provider_body_def auth_headers_def req_sample_def)

lemma first_ok_sample:
  "first_ok net_sample 0 [(''a'', req_sample ''ka''), (''b'', req_sample ''kb'')] = 1"
  by (simp add: net_sample_def attempt_ok_def is_retryable_error_def)

lemma router_failover_witness:
  "snd (snd (execute_upstream_request F0 sd1 (dl_ins 60000) net_sample prep_sample body_sample Map.empty)) =
     [req_sample ''ka'', req_sample ''kb'']"
  using router_failover [OF prep_sample_ok, of net_sample "dl_ins 60000" Map.empty]
  by (simp add: requests_sample first_ok_sample [unfolded first_ok_simps] net_sample_def attempt_ok_def
      is_retryable_error_def)

text \<open>Key selection: a prepared request uses the keys of the model the body names, the healthy
  ones only, in order of priority; it goes to that model's base URL, and the credential it
  carries is the first of them.\<close>

theorem prep_selects_keys:
  assumes "prep_upstream_request F sd lc cget tb routes body accept cb = Inr p"
  shows "\<exists>mc key. parse_model sd body = Some (Some (pr_model p)) \<and> routes (pr_model p) = Some mc \<and>
    pr_alias p = key_alias key \<and> set (key # pr_fallbacks p) \<subseteq> set (mc_keys mc) \<and>
    sorted (map kc_priority (key # pr_fallbacks p)) \<and>
    (\<forall>k \<in> set (key # pr_fallbacks p). \<exists>i. cget cb (tb i) (key_alias k) = None) \<and>
    starts_with (ur_url (pr_request p)) (mc_base_url mc) \<and>
    auth_headers (pr_config p) key = drop 2 (ur_headers (pr_request p))"
  using assms
proof (rule prep_Inr)
  fix mc key
  assume m: "parse_model sd body = Some (Some (pr_model p))" "routes (pr_model p) = Some mc"
    and h: "healthy_keys cget tb cb (mc_keys mc) = key # pr_fallbacks p"
    and a: "pr_alias p = key_alias key" and u: "pr_base_url p = mc_base_url mc"
    and b: "build_provider_request F sd (pr_config p) (pr_base_url p) key (pr_model p) body accept =
      Inr (pr_request p)"
  have "\<forall>k \<in> set (healthy_keys cget tb cb (mc_keys mc)). \<exists>i. cget cb (tb i) (key_alias k) = None"
    by (auto simp: healthy_keys_def)
  moreover have "starts_with (ur_url (pr_request p)) (mc_base_url mc)"
    and "auth_headers (pr_config p) key = drop 2 (ur_headers (pr_request p))"
    using build_shape [OF b] u by simp_all
  ultimately show ?thesis
    using m a healthy_keys_subset [of cget tb cb "mc_keys mc"] sorted_healthy [of cget tb cb "mc_keys mc"]
    unfolding h by blast
qed

lemma prep_selects_keys_witness:
  "\<exists>mc key. routes_sample (pr_model prep_sample) = Some mc \<and> pr_alias prep_sample = key_alias key \<and>
    sorted (map kc_priority (key # pr_fallbacks prep_sample))"
  using prep_selects_keys [OF prep_sample_ok] by blast

text \<open>C29. Quarantine: a key whose attempt failed at time \<open>t\<close> is chosen by no request prepared
  afterwards and before \<open>t\<close> plus sixty seconds, neither as the primary nor as a fallback.\<close>

theorem breaker_quarantine:
  assumes cache: "ttl_cache cget cins 60000"
    and prep: "prep_upstream_request F sd lc cget tb routes body accept cb0 = Inr p"
    and failed: "j < first_ok net 0 (key_requests F sd p body)"
    and arrivals: "\<forall>i i' q q'. i \<le> i' \<longrightarrow> snd (net i q) \<le> snd (net i' q')"
    and later: "\<forall>m i q. i < length (key_requests F sd p body) \<longrightarrow> snd (net i q) \<le> tb' m"
    and soon: "\<forall>m. tb' m < snd (net j (snd (key_requests F sd p body ! j))) + 60000"
    and again: "prep_upstream_request F sd lc cget tb' routes' body' accept'
      (fst (snd (execute_upstream_request F sd cins net p body cb))) = Inr p'"
  shows "fst (key_requests F sd p body ! j) \<notin> set (pr_alias p' # map key_alias (pr_fallbacks p'))"
proof -
  let ?xs = "key_requests F sd p body"
  let ?ts = "map (\<lambda>q. (snd (net (fst q) (snd (snd q))), fst (snd q)))
      (take (first_ok net 0 ?xs) (enumerate 0 ?xs))"
  let ?a = "fst (?xs ! j)"
  have n: "first_ok net 0 ?xs \<le> length ?xs" by (rule first_ok_le)
  have nth: "?ts ! i = (snd (net i (snd (?xs ! i))), fst (?xs ! i))" if "i < first_ok net 0 ?xs" for i
    using that n by (simp add: nth_enumerate_eq)
  have len: "length ?ts = first_ok net 0 ?xs" using n by simp
  have sorted: "sorted (map fst ?ts)"
    unfolding sorted_iff_nth_mono using arrivals len nth by (auto simp del: map_map)
  have mem: "(snd (net j (snd (?xs ! j))), ?a) \<in> set ?ts"
    using nth [OF failed] failed len nth_mem [of j ?ts] by (simp only:)
  have le: "\<forall>e \<in> set ?ts. fst e \<le> tb' m" for m
  proof
    fix e assume "e \<in> set ?ts"
    then obtain i where i: "i < length ?ts" "e = ?ts ! i"
      unfolding in_set_conv_nth by blast
    then have "i < first_ok net 0 ?xs" using len by (simp only:)
    with i(2) nth [OF this] n later show "fst e \<le> tb' m" by simp
  qed
  have opened: "\<forall>m. cget (fst (snd (execute_upstream_request F sd cins net p body cb))) (tb' m) ?a \<noteq> None"
    using ttl_cache.get_ins_all_live [OF cache le mem _ sorted, of _ "()" cb] soon
    by (simp add: execute_reference(2) [OF prep] trip_all_is_ins_all [OF cache])
  from again show ?thesis
  proof (rule prep_Inr)
    fix mc key
    assume h: "healthy_keys cget tb' (fst (snd (execute_upstream_request F sd cins net p body cb)))
        (mc_keys mc) = key # pr_fallbacks p'" and "pr_alias p' = key_alias key"
    then have "\<forall>k \<in> set (key # pr_fallbacks p'). key_alias k \<noteq> ?a"
      using healthy_open_excluded [where cget = cget and tb = tb' and a = ?a and keys = "mc_keys mc"
          and cb = "fst (snd (execute_upstream_request F sd cins net p body cb))"] opened by metis
    with \<open>pr_alias p' = key_alias key\<close> show ?thesis by auto
  qed
qed

lemma breaker_quarantine_witness:
  "\<exists>p'. prep_upstream_request F0 sd1 id dl_get (\<lambda>i. 50) routes_sample body_sample ''x''
      (fst (snd (execute_upstream_request F0 sd1 (dl_ins 60000) net_sample prep_sample body_sample Map.empty)))
      = Inr p' \<and> ''a'' \<notin> set (pr_alias p' # map key_alias (pr_fallbacks p'))"
proof -
  let ?cb = "fst (snd (execute_upstream_request F0 sd1 (dl_ins 60000) net_sample prep_sample body_sample Map.empty))"
  have cb: "?cb = [''a'' \<mapsto> ((), 60000)]"
    by (simp add: execute_upstream_request_def net_sample_def prep_sample_def keys_sample_def Let_def
        build_provider_request_def provider_endpoint_def provider_body_def dl_ins_def is_retryable_error_def)
  obtain p' where p': "prep_upstream_request F0 sd1 id dl_get (\<lambda>i. 50) routes_sample body_sample ''x'' ?cb = Inr p'"
    unfolding cb
    by (simp add: prep_upstream_request_def body_sample_def parse_json_model_def routes_sample_def
        keys_sample_def healthy_keys_def dl_get_def get_provider_config_def starts_with_def
        build_provider_request_def provider_endpoint_def provider_body_def Let_def)
  have "fst (key_requests F0 sd1 prep_sample body_sample ! 0) \<notin> set (pr_alias p' # map key_alias (pr_fallbacks p'))"
    by (rule breaker_quarantine [OF dl.ttl_cache_axioms prep_sample_ok _ _ _ _ p', where j = 0])
      (simp_all add: requests_sample first_ok_sample [simplified] net_sample_def attempt_ok_def)
  with p' show ?thesis by (simp add: requests_sample)
qed

text \<open>C30. Recovery: once a minute has passed since the last attempt, and no other failure is still on the
  breaker, the same request can be prepared again whatever failed, even when every key failed,
  and every configured key is among its candidates, in order of priority.\<close>

theorem breaker_recovers:
  assumes cache: "ttl_cache cget cins 60000"
    and prep: "prep_upstream_request F sd lc cget tb routes body accept cb0 = Inr p"
    and model: "routes (pr_model p) = Some mc"
    and quiet: "\<And>m a. cget cb (tb' m) a = None"
    and later: "\<And>m i q. i < length (key_requests F sd p body) \<Longrightarrow> snd (net i q) + 60000 \<le> tb' m"
  shows "\<exists>p'. prep_upstream_request F sd lc cget tb' routes body accept
      (fst (snd (execute_upstream_request F sd cins net p body cb))) = Inr p' \<and>
    pr_alias p' # map key_alias (pr_fallbacks p') = map key_alias (sort_key kc_priority (mc_keys mc))"
proof -
  let ?cb = "fst (snd (execute_upstream_request F sd cins net p body cb))"
  let ?xs = "key_requests F sd p body"
  let ?ts = "map (\<lambda>q. (snd (net (fst q) (snd (snd q))), fst (snd q))) (take (first_ok net 0 ?xs) (enumerate 0 ?xs))"
  have far: "\<forall>e \<in> set ?ts. fst e + 60000 \<le> tb' m" for m
    using later by (auto dest!: in_set_takeD simp: in_set_enumerate_eq)
  then have past: "\<forall>e \<in> set ?ts. fst e \<le> tb' m" for m by (meson le_add1 le_trans)
  have closed: "cget ?cb (tb' m) a = None" for m a
    using ttl_cache.get_ins_all_gone [OF cache past _ quiet, where v = "()"] far [of m]
    by (simp add: execute_reference(2) [OF prep] trip_all_is_ins_all [OF cache])
  then have all: "healthy_keys cget tb' ?cb keys = sort_key kc_priority keys" for keys
    by (simp add: healthy_keys_def)
  have ne: "mc_keys mc \<noteq> []"
    using prep model by (elim prep_Inr) (auto simp: healthy_keys_def)
  then obtain key keys where keys: "sort_key kc_priority (mc_keys mc) = key # keys"
    by (metis length_0_conv length_sort list.exhaust)
  from prep show ?thesis
  proof (rule prep_Inr)
    fix mc'
    assume m: "parse_model sd body = Some (Some (pr_model p))" "routes (pr_model p) = Some mc'"
      "pr_base_url p = mc_base_url mc'" "pr_config p = get_provider_config lc (mc_schema_format mc')" "pr_accept p = accept"
    obtain req where "build_provider_request F sd (pr_config p) (pr_base_url p) key (pr_model p) body accept = Inr req"
      using prep_builds [OF prep] m(5) by metis
    moreover have "mc' = mc" using m(2) model by simp
    ultimately show ?thesis
      using m(1,3-5) model ne keys by (simp add: prep_upstream_request_def all Let_def)
  qed
qed

lemma breaker_recovers_witness:
  "\<exists>p'. prep_upstream_request F0 sd1 id dl_get (\<lambda>i. 60001) routes_sample body_sample ''x''
      (fst (snd (execute_upstream_request F0 sd1 (dl_ins 60000) (\<lambda>i q. (HErr True, i)) prep_sample body_sample Map.empty)))
      = Inr p' \<and> pr_alias p' # map key_alias (pr_fallbacks p') = [''a'', ''b'']"
proof -
  have "routes_sample (pr_model prep_sample) = Some \<lparr>mc_base_url = ''u'', mc_schema_format = ''openai'', mc_keys = keys_sample\<rparr>"
    by (simp add: routes_sample_def prep_sample_def)
  from breaker_recovers [OF dl.ttl_cache_axioms prep_sample_ok this, where tb' = "\<lambda>i. 60001" and cb = Map.empty
      and net = "\<lambda>i q. (HErr True, i)"]
  show ?thesis by (simp add: requests_sample dl_get_def keys_sample_def)
qed

end
