(* ===== verification/Tool_Router.thy ===== *)
theory Tool_Router
  imports Gateway_Models
begin

text \<open>
  Lazy tool schemas (\<open>usecases/tool_router.rs\<close>): the registry of tool descriptors, the
  request rewriting that replaces registered schemas by one-line summaries, and the
  interception of the phantom tool that serves a schema back.

  \<open>lc\<close> is \<open>str::to_lowercase\<close> and \<open>words\<close> splits a text at its non-alphabetic
  characters (both Unicode tables of the standard library); \<open>f32_ops\<close> is the processor's
  single-precision arithmetic.
\<close>

unbundle bit_operations_syntax

section \<open>Embeddings\<close>

type_synonym f32 = "32 word"

record f32_ops =
  g_add :: "f32 \<Rightarrow> f32 \<Rightarrow> f32"
  g_mul :: "f32 \<Rightarrow> f32 \<Rightarrow> f32"
  g_div :: "f32 \<Rightarrow> f32 \<Rightarrow> f32"
  g_sub :: "f32 \<Rightarrow> f32 \<Rightarrow> f32"
  g_sqrt :: "f32 \<Rightarrow> f32"
  g_ge :: "f32 \<Rightarrow> f32 \<Rightarrow> bool"
  g_gt :: "f32 \<Rightarrow> f32 \<Rightarrow> bool"
  g_dec :: "int \<Rightarrow> nat \<Rightarrow> f32"

definition phantom_tool_name :: string where
  "phantom_tool_name = ''get_tool_details''"

definition phantom_tool_descriptor :: json where
  "phantom_tool_descriptor = jobject
     [(''type'', JStr ''function''),
      (''function'', jobject
        [(''name'', JStr phantom_tool_name),
         (''description'', JStr (''Returns the complete parameter schema for an MCP tool. Call this '' @
            ''when you need exact parameter types and required fields.'')),
         (''parameters'', jobject
           [(''type'', JStr ''object''),
            (''properties'', jobject [(''tool_name'', jobject
               [(''type'', JStr ''string''), (''description'', JStr ''Exact name of the MCP tool'')])]),
            (''required'', JArr [JStr ''tool_name''])])])]"

definition emb_dim :: nat where "emb_dim = 128"

definition fnv1a :: "string \<Rightarrow> u64" where
  "fnv1a s = foldl (\<lambda>h b. (h XOR of_char b) * 1099511628211) 14695981039346656037 s"

definition sum32 :: "f32_ops \<Rightarrow> f32 list \<Rightarrow> f32" where
  "sum32 G xs = foldl (g_add G) (g_dec G 0 0) xs"

definition compute_embedding :: "f32_ops \<Rightarrow> (string \<Rightarrow> string list) \<Rightarrow> string \<Rightarrow> f32 list" where
  "compute_embedding G words txt =
     (let vec = foldl (\<lambda>v tok. let i = unat (fnv1a (ascii_lower tok)) mod emb_dim
                          in v[i := g_add G (v ! i) (g_dec G 1 0)])
           (replicate emb_dim (g_dec G 0 0)) (filter (\<lambda>t. t \<noteq> []) (words txt));
          norm = g_sqrt G (sum32 G (map (\<lambda>x. g_mul G x x) vec))
      in if g_gt G norm (g_dec G 0 0) then map (\<lambda>v. g_div G v norm) vec else vec)"

definition dot :: "f32_ops \<Rightarrow> f32 list \<Rightarrow> f32 list \<Rightarrow> f32" where
  "dot G a b = sum32 G (map (\<lambda>p. g_mul G (fst p) (snd p)) (zip a b))"

section \<open>Registry\<close>

record tool_descriptor =
  td_name :: string
  td_summary :: string
  td_schema :: "json option"
  td_embedding :: "f32 list"

record tool_registry =
  tr_tools :: "tool_descriptor list"
  tr_index :: "string \<rightharpoonup> nat"

definition empty_registry :: tool_registry where
  "empty_registry = \<lparr>tr_tools = [], tr_index = Map.empty\<rparr>"

text \<open>A descriptor in the registry variable: \<open>schema\<close> may be missing.\<close>

definition de_tool_descriptor :: "json \<Rightarrow> tool_descriptor option" where
  "de_tool_descriptor v =
     Option.bind (case v of JArr [_, _] \<Rightarrow> struct_view [''name'', ''summary''] v
                  | _ \<Rightarrow> struct_view [''name'', ''summary'', ''schema''] v) (\<lambda>g.
     Option.bind (de_req as_str (g ''name'')) (\<lambda>n.
     Option.bind (de_req as_str (g ''summary'')) (\<lambda>s.
     Option.bind (de_opt Some (g ''schema'')) (\<lambda>sc.
     Some \<lparr>td_name = n, td_summary = s, td_schema = sc, td_embedding = []\<rparr>))))"

definition embed_descriptor ::
  "f32_ops \<Rightarrow> (string \<Rightarrow> string list) \<Rightarrow> tool_descriptor \<Rightarrow> tool_descriptor" where
  "embed_descriptor G words d =
     d\<lparr>td_embedding := compute_embedding G words (td_name d @ '' '' @ td_summary d)\<rparr>"

definition build_registry ::
  "f32_ops \<Rightarrow> (string \<Rightarrow> string list) \<Rightarrow> tool_descriptor list \<Rightarrow> tool_registry" where
  "build_registry G words ds =
     \<lparr>tr_tools = map (embed_descriptor G words) ds,
      tr_index = fold (\<lambda>(i, d) m. m(td_name d \<mapsto> i)) (enumerate 0 ds) Map.empty\<rparr>"

definition registry_from_env ::
  "f32_ops \<Rightarrow> (string \<Rightarrow> string list) \<Rightarrow> serde \<Rightarrow> string option \<Rightarrow> tool_registry" where
  "registry_from_env G words sd env =
     (case env of None \<Rightarrow> empty_registry
      | Some raw \<Rightarrow>
          (case Option.bind (parse_value sd raw) (de_vec de_tool_descriptor) of
             None \<Rightarrow> empty_registry
           | Some ds \<Rightarrow> build_registry G words ds))"

text \<open>\<open>None\<close> also stands for an index out of range; \<open>registry_ok\<close> rules it out.\<close>

definition lookup_tool :: "tool_registry \<Rightarrow> string \<Rightarrow> tool_descriptor option" where
  "lookup_tool reg name =
     (case tr_index reg name of None \<Rightarrow> None
      | Some i \<Rightarrow> if i < length (tr_tools reg) then Some (tr_tools reg ! i) else None)"

definition tool_fn_name :: "json \<Rightarrow> string option" where
  "tool_fn_name tool = Option.bind (jget tool ''function'') (\<lambda>f. jget_str f ''name'')"

definition find_any_registered :: "serde \<Rightarrow> tool_registry \<Rightarrow> string \<Rightarrow> bool" where
  "find_any_registered sd reg body =
     (tr_tools reg \<noteq> [] \<and>
      (case parse_value sd (take (8 * 1024) body) of
         None \<Rightarrow> False
       | Some v \<Rightarrow>
           (case jget_arr v ''tools'' of None \<Rightarrow> False
            | Some ts \<Rightarrow> list_ex (\<lambda>t. case tool_fn_name t of None \<Rightarrow> False
                | Some n \<Rightarrow> tr_index reg n \<noteq> None) ts)))"

section \<open>Schemas on demand\<close>

definition schema_keywords :: "string list" where
  "schema_keywords = [''parameter'', ''schema'', ''details'', ''definition'',
     ''arguments'', ''inputs'', ''how to use'', ''what does'']"

definition assistant_text :: "json \<Rightarrow> string option" where
  "assistant_text m =
     (if jget_str m ''role'' = Some ''assistant''
      then (case jget_str m ''content'' of Some s \<Rightarrow> if s \<noteq> [] then Some s else None | None \<Rightarrow> None)
      else None)"

definition last_assistant :: "json \<Rightarrow> string option" where
  "last_assistant body =
     Option.bind (jget_arr body ''messages'') (\<lambda>ms. first_of (List.map_filter assistant_text (rev ms)))"

definition full_schema_requested_set ::
  "f32_ops \<Rightarrow> (string \<Rightarrow> string list) \<Rightarrow> (string \<Rightarrow> string) \<Rightarrow> tool_registry \<Rightarrow> json \<Rightarrow> string list" where
  "full_schema_requested_set G words lc reg body =
     (case last_assistant body of
        None \<Rightarrow> []
      | Some raw \<Rightarrow>
          (let content = lc raw in
           if \<not> list_ex (contains_str content) schema_keywords then []
           else (let q = compute_embedding G words content
                 in map td_name (filter (\<lambda>d. td_embedding d \<noteq> [] \<and>
                      g_ge G (dot G q (td_embedding d)) (g_dec G 35 2)) (tr_tools reg)))))"

section \<open>Rewriting the request\<close>

definition summary_text :: "string \<Rightarrow> string \<Rightarrow> string" where
  "summary_text name summary =
     ''Available Tool: '' @ name @ [CHR 0x20, CHR 0xE2, CHR 0x80, CHR 0x94, CHR 0x20] @ summary"

text \<open>One tool of the array: the rewritten tool and whether the body counts as modified.\<close>

definition inject_tool :: "tool_registry \<Rightarrow> string list \<Rightarrow> json \<Rightarrow> json \<times> bool" where
  "inject_tool reg full tool =
     (case tool_fn_name tool of
        None \<Rightarrow> (tool, False)
      | Some name \<Rightarrow>
          (case lookup_tool reg name of
             None \<Rightarrow> (tool, False)
           | Some d \<Rightarrow>
               (let func = jindex tool ''function'' in
                if name \<in> set full then
                  (case td_schema d of
                     None \<Rightarrow> (tool, True)
                   | Some sc \<Rightarrow> (jset ''function'' (jset ''parameters'' sc func) tool, True))
                else
                  (jset ''function'' (jset ''description'' (JStr (summary_text name (td_summary d)))
                     (jremove ''parameters'' func)) tool,
                   jget func ''parameters'' \<noteq> None))))"

definition has_phantom :: "json list \<Rightarrow> bool" where
  "has_phantom ts = list_ex (\<lambda>t. tool_fn_name t = Some phantom_tool_name) ts"

definition add_phantom :: "json list \<Rightarrow> json list" where
  "add_phantom ts = (if has_phantom ts then ts else ts @ [phantom_tool_descriptor])"

definition inject_lazy_summaries ::
  "f32_ops \<Rightarrow> (string \<Rightarrow> string list) \<Rightarrow> (string \<Rightarrow> string) \<Rightarrow> serde \<Rightarrow> tool_registry \<Rightarrow> string \<Rightarrow>
   string option" where
  "inject_lazy_summaries G words lc sd reg body_bytes =
     (if tr_tools reg = [] then None
      else Option.bind (parse_value sd body_bytes) (\<lambda>body.
        let full = full_schema_requested_set G words lc reg body
        in Option.bind (jget_arr body ''tools'') (\<lambda>ts.
           let rs = map (inject_tool reg full) ts
           in if \<not> list_ex snd rs then None
              else Some (print_value sd (jset ''tools'' (JArr (add_phantom (map fst rs))) body)))))"

section \<open>Interception\<close>

definition call0 :: "pstep list" where
  "call0 = [Key ''choices'', Idx0, Key ''message'', Key ''tool_calls'', Idx0]"

definition quote :: char where "quote = CHR 0x22"

definition schema_content :: "serde \<Rightarrow> tool_descriptor \<Rightarrow> string" where
  "schema_content sd d =
     (case td_schema d of
        Some s \<Rightarrow> print_value sd s
      | None \<Rightarrow> ''{'' @ [quote] @ ''summary'' @ [quote] @ '':'' @ [quote] @ td_summary d @ [quote] @ ''}'')"

definition synthetic_result :: "json \<Rightarrow> string \<Rightarrow> string \<Rightarrow> json" where
  "synthetic_result i call_id content = jobject
     [(''id'', i), (''object'', JStr ''chat.completion''),
      (''choices'', JArr [jobject
        [(''index'', jnat 0),
         (''message'', jobject [(''role'', JStr ''tool''), (''tool_call_id'', JStr call_id),
                                (''content'', JStr content)]),
         (''finish_reason'', JStr ''stop'')]]),
      (''usage'', jobject [(''prompt_tokens'', jnat 0), (''completion_tokens'', jnat 0),
                           (''total_tokens'', jnat 0)])]"

definition intercept_phantom_call :: "serde \<Rightarrow> tool_registry \<Rightarrow> string \<Rightarrow> string option" where
  "intercept_phantom_call sd reg response =
     (if \<not> contains_str response phantom_tool_name then None
      else Option.bind (parse_value sd response) (\<lambda>val.
        if jpointer_str val (call0 @ [Key ''function'', Key ''name'']) \<noteq> Some phantom_tool_name then None
        else Option.bind (parse_value sd
               (case jpointer_str val (call0 @ [Key ''function'', Key ''arguments'']) of
                  Some a \<Rightarrow> a | None \<Rightarrow> ''{}'')) (\<lambda>args.
             Option.bind (jget_str args ''tool_name'') (\<lambda>req.
             Option.bind (lookup_tool reg req) (\<lambda>d.
             Some (print_value sd (synthetic_result
               (case jget val ''id'' of Some i \<Rightarrow> i | None \<Rightarrow> JStr ''phantom-resp'')
               (case jpointer_str val (call0 @ [Key ''id'']) of Some c \<Rightarrow> c | None \<Rightarrow> ''call_phantom'')
               (schema_content sd d))))))))"

section \<open>Lemmas\<close>

text \<open>The index only points into the list, at a tool of that name.\<close>

definition registry_ok :: "tool_registry \<Rightarrow> bool" where
  "registry_ok reg \<longleftrightarrow>
     (\<forall>n i. tr_index reg n = Some i \<longrightarrow> i < length (tr_tools reg) \<and> td_name (tr_tools reg ! i) = n) \<and>
     (\<forall>d \<in> set (tr_tools reg). tr_index reg (td_name d) \<noteq> None)"

lemma embed_descriptor_simps [simp]:
  "td_name (embed_descriptor G words d) = td_name d"
  "td_schema (embed_descriptor G words d) = td_schema d"
  "td_summary (embed_descriptor G words d) = td_summary d"
  by (simp_all add: embed_descriptor_def)

definition name_index :: "tool_descriptor list \<Rightarrow> string \<rightharpoonup> nat" where
  "name_index ds = fold (\<lambda>(i, d) m. m(td_name d \<mapsto> i)) (enumerate 0 ds) Map.empty"

lemma name_index_simps [simp]:
  "name_index [] = Map.empty"
  "name_index (ds @ [d]) = (name_index ds)(td_name d \<mapsto> length ds)"
  by (simp_all add: name_index_def enumerate_append_eq)

lemma name_index_sound:
  "name_index ds n = Some i \<Longrightarrow> i < length ds \<and> td_name (ds ! i) = n"
  by (induction ds rule: rev_induct) (auto simp: nth_append split: if_splits)

lemma name_index_total: "d \<in> set ds \<Longrightarrow> name_index ds (td_name d) \<noteq> None"
  by (induction ds rule: rev_induct) auto

lemma build_registry_ok: "registry_ok (build_registry G words ds)"
  unfolding registry_ok_def build_registry_def name_index_def [symmetric]
  by (auto simp del: not_None_eq dest: name_index_sound name_index_total)

lemma registry_from_env_ok: "registry_ok (registry_from_env G words sd env)"
proof -
  have "registry_ok empty_registry" by (simp add: empty_registry_def registry_ok_def)
  then show ?thesis
    by (simp add: registry_from_env_def build_registry_ok split: option.split)
qed

lemma lookup_tool_name: "registry_ok reg \<Longrightarrow> lookup_tool reg n = Some d \<Longrightarrow> td_name d = n"
  by (auto simp: lookup_tool_def registry_ok_def split: option.splits if_splits)

lemma lookup_tool_registered: "registry_ok reg \<Longrightarrow> lookup_tool reg n \<noteq> None \<longleftrightarrow> tr_index reg n \<noteq> None"
  by (auto simp: lookup_tool_def registry_ok_def split: option.splits)

lemma length_embedding: "length (compute_embedding G words s) = emb_dim"
proof -
  have "length (foldl (\<lambda>v tok. let i = unat (fnv1a (ascii_lower tok)) mod emb_dim
      in v[i := g_add G (v ! i) (g_dec G 1 0)]) v0 ts) = length v0" for v0 ts
    by (induction ts arbitrary: v0) (auto simp: Let_def)
  then show ?thesis by (simp add: compute_embedding_def Let_def)
qed

text \<open>The buckets are in range, so the indexing never panics.\<close>

lemma embedding_bucket: "unat (fnv1a s) mod emb_dim < emb_dim"
  by (simp add: emb_dim_def)

lemma tool_fn_name_SomeD:
  "tool_fn_name t = Some n \<Longrightarrow> \<exists>ob fo. t = JObj ob \<and> jindex t ''function'' = JObj fo \<and>
     map_of ob ''function'' = Some (JObj fo) \<and> map_of fo ''name'' = Some (JStr n)"
  by (cases t; fastforce simp: tool_fn_name_def jget_str_def jindex_def bind_eq_Some_conv
      dest!: jget_Some_object elim!: as_str.elims split: option.splits)

text \<open>What happens to a tool, by case.\<close>

lemma inject_tool_unregistered:
  "Option.bind (tool_fn_name t) (lookup_tool reg) = None \<Longrightarrow> inject_tool reg full t = (t, False)"
  by (auto simp: inject_tool_def split: option.splits)

lemma inject_tool_name: "tool_fn_name (fst (inject_tool reg full t)) = tool_fn_name t"
proof (cases "Option.bind (tool_fn_name t) (lookup_tool reg)")
  case None
  then show ?thesis by (simp add: inject_tool_unregistered)
next
  case (Some d)
  then obtain n where n: "tool_fn_name t = Some n" "lookup_tool reg n = Some d"
    by (auto simp: bind_eq_Some_conv)
  from tool_fn_name_SomeD [OF n(1)] show ?thesis
    by (auto simp: inject_tool_def n Let_def tool_fn_name_def jget_str_def jget_jset jget_jremove
        map_of_bt_insert map_of_bt_remove split: option.split)
qed

lemma inject_tool_stripped:
  assumes "tool_fn_name t = Some n" "lookup_tool reg n = Some d" "n \<notin> set full"
  defines "f' \<equiv> jindex (fst (inject_tool reg full t)) ''function''"
  shows "jget f' ''parameters'' = None"
    and "jget f' ''description'' = Some (JStr (summary_text n (td_summary d)))"
    and "k \<noteq> ''parameters'' \<Longrightarrow> k \<noteq> ''description'' \<Longrightarrow> jget f' k = jget (jindex t ''function'') k"
    and "k \<noteq> ''function'' \<Longrightarrow> jget (fst (inject_tool reg full t)) k = jget t k"
  using tool_fn_name_SomeD [OF assms(1)] assms(1-3)
  by (auto simp: f'_def inject_tool_def Let_def jindex_def jget_jset jget_jremove map_of_bt_insert
      map_of_bt_remove)

lemma inject_tool_served:
  assumes "tool_fn_name t = Some n" "lookup_tool reg n = Some d" "n \<in> set full" "td_schema d = Some sc"
  shows "jget (jindex (fst (inject_tool reg full t)) ''function'') ''parameters'' = Some sc"
  using tool_fn_name_SomeD [OF assms(1)] assms
  by (auto simp: inject_tool_def Let_def jindex_def jget_jset map_of_bt_insert)

lemma has_phantom_add [simp]: "has_phantom (add_phantom ts)"
  by (auto simp: add_phantom_def has_phantom_def phantom_tool_descriptor_def tool_fn_name_def
      jget_str_def)

end
