(* ===== verification/Tool_Router_Properties.thy ===== *)
theory Tool_Router_Properties
  imports Tool_Router Json_Codec Fixtures
begin

text \<open>The properties of lazy tool schemas, each with a concrete instance.\<close>


definition G0 :: f32_ops where
  "G0 = \<lparr>g_add = (+), g_mul = (*), g_div = (\<lambda>a b. a div b), g_sub = (-), g_sqrt = id,
         g_ge = (\<lambda>a b. b \<le> a), g_gt = (\<lambda>a b. b < a), g_dec = (\<lambda>m e. of_int m)\<rparr>"

definition reg_sample :: tool_registry where
  "reg_sample = build_registry G0 (\<lambda>s. [s])
     [\<lparr>td_name = ''f'', td_summary = ''does f'', td_schema = Some (JArr [JNull]), td_embedding = []\<rparr>]"

definition tools_sample :: json where
  "tools_sample = JObj [(''tools'', JArr
     [JObj [(''function'', JObj [(''name'', JStr ''f''), (''parameters'', JNull)])]])]"

lemma reg_sample_lookup:
  "tr_tools reg_sample \<noteq> []" "tr_index reg_sample = [''f'' \<mapsto> 0]"
  "\<exists>d. lookup_tool reg_sample ''f'' = Some d \<and> td_summary d = ''does f'' \<and> td_schema d = Some (JArr [JNull])"
  by (simp_all add: reg_sample_def build_registry_def lookup_tool_def)

lemma tools_sample_rewritten:
  "\<exists>res. inject_lazy_summaries G0 (\<lambda>s. [s]) id sd1 reg_sample (enc_json tools_sample) = Some res"
proof -
  obtain d where "lookup_tool reg_sample ''f'' = Some d" using reg_sample_lookup(3) by blast
  then show ?thesis
    by (simp add: inject_lazy_summaries_def reg_sample_lookup(1) tools_sample_def jget_arr_def
        full_schema_requested_set_def last_assistant_def inject_tool_def tool_fn_name_def jget_str_def
        jindex_def Let_def)
qed


text \<open>No schema is lost: when the model calls the schema tool for a registered tool, the
  intercepted reply is a tool message carrying exactly that tool's registered schema, answering
  the call it came from, without any other server.\<close>

theorem phantom_serves_schema:
  assumes rt: "serde_roundtrip sd" and found: "lookup_tool reg n = Some d" and sc: "td_schema d = Some schema"
    and named: "contains_str response phantom_tool_name" and val: "parse_value sd response = Some v"
    and fn: "jpointer_str v (call0 @ [Key ''function'', Key ''name'']) = Some phantom_tool_name"
    and arg: "jpointer_str v (call0 @ [Key ''function'', Key ''arguments'']) = Some a"
    and args: "Option.bind (parse_value sd a) (\<lambda>j. jget_str j ''tool_name'') = Some n"
    and cid: "jpointer_str v (call0 @ [Key ''id'']) = Some cid"
  shows "\<exists>res r m. intercept_phantom_call sd reg response = Some res \<and> parse_value sd res = Some r \<and>
    jpointer r [Key ''choices'', Idx0, Key ''message''] = Some m \<and> jget_str m ''role'' = Some ''tool'' \<and>
    jget_str m ''tool_call_id'' = Some cid \<and>
    Option.bind (jget_str m ''content'') (parse_value sd) = Some schema"
proof -
  obtain j where j: "parse_value sd a = Some j" "jget_str j ''tool_name'' = Some n"
    using args by (auto simp: bind_eq_Some_conv)
  have "intercept_phantom_call sd reg response = Some (print_value sd (synthetic_result
      (case jget v ''id'' of Some i \<Rightarrow> i | None \<Rightarrow> JStr ''phantom-resp'') cid (schema_content sd d)))"
    using named val fn arg j found cid by (simp add: intercept_phantom_call_def)
  moreover have "parse_value sd (schema_content sd d) = Some schema"
    using rt sc by (simp add: schema_content_def serde_roundtrip_def)
  ultimately show ?thesis
    using rt by (simp add: serde_roundtrip_def synthetic_result_def first_of_def jget_str_def)
qed

definition phantom_sample :: json where
  "phantom_sample = JObj [(''choices'', JArr [JObj [(''message'', JObj [(''tool_calls'', JArr
     [JObj [(''function'', JObj [(''name'', JStr phantom_tool_name),
        (''arguments'', JStr (enc_json (JObj [(''tool_name'', JStr ''f'')])))]),
      (''id'', JStr ''c1'')]])])]])]"

lemma phantom_serves_schema_witness:
  "\<exists>res r m. intercept_phantom_call sd1 reg_sample (enc_json phantom_sample) = Some res \<and>
     parse_value sd1 res = Some r \<and> jpointer r [Key ''choices'', Idx0, Key ''message''] = Some m \<and>
     Option.bind (jget_str m ''content'') (parse_value sd1) = Some (JArr [JNull])"
proof -
  obtain d where d: "lookup_tool reg_sample ''f'' = Some d" "td_schema d = Some (JArr [JNull])"
    using reg_sample_lookup(3) by blast
  have c: "contains_str (enc_json phantom_sample) phantom_tool_name" by code_simp
  have p: "parse_value sd1 (enc_json phantom_sample) = Some phantom_sample" by simp
  have f: "jpointer_str phantom_sample (call0 @ [Key ''function'', Key ''name'']) = Some phantom_tool_name"
    "jpointer_str phantom_sample (call0 @ [Key ''function'', Key ''arguments'']) =
       Some (enc_json (JObj [(''tool_name'', JStr ''f'')]))"
    "jpointer_str phantom_sample (call0 @ [Key ''id'']) = Some ''c1''"
    by (simp_all add: phantom_sample_def call0_def jpointer_str_def first_of_def)
  have a: "Option.bind (parse_value sd1 (enc_json (JObj [(''tool_name'', JStr ''f'')])))
      (\<lambda>j. jget_str j ''tool_name'') = Some ''f''"
    by (simp add: jget_str_def)
  from phantom_serves_schema [OF sd1_roundtrip d c p f(1) f(2) a f(3)] show ?thesis by blast
qed

end
