(* ===== verification/Mcp.thy ===== *)
theory Mcp
  imports Router "HOL-Library.Multiset"
begin

text \<open>
  Tool servers (MCP): the byte-level scanner that finds a registered tool name in a request
  and the speculative warm-ups behind a semaphore (\<open>infrastructure/mcp_registry.rs\<close>), and
  the bounded fan-out of tool calls (\<open>infrastructure/mcp_client.rs\<close>).
\<close>

section \<open>The scanner\<close>

datatype fsm_state = Idle | MatchKey nat | AfterKeyClose | AfterColon | InValue | InValueEscape

record name_scan_fsm =
  fs_state :: fsm_state
  fs_buf :: string

definition fsm_new :: name_scan_fsm where
  "fsm_new = \<lparr>fs_state = Idle, fs_buf = []\<rparr>"

definition is_json_ws :: "char \<Rightarrow> bool" where
  "is_json_ws b \<longleftrightarrow> b = CHR 0x20 \<or> b = CHR 0x09 \<or> b = CHR 0x0D \<or> b = CHR 0x0A"

text \<open>One byte: the value when it closes one, and the next machine.\<close>

definition fsm_byte :: "char \<Rightarrow> name_scan_fsm \<Rightarrow> string option \<times> name_scan_fsm" where
  "fsm_byte b m =
     (case fs_state m of
        Idle \<Rightarrow> (None, if b = CHR 0x22 then m\<lparr>fs_state := MatchKey 0\<rparr> else m)
      | MatchKey p \<Rightarrow>
          (None, m\<lparr>fs_state :=
             (if p < 4 \<and> b = ''name'' ! p then MatchKey (p + 1)
              else if p = 4 \<and> b = CHR 0x22 then AfterKeyClose
              else if b = CHR 0x22 then MatchKey 0
              else Idle)\<rparr>)
      | AfterKeyClose \<Rightarrow>
          (None, if b = CHR 0x3A then m\<lparr>fs_state := AfterColon\<rparr>
                 else if is_json_ws b then m else m\<lparr>fs_state := Idle\<rparr>)
      | AfterColon \<Rightarrow>
          (None, if b = CHR 0x22 then m\<lparr>fs_state := InValue, fs_buf := []\<rparr>
                 else if is_json_ws b then m else m\<lparr>fs_state := Idle\<rparr>)
      | InValue \<Rightarrow>
          (if b = CHR 0x22 then (Some (fs_buf m), m\<lparr>fs_state := Idle, fs_buf := []\<rparr>)
           else if b = CHR 0x5C then (None, m\<lparr>fs_state := InValueEscape\<rparr>)
           else (None, m\<lparr>fs_buf := fs_buf m @ [b]\<rparr>))
      | InValueEscape \<Rightarrow> (None, m\<lparr>fs_state := InValue, fs_buf := fs_buf m @ [b]\<rparr>))"

text \<open>\<open>feed\<close> returns at the first complete value; the rest of the slice is not read.\<close>

fun feed :: "string \<Rightarrow> name_scan_fsm \<Rightarrow> string option \<times> name_scan_fsm" where
  "feed [] m = (None, m)"
| "feed (b # bs) m =
     (case fsm_byte b m of (Some v, m') \<Rightarrow> (Some v, m') | (None, m') \<Rightarrow> feed bs m')"

section \<open>The connection registry\<close>

record warmed_conn =
  wc_tool :: string
  wc_url :: string
  wc_at :: nat
  wc_success :: bool

definition is_fresh :: "nat \<Rightarrow> warmed_conn \<Rightarrow> bool" where
  "is_fresh now w \<longleftrightarrow> (now - wc_at w) div 1000 < 30"

type_synonym mcp_urls = "string \<rightharpoonup> string"

text \<open>The registry variable: an object of strings; anything else leaves the registry empty.\<close>

definition mcp_registry_from_env :: "serde \<Rightarrow> string option \<Rightarrow> mcp_urls" where
  "mcp_registry_from_env sd env =
     (case Option.bind env (\<lambda>raw. Option.bind (parse_value sd raw) (\<lambda>v.
        Option.bind (as_obj v) (\<lambda>ob. map_option (zip (map fst ob)) (opt_all (map (as_str \<circ> snd) ob))))) of
        None \<Rightarrow> Map.empty
      | Some kvs \<Rightarrow> map_of kvs)"

function chunks :: "nat \<Rightarrow> 'a list \<Rightarrow> 'a list list" where
  "chunks n xs = (if xs = [] \<or> n = 0 then [] else take n xs # chunks n (drop n xs))"
  by pat_completeness auto
termination by (relation "measure (\<lambda>(n, xs). length xs)") auto

declare chunks.simps [simp del]

text \<open>A value that is no UTF-8 is no registered name: the registered names are strings.\<close>

fun scan_chunks :: "mcp_urls \<Rightarrow> string list \<Rightarrow> name_scan_fsm \<Rightarrow> string option" where
  "scan_chunks reg [] m = None"
| "scan_chunks reg (c # cs) m =
     (case feed c m of
        (Some v, m') \<Rightarrow> if reg v \<noteq> None then Some v else scan_chunks reg cs m'
      | (None, m') \<Rightarrow> scan_chunks reg cs m')"

definition find_tool_hint :: "mcp_urls \<Rightarrow> string \<Rightarrow> string option" where
  "find_tool_hint reg body =
     (if reg = Map.empty then None
      else scan_chunks reg (chunks 64 (take (16 * 1024) body)) fsm_new)"

section \<open>Warm-ups\<close>

text \<open>
  The semaphore's free slots, the warm-ups in flight and the handoff map. A request that
  names a registered tool starts a warm-up when a slot is free and drops it otherwise; a
  warm-up that finishes records its outcome and frees its slot.
\<close>

record prefetch =
  pf_free :: nat
  pf_flight :: "(string \<times> string) list"
  pf_warmed :: "string \<rightharpoonup> warmed_conn"

definition prefetch_init :: prefetch where
  "prefetch_init = \<lparr>pf_free = 20, pf_flight = [], pf_warmed = Map.empty\<rparr>"

definition try_prefetch :: "mcp_urls \<Rightarrow> string \<Rightarrow> prefetch \<Rightarrow> prefetch" where
  "try_prefetch reg body p =
     (case find_tool_hint reg body of
        None \<Rightarrow> p
      | Some tool \<Rightarrow>
          (case reg tool of
             None \<Rightarrow> p
           | Some url \<Rightarrow>
               if pf_free p = 0 then p
               else p\<lparr>pf_free := pf_free p - 1, pf_flight := pf_flight p @ [(tool, url)]\<rparr>))"

definition warm_connection :: "nat \<Rightarrow> nat \<Rightarrow> bool \<Rightarrow> prefetch \<Rightarrow> prefetch" where
  "warm_connection i now success p =
     (if i < length (pf_flight p) then
        (case pf_flight p ! i of (tool, url) \<Rightarrow>
          p\<lparr>pf_free := pf_free p + 1,
            pf_flight := take i (pf_flight p) @ drop (Suc i) (pf_flight p),
            pf_warmed := (pf_warmed p)(tool \<mapsto>
              \<lparr>wc_tool = tool, wc_url = url, wc_at = now, wc_success = success\<rparr>)\<rparr>)
      else p)"

inductive prefetch_step :: "mcp_urls \<Rightarrow> prefetch \<Rightarrow> prefetch \<Rightarrow> bool" for reg where
  request: "prefetch_step reg p (try_prefetch reg body p)"
| finish: "i < length (pf_flight p) \<Longrightarrow> prefetch_step reg p (warm_connection i now ok p)"

inductive_cases prefetch_stepE: "prefetch_step reg p q"

section \<open>Tool calls\<close>

record tool_call =
  tc_id :: string
  tc_name :: string
  tc_arguments :: string

record tool_result =
  tl_call_id :: string
  tl_name :: string
  tl_content :: string
  tl_latency :: u64
  tl_success :: bool

definition tool_call_of :: "serde \<Rightarrow> json \<Rightarrow> tool_call option" where
  "tool_call_of sd tc =
     (case (jget_str tc ''id'', jpointer_str tc [Key ''function'', Key ''name'']) of
        (Some i, Some n) \<Rightarrow> Some \<lparr>tc_id = i, tc_name = n, tc_arguments =
          (case jpointer tc [Key ''function'', Key ''arguments''] of
             None \<Rightarrow> ''{}'' | Some (JStr s) \<Rightarrow> s | Some a \<Rightarrow> print_value sd a)\<rparr>
      | _ \<Rightarrow> None)"

definition extract_tool_calls :: "serde \<Rightarrow> string \<Rightarrow> tool_call list" where
  "extract_tool_calls sd response =
     (case Option.bind (parse_value sd response) (\<lambda>v.
          Option.bind (jpointer v [Key ''choices'', Idx0, Key ''message'', Key ''tool_calls'']) as_arr) of
        None \<Rightarrow> []
      | Some a \<Rightarrow> List.map_filter (tool_call_of sd) a)"

definition parse_arguments :: "serde \<Rightarrow> string \<Rightarrow> json" where
  "parse_arguments sd a = (case parse_value sd a of None \<Rightarrow> JObj [] | Some v \<Rightarrow> v)"

definition mcp_request :: "serde \<Rightarrow> string \<Rightarrow> tool_call \<Rightarrow> upstream_req" where
  "mcp_request sd url tc =
     \<lparr>ur_url = trim_end_char (CHR 0x2F) url @ ''/messages'',
      ur_headers = [(''content-type'', ''application/json'')],
      ur_body = print_value sd (jobject
        [(''jsonrpc'', JStr ''2.0''), (''id'', jnat 1), (''method'', JStr ''tools/call''),
         (''params'', jobject [(''name'', JStr (tc_name tc)),
                               (''arguments'', parse_arguments sd (tc_arguments tc))])])\<rparr>"

text \<open>The body of a successful reply; \<open>None\<close> is a body that is no JSON.\<close>

definition extract_mcp_result :: "serde \<Rightarrow> json option \<Rightarrow> string" where
  "extract_mcp_result sd body =
     (case body of
        None \<Rightarrow> ''<failed to parse MCP response: >''
      | Some v \<Rightarrow>
          (case jpointer_str v [Key ''result'', Key ''content'', Idx0, Key ''text''] of
             Some s \<Rightarrow> s
           | None \<Rightarrow> (case jget v ''result'' of Some r \<Rightarrow> print_value sd r | None \<Rightarrow> print_value sd v)))"

text \<open>
  What the outside does with one call: nothing within five seconds, no reply, or a status
  with its body, and the milliseconds it took.
\<close>

datatype mcp_outcome = McpTimeout | McpUnreachable u64 | McpReply nat "bool + string" u64

definition squote :: string where "squote = [CHR 0x27]"

definition mcp_error_text :: "string \<Rightarrow> string \<Rightarrow> string" where
  "mcp_error_text name what = ''MCP tool '' @ squote @ name @ squote @ what"

definition failed_result :: "tool_call \<Rightarrow> string \<Rightarrow> u64 \<Rightarrow> tool_result" where
  "failed_result tc content ms =
     \<lparr>tl_call_id = tc_id tc, tl_name = tc_name tc, tl_content = content, tl_latency = ms, tl_success = False\<rparr>"

definition mcp_timeout_content :: string where
  "mcp_timeout_content = ''{'' @ [CHR 0x22] @ ''error'' @ [CHR 0x22] @ '':'' @ [CHR 0x22] @
     ''MCP_TIMEOUT'' @ [CHR 0x22] @ ''}''"

definition execute_single_tool_call ::
  "serde \<Rightarrow> mcp_urls \<Rightarrow> (upstream_req \<Rightarrow> mcp_outcome) \<Rightarrow> u64 \<Rightarrow> tool_call \<Rightarrow> tool_result" where
  "execute_single_tool_call sd reg mcp t0 tc =
     (case reg (tc_name tc) of
        None \<Rightarrow> failed_result tc ''MCP endpoint not configured for this tool.'' t0
      | Some url \<Rightarrow>
          (case mcp (mcp_request sd url tc) of
             McpTimeout \<Rightarrow> failed_result tc mcp_timeout_content 5000
           | McpUnreachable ms \<Rightarrow> failed_result tc (mcp_error_text (tc_name tc) '' unreachable: '') ms
           | McpReply st body ms \<Rightarrow>
               if 200 \<le> st \<and> st < 300 then
                 \<lparr>tl_call_id = tc_id tc, tl_name = tc_name tc,
                  tl_content = extract_mcp_result sd (case body of Inl e \<Rightarrow> None | Inr b \<Rightarrow> parse_value sd b),
                  tl_latency = ms, tl_success = True\<rparr>
               else failed_result tc (mcp_error_text (tc_name tc) ('' returned HTTP '' @ show_nat st @ '': '' @
                      (case body of Inl e \<Rightarrow> ''<unreadable>'' | Inr b \<Rightarrow> b))) ms))"

text \<open>
  \<open>buffer_unordered\<close> yields the results in the order the calls complete: \<open>order\<close> lists
  the positions of the calls in that order.
\<close>

definition fan_out ::
  "serde \<Rightarrow> mcp_urls \<Rightarrow> (nat \<Rightarrow> upstream_req \<Rightarrow> mcp_outcome) \<Rightarrow> u64 \<Rightarrow> nat list \<Rightarrow> tool_call list \<Rightarrow>
   tool_result list" where
  "fan_out sd reg mcp t0 order tcs =
     map (\<lambda>i. execute_single_tool_call sd reg (mcp i) t0 (tcs ! i)) order"

definition merge_result :: "serde \<Rightarrow> tool_result \<Rightarrow> json" where
  "merge_result sd r = jobject
     [(''tool'', JStr (tl_name r)),
      (''result'', case parse_value sd (tl_content r) of
         Some v \<Rightarrow> v | None \<Rightarrow> jobject [(''text'', JStr (tl_content r))]),
      (''latency_ms'', jnat (tl_latency r)), (''success'', JBool (tl_success r))]"

definition merge_results :: "serde \<Rightarrow> tool_result list \<Rightarrow> json list" where
  "merge_results sd rs = map (merge_result sd) rs"

definition fan_out_telemetry :: "string \<Rightarrow> u64 \<Rightarrow> nat \<Rightarrow> tool_result list \<Rightarrow> json" where
  "fan_out_telemetry timestamp total_ms n rs = jobject
     [(''type'', JStr ''mcp_fan_out''), (''fan_out_count'', jnat (of_nat n)),
      (''total_latency_ms'', jnat total_ms),
      (''success_count'', jnat (of_nat (length (filter tl_success rs)))),
      (''tools'', JArr (map (\<lambda>r. jobject [(''tool_name'', JStr (tl_name r)),
         (''tool_latency_ms'', jnat (tl_latency r)), (''success'', JBool (tl_success r))]) rs)),
      (''timestamp'', JStr timestamp)]"

section \<open>Lemmas\<close>

lemma feed_append_None:
  "feed xs m = (None, m') \<Longrightarrow> feed (xs @ ys) m = feed ys m'"
  by (induction xs arbitrary: m) (auto split: prod.splits option.splits)

lemma feed_append_Some:
  "feed xs m = (Some v, m') \<Longrightarrow> feed (xs @ ys) m = (Some v, m')"
  by (induction xs arbitrary: m) (auto split: prod.splits option.splits)

lemma concat_chunks: "0 < n \<Longrightarrow> concat (chunks n xs) = xs"
  by (induction n xs rule: chunks.induct) (simp add: chunks.simps)

text \<open>Reading in chunks finds the first value wherever the boundaries fall.\<close>

lemma scan_chunks_first:
  "feed (concat cs) m = (Some v, m') \<Longrightarrow> reg v \<noteq> None \<Longrightarrow> scan_chunks reg cs m = Some v"
proof (induction cs arbitrary: m)
  case (Cons c cs)
  show ?case
  proof (cases "feed c m")
    case (Pair r q)
    then show ?thesis
      using Cons feed_append_None [of c m q "concat cs"] feed_append_Some [of c m _ q "concat cs"]
      by (cases r) auto
  qed
qed simp

lemma scan_chunks_registered: "scan_chunks reg cs m = Some v \<Longrightarrow> reg v \<noteq> None"
  by (induction cs arbitrary: m) (auto split: prod.splits option.splits if_splits)

lemma find_tool_hint_registered: "find_tool_hint reg body = Some v \<Longrightarrow> reg v \<noteq> None"
  by (auto simp: find_tool_hint_def dest: scan_chunks_registered split: if_splits)

text \<open>Reading a field written as \<open>"name": "v"\<close> yields its value.\<close>

definition plain_value :: "string \<Rightarrow> bool" where
  "plain_value v \<longleftrightarrow> CHR 0x22 \<notin> set v \<and> CHR 0x5C \<notin> set v"

lemma feed_value:
  "plain_value v \<Longrightarrow> fs_state m = InValue \<Longrightarrow>
   feed (v @ CHR 0x22 # r) m = (Some (fs_buf m @ v), m\<lparr>fs_state := Idle, fs_buf := []\<rparr>)"
proof (induction v arbitrary: m)
  case (Cons c v)
  then show ?case by (auto simp: plain_value_def fsm_byte_def)
qed (simp add: fsm_byte_def)

lemma feed_field:
  assumes "plain_value v" and "list_all is_json_ws w1" and "list_all is_json_ws w2"
    and "fs_state m = Idle"
  shows "feed (CHR 0x22 # ''name'' @ CHR 0x22 # w1 @ CHR 0x3A # w2 @ CHR 0x22 # v @ CHR 0x22 # r) m =
    (Some v, m\<lparr>fs_state := Idle, fs_buf := []\<rparr>)"
proof -
  have ws: "feed (w @ rest) n = feed rest n"
    if "list_all is_json_ws w" "fs_state n = AfterKeyClose \<or> fs_state n = AfterColon" for w rest n
    using that
    by (induction w) (auto simp: fsm_byte_def is_json_ws_def)
  show ?thesis
    using assms feed_value [OF assms(1)]
    by (simp add: fsm_byte_def ws)
qed

text \<open>Slots: free plus in flight is twenty.\<close>

definition prefetch_inv :: "prefetch \<Rightarrow> bool" where
  "prefetch_inv p \<longleftrightarrow> pf_free p + length (pf_flight p) = 20"

lemma prefetch_step_inv: "prefetch_step reg p q \<Longrightarrow> prefetch_inv p \<Longrightarrow> prefetch_inv q"
  by (elim prefetch_stepE)
    (auto simp: prefetch_inv_def try_prefetch_def warm_connection_def split: option.splits prod.splits)

lemma prefetch_reachable_inv: "(prefetch_step reg)\<^sup>*\<^sup>* prefetch_init p \<Longrightarrow> prefetch_inv p"
  by (induction rule: rtranclp_induct)
    (simp_all add: prefetch_init_def prefetch_inv_def prefetch_step_inv [unfolded prefetch_inv_def])

end
