(* ===== verification/Mcp_Properties.thy ===== *)
theory Mcp_Properties
  imports Mcp Json_Codec
begin

text \<open>The properties of the tool-server components, each with a concrete instance.\<close>

lemma feed_no_quote: "CHR 0x22 \<notin> set s \<Longrightarrow> feed (s @ r) fsm_new = feed r fsm_new"
  by (induction s) (auto simp: fsm_byte_def fsm_new_def)

text \<open>Chunk boundaries do not matter: a registered tool whose name is the first \<open>"name"\<close> value
  of the first 16 KB is found, however the field is laid out over the 64-byte chunks, with
  white space around the colon or not.\<close>

theorem hint_found:
  assumes "body = pre @ CHR 0x22 # ''name'' @ CHR 0x22 # w1 @ CHR 0x3A # w2 @ CHR 0x22 # v @ CHR 0x22 # post"
    and "CHR 0x22 \<notin> set pre" and "list_all is_json_ws w1" and "list_all is_json_ws w2"
    and "plain_value v" and "length body \<le> 16 * 1024" and "reg v \<noteq> None"
  shows "find_tool_hint reg body = Some v"
proof -
  let ?m = "fsm_new\<lparr>fs_state := Idle, fs_buf := []\<rparr>"
  have "feed body fsm_new = (Some v, ?m)"
    unfolding assms(1) feed_no_quote [OF assms(2)]
    by (rule feed_field [OF assms(5,3,4)]) (simp add: fsm_new_def)
  then have "feed (concat (chunks 64 body)) fsm_new = (Some v, ?m)"
    by (simp add: concat_chunks)
  moreover have "reg \<noteq> Map.empty" using assms(7) by auto
  ultimately show ?thesis
    using scan_chunks_first [of "chunks 64 body" fsm_new v ?m reg] assms(6,7)
    by (simp add: find_tool_hint_def)
qed

lemma hint_found_witness:
  "find_tool_hint [''jira'' \<mapsto> ''u''] (replicate 62 CHR 0x20 @
     CHR 0x22 # ''name'' @ CHR 0x22 # [] @ CHR 0x3A # [CHR 0x20] @ CHR 0x22 # ''jira'' @ CHR 0x22 # '',x'') = Some ''jira''"
  by (rule hint_found [where pre = "replicate 62 CHR 0x20" and ?w1.0 = "[]" and ?w2.0 = "[CHR 0x20]"
        and post = "'',x''"])
    (simp_all add: is_json_ws_def plain_value_def)

text \<open>A registered name can be missed: the scanner leaves a chunk as soon as one name is complete,
  so in a body of at most 64 bytes whose first name is not registered nothing is found,
  whichever registered names follow; the comment promises to find any of them.\<close>

theorem hint_missed:
  assumes "body = pre @ CHR 0x22 # ''name'' @ CHR 0x22 # w1 @ CHR 0x3A # w2 @ CHR 0x22 # v @ CHR 0x22 # post"
    and "CHR 0x22 \<notin> set pre" and "list_all is_json_ws w1" and "list_all is_json_ws w2"
    and "plain_value v" and "length body \<le> 64" and "reg v = None"
  shows "find_tool_hint reg body = None"
proof -
  have "feed body fsm_new = (Some v, fsm_new\<lparr>fs_state := Idle, fs_buf := []\<rparr>)"
    unfolding assms(1) feed_no_quote [OF assms(2)]
    by (rule feed_field [OF assms(5,3,4)]) (simp add: fsm_new_def)
  moreover have "chunks 64 body = [body]"
    using assms(1,6) by (subst chunks.simps) (simp add: chunks.simps)
  ultimately show ?thesis using assms(6,7) by (simp add: find_tool_hint_def)
qed

lemma hint_missed_witness:
  "find_tool_hint [''jira'' \<mapsto> ''u''] ([] @ CHR 0x22 # ''name'' @ CHR 0x22 # [] @ CHR 0x3A # [] @ CHR 0x22 #
     ''a'' @ CHR 0x22 # '','' @ CHR 0x22 # ''name'' @ CHR 0x22 # '':'' @ CHR 0x22 # ''jira'' @ [CHR 0x22]) = None"
  by (rule hint_missed [where pre = "[]" and ?w1.0 = "[]" and ?w2.0 = "[]" and v = "''a''"
        and post = "'','' @ CHR 0x22 # ''name'' @ CHR 0x22 # '':'' @ CHR 0x22 # ''jira'' @ [CHR 0x22]"])
    (simp_all add: is_json_ws_def plain_value_def)

text \<open>Warm-ups are bounded: whatever requests arrive and whatever warm-ups finish, at most
  twenty are in flight, and every slot is either free or held by one of them.\<close>

theorem prefetch_bounded:
  assumes "(prefetch_step reg)\<^sup>*\<^sup>* prefetch_init p"
  shows "length (pf_flight p) \<le> 20 \<and> pf_free p = 20 - length (pf_flight p)"
  using prefetch_reachable_inv [OF assms] by (auto simp: prefetch_inv_def)

lemma prefetch_bounded_witness:
  "length (pf_flight (try_prefetch [''t'' \<mapsto> ''u''] ''x'' prefetch_init)) \<le> 20"
  using prefetch_bounded [of "[''t'' \<mapsto> ''u'']" "try_prefetch [''t'' \<mapsto> ''u''] ''x'' prefetch_init"]
  by (blast intro: prefetch_step.request)

text \<open>The fan-out answers every call once: in whatever order the calls complete, the merged array
  has one entry for each call, under its id and tool name, and a call whose tool is not
  registered, times out, cannot be reached or is answered outside 2xx is reported as a
  failure.\<close>

theorem fan_out_complete:
  assumes "mset order = mset [0..<length tcs]"
  shows "image_mset (\<lambda>r. (tl_call_id r, tl_name r)) (mset (fan_out sd reg mcp t0 order tcs)) =
      image_mset (\<lambda>c. (tc_id c, tc_name c)) (mset tcs) \<and>
    length (merge_results sd (fan_out sd reg mcp t0 order tcs)) = length tcs \<and>
    (\<forall>j < length order. tl_success (fan_out sd reg mcp t0 order tcs ! j) \<longleftrightarrow>
      (\<exists>url st b ms. reg (tc_name (tcs ! (order ! j))) = Some url \<and>
        mcp (order ! j) (mcp_request sd url (tcs ! (order ! j))) = McpReply st b ms \<and> 200 \<le> st \<and> st < 300))"
proof -
  have ids: "tl_call_id (execute_single_tool_call sd reg m t0 c) = tc_id c"
    "tl_name (execute_single_tool_call sd reg m t0 c) = tc_name c" for m c
    by (auto simp: execute_single_tool_call_def failed_result_def split: option.split mcp_outcome.split)
  have ok: "tl_success (execute_single_tool_call sd reg m t0 c) \<longleftrightarrow>
      (\<exists>url st b ms. reg (tc_name c) = Some url \<and> m (mcp_request sd url c) = McpReply st b ms \<and>
        200 \<le> st \<and> st < 300)" for m c
    by (auto simp: execute_single_tool_call_def failed_result_def split: option.split mcp_outcome.split)
  have "image_mset (\<lambda>r. (tl_call_id r, tl_name r)) (mset (fan_out sd reg mcp t0 order tcs)) =
      image_mset (\<lambda>i. (tc_id (tcs ! i), tc_name (tcs ! i))) (mset order)"
    by (simp add: fan_out_def ids multiset.map_comp comp_def)
  also have "\<dots> = mset (map (\<lambda>i. (tc_id (tcs ! i), tc_name (tcs ! i))) [0..<length tcs])"
    unfolding assms by simp
  also have "map (\<lambda>i. (tc_id (tcs ! i), tc_name (tcs ! i))) [0..<length tcs] = map (\<lambda>c. (tc_id c, tc_name c)) tcs"
    by (rule nth_equalityI) simp_all
  finally have "image_mset (\<lambda>r. (tl_call_id r, tl_name r)) (mset (fan_out sd reg mcp t0 order tcs)) =
      image_mset (\<lambda>c. (tc_id c, tc_name c)) (mset tcs)" by simp
  moreover have "length order = length tcs"
    using assms by (metis length_upt minus_nat.diff_0 size_mset)
  ultimately show ?thesis by (simp add: merge_results_def fan_out_def ok)
qed

lemma fan_out_complete_witness:
  "length (merge_results sd1 (fan_out sd1 Map.empty (\<lambda>i q. McpTimeout) 0 [1, 0]
     [\<lparr>tc_id = ''1'', tc_name = ''f'', tc_arguments = []\<rparr>, \<lparr>tc_id = ''2'', tc_name = ''g'', tc_arguments = []\<rparr>])) = 2"
proof -
  have "mset [1, 0] = mset [0..<length [\<lparr>tc_id = ''1'', tc_name = ''f'', tc_arguments = []\<rparr>,
      \<lparr>tc_id = ''2'', tc_name = ''g'', tc_arguments = []\<rparr>]]"
    by (simp add: upt_rec add_mset_commute)
  from fan_out_complete [OF this, of sd1 Map.empty "\<lambda>i q. McpTimeout" 0] show ?thesis by simp
qed

end
