(* ===== verification/Sandbox.thy ===== *)
theory Sandbox
  imports Router
begin

text \<open>
  The tool-call sandbox (\<open>enforce_mcp_sandbox\<close> in \<open>usecases/behavior_guard.rs\<close>): a reply
  that calls tools is checked with the policy service, and a denied call is replaced by a
  steering message. \<open>opa\<close> answers the policy request.
\<close>

section \<open>The check\<close>

definition sandbox_is_fail_open :: "string option \<Rightarrow> bool" where
  "sandbox_is_fail_open env = (case env of None \<Rightarrow> False | Some v \<Rightarrow> ascii_lower v = ''open'')"

definition deny_content :: string where
  "deny_content = ''{'' @ [CHR 0x22] @ ''error'' @ [CHR 0x22] @ '':'' @ [CHR 0x22] @
     ''RedEye Guard: Policy Denied. Use read-only tools.'' @ [CHR 0x22] @ ''}''"

definition first_call_name :: "json \<Rightarrow> string" where
  "first_call_name v = str_or ''unknown_tool''
     (jpointer_str v [Key ''choices'', Idx0, Key ''message'', Key ''tool_calls'', Idx0, Key ''function'', Key ''name''])"

definition opa_request :: "serde \<Rightarrow> string \<Rightarrow> string \<Rightarrow> string \<Rightarrow> upstream_req" where
  "opa_request sd compliance_url tenant tool =
     \<lparr>ur_url = trim_end_char (CHR 0x2F) compliance_url @ ''/v1/data/redeye/mcp/allow'',
      ur_headers = [(''content-type'', ''application/json'')],
      ur_body = print_value sd (jobject [(''input'', jobject
        [(''tenant_id'', JStr tenant), (''tool_name'', JStr tool), (''action'', JStr ''execute'')])])\<rparr>"

definition is_success :: "nat \<Rightarrow> bool" where
  "is_success st \<longleftrightarrow> 200 \<le> st \<and> st < 300"

text \<open>The body of a reply as JSON: \<open>None\<close> when it cannot be read or parsed.\<close>

definition reply_json :: "serde \<Rightarrow> http_response \<Rightarrow> json option" where
  "reply_json sd r = (case body_bytes (hr_body r) of Inl e \<Rightarrow> None | Inr b \<Rightarrow> parse_value sd b)"

definition opa_denied :: "serde \<Rightarrow> bool \<Rightarrow> http_result \<Rightarrow> bool" where
  "opa_denied sd fail_open r =
     (case r of
        HOk resp \<Rightarrow>
          if is_success (hr_status resp)
          then \<not> (case Option.bind (reply_json sd resp) (\<lambda>v. as_bool (jindex v ''result'')) of
                     Some allow \<Rightarrow> allow | None \<Rightarrow> \<not> fail_open)
          else \<not> fail_open
      | HErr e \<Rightarrow> \<not> fail_open)"

text \<open>The mutation of a denied reply: only the first choice is touched.\<close>

definition deny_message :: json where
  "deny_message = jobject [(''role'', JStr ''tool''), (''content'', JStr deny_content)]"

definition deny_choice :: "json \<Rightarrow> json" where
  "deny_choice c =
     (let c1 = (if jget c ''message'' \<noteq> None then jset ''message'' deny_message c else c)
      in jset ''finish_reason'' (JStr ''stop'') (jremove ''tool_calls'' c1))"

definition deny_body :: "json \<Rightarrow> json" where
  "deny_body v =
     (case jget_arr v ''choices'' of
        Some (c # cs) \<Rightarrow> jset ''choices'' (JArr (deny_choice c # cs)) v
      | _ \<Rightarrow> v)"

definition enforce_mcp_sandbox ::
  "serde \<Rightarrow> string option \<Rightarrow> (upstream_req \<Rightarrow> http_result) \<Rightarrow> string \<Rightarrow> string \<Rightarrow> string \<Rightarrow> string" where
  "enforce_mcp_sandbox sd env opa compliance_url tenant body =
     (if \<not> contains_str (take (4 * 1024) body) ''tool_calls'' then body
      else (case parse_value sd body of
          None \<Rightarrow> body
        | Some v \<Rightarrow>
            if opa_denied sd (sandbox_is_fail_open env)
                 (opa (opa_request sd compliance_url tenant (first_call_name v)))
            then print_value sd (deny_body v)
            else body))"

section \<open>Lemmas\<close>

text \<open>The calls of the first choice, the ones a client would execute.\<close>

definition first_choice_calls :: "json \<Rightarrow> json option" where
  "first_choice_calls v = jpointer v [Key ''choices'', Idx0, Key ''message'', Key ''tool_calls'']"

lemma deny_choice_calls: "jpointer (deny_choice c) [Key ''message'', Key ''tool_calls''] = None"
proof (cases c)
  case (JObj ob)
  then show ?thesis
    by (cases "jget c ''message''")
      (auto simp: deny_choice_def Let_def map_of_bt_insert map_of_bt_remove deny_message_def)
qed (auto simp: deny_choice_def Let_def)

lemma first_of_eq_Some: "first_of xs = Some c \<longleftrightarrow> (\<exists>cs. xs = c # cs)"
  by (simp add: first_of_def split: list.split)

lemma deny_choice_finish: "c = JObj ob \<Longrightarrow> jget (deny_choice c) ''finish_reason'' = Some (JStr ''stop'')"
  by (simp add: deny_choice_def Let_def map_of_bt_insert)

lemma deny_body_calls: "first_choice_calls (deny_body v) = None"
proof (cases "Option.bind (jget_arr v ''choices'') first_of")
  case None
  then have "deny_body v = v"
    by (auto simp: deny_body_def first_of_def split: option.split list.split)
  moreover have "first_choice_calls v = None"
    using None by (auto simp: first_choice_calls_def jget_arr_def split: option.split)
  ultimately show ?thesis by simp
next
  case (Some c)
  then obtain cs where "jget_arr v ''choices'' = Some (c # cs)"
    by (auto simp: bind_eq_Some_conv first_of_eq_Some)
  moreover from this obtain ob where "v = JObj ob" by (cases v) (auto simp: jget_arr_def)
  ultimately show ?thesis
    using deny_choice_calls [of c]
    by (simp add: first_choice_calls_def deny_body_def map_of_bt_insert first_of_def)
qed

lemma deny_body_frame: "k \<noteq> ''choices'' \<Longrightarrow> jget (deny_body v) k = jget v k"
  by (simp add: deny_body_def jget_jset split: option.split list.split)

end
