(* ===== verification/Sandbox_Properties.thy ===== *)
theory Sandbox_Properties
  imports Sandbox Json_Codec
begin

text \<open>The properties of the tool-call sandbox, each with a concrete instance.\<close>

lemma denied_loses_calls:
  assumes "serde_roundtrip sd" and "contains_str (take (4 * 1024) body) ''tool_calls''" and "parse_value sd body = Some v"
    and "opa_denied sd (sandbox_is_fail_open env) (opa (opa_request sd url tenant (first_call_name v)))"
  shows "\<exists>w. parse_value sd (enforce_mcp_sandbox sd env opa url tenant body) = Some w \<and>
    first_choice_calls w = None \<and> (\<forall>k. k \<noteq> ''choices'' \<longrightarrow> jget w k = jget v k)"
  using assms deny_body_calls deny_body_frame by (auto simp: enforce_mcp_sandbox_def serde_roundtrip_def)


definition call_sample :: "string \<Rightarrow> json" where
  "call_sample n = JObj [(''function'', JObj [(''name'', JStr n)])]"

definition calls_sample :: "json list \<Rightarrow> json" where
  "calls_sample cs = JObj [(''choices'', JArr [JObj [(''message'', JObj [(''tool_calls'', JArr cs)])]])]"

lemma calls_sample_seen:
  "contains_str (take (4 * 1024) (enc_json (calls_sample [call_sample ''rm'']))) ''tool_calls''"
  by code_simp


text \<open>An ambiguous policy answer is taken as permission: with the default mode a 2xx answer
  whose \<open>result\<close> is missing or no boolean lets the tool calls pass, although every other
  failure of the check denies them.\<close>

theorem sandbox_ambiguous_allows:
  assumes "\<not> sandbox_is_fail_open env"
    and "opa (opa_request sd url tenant (first_call_name v)) = HOk resp" and "is_success (hr_status resp)"
    and "Option.bind (reply_json sd resp) (\<lambda>j. as_bool (jindex j ''result'')) = None"
    and "parse_value sd body = Some v"
  shows "enforce_mcp_sandbox sd env opa url tenant body = body"
  using assms by (simp add: enforce_mcp_sandbox_def opa_denied_def)

lemma sandbox_ambiguous_allows_witness:
  "enforce_mcp_sandbox sd1 None (\<lambda>q. HOk \<lparr>hr_status = 200, hr_headers = [], hr_body = [Chunk (enc_json (JObj []))]\<rparr>)
      ''u'' ''t'' (enc_json (calls_sample [call_sample ''rm''])) = enc_json (calls_sample [call_sample ''rm''])"
  by (rule sandbox_ambiguous_allows [where v = "calls_sample [call_sample ''rm'']" and
        resp = "\<lparr>hr_status = 200, hr_headers = [], hr_body = [Chunk (enc_json (JObj []))]\<rparr>"])
    (simp_all add: sandbox_is_fail_open_def is_success_def reply_json_def jindex_def)

text \<open>Only the first call is checked: when the policy allows the first call of a reply, every
  further call passes with it, whatever the policy says of those tools.\<close>

theorem sandbox_checks_first_only:
  assumes "serde_roundtrip sd"
    and "\<And>q. q = opa_request sd url tenant allowed \<Longrightarrow> \<not> opa_denied sd (sandbox_is_fail_open env) (opa q)"
  shows "enforce_mcp_sandbox sd env opa url tenant
      (print_value sd (calls_sample (call_sample allowed # call_sample forbidden # cs))) =
    print_value sd (calls_sample (call_sample allowed # call_sample forbidden # cs))"
proof -
  have "first_call_name (calls_sample (call_sample allowed # call_sample forbidden # cs)) = allowed"
    by (simp add: first_call_name_def calls_sample_def call_sample_def jpointer_str_def first_of_def str_or_def)
  then show ?thesis
    using assms by (simp add: enforce_mcp_sandbox_def serde_roundtrip_def)
qed

lemma sandbox_checks_first_only_witness:
  "enforce_mcp_sandbox sd1 None
      (\<lambda>q. HOk \<lparr>hr_status = 200, hr_headers = [], hr_body = [Chunk (enc_json (JObj [(''result'',
         JBool (q = opa_request sd1 ''u'' ''t'' ''ls''))]))]\<rparr>) ''u'' ''t''
      (print_value sd1 (calls_sample (call_sample ''ls'' # call_sample ''rm'' # []))) =
    print_value sd1 (calls_sample (call_sample ''ls'' # call_sample ''rm'' # []))"
  by (rule sandbox_checks_first_only [OF sd1_roundtrip])
    (simp add: opa_denied_def is_success_def reply_json_def jindex_def)

end
