(* ===== verification/L1_Cache.thy ===== *)
theory L1_Cache
  imports Tool_Router
begin

text \<open>
  The gateway's in-memory cache (\<open>infrastructure/l1_cache.rs\<close>): an exact layer keyed by
  the digest of the prompt, over a third-party cache with an idle time, and a semantic
  layer, a bounded ring of embeddings. \<open>eget\<close>, \<open>eins\<close> are the exact layer's
  operations, \<open>emb\<close> the embedding model, \<open>sha\<close> the hex digest.
\<close>

section \<open>The exact layer\<close>

text \<open>Documented behaviour below the capacity: an entry lives an idle time from its last use.\<close>

locale idle_cache =
  fixes get :: "'e \<Rightarrow> nat \<Rightarrow> string \<Rightarrow> string option \<times> 'e"
    and ins :: "'e \<Rightarrow> nat \<Rightarrow> string \<Rightarrow> string \<Rightarrow> 'e"
    and view :: "'e \<Rightarrow> nat \<Rightarrow> string \<Rightarrow> string option"
    and tti :: nat
  assumes get_reply: "fst (get c t k) = view c t k"
    and get_touch: "t \<le> t' \<Longrightarrow> view (snd (get c t k)) t' j =
      (if j = k \<and> view c t k \<noteq> None then (if t' < t + tti then view c t k else None) else view c t' j)"
    and ins_view: "t \<le> t' \<Longrightarrow> view (ins c t k v) t' j =
      (if j = k then (if t' < t + tti then Some v else None) else view c t' j)"
begin

lemma hit_after_insert: "t \<le> t' \<Longrightarrow> t' < t + tti \<Longrightarrow> fst (get (ins c t k v) t' k) = Some v"
  by (simp add: get_reply ins_view)

text \<open>A use renews the idle time.\<close>

lemma hit_renews:
  "view c t k = Some v \<Longrightarrow> t \<le> t' \<Longrightarrow> t' < t + tti \<Longrightarrow> fst (get (snd (get c t k)) t' k) = Some v"
  by (simp add: get_reply get_touch)

end

type_synonym idle_map = "string \<Rightarrow> (string \<times> nat) option"

definition idle_view :: "idle_map \<Rightarrow> nat \<Rightarrow> string \<Rightarrow> string option" where
  "idle_view c t k = (case c k of None \<Rightarrow> None | Some (v, d) \<Rightarrow> if t < d then Some v else None)"

definition idle_get :: "nat \<Rightarrow> idle_map \<Rightarrow> nat \<Rightarrow> string \<Rightarrow> string option \<times> idle_map" where
  "idle_get tti c t k =
     (idle_view c t k, case idle_view c t k of None \<Rightarrow> c | Some v \<Rightarrow> c(k \<mapsto> (v, t + tti)))"

definition idle_ins :: "nat \<Rightarrow> idle_map \<Rightarrow> nat \<Rightarrow> string \<Rightarrow> string \<Rightarrow> idle_map" where
  "idle_ins tti c t k v = c(k \<mapsto> (v, t + tti))"

interpretation idle: idle_cache "idle_get tti" "idle_ins tti" idle_view tti
  by unfold_locales
    (auto simp: idle_get_def idle_ins_def idle_view_def split: option.splits if_splits)

section \<open>The cache\<close>

type_synonym 'e l1_cache = "'e \<times> (f32 list \<times> string) list"

definition hash_prompt :: "(string \<Rightarrow> string) \<Rightarrow> string \<Rightarrow> string" where
  "hash_prompt sha prompt = sha prompt"

definition get_exact ::
  "(string \<Rightarrow> string) \<Rightarrow> ('e \<Rightarrow> nat \<Rightarrow> string \<Rightarrow> string option \<times> 'e) \<Rightarrow> nat \<Rightarrow> string \<Rightarrow>
   'e l1_cache \<Rightarrow> string option \<times> 'e l1_cache" where
  "get_exact sha eget t prompt c =
     (let r = eget (fst c) t (hash_prompt sha prompt) in (fst r, (snd r, snd c)))"

text \<open>The accumulators of the loop: the dot product and the two squared norms.\<close>

definition cosine_sums :: "f32_ops \<Rightarrow> f32 list \<Rightarrow> f32 list \<Rightarrow> f32 \<times> f32 \<times> f32" where
  "cosine_sums G a b =
     foldl (\<lambda>(d, na, nb) i. (g_add G d (g_mul G (a ! i) (b ! i)),
                             g_add G na (g_mul G (a ! i) (a ! i)),
                             g_add G nb (g_mul G (b ! i) (b ! i))))
       (g_dec G 0 0, g_dec G 0 0, g_dec G 0 0) [0..<length a]"

text \<open>\<open>==\<close> on floats as two comparisons.\<close>

definition f32_eq :: "f32_ops \<Rightarrow> f32 \<Rightarrow> f32 \<Rightarrow> bool" where
  "f32_eq G x y \<longleftrightarrow> g_ge G x y \<and> g_ge G y x"

definition cosine_distance :: "f32_ops \<Rightarrow> f32 list \<Rightarrow> f32 list \<Rightarrow> f32" where
  "cosine_distance G a b =
     (case cosine_sums G a b of (d, na, nb) \<Rightarrow>
        if f32_eq G na (g_dec G 0 0) \<or> f32_eq G nb (g_dec G 0 0) then g_dec G 1 0
        else g_sub G (g_dec G 1 0) (g_div G d (g_mul G (g_sqrt G na) (g_sqrt G nb))))"

text \<open>The nearest entry: strictly smaller distances replace the best so far; \<open>fmax\<close> is \<open>f32::MAX\<close>.\<close>

definition nearest ::
  "f32_ops \<Rightarrow> f32 \<Rightarrow> f32 list \<Rightarrow> (f32 list \<times> string) list \<Rightarrow> f32 \<times> string option" where
  "nearest G fmax v queue =
     foldl (\<lambda>best e. let dist = cosine_distance G v (fst e)
                     in if g_gt G (fst best) dist then (dist, Some (snd e)) else best)
       (fmax, None) queue"

definition get_semantic ::
  "f32_ops \<Rightarrow> f32 \<Rightarrow> (string \<Rightarrow> f32 list list option) \<Rightarrow> string \<Rightarrow> 'e l1_cache \<Rightarrow> string option" where
  "get_semantic G fmax emb prompt c =
     Option.bind (Option.bind (emb prompt) first_of) (\<lambda>v.
       let best = nearest G fmax v (snd c)
       in if g_gt G (g_dec G 10 2) (fst best) then snd best else None)"

definition semantic_capacity :: nat where "semantic_capacity = 5000"

definition push_semantic ::
  "(f32 list \<times> string) list \<Rightarrow> f32 list \<Rightarrow> string \<Rightarrow> (f32 list \<times> string) list" where
  "push_semantic queue v response =
     (if semantic_capacity \<le> length queue then tl queue else queue) @ [(v, response)]"

text \<open>Insertion: the exact entry is stored before the embedding can fail.\<close>

definition l1_insert ::
  "(string \<Rightarrow> string) \<Rightarrow> ('e \<Rightarrow> nat \<Rightarrow> string \<Rightarrow> string \<Rightarrow> 'e) \<Rightarrow> (string \<Rightarrow> f32 list list option) \<Rightarrow> nat \<Rightarrow>
   string \<Rightarrow> string \<Rightarrow> 'e l1_cache \<Rightarrow> bool \<times> 'e l1_cache" where
  "l1_insert sha eins emb t prompt response c =
     (let e = eins (fst c) t (hash_prompt sha prompt) response
      in case Option.bind (emb prompt) first_of of
           None \<Rightarrow> (False, (e, snd c))
         | Some v \<Rightarrow> (True, (e, push_semantic (snd c) v response)))"

section \<open>Lemmas\<close>

definition l1_run ::
  "(string \<Rightarrow> string) \<Rightarrow> ('e \<Rightarrow> nat \<Rightarrow> string \<Rightarrow> string \<Rightarrow> 'e) \<Rightarrow> (string \<Rightarrow> f32 list list option) \<Rightarrow>
   (nat \<times> string \<times> string) list \<Rightarrow> 'e l1_cache \<Rightarrow> 'e l1_cache" where
  "l1_run sha eins emb ins c =
     foldl (\<lambda>c i. snd (l1_insert sha eins emb (fst i) (fst (snd i)) (snd (snd i)) c)) c ins"

lemma push_semantic_length:
  "length queue \<le> semantic_capacity \<Longrightarrow> length (push_semantic queue v r) \<le> semantic_capacity"
  by (auto simp: push_semantic_def semantic_capacity_def)

text \<open>The ring holds the last insertions: a suffix of everything pushed.\<close>

lemma push_semantic_ring:
  "queue = drop (length all - semantic_capacity) all \<Longrightarrow>
   push_semantic queue v r = drop (length (all @ [(v, r)]) - semantic_capacity) (all @ [(v, r)])"
proof -
  assume q: "queue = drop (length all - semantic_capacity) all"
  have pos: "0 < semantic_capacity" by (simp add: semantic_capacity_def)
  show ?thesis
  proof (cases "semantic_capacity \<le> length all")
    case True
    then have "length queue = semantic_capacity" by (simp add: q)
    moreover have "tl queue = drop (Suc (length all) - semantic_capacity) all"
      using True by (simp add: q drop_Suc Suc_diff_le tl_drop)
    ultimately show ?thesis using True pos by (simp add: push_semantic_def)
  next
    case False
    then show ?thesis by (simp add: push_semantic_def q)
  qed
qed

definition semantic_entries ::
  "(string \<Rightarrow> f32 list list option) \<Rightarrow> (nat \<times> string \<times> string) list \<Rightarrow> (f32 list \<times> string) list" where
  "semantic_entries emb ins = List.map_filter (\<lambda>i.
     map_option (\<lambda>v. (v, snd (snd i))) (Option.bind (emb (fst (snd i))) first_of)) ins"

lemma l1_run_ring:
  "snd c = drop (length all - semantic_capacity) all \<Longrightarrow>
   snd (l1_run sha eins emb ins c) =
     drop (length (all @ semantic_entries emb ins) - semantic_capacity) (all @ semantic_entries emb ins)"
proof (induction ins arbitrary: c all)
  case Nil
  then show ?case by (simp add: l1_run_def semantic_entries_def map_filter_simps)
next
  case (Cons i ins)
  let ?c = "snd (l1_insert sha eins emb (fst i) (fst (snd i)) (snd (snd i)) c)"
  show ?case
  proof (cases "Option.bind (emb (fst (snd i))) first_of")
    case None
    then have "snd ?c = drop (length all - semantic_capacity) all"
      using Cons.prems by (simp add: l1_insert_def)
    from Cons.IH [OF this] None show ?thesis
      by (simp add: l1_run_def semantic_entries_def map_filter_simps)
  next
    case (Some v)
    then have "snd ?c = drop (length (all @ [(v, snd (snd i))]) - semantic_capacity) (all @ [(v, snd (snd i))])"
      using push_semantic_ring [OF Cons.prems] by (simp add: l1_insert_def)
    from Cons.IH [OF this] Some show ?thesis
      by (simp add: l1_run_def semantic_entries_def map_filter_simps)
  qed
qed

lemma nearest_entry:
  "snd (nearest G fmax v queue) = Some r \<Longrightarrow>
   \<exists>e \<in> set queue. snd e = r \<and> fst (nearest G fmax v queue) = cosine_distance G v (fst e)"
proof (induction queue rule: rev_induct)
  case (snoc e queue)
  then show ?case by (auto simp: nearest_def Let_def split: if_splits)
qed (simp add: nearest_def)

lemma nearest_none: "snd (nearest G fmax v queue) = None \<Longrightarrow> fst (nearest G fmax v queue) = fmax"
  by (induction queue rule: rev_induct) (auto simp: nearest_def Let_def split: if_splits)

text \<open>For a strict order on distances the loop finds a smallest one.\<close>

lemma nearest_minimal:
  assumes trans: "\<And>x y z. g_gt G x y \<Longrightarrow> g_gt G y z \<Longrightarrow> g_gt G x z"
    and irrefl: "\<And>x. \<not> g_gt G x x"
    and e: "e \<in> set queue"
  shows "\<not> g_gt G (fst (nearest G fmax v queue)) (cosine_distance G v (fst e))"
  using e
proof (induction queue rule: rev_induct)
  case (snoc x queue)
  let ?b = "nearest G fmax v queue" and ?d = "cosine_distance G v (fst x)"
  have step: "nearest G fmax v (queue @ [x]) = (if g_gt G (fst ?b) ?d then (?d, Some (snd x)) else ?b)"
    by (simp add: nearest_def Let_def)
  show ?case
  proof (cases "e = x")
    case True
    then show ?thesis by (simp add: step irrefl)
  next
    case False
    then have "\<not> g_gt G (fst ?b) (cosine_distance G v (fst e))" using snoc by simp
    then show ?thesis
      using trans by (auto simp: step)
  qed
qed simp

end
