(* ===== verification/Proxy.thy ===== *)
theory Proxy
  imports Guards Sandbox Tool_Router Mcp L1_Cache
begin

text \<open>
  The proxy pipeline (\<open>usecases/proxy.rs\<close>) with the calls of the L2 cache and the tracer it
  makes (\<open>infrastructure/cache_client.rs\<close>, \<open>infrastructure/clickhouse_logger.rs\<close>):
  redaction, cache lookup and preparation, admission guards, upstream call, response
  handling, and the background jobs a request leaves behind.

  \<open>gw_env\<close> holds what is fixed while the gateway runs (configuration, libraries, the
  third-party stores), \<open>replies\<close> what the outside answers to one request. \<open>gw_state\<close> is the
  gateway's state together with everything it has sent, in order.
\<close>

section \<open>Environment and state\<close>

record ('s, 'c, 'e) gw_env =
  ev_F :: f64_ops
  ev_G :: f32_ops
  ev_fmax :: f32
  ev_sd :: serde
  ev_lc :: "string \<Rightarrow> string"
  ev_sha :: "string \<Rightarrow> string"
  ev_words :: "string \<Rightarrow> string list"
  ev_utf8 :: "string \<Rightarrow> bool"
  ev_pii :: "string \<Rightarrow> bool"
  ev_exec :: "nat \<Rightarrow> rcmd \<Rightarrow> 's \<Rightarrow> rval \<times> 's"
  ev_cget :: "'c \<Rightarrow> nat \<Rightarrow> string \<Rightarrow> unit option"
  ev_cins :: "'c \<Rightarrow> nat \<Rightarrow> string \<Rightarrow> unit \<Rightarrow> 'c"
  ev_eget :: "'e \<Rightarrow> nat \<Rightarrow> string \<Rightarrow> string option \<times> 'e"
  ev_eins :: "'e \<Rightarrow> nat \<Rightarrow> string \<Rightarrow> string \<Rightarrow> 'e"
  ev_emb :: "string \<Rightarrow> f32 list list option"
  ev_compliance_url :: string
  ev_sandbox :: "string option"
  ev_mcp :: mcp_urls
  ev_tools :: tool_registry

datatype l2_reply = L2Reply bool string | L2Error

record cache_request =
  cq_tenant :: string
  cq_model :: string
  cq_prompt :: string
  cq_trace :: trace_context

record replies =
  re_compliance :: "upstream_req \<Rightarrow> http_result"
  re_time :: nat
  re_l2 :: "cache_request \<Rightarrow> l2_reply"
  re_breaker :: "nat \<Rightarrow> nat"
  re_bucket :: call
  re_loop_rd :: call
  re_loop_wr :: call
  re_token_first :: bool
  re_burn :: call
  re_burn_now :: nat
  re_net :: net
  re_opa :: "upstream_req \<Rightarrow> http_result"
  re_mcp :: "nat \<Rightarrow> upstream_req \<Rightarrow> mcp_outcome"
  re_order :: "nat list"
  re_mcp_ms :: "u64 \<times> u64"
  re_sync :: call
  re_latency :: u32
  re_uuid :: string
  re_stamp :: string

record telemetry_job =
  tj_tenant :: string
  tj_model :: string
  tj_prompt :: string
  tj_trace :: trace_context
  tj_status :: nat
  tj_latency :: u32
  tj_tokens :: u32
  tj_cache_hit :: bool
  tj_response :: "string option"
  tj_requested :: string
  tj_executed :: string
  tj_hot :: nat

datatype job = TelemetryJob telemetry_job | StreamJob telemetry_job "chunk list" | SendJob json

record ('s, 'c, 'e) gw_state =
  gs_redis :: 's
  gs_counters :: counters
  gs_breaker :: 'c
  gs_l1 :: "'e l1_cache"
  gs_routes :: routing_map
  gs_prefetch :: prefetch
  gs_upstream :: "upstream_req list"
  gs_compliance :: "upstream_req list"
  gs_policy :: "upstream_req list"
  gs_telemetry :: "json list"
  gs_traces :: "json list"
  gs_l2 :: "(cache_request \<times> string) list"
  gs_jobs :: "job list"

record proxy_request =
  pq_body :: string
  pq_tenant :: string
  pq_model :: string
  pq_prompt :: string
  pq_accept :: string
  pq_trace :: trace_context

datatype proxy_body = Buffered string | Streamed "chunk list"

record proxy_result =
  px_status :: nat
  px_content_type :: string
  px_body :: proxy_body
  px_cache_hit :: bool

section \<open>Helpers\<close>

definition get_requested_provider :: "routing_map \<Rightarrow> string \<Rightarrow> string" where
  "get_requested_provider routes model = (case routes model of None \<Rightarrow> ''unknown'' | Some c \<Rightarrow> mc_schema_format c)"

definition extract_response_content :: "serde \<Rightarrow> string option \<Rightarrow> string" where
  "extract_response_content sd bytes =
     str_or [] (Option.bind (Option.bind bytes (parse_value sd)) (\<lambda>v.
       as_str (jindex (jindex (jindex0 (jindex v ''choices'')) ''message'') ''content'')))"

text \<open>The client of the L2 cache: an error is a miss.\<close>

definition lookup_cache :: "l2_reply \<Rightarrow> string option" where
  "lookup_cache r = (case r of L2Reply hit content \<Rightarrow> if hit then Some content else None | L2Error \<Rightarrow> None)"

definition store_in_cache ::
  "cache_request \<Rightarrow> string \<Rightarrow> ('s, 'c, 'e) gw_state \<Rightarrow> ('s, 'c, 'e) gw_state" where
  "store_in_cache q content st = st\<lparr>gs_l2 := gs_l2 st @ [(q, content)]\<rparr>"

definition send_trace_to_tracer :: "json \<Rightarrow> ('s, 'c, 'e) gw_state \<Rightarrow> ('s, 'c, 'e) gw_state" where
  "send_trace_to_tracer payload st = st\<lparr>gs_traces := gs_traces st @ [payload]\<rparr>"

definition send_telemetry :: "json \<Rightarrow> ('s, 'c, 'e) gw_state \<Rightarrow> ('s, 'c, 'e) gw_state" where
  "send_telemetry payload st = st\<lparr>gs_telemetry := gs_telemetry st @ [payload]\<rparr>"

definition spawn_job :: "job \<Rightarrow> ('s, 'c, 'e) gw_state \<Rightarrow> ('s, 'c, 'e) gw_state" where
  "spawn_job j st = st\<lparr>gs_jobs := gs_jobs st @ [j]\<rparr>"

definition spawn_telemetry ::
  "proxy_request \<Rightarrow> nat \<Rightarrow> u32 \<Rightarrow> u32 \<Rightarrow> bool \<Rightarrow> string option \<Rightarrow> string \<Rightarrow> string \<Rightarrow> nat \<Rightarrow>
   ('s, 'c, 'e) gw_state \<Rightarrow> ('s, 'c, 'e) gw_state" where
  "spawn_telemetry q status latency tokens hit resp requested executed hot =
     spawn_job (TelemetryJob \<lparr>tj_tenant = pq_tenant q, tj_model = pq_model q, tj_prompt = pq_prompt q,
       tj_trace = pq_trace q, tj_status = status, tj_latency = latency, tj_tokens = tokens,
       tj_cache_hit = hit, tj_response = resp, tj_requested = requested, tj_executed = executed,
       tj_hot = hot\<rparr>)"

section \<open>Redaction\<close>

definition redact_request :: "serde \<Rightarrow> string \<Rightarrow> json \<Rightarrow> trace_context \<Rightarrow> upstream_req" where
  "redact_request sd url payload tr =
     \<lparr>ur_url = trim_end_char (CHR 0x2F) url @ ''/api/v1/compliance/redact'',
      ur_headers = [(''x-redeye-trace-id'', tr_trace_id tr), (''x-redeye-session-id'', tr_session_id tr),
                    (''content-type'', ''application/json'')],
      ur_body = print_value sd payload\<rparr>"

definition call_compliance_redact :: "serde \<Rightarrow> http_result \<Rightarrow> gateway_error + json" where
  "call_compliance_redact sd reply =
     (case reply of
        HErr e \<Rightarrow> Inl (ComplianceFailure ''Compliance service unreachable: '')
      | HOk resp \<Rightarrow>
          if \<not> is_success (hr_status resp)
          then Inl (ComplianceFailure (''Compliance service returned HTTP '' @ show_nat (hr_status resp)))
          else (case reply_json sd resp of
              None \<Rightarrow> Inl (ComplianceFailure ''Malformed compliance response: '')
            | Some v \<Rightarrow>
                (case jget v ''sanitized_payload'' of
                   Some p \<Rightarrow> Inr p
                 | None \<Rightarrow> Inl (ComplianceFailure
                     ''Compliance response did not contain `sanitized_payload`''))))"

text \<open>Stage 0: the body to use from here on, with its value when it was parsed.\<close>

definition redact_stage ::
  "('s, 'c, 'e) gw_env \<Rightarrow> replies \<Rightarrow> proxy_request \<Rightarrow> ('s, 'c, 'e) gw_state \<Rightarrow>
   (gateway_error + string \<times> json option) \<times> ('s, 'c, 'e) gw_state" where
  "redact_stage ev re q st =
     (if \<not> ev_pii ev (pq_prompt q) then (Inr (pq_body q, None), st)
      else (case parse_value (ev_sd ev) (pq_body q) of
          None \<Rightarrow> (Inl (ResponseBuild ''Invalid JSON body: ''), st)
        | Some v \<Rightarrow>
            (let req = redact_request (ev_sd ev) (ev_compliance_url ev) v (pq_trace q)
             in (res_bind (call_compliance_redact (ev_sd ev) (re_compliance re req))
                   (\<lambda>p. Inr (print_value (ev_sd ev) p, Some p)),
                 st\<lparr>gs_compliance := gs_compliance st @ [req]\<rparr>))))"

section \<open>Cache lookup\<close>

text \<open>The exact layer, then the semantic one, then the L2 service.\<close>

definition cache_stage ::
  "('s, 'c, 'e) gw_env \<Rightarrow> replies \<Rightarrow> proxy_request \<Rightarrow> ('s, 'c, 'e) gw_state \<Rightarrow>
   string option \<times> ('s, 'c, 'e) gw_state" where
  "cache_stage ev re q st =
     (let ex = get_exact (ev_sha ev) (ev_eget ev) (re_time re) (pq_prompt q) (gs_l1 st);
          st1 = st\<lparr>gs_l1 := snd ex\<rparr>
      in case fst ex of
           Some c \<Rightarrow> (Some c, st1)
         | None \<Rightarrow>
             (case get_semantic (ev_G ev) (ev_fmax ev) (ev_emb ev) (pq_prompt q) (gs_l1 st1) of
                Some c \<Rightarrow> (Some c, st1)
              | None \<Rightarrow> (lookup_cache (re_l2 re \<lparr>cq_tenant = pq_tenant q, cq_model = pq_model q,
                           cq_prompt = pq_prompt q, cq_trace = pq_trace q\<rparr>), st1)))"

definition handle_cache_hit ::
  "('s, 'c, 'e) gw_env \<Rightarrow> replies \<Rightarrow> proxy_request \<Rightarrow> string \<Rightarrow> ('s, 'c, 'e) gw_state \<Rightarrow>
   (gateway_error + proxy_result) \<times> ('s, 'c, 'e) gw_state" where
  "handle_cache_hit ev re q content st =
     (let provider = get_requested_provider (gs_routes st) (pq_model q);
          resp = openai_completion ''chatcmpl-cached'' (pq_model q)
            (jobject [(''role'', JStr ''assistant''), (''content'', JStr content)]) ''stop'' 0 0
      in (Inr \<lparr>px_status = 200, px_content_type = ''application/json'',
               px_body = Buffered (print_value (ev_sd ev) resp), px_cache_hit = True\<rparr>,
          spawn_telemetry q 200 (re_latency re) 0 True None provider provider 0 st))"

section \<open>Admission\<close>

text \<open>
  The token bucket and the loop guard run concurrently and the first error wins; they
  touch different keys, so their order shows only in which error is reported when both
  fail. A guard abandoned before its command went out is one whose call is lost.
\<close>

definition preflight ::
  "('s, 'c, 'e) gw_env \<Rightarrow> replies \<Rightarrow> proxy_request \<Rightarrow> json \<Rightarrow> ('s, 'c, 'e) gw_state \<Rightarrow>
   gateway_error option \<times> ('s, 'c, 'e) gw_state" where
  "preflight ev re q v st =
     (let tb = enforce_token_bucket (ev_exec ev) (re_bucket re) (pq_tenant q) (pq_prompt q) (gs_redis st);
          ld = enforce_loop_detection (ev_exec ev) (ev_sd ev) (ev_sha ev) (re_loop_rd re) (re_loop_wr re)
                 (tr_session_id (pq_trace q)) v (snd tb)
      in (case (fst tb, fst ld) of
            (Inl e1, Inl e2) \<Rightarrow> Some (if re_token_first re then e1 else e2)
          | (Inl e1, Inr _) \<Rightarrow> Some e1
          | (Inr _, Inl e2) \<Rightarrow> Some e2
          | (Inr _, Inr _) \<Rightarrow> None,
          st\<lparr>gs_redis := snd ld\<rparr>))"

fun blocked_model :: "gateway_error \<Rightarrow> string" where
  "blocked_model (RateLimitExceeded _) = ''__token_blocked''"
| "blocked_model (LoopDetected _) = ''__loop_blocked''"
| "blocked_model _ = ''__preflight_blocked''"

definition blocked_payload ::
  "replies \<Rightarrow> proxy_request \<Rightarrow> string \<Rightarrow> string \<Rightarrow> gateway_error \<Rightarrow> json" where
  "blocked_payload re q provider model e = log_payload_json
     \<lparr>lp_id = re_uuid re, lp_trace = pq_trace q, lp_tenant = pq_tenant q, lp_model = model,
      lp_status = 429, lp_latency = re_latency re, lp_tokens = 0, lp_total_tokens = 0,
      lp_cache_hit = False, lp_prompt = pq_prompt q, lp_response = [], lp_error = error_text e,
      lp_requested = provider, lp_executed = [], lp_hot_swapped = 0\<rparr>"

definition report_blocked ::
  "replies \<Rightarrow> proxy_request \<Rightarrow> string \<Rightarrow> gateway_error \<Rightarrow> ('s, 'c, 'e) gw_state \<Rightarrow> ('s, 'c, 'e) gw_state" where
  "report_blocked re q model e st =
     (let p = blocked_payload re q (get_requested_provider (gs_routes st) (pq_model q)) model e
      in send_trace_to_tracer p (send_telemetry p st))"

definition burn_stage ::
  "('s, 'c, 'e) gw_env \<Rightarrow> replies \<Rightarrow> proxy_request \<Rightarrow> ('s, 'c, 'e) gw_state \<Rightarrow>
   (gateway_error + unit) \<times> ('s, 'c, 'e) gw_state" where
  "burn_stage ev re q st =
     (let r = enforce_burn_rate (ev_F ev) (ev_exec ev) (re_burn re) (re_burn_now re)
                (tr_session_id (pq_trace q)) (gs_redis st)
      in (fst r, st\<lparr>gs_redis := snd r\<rparr>))"

section \<open>Responses\<close>

definition response_provider :: "string \<Rightarrow> http_response \<Rightarrow> string" where
  "response_provider provider resp = str_or provider (hdr_str (hr_headers resp) ''x-redeye-executed-provider'')"

definition response_hot_swapped :: "http_response \<Rightarrow> nat" where
  "response_hot_swapped resp =
     (if map_of (hr_headers resp) ''x-redeye-hot-swapped'' = Some ''1'' then 1 else 0)"

definition response_content_type :: "http_response \<Rightarrow> string" where
  "response_content_type resp = str_or ''application/json'' (hdr_str (hr_headers resp) ''content-type'')"

text \<open>A body that parses is unified for the provider that produced it.\<close>

definition unify_body :: "('s, 'c, 'e) gw_env \<Rightarrow> string \<Rightarrow> string \<Rightarrow> string" where
  "unify_body ev executed body =
     (case parse_value (ev_sd ev) body of
        None \<Rightarrow> body
      | Some v \<Rightarrow>
          (case translator_unify (ev_sd ev) (pc_schema (get_provider_config (ev_lc ev) executed)) v of
             Inl e \<Rightarrow> body
           | Inr u \<Rightarrow> print_value (ev_sd ev) u))"

definition sandbox_stage ::
  "('s, 'c, 'e) gw_env \<Rightarrow> replies \<Rightarrow> string \<Rightarrow> string \<Rightarrow> string" where
  "sandbox_stage ev re tenant body =
     enforce_mcp_sandbox (ev_sd ev) (ev_sandbox ev) (re_opa re) (ev_compliance_url ev) tenant body"

definition phantom_stage :: "('s, 'c, 'e) gw_env \<Rightarrow> string \<Rightarrow> string" where
  "phantom_stage ev body =
     (if tr_tools (ev_tools ev) = [] then body
      else (case intercept_phantom_call (ev_sd ev) (ev_tools ev) body of None \<Rightarrow> body | Some b \<Rightarrow> b))"

text \<open>The tool calls of the body go out when a tool server is registered; their results go to telemetry.\<close>

definition fan_out_stage ::
  "('s, 'c, 'e) gw_env \<Rightarrow> replies \<Rightarrow> string \<Rightarrow> string \<Rightarrow> ('s, 'c, 'e) gw_state \<Rightarrow> ('s, 'c, 'e) gw_state" where
  "fan_out_stage ev re tenant body st =
     (if contains_str body ''tool_calls'' \<and> ev_mcp ev \<noteq> Map.empty then
        (let calls = extract_tool_calls (ev_sd ev) body in
         if calls = [] then st
         else (let rs = fan_out (ev_sd ev) (ev_mcp ev) (re_mcp re) (fst (re_mcp_ms re)) (re_order re) calls;
                   st1 = spawn_job (SendJob (fan_out_telemetry (re_stamp re) (snd (re_mcp_ms re))
                           (length calls) rs)) st
               in if rs = [] then st1
                  else send_telemetry (jobject
                    [(''type'', JStr ''mcp_tool_results''), (''tenant_id'', JStr tenant),
                     (''tool_messages'', JArr (merge_results (ev_sd ev) rs))]) st1))
      else st)"

definition estimate_u32 :: "string \<Rightarrow> u32" where
  "estimate_u32 s = usize_as_u32 (estimate_tokens s)"

definition actual_tokens :: "serde \<Rightarrow> string \<Rightarrow> string \<Rightarrow> u32" where
  "actual_tokens sd prompt body =
     (case Option.bind (parse_value sd body) (\<lambda>v. as_u64 (jindex (jindex v ''usage'') ''total_tokens'')) of
        Some n \<Rightarrow> ucast n
      | None \<Rightarrow> estimate_u32 prompt + estimate_u32 body)"

definition handle_buffered_response ::
  "('s, 'c, 'e) gw_env \<Rightarrow> replies \<Rightarrow> proxy_request \<Rightarrow> http_response \<Rightarrow> string \<Rightarrow> string \<Rightarrow>
   ('s, 'c, 'e) gw_state \<Rightarrow> (gateway_error + proxy_result) \<times> ('s, 'c, 'e) gw_state" where
  "handle_buffered_response ev re q resp requested executed st =
     (case body_bytes (hr_body resp) of
        Inl e \<Rightarrow> (Inl (ResponseBuild ''Failed to read upstream body: ''), st)
      | Inr raw \<Rightarrow>
          (let b1 = unify_body ev executed raw;
               b2 = sandbox_stage ev re (pq_tenant q) b1;
               b3 = phantom_stage ev b2;
               st1 = fan_out_stage ev re (pq_tenant q) b3 st;
               tokens = actual_tokens (ev_sd ev) (pq_prompt q) b3;
               st2 = st1\<lparr>gs_redis := sync_token_bucket (ev_exec ev) (re_sync re) (pq_tenant q)
                        (estimate_u32 (pq_prompt q)) tokens (gs_redis st1)\<rparr>;
               st3 = spawn_telemetry q (hr_status resp) (re_latency re) tokens False (Some b3)
                        requested executed (response_hot_swapped resp) st2
           in (Inr \<lparr>px_status = hr_status resp, px_content_type = response_content_type resp,
                    px_body = Buffered b3, px_cache_hit = False\<rparr>, st3)))"

text \<open>A stream is forwarded as it comes; its accounting waits for its end.\<close>

definition handle_streaming_response ::
  "replies \<Rightarrow> proxy_request \<Rightarrow> http_response \<Rightarrow> string \<Rightarrow> string \<Rightarrow>
   ('s, 'c, 'e) gw_state \<Rightarrow> (gateway_error + proxy_result) \<times> ('s, 'c, 'e) gw_state" where
  "handle_streaming_response re q resp requested executed st =
     (Inr \<lparr>px_status = hr_status resp, px_content_type = response_content_type resp,
           px_body = Streamed (hr_body resp), px_cache_hit = False\<rparr>,
      spawn_job (StreamJob \<lparr>tj_tenant = pq_tenant q, tj_model = pq_model q, tj_prompt = pq_prompt q,
        tj_trace = pq_trace q, tj_status = hr_status resp, tj_latency = 0, tj_tokens = 0,
        tj_cache_hit = False, tj_response = None, tj_requested = requested, tj_executed = executed,
        tj_hot = response_hot_swapped resp\<rparr> (hr_body resp)) st)"

section \<open>The pipeline\<close>

text \<open>From the prepared request on: admission, burn rate, upstream, response.\<close>

definition upstream_stage ::
  "('s, 'c, 'e) gw_env \<Rightarrow> replies \<Rightarrow> proxy_request \<Rightarrow> string \<Rightarrow> json \<Rightarrow> prepared \<Rightarrow>
   ('s, 'c, 'e) gw_state \<Rightarrow> (gateway_error + proxy_result) \<times> ('s, 'c, 'e) gw_state" where
  "upstream_stage ev re q body v prep st =
     (let provider = get_requested_provider (gs_routes st) (pq_model q);
          r = execute_upstream_request (ev_F ev) (ev_sd ev) (ev_cins ev) (re_net re) prep body (gs_breaker st);
          st1 = st\<lparr>gs_breaker := fst (snd r), gs_upstream := gs_upstream st @ snd (snd r)\<rparr>
      in case fst r of
           Inl e \<Rightarrow> (Inl e, st1)
         | Inr resp \<Rightarrow>
             (if Option.bind (jget v ''stream'') as_bool = Some True
              then handle_streaming_response re q resp provider (response_provider provider resp) st1
              else handle_buffered_response ev re q resp provider (response_provider provider resp) st1))"

definition admission_stage ::
  "('s, 'c, 'e) gw_env \<Rightarrow> replies \<Rightarrow> proxy_request \<Rightarrow> json \<Rightarrow>
   ('s, 'c, 'e) gw_state \<Rightarrow> (gateway_error + unit) \<times> ('s, 'c, 'e) gw_state" where
  "admission_stage ev re q v st =
     (let pf = preflight ev re q v st in
      case fst pf of
        Some e \<Rightarrow> (Inl e, report_blocked re q (blocked_model e) e (snd pf))
      | None \<Rightarrow>
          (let br = burn_stage ev re q (snd pf) in
           case fst br of
             Inl e \<Rightarrow> (Inl e, report_blocked re q ''__burn_rate_blocked'' e (snd br))
           | Inr _ \<Rightarrow> (Inr (), snd br)))"

definition execute_proxy ::
  "('s, 'c, 'e) gw_env \<Rightarrow> replies \<Rightarrow> proxy_request \<Rightarrow> ('s, 'c, 'e) gw_state \<Rightarrow>
   (gateway_error + proxy_result) \<times> ('s, 'c, 'e) gw_state" where
  "execute_proxy ev re q st =
     (let rd = redact_stage ev re q st in
      case fst rd of
        Inl e \<Rightarrow> (Inl e, snd rd)
      | Inr (body, parsed) \<Rightarrow>
          (let ca = cache_stage ev re q (snd rd);
               pr = prep_upstream_request (ev_F ev) (ev_sd ev) (ev_lc ev) (ev_cget ev) (re_breaker re)
                      (gs_routes (snd ca)) body (pq_accept q) (gs_breaker (snd ca))
           in case fst ca of
                Some content \<Rightarrow> handle_cache_hit ev re q content (snd ca)
              | None \<Rightarrow>
                  (case pr of
                     Inl e \<Rightarrow> (Inl e, snd ca)
                   | Inr prep \<Rightarrow>
                       (case (case parsed of Some v \<Rightarrow> Some v | None \<Rightarrow> parse_value (ev_sd ev) body) of
                          None \<Rightarrow> (Inl (ResponseBuild ''Invalid JSON body: ''), snd ca)
                        | Some v \<Rightarrow>
                            (let ad = admission_stage ev re q v (snd ca) in
                             case fst ad of
                               Inl e \<Rightarrow> (Inl e, snd ad)
                             | Inr _ \<Rightarrow> upstream_stage ev re q body v prep (snd ad))))))"

section \<open>Background jobs\<close>

text \<open>What the outside answers to a job, and how many items of its stream the client took.\<close>

record job_replies =
  jr_spend :: call
  jr_now :: nat
  jr_sync :: call
  jr_time :: nat
  jr_latency :: u32
  jr_uuid :: string
  jr_taken :: nat

definition telemetry_row :: "string \<Rightarrow> telemetry_job \<Rightarrow> json" where
  "telemetry_row uuid j = jobject
     [(''id'', JStr uuid), (''tenant_id'', JStr (tj_tenant j)), (''status'', jnat (of_nat (tj_status j))),
      (''latency_ms'', jnat (ucast (tj_latency j))), (''model'', JStr (tj_model j)),
      (''tokens'', jnat (ucast (tj_tokens j))), (''requested_provider'', JStr (tj_requested j)),
      (''executed_provider'', JStr (tj_executed j)), (''is_hot_swapped'', jnat (of_nat (tj_hot j)))]"

definition trace_row :: "telemetry_job \<Rightarrow> string \<Rightarrow> json" where
  "trace_row j content = jobject
     [(''trace_id'', JStr (tr_trace_id (tj_trace j))), (''session_id'', JStr (tr_session_id (tj_trace j))),
      (''parent_trace_id'', opt_json (tr_parent (tj_trace j))), (''tenant_id'', JStr (tj_tenant j)),
      (''model'', JStr (tj_model j)), (''status'', jnat (of_nat (tj_status j))),
      (''latency_ms'', jnat (ucast (tj_latency j))), (''total_tokens'', jnat (ucast (tj_tokens j))),
      (''cache_hit'', JBool (tj_cache_hit j)), (''prompt_content'', JStr (tj_prompt j)),
      (''response_content'', JStr content), (''requested_provider'', JStr (tj_requested j)),
      (''executed_provider'', JStr (tj_executed j)), (''is_hot_swapped'', jnat (of_nat (tj_hot j)))]"

definition job_cache_request :: "telemetry_job \<Rightarrow> cache_request" where
  "job_cache_request j = \<lparr>cq_tenant = tj_tenant j, cq_model = tj_model j, cq_prompt = tj_prompt j,
     cq_trace = tj_trace j\<rparr>"

definition cache_response ::
  "('s, 'c, 'e) gw_env \<Rightarrow> job_replies \<Rightarrow> telemetry_job \<Rightarrow> string \<Rightarrow>
   ('s, 'c, 'e) gw_state \<Rightarrow> ('s, 'c, 'e) gw_state" where
  "cache_response ev jr j content st =
     (if tj_cache_hit j \<or> tj_status j \<noteq> 200 \<or> content = [] then st
      else if tj_tokens j < 1000 then
        store_in_cache (job_cache_request j) content
          (st\<lparr>gs_l1 := snd (l1_insert (ev_sha ev) (ev_eins ev) (ev_emb ev) (jr_time jr) (tj_prompt j) content
                (gs_l1 st))\<rparr>)
      else store_in_cache (job_cache_request j) content st)"

definition fire_async_telemetry ::
  "('s, 'c, 'e) gw_env \<Rightarrow> job_replies \<Rightarrow> telemetry_job \<Rightarrow> ('s, 'c, 'e) gw_state \<Rightarrow> ('s, 'c, 'e) gw_state" where
  "fire_async_telemetry ev jr j st =
     (let st1 = st\<lparr>gs_redis := record_session_spend (ev_F ev) (ev_exec ev) (jr_spend jr) (jr_now jr)
                 (tr_session_id (tj_trace j)) (tj_tokens j) (gs_redis st)\<rparr>;
          content = extract_response_content (ev_sd ev) (tj_response j)
      in cache_response ev jr j content
           (send_trace_to_tracer (trace_row j content)
             (send_telemetry (telemetry_row (jr_uuid jr) j) st1)))"

text \<open>The token count of a stream: the digits after the last \<open>"total_tokens":\<close> marker in a chunk.\<close>

definition parse_u32 :: "string \<Rightarrow> u32 option" where
  "parse_u32 s =
     (let n = foldl (\<lambda>a c. 10 * a + ((of_char c :: nat) - 48)) 0 s
      in if s \<noteq> [] \<and> list_all is_digit s \<and> n < 2 ^ 32 then Some (of_nat n) else None)"

definition tokens_marker :: string where
  "tokens_marker = [CHR 0x22] @ ''total_tokens'' @ [CHR 0x22] @ '':''"

definition chunk_tokens :: "('s, 'c, 'e) gw_env \<Rightarrow> u32 \<Rightarrow> string \<Rightarrow> u32" where
  "chunk_tokens ev n chk =
     (if ev_utf8 ev chk \<and> contains_str chk ([CHR 0x22] @ ''usage'' @ [CHR 0x22])
      then (case find_str chk tokens_marker of
              None \<Rightarrow> n
            | Some i \<Rightarrow> (case parse_u32 (takeWhile is_digit (drop (i + 15) chk)) of
                None \<Rightarrow> n | Some t \<Rightarrow> t))
      else n)"

fun delivered :: "chunk list \<Rightarrow> string list" where
  "delivered [] = []"
| "delivered (Chunk b # cs) = b # delivered cs"
| "delivered (ChunkErr e # cs) = delivered cs"

definition stream_tokens :: "('s, 'c, 'e) gw_env \<Rightarrow> string \<Rightarrow> string list \<Rightarrow> u32" where
  "stream_tokens ev prompt bs =
     (let n = foldl (chunk_tokens ev) 0 bs
      in if n = 0 then estimate_u32 prompt + estimate_u32 (concat bs) else n)"

definition run_job ::
  "('s, 'c, 'e) gw_env \<Rightarrow> job_replies \<Rightarrow> job \<Rightarrow> ('s, 'c, 'e) gw_state \<Rightarrow> ('s, 'c, 'e) gw_state" where
  "run_job ev jr jb st =
     (case jb of
        SendJob payload \<Rightarrow> send_telemetry payload st
      | TelemetryJob j \<Rightarrow> fire_async_telemetry ev jr j st
      | StreamJob j body \<Rightarrow>
          (let bs = delivered (take (jr_taken jr) body);
               tokens = stream_tokens ev (tj_prompt j) bs;
               st1 = st\<lparr>gs_redis := sync_token_bucket (ev_exec ev) (jr_sync jr) (tj_tenant j)
                        (estimate_u32 (tj_prompt j)) tokens (gs_redis st)\<rparr>
           in fire_async_telemetry ev jr
                (j\<lparr>tj_latency := jr_latency jr, tj_tokens := tokens, tj_response := Some (concat bs)\<rparr>) st1))"

text \<open>One background step: any job that is waiting may be the next.\<close>

definition background_step ::
  "('s, 'c, 'e) gw_env \<Rightarrow> job_replies \<Rightarrow> nat \<Rightarrow> ('s, 'c, 'e) gw_state \<Rightarrow> ('s, 'c, 'e) gw_state" where
  "background_step ev jr i st =
     (if i < length (gs_jobs st)
      then run_job ev jr (gs_jobs st ! i) (st\<lparr>gs_jobs := take i (gs_jobs st) @ drop (Suc i) (gs_jobs st)\<rparr>)
      else st)"

end
