(* ===== verification/Proxy_Laws.thy ===== *)
theory Proxy_Laws
  imports Proxy Router_Laws Guards_Budget
begin

text \<open>
  What each stage of the pipeline can touch, and the composition of the stages: when
  providers are contacted, and with what.
\<close>

named_theorems stage_frames \<open>the parts of the state a stage leaves alone\<close>

section \<open>Frames\<close>

lemma send_frames [stage_frames, simp]:
  "gs_upstream (send_telemetry p st) = gs_upstream st"
  "gs_upstream (send_trace_to_tracer p st) = gs_upstream st"
  "gs_upstream (spawn_job j st) = gs_upstream st"
  "gs_upstream (store_in_cache c s st) = gs_upstream st"
  "gs_redis (send_telemetry p st) = gs_redis st"
  "gs_redis (send_trace_to_tracer p st) = gs_redis st"
  "gs_redis (spawn_job j st) = gs_redis st"
  "gs_redis (store_in_cache c s st) = gs_redis st"
  "gs_l1 (send_telemetry p st) = gs_l1 st"
  "gs_l1 (send_trace_to_tracer p st) = gs_l1 st"
  "gs_l1 (spawn_job j st) = gs_l1 st"
  "gs_l1 (store_in_cache c s st) = gs_l1 st"
  "gs_telemetry (send_trace_to_tracer p st) = gs_telemetry st"
  "gs_telemetry (spawn_job j st) = gs_telemetry st"
  "gs_telemetry (send_telemetry p st) = gs_telemetry st @ [p]"
  "gs_traces (send_telemetry p st) = gs_traces st"
  "gs_traces (send_trace_to_tracer p st) = gs_traces st @ [p]"
  "gs_traces (spawn_job j st) = gs_traces st"
  "gs_breaker (send_telemetry p st) = gs_breaker st"
  "gs_breaker (send_trace_to_tracer p st) = gs_breaker st"
  "gs_routes (send_telemetry p st) = gs_routes st"
  "gs_routes (send_trace_to_tracer p st) = gs_routes st"
  "gs_jobs (spawn_job j st) = gs_jobs st @ [j]"
  by (simp_all add: send_telemetry_def send_trace_to_tracer_def spawn_job_def store_in_cache_def)

lemma spawn_telemetry_frames [stage_frames, simp]:
  "gs_upstream (spawn_telemetry q s l t h r p e w st) = gs_upstream st"
  "gs_redis (spawn_telemetry q s l t h r p e w st) = gs_redis st"
  "gs_l1 (spawn_telemetry q s l t h r p e w st) = gs_l1 st"
  by (simp_all add: spawn_telemetry_def)

lemma redact_frames [stage_frames, simp]:
  "gs_upstream (snd (redact_stage ev re q st)) = gs_upstream st"
  "gs_redis (snd (redact_stage ev re q st)) = gs_redis st"
  "gs_l1 (snd (redact_stage ev re q st)) = gs_l1 st"
  "gs_routes (snd (redact_stage ev re q st)) = gs_routes st"
  "gs_breaker (snd (redact_stage ev re q st)) = gs_breaker st"
  "gs_telemetry (snd (redact_stage ev re q st)) = gs_telemetry st"
  "gs_traces (snd (redact_stage ev re q st)) = gs_traces st"
  by (simp_all add: redact_stage_def Let_def split: option.split)

lemma cache_frames [stage_frames, simp]:
  "gs_upstream (snd (cache_stage ev re q st)) = gs_upstream st"
  "gs_redis (snd (cache_stage ev re q st)) = gs_redis st"
  "gs_routes (snd (cache_stage ev re q st)) = gs_routes st"
  "gs_breaker (snd (cache_stage ev re q st)) = gs_breaker st"
  "gs_telemetry (snd (cache_stage ev re q st)) = gs_telemetry st"
  "gs_traces (snd (cache_stage ev re q st)) = gs_traces st"
  by (simp_all add: cache_stage_def Let_def split: option.split)

lemma preflight_frames [stage_frames, simp]:
  "gs_upstream (snd (preflight ev re q v st)) = gs_upstream st"
  "gs_telemetry (snd (preflight ev re q v st)) = gs_telemetry st"
  "gs_traces (snd (preflight ev re q v st)) = gs_traces st"
  "gs_routes (snd (preflight ev re q v st)) = gs_routes st"
  "gs_breaker (snd (preflight ev re q v st)) = gs_breaker st"
  by (simp_all add: preflight_def Let_def)

lemma burn_frames [stage_frames, simp]:
  "gs_upstream (snd (burn_stage ev re q st)) = gs_upstream st"
  "gs_telemetry (snd (burn_stage ev re q st)) = gs_telemetry st"
  "gs_traces (snd (burn_stage ev re q st)) = gs_traces st"
  "gs_routes (snd (burn_stage ev re q st)) = gs_routes st"
  "gs_breaker (snd (burn_stage ev re q st)) = gs_breaker st"
  by (simp_all add: burn_stage_def Let_def)

lemma admission_frames [stage_frames, simp]:
  "gs_upstream (snd (admission_stage ev re q v st)) = gs_upstream st"
  "gs_routes (snd (admission_stage ev re q v st)) = gs_routes st"
  "gs_breaker (snd (admission_stage ev re q v st)) = gs_breaker st"
  by (simp_all add: admission_stage_def report_blocked_def Let_def split: option.split sum.split)

lemma fan_out_frames [stage_frames, simp]:
  "gs_upstream (fan_out_stage ev re t b st) = gs_upstream st"
  "gs_redis (fan_out_stage ev re t b st) = gs_redis st"
  by (simp_all add: fan_out_stage_def Let_def)

lemma response_frames [stage_frames, simp]:
  "gs_upstream (snd (handle_buffered_response ev re q r a b st)) = gs_upstream st"
  "gs_upstream (snd (handle_streaming_response re q r a b st)) = gs_upstream st"
  "gs_upstream (snd (handle_cache_hit ev re q c st)) = gs_upstream st"
  "gs_redis (snd (handle_cache_hit ev re q c st)) = gs_redis st"
  by (simp_all add: handle_buffered_response_def handle_streaming_response_def handle_cache_hit_def
      Let_def split: sum.split)

lemma upstream_stage_sent:
  "gs_upstream (snd (upstream_stage ev re q body v prep st)) = gs_upstream st @
     snd (snd (execute_upstream_request (ev_F ev) (ev_sd ev) (ev_cins ev) (re_net re) prep body (gs_breaker st)))"
  by (simp add: upstream_stage_def Let_def split: sum.split)

section \<open>When providers are contacted\<close>

text \<open>The requests one call of the pipeline sends to providers.\<close>

definition sent_by ::
  "('s, 'c, 'e) gw_env \<Rightarrow> replies \<Rightarrow> proxy_request \<Rightarrow> ('s, 'c, 'e) gw_state \<Rightarrow> upstream_req list" where
  "sent_by ev re q st = drop (length (gs_upstream st)) (gs_upstream (snd (execute_proxy ev re q st)))"

lemma execute_proxy_cases:
  obtains (redaction_failed) e where "fst (redact_stage ev re q st) = Inl e"
      "execute_proxy ev re q st = (Inl e, snd (redact_stage ev re q st))"
  | (cached) body parsed content where "fst (redact_stage ev re q st) = Inr (body, parsed)"
      "fst (cache_stage ev re q (snd (redact_stage ev re q st))) = Some content"
      "execute_proxy ev re q st =
         handle_cache_hit ev re q content (snd (cache_stage ev re q (snd (redact_stage ev re q st))))"
  | (unprepared) e where
      "execute_proxy ev re q st = (Inl e, snd (cache_stage ev re q (snd (redact_stage ev re q st))))"
  | (refused) body parsed v e where "fst (redact_stage ev re q st) = Inr (body, parsed)"
      "fst (admission_stage ev re q v (snd (cache_stage ev re q (snd (redact_stage ev re q st))))) = Inl e"
      "execute_proxy ev re q st = (Inl e,
         snd (admission_stage ev re q v (snd (cache_stage ev re q (snd (redact_stage ev re q st))))))"
  | (admitted) body parsed v prep where "fst (redact_stage ev re q st) = Inr (body, parsed)"
      "fst (cache_stage ev re q (snd (redact_stage ev re q st))) = None"
      "prep_upstream_request (ev_F ev) (ev_sd ev) (ev_lc ev) (ev_cget ev) (re_breaker re) (gs_routes st)
         body (pq_accept q) (gs_breaker st) = Inr prep"
      "(case parsed of Some v \<Rightarrow> Some v | None \<Rightarrow> parse_value (ev_sd ev) body) = Some v"
      "fst (admission_stage ev re q v (snd (cache_stage ev re q (snd (redact_stage ev re q st))))) = Inr ()"
      "execute_proxy ev re q st = upstream_stage ev re q body v prep
         (snd (admission_stage ev re q v (snd (cache_stage ev re q (snd (redact_stage ev re q st))))))"
proof -
  let ?st1 = "snd (redact_stage ev re q st)"
  let ?st2 = "snd (cache_stage ev re q ?st1)"
  show thesis
  proof (cases "fst (redact_stage ev re q st)")
    case (Inl e)
    then show thesis by (intro redaction_failed) (simp_all add: execute_proxy_def Let_def)
  next
    case (Inr bp)
    obtain body parsed where bp: "bp = (body, parsed)" by (cases bp)
    note r = Inr [unfolded bp]
    let ?pr = "prep_upstream_request (ev_F ev) (ev_sd ev) (ev_lc ev) (ev_cget ev) (re_breaker re)
        (gs_routes st) body (pq_accept q) (gs_breaker st)"
    show thesis
    proof (cases "fst (cache_stage ev re q ?st1)")
      case (Some c)
      with r show thesis by (intro cached) (simp_all add: execute_proxy_def Let_def)
    next
      case None
      show thesis
      proof (cases ?pr)
        case (Inl e)
        with r None show thesis by (intro unprepared) (simp add: execute_proxy_def Let_def)
      next
        case (Inr prep)
        show thesis
        proof (cases "case parsed of Some v \<Rightarrow> Some v | None \<Rightarrow> parse_value (ev_sd ev) body")
          case v: None
          with r None Inr show thesis by (intro unprepared) (simp add: execute_proxy_def Let_def)
        next
          case v: (Some v)
          show thesis
          proof (cases "fst (admission_stage ev re q v ?st2)")
            case (Inl e)
            with r None Inr v show thesis by (intro refused) (simp_all add: execute_proxy_def Let_def)
          next
            case u: (Inr u)
            with r None Inr v show thesis by (intro admitted) (simp_all add: execute_proxy_def Let_def)
          qed
        qed
      qed
    qed
  qed
qed

text \<open>Providers are contacted in the last case only.\<close>

lemma sent_by_admitted:
  assumes "sent_by ev re q st \<noteq> []"
  obtains body parsed v prep where "fst (redact_stage ev re q st) = Inr (body, parsed)"
    "fst (cache_stage ev re q (snd (redact_stage ev re q st))) = None"
    "prep_upstream_request (ev_F ev) (ev_sd ev) (ev_lc ev) (ev_cget ev) (re_breaker re) (gs_routes st)
       body (pq_accept q) (gs_breaker st) = Inr prep"
    "(case parsed of Some v \<Rightarrow> Some v | None \<Rightarrow> parse_value (ev_sd ev) body) = Some v"
    "fst (admission_stage ev re q v (snd (cache_stage ev re q (snd (redact_stage ev re q st))))) = Inr ()"
    "sent_by ev re q st = snd (snd (execute_upstream_request (ev_F ev) (ev_sd ev) (ev_cins ev) (re_net re)
       prep body (gs_breaker st)))"
proof (cases rule: execute_proxy_cases [of ev re q st])
  case (admitted body parsed v prep)
  then show ?thesis using that by (simp add: sent_by_def upstream_stage_sent)
qed (use assms in \<open>auto simp: sent_by_def\<close>)

text \<open>Every request sent carries the prepared body and goes to the configured base URL.\<close>

lemma executed_requests:
  assumes prep: "prep_upstream_request F sd lc cget tb routes body accept cb0 = Inr p"
    and r: "r \<in> set (snd (snd (execute_upstream_request F sd cins net p body cb)))"
  shows "provider_body F sd (pr_config p) (pr_model p) body = Inr (ur_body r) \<and>
    starts_with (ur_url r) (pr_base_url p)"
proof -
  obtain key where k: "build_provider_request F sd (pr_config p) (pr_base_url p) key (pr_model p) body
      (pr_accept p) = Inr (pr_request p)"
    using prep by (elim prep_Inr) auto
  have b: "\<forall>key \<in> set (pr_fallbacks p). \<exists>req. build_provider_request F sd (pr_config p) (pr_base_url p)
      key (pr_model p) body (pr_accept p) = Inr req"
    using k build_other_key by blast
  have mem: "r = pr_request p \<or> (\<exists>key \<in> set (pr_fallbacks p). r = snd (key_request F sd p body key))"
    using r unfolding execute_failover [OF b]
    by (auto simp: Let_def failover_sent image_iff split: if_splits dest!: in_set_takeD) (metis snd_conv)
  then obtain key' where "build_provider_request F sd (pr_config p) (pr_base_url p) key' (pr_model p) body
      (pr_accept p) = Inr r"
    using k b by (auto simp: key_request_def)
  then show ?thesis
    using build_shape(1) by (auto simp: build_provider_request_def res_bind_eq_Inr)
qed

text \<open>A prompt that matches the PII patterns is sent in the form the compliance service gave it.\<close>

lemma redact_stage_pii:
  assumes "ev_pii ev (pq_prompt q)" and "fst (redact_stage ev re q st) = Inr (body, parsed)"
  obtains v p where "parse_value (ev_sd ev) (pq_body q) = Some v"
    "call_compliance_redact (ev_sd ev)
       (re_compliance re (redact_request (ev_sd ev) (ev_compliance_url ev) v (pq_trace q))) = Inr p"
    "body = print_value (ev_sd ev) p" "parsed = Some p"
  using assms by (auto simp: redact_stage_def Let_def res_bind_eq_Inr split: option.splits)

lemma redacted_sent:
  assumes "ev_pii ev (pq_prompt q)" and r: "r \<in> set (sent_by ev re q st)"
  obtains v p pc model where "parse_value (ev_sd ev) (pq_body q) = Some v"
    "call_compliance_redact (ev_sd ev)
       (re_compliance re (redact_request (ev_sd ev) (ev_compliance_url ev) v (pq_trace q))) = Inr p"
    "fst (redact_stage ev re q st) = Inr (print_value (ev_sd ev) p, Some p)"
    "parse_model (ev_sd ev) (print_value (ev_sd ev) p) \<noteq> None"
    "provider_body (ev_F ev) (ev_sd ev) pc model (print_value (ev_sd ev) p) = Inr (ur_body r)"
proof -
  have "sent_by ev re q st \<noteq> []" using r by auto
  then obtain body parsed prep where s: "fst (redact_stage ev re q st) = Inr (body, parsed)"
    and prep: "prep_upstream_request (ev_F ev) (ev_sd ev) (ev_lc ev) (ev_cget ev) (re_breaker re)
       (gs_routes st) body (pq_accept q) (gs_breaker st) = Inr prep"
    and sent: "sent_by ev re q st = snd (snd (execute_upstream_request (ev_F ev) (ev_sd ev) (ev_cins ev)
       (re_net re) prep body (gs_breaker st)))"
    by (rule sent_by_admitted)
  obtain v p where v: "parse_value (ev_sd ev) (pq_body q) = Some v"
    "call_compliance_redact (ev_sd ev)
       (re_compliance re (redact_request (ev_sd ev) (ev_compliance_url ev) v (pq_trace q))) = Inr p"
    and b: "body = print_value (ev_sd ev) p" "parsed = Some p"
    using assms(1) s by (rule redact_stage_pii)
  have "parse_model (ev_sd ev) body \<noteq> None"
    using prep by (auto simp: prep_upstream_request_def res_bind_eq_Inr ok_or_eq_Inr)
  then show ?thesis
    using that [OF v _ _ conjunct1 [OF executed_requests [OF prep r [unfolded sent], unfolded b(1)]]] s
    by (simp add: b)
qed

section \<open>The token account of a request\<close>

context redis_server
begin

lemma sync_live:
  assumes "view s t (bucket_key tenant) = Some (DStr (Dec w), dl)"
    and "i64_range (w + (uint est - uint act))"
  shows "view (sync_token_bucket exec (t, Delivered) tenant est act s) t (bucket_key tenant) =
    Some (DStr (Dec (w + (uint est - uint act))), dl)"
proof (cases "uint est - uint act = 0")
  case True
  then show ?thesis using assms(1) by (simp add: sync_token_bucket_def)
next
  case False
  have "at_time t (Some (DStr (Dec w), dl)) = Some (DStr (Dec w), dl)"
    using live [of t s "bucket_key tenant"] assms(1) by simp
  then have "at_time t (Some (DStr (Dec x), dl)) = Some (DStr (Dec x), dl)" for x
    by (auto simp: at_time_def split: option.splits if_splits)
  with False assms show ?thesis
    using exec_key [of t "INCRBY (bucket_key tenant) (uint est - uint act)" s]
    by (simp add: sync_token_bucket_def Let_def int_at_def ttl_of_def)
qed

lemma enforce_then_sync:
  assumes held: "view s t (bucket_key tenant) = Some (DStr (Dec v), dl)"
    and enough: "int (estimate_tokens prompt) \<le> v" and v: "v < 2 ^ 62"
    and times: "t \<le> t'" "\<forall>d. dl = Some d \<longrightarrow> t' < d" and est: "uint est = int (estimate_tokens prompt)"
  defines "s' \<equiv> snd (enforce_token_bucket exec (t, Delivered) tenant prompt s)"
  shows "view (sync_token_bucket exec (t', Delivered) tenant est act s') t' (bucket_key tenant) =
    Some (DStr (Dec (v - uint act)), dl)"
proof -
  have small: "uint x < 4294967296" "0 \<le> uint x" for x :: u32
    using uint_bounded [of x] by simp_all
  have h: "bucket_holds t dl tenant v s" using held by (simp add: bucket_holds_def)
  have pos: "0 \<le> v" and n: "int (estimate_tokens prompt) < 2 ^ 62" using enough v by simp_all
  from enforce_bucket_step(2) [OF h pos v n] enough
  have "bucket_holds t dl tenant (v - int (estimate_tokens prompt)) s'"
    by (simp add: s'_def)
  from bucket_holds_later [OF this times(1)] times(2)
  have "view s' t' (bucket_key tenant) = Some (DStr (Dec (v - int (estimate_tokens prompt))), dl)"
    by (simp add: bucket_holds_def)
  moreover have "i64_range (v - int (estimate_tokens prompt) + (uint est - uint act))"
  proof -
    have "v - uint act < 2 ^ 62" "- 4294967296 < v - uint act"
      using small [of act] pos v by linarith+
    then show ?thesis by (simp add: i64_range_def est)
  qed
  ultimately show ?thesis
    using sync_live [of s' t' tenant "v - int (estimate_tokens prompt)" dl est act] est by simp
qed

end

end
