(* ===== verification/Proxy_Properties.thy ===== *)
theory Proxy_Properties
  imports Proxy_Laws Json_Codec Fixtures Tool_Router_Properties
begin

text \<open>The properties of the proxy pipeline, each with a concrete instance.\<close>

section \<open>A concrete gateway\<close>

definition ev_sample :: "(keyspace, unit deadlines, idle_map) gw_env" where
  "ev_sample = \<lparr>ev_F = F0, ev_G = G0, ev_fmax = 100, ev_sd = sd1, ev_lc = id, ev_sha = id,
     ev_words = (\<lambda>s. [s]), ev_utf8 = (\<lambda>s. True), ev_pii = (\<lambda>s. contains_str s ''@''),
     ev_exec = ref_exec F0, ev_cget = dl_get, ev_cins = dl_ins 60000,
     ev_eget = idle_get 3600000, ev_eins = idle_ins 3600000, ev_emb = (\<lambda>s. None),
     ev_compliance_url = ''http://c'', ev_sandbox = None, ev_mcp = Map.empty, ev_tools = empty_registry\<rparr>"

definition trace_sample :: trace_context where
  "trace_sample = \<lparr>tr_trace_id = ''tr'', tr_session_id = ''se'', tr_parent = None\<rparr>"

definition st_sample :: "(keyspace, unit deadlines, idle_map) gw_state" where
  "st_sample = \<lparr>gs_redis = Map.empty, gs_counters = Map.empty, gs_breaker = Map.empty,
     gs_l1 = (Map.empty, []),
     gs_routes = [''m'' \<mapsto> \<lparr>mc_base_url = ''u'', mc_schema_format = ''openai'',
       mc_keys = [\<lparr>key_alias = ''a'', kc_api_key = ''ka'', kc_priority = 1, kc_weight = 1\<rparr>]\<rparr>],
     gs_prefetch = prefetch_init, gs_upstream = [], gs_compliance = [], gs_policy = [],
     gs_telemetry = [], gs_traces = [], gs_l2 = [], gs_jobs = []\<rparr>"

definition re_sample :: replies where
  "re_sample = \<lparr>re_compliance = (\<lambda>q. HErr True), re_time = 1, re_l2 = (\<lambda>q. L2Error),
     re_breaker = (\<lambda>i. 1), re_bucket = (1, LostRequest), re_loop_rd = (1, LostRequest),
     re_loop_wr = (1, LostRequest), re_token_first = True, re_burn = (1, LostRequest), re_burn_now = 1,
     re_net = (\<lambda>i q. (HOk \<lparr>hr_status = 200, hr_headers = [], hr_body = []\<rparr>, 2)),
     re_opa = (\<lambda>q. HErr True), re_mcp = (\<lambda>i q. McpTimeout), re_order = [], re_mcp_ms = (0, 0),
     re_sync = (3, LostRequest), re_latency = 5, re_uuid = ''id'', re_stamp = ''now''\<rparr>"

definition pq_sample :: "string \<Rightarrow> string \<Rightarrow> proxy_request" where
  "pq_sample tenant prompt = \<lparr>pq_body = enc_json (JObj [(''model'', JStr ''m'')]), pq_tenant = tenant,
     pq_model = ''m'', pq_prompt = prompt, pq_accept = ''x'', pq_trace = trace_sample\<rparr>"

lemmas sample_defs = ev_sample_def re_sample_def st_sample_def pq_sample_def trace_sample_def

section \<open>Redaction\<close>

text \<open>C1. No unredacted prompt reaches a provider: when the prompt matches the PII patterns, a
  provider is contacted only after the compliance service answered 2xx with a sanitised
  payload, and every request sent carries a body made from that payload; otherwise the
  request ends in an error and nothing is sent.\<close>

theorem pii_fail_closed:
  assumes "ev_pii ev (pq_prompt q)"
  shows "(\<exists>v p. parse_value (ev_sd ev) (pq_body q) = Some v \<and>
      call_compliance_redact (ev_sd ev)
        (re_compliance re (redact_request (ev_sd ev) (ev_compliance_url ev) v (pq_trace q))) = Inr p \<and>
      (\<forall>r \<in> set (sent_by ev re q st). \<exists>pc model.
        provider_body (ev_F ev) (ev_sd ev) pc model (print_value (ev_sd ev) p) = Inr (ur_body r)))
    \<or> (sent_by ev re q st = [] \<and> (\<exists>e. fst (execute_proxy ev re q st) = Inl e))"
proof (cases "fst (redact_stage ev re q st)")
  case (Inl e)
  then show ?thesis by (simp add: sent_by_def execute_proxy_def Let_def)
next
  case (Inr bp)
  obtain body parsed where bp: "bp = (body, parsed)" by (cases bp)
  obtain v p where vp: "parse_value (ev_sd ev) (pq_body q) = Some v"
    "call_compliance_redact (ev_sd ev)
       (re_compliance re (redact_request (ev_sd ev) (ev_compliance_url ev) v (pq_trace q))) = Inr p"
    by (rule redact_stage_pii [OF assms Inr [unfolded bp]])
  have "\<exists>pc model. provider_body (ev_F ev) (ev_sd ev) pc model (print_value (ev_sd ev) p) = Inr (ur_body r)"
    if "r \<in> set (sent_by ev re q st)" for r
    using redacted_sent [OF assms that] vp by (metis sum.inject(2) option.inject)
  with vp show ?thesis by blast
qed

lemma pii_fail_closed_witness:
  "sent_by ev_sample re_sample (pq_sample ''t'' ''a@b'') st_sample = []"
proof -
  have "ev_pii ev_sample (pq_prompt (pq_sample ''t'' ''a@b''))"
    by (simp add: sample_defs starts_with_def)
  from pii_fail_closed [OF this, of re_sample st_sample] show ?thesis
    by (simp add: call_compliance_redact_def re_sample_def)
qed

section \<open>Order of the stages\<close>


lemma sample_body:
  "parse_json_model (enc_json (JObj [(''model'', JStr ''m'')])) = Some (Some ''m'')"
  by (simp add: parse_json_model_def)

lemma sample_sent: "sent_by ev_sample re_sample (pq_sample ''t'' ''hi'') st_sample \<noteq> []"
  by (simp add: sent_by_def execute_proxy_def Let_def redact_stage_def cache_stage_def get_exact_def
      idle_get_def idle_view_def get_semantic_def lookup_cache_def prep_upstream_request_def sample_defs
      sample_body healthy_keys_def dl_get_def get_provider_config_def starts_with_def
      build_provider_request_def provider_endpoint_def provider_body_def admission_stage_def
      preflight_def enforce_token_bucket_def enforce_loop_detection_def burn_stage_def
      enforce_burn_rate_def upstream_stage_def execute_upstream_request_def is_retryable_error_def
      handle_buffered_response_def)


text \<open>Every refusal is on the record: a request that a guard refuses gets the guard's error with
  status 429, and exactly one telemetry row and one trace are written for it, with the tenant,
  the session, the prompt, status 429 and a model that names the guard.\<close>

theorem refusals_recorded:
  assumes "fst (admission_stage ev re q v st) = Inl e"
  shows "rstatus (error_response e) = 429 \<and>
    (\<exists>p. gs_telemetry (snd (admission_stage ev re q v st)) = gs_telemetry st @ [p] \<and>
      gs_traces (snd (admission_stage ev re q v st)) = gs_traces st @ [p] \<and>
      jget_str p ''tenant_id'' = Some (pq_tenant q) \<and>
      jget_str p ''session_id'' = Some (tr_session_id (pq_trace q)) \<and>
      jget_str p ''prompt_content'' = Some (pq_prompt q) \<and>
      jget_u64 p ''status'' = Some 429 \<and>
      jget_str p ''model'' = Some (case e of RateLimitExceeded _ \<Rightarrow> ''__token_blocked''
        | LoopDetected _ \<Rightarrow> ''__loop_blocked'' | _ \<Rightarrow> ''__burn_rate_blocked''))"
proof -
  have row: "jget_str (blocked_payload re q pr m e') ''tenant_id'' = Some (pq_tenant q)"
    "jget_str (blocked_payload re q pr m e') ''session_id'' = Some (tr_session_id (pq_trace q))"
    "jget_str (blocked_payload re q pr m e') ''prompt_content'' = Some (pq_prompt q)"
    "jget_u64 (blocked_payload re q pr m e') ''status'' = Some 429"
    "jget_str (blocked_payload re q pr m e') ''model'' = Some m" for pr m e'
    by (simp_all add: blocked_payload_def log_payload_json_def jget_str_def jget_u64_def jnat_def)
  show ?thesis
  proof (cases "fst (preflight ev re q v st)")
    case (Some e')
    then have e: "e' = e" using assms by (simp add: admission_stage_def Let_def)
    have "(\<exists>m. e = RateLimitExceeded m) \<or> (\<exists>m. e = LoopDetected m)"
      using Some e
      by (auto simp: preflight_def Let_def enforce_token_bucket_def enforce_loop_detection_def
          split: sum.splits option.splits rval.splits if_splits)
    then show ?thesis
      using Some e row by (auto simp: admission_stage_def Let_def report_blocked_def error_response_def)
  next
    case None
    then have b: "fst (burn_stage ev re q (snd (preflight ev re q v st))) = Inl e"
      using assms by (auto simp: admission_stage_def Let_def split: sum.splits)
    then have "\<exists>m. e = BurnRateExceeded m"
      by (auto simp: burn_stage_def Let_def enforce_burn_rate_def
          split: option.splits rval.splits if_splits)
    then show ?thesis
      using None b row by (auto simp: admission_stage_def Let_def report_blocked_def error_response_def)
  qed
qed

lemma refusals_recorded_witness:
  "rstatus (error_response (RateLimitExceeded ''Token limit exceeded for this billing cycle.'')) = 429"
proof -
  let ?re = "re_sample\<lparr>re_bucket := (1, Delivered)\<rparr>"
  let ?st = "st_sample\<lparr>gs_redis := [bucket_key ''t'' \<mapsto> (DStr (Dec 0), None)]\<rparr>"
  have "fst (admission_stage ev_sample ?re (pq_sample ''t'' ''hi'') JNull ?st) =
      Inl (RateLimitExceeded ''Token limit exceeded for this billing cycle.'')"
    by (simp add: admission_stage_def preflight_def Let_def enforce_token_bucket_def bucket_script_def
        ref_exec_def at_time_def str_at_def estimate_tokens_def enforce_loop_detection_def sample_defs)
  from refusals_recorded [OF this] show ?thesis by blast
qed

section \<open>What the in-memory cache and streaming let through\<close>

text \<open>The in-memory cache crosses tenants: a response cached for one tenant is returned to any
  request with the same prompt while the entry lives, whatever its tenant and model, before
  any guard and without a provider or Redis being contacted.\<close>

theorem cached_answer_crosses_tenants:
  fixes st :: "('s, 'c, 'e) gw_state"
  assumes cache: "idle_cache (ev_eget ev) (ev_eins ev) view tti"
    and job: "\<not> tj_cache_hit j" "tj_status j = 200" "tj_tokens j < 1000"
    and content: "extract_response_content (ev_sd ev) (tj_response j) = content" "content \<noteq> []"
    and prompt: "pq_prompt q = tj_prompt j" "\<not> ev_pii ev (pq_prompt q)"
    and time: "jr_time jr \<le> re_time re" "re_time re < jr_time jr + tti"
  defines "st' \<equiv> fire_async_telemetry ev jr j st"
  shows "\<exists>r. fst (execute_proxy ev re q st') = Inr r \<and> px_cache_hit r \<and>
    px_body r = Buffered (print_value (ev_sd ev) (openai_completion ''chatcmpl-cached'' (pq_model q)
      (jobject [(''role'', JStr ''assistant''), (''content'', JStr content)]) ''stop'' 0 0)) \<and>
    sent_by ev re q st' = [] \<and> gs_redis (snd (execute_proxy ev re q st')) = gs_redis st'"
proof -
  have "fst (gs_l1 st') = ev_eins ev (fst (gs_l1 st)) (jr_time jr) (hash_prompt (ev_sha ev) (tj_prompt j)) content"
    using job content
    by (simp add: st'_def fire_async_telemetry_def Let_def cache_response_def l1_insert_def
        send_telemetry_def send_trace_to_tracer_def split: option.split)
  then have hit: "fst (get_exact (ev_sha ev) (ev_eget ev) (re_time re) (pq_prompt q) (gs_l1 st')) = Some content"
    using idle_cache.hit_after_insert [OF cache time] prompt(1)
    by (simp add: get_exact_def Let_def)
  then have "fst (cache_stage ev re q st') = Some content"
    by (simp add: cache_stage_def Let_def)
  then have "execute_proxy ev re q st' = handle_cache_hit ev re q content (snd (cache_stage ev re q st'))"
    using prompt(2) by (simp add: execute_proxy_def redact_stage_def Let_def)
  then show ?thesis
    by (simp add: sent_by_def) (simp add: handle_cache_hit_def Let_def)
qed

definition job_sample :: telemetry_job where
  "job_sample = \<lparr>tj_tenant = ''alice'', tj_model = ''m1'', tj_prompt = ''hi'', tj_trace = trace_sample,
     tj_status = 200, tj_latency = 1, tj_tokens = 5, tj_cache_hit = False,
     tj_response = Some (enc_json (openai_completion ''i'' ''m1''
       (jobject [(''content'', JStr ''secret'')]) ''stop'' 0 0)),
     tj_requested = ''openai'', tj_executed = ''openai'', tj_hot = 0\<rparr>"

definition jr_sample :: job_replies where
  "jr_sample = \<lparr>jr_spend = (1, LostRequest), jr_now = 1, jr_sync = (1, LostRequest), jr_time = 1,
     jr_latency = 1, jr_uuid = ''u'', jr_taken = 0\<rparr>"

lemma cached_answer_crosses_tenants_witness:
  "\<exists>r. fst (execute_proxy ev_sample re_sample (pq_sample ''mallory'' ''hi'')
        (fire_async_telemetry ev_sample jr_sample job_sample st_sample)) = Inr r \<and> px_cache_hit r \<and>
     px_body r = Buffered (enc_json (openai_completion ''chatcmpl-cached'' ''m''
       (jobject [(''role'', JStr ''assistant''), (''content'', JStr ''secret'')]) ''stop'' 0 0))"
proof -
  have c: "extract_response_content (ev_sd ev_sample) (tj_response job_sample) = ''secret''"
    by (simp add: extract_response_content_def ev_sample_def job_sample_def openai_completion_def
        jindex_def jindex0_def first_of_def str_or_def)
  have cache: "idle_cache (ev_eget ev_sample) (ev_eins ev_sample) idle_view 3600000"
    by (simp add: ev_sample_def idle.idle_cache_axioms)
  have "\<exists>r. fst (execute_proxy ev_sample re_sample (pq_sample ''mallory'' ''hi'')
        (fire_async_telemetry ev_sample jr_sample job_sample st_sample)) = Inr r \<and> px_cache_hit r \<and>
     px_body r = Buffered (print_value (ev_sd ev_sample) (openai_completion ''chatcmpl-cached''
       (pq_model (pq_sample ''mallory'' ''hi''))
       (jobject [(''role'', JStr ''assistant''), (''content'', JStr ''secret'')]) ''stop'' 0 0)) \<and>
     sent_by ev_sample re_sample (pq_sample ''mallory'' ''hi'')
       (fire_async_telemetry ev_sample jr_sample job_sample st_sample) = [] \<and>
     gs_redis (snd (execute_proxy ev_sample re_sample (pq_sample ''mallory'' ''hi'')
       (fire_async_telemetry ev_sample jr_sample job_sample st_sample))) =
     gs_redis (fire_async_telemetry ev_sample jr_sample job_sample st_sample)"
    by (rule cached_answer_crosses_tenants [OF cache _ _ _ c])
      (simp_all add: job_sample_def jr_sample_def sample_defs starts_with_def)
  then show ?thesis by (auto simp: pq_sample_def ev_sample_def)
qed

text \<open>A streamed reply is not inspected: for a request with \<open>stream\<close> set, the outcome does not
  depend on the policy service at all, and the client gets the chunks of the provider's reply
  as they are, in that provider's format, tool calls included.\<close>

theorem stream_not_inspected:
  assumes "\<not> ev_pii ev (pq_prompt q)" and "parse_value (ev_sd ev) (pq_body q) = Some v"
    and "Option.bind (jget v ''stream'') as_bool = Some True"
    and "fst (execute_proxy ev re q st) = Inr r" and "\<not> px_cache_hit r"
  shows "(\<exists>i rq resp. fst (re_net re i rq) = HOk resp \<and> px_body r = Streamed (hr_body resp)) \<and>
    execute_proxy ev (re\<lparr>re_opa := opa\<rparr>) q st = execute_proxy ev re q st"
proof (cases rule: execute_proxy_cases [of ev re q st])
  case (admitted body parsed w prep)
  have body: "body = pq_body q" "parsed = None" using admitted(1) assms(1) by (simp_all add: redact_stage_def)
  then have w: "w = v" using admitted(4) assms(2) by simp
  let ?st = "snd (admission_stage ev re q w (snd (cache_stage ev re q (snd (redact_stage ev re q st)))))"
  let ?ex = "execute_upstream_request (ev_F ev) (ev_sd ev) (ev_cins ev) (re_net re) prep body (gs_breaker ?st)"
  obtain resp where resp: "fst ?ex = Inr resp"
    using admitted(6) assms(4) by (auto simp: upstream_stage_def Let_def split: sum.splits)
  have "first_ok (re_net re) 0 (key_requests (ev_F ev) (ev_sd ev) prep body) <
      length (key_requests (ev_F ev) (ev_sd ev) prep body)"
  proof (rule ccontr)
    assume "\<not> ?thesis"
    then have "first_ok (re_net re) 0 (key_requests (ev_F ev) (ev_sd ev) prep body) =
      length (key_requests (ev_F ev) (ev_sd ev) prep body)"
      using first_ok_le by (metis le_neq_implies_less)
    from execute_reference(4) [OF admitted(3) this, where cins = "ev_cins ev" and cb = "gs_breaker ?st"] resp
    show False by auto
  qed
  from execute_reference(3) [OF admitted(3) this, where cins = "ev_cins ev" and cb = "gs_breaker ?st"] resp
  obtain i rq where net: "fst (re_net re i rq) = HOk resp" by auto
  have "px_body r = Streamed (hr_body resp)"
    using admitted(6) assms(3,4) resp w
    by (auto simp: upstream_stage_def Let_def handle_streaming_response_def)
  moreover have "execute_proxy ev (re\<lparr>re_opa := opa\<rparr>) q st = execute_proxy ev re q st"
  proof -
    have same: "redact_stage ev (re\<lparr>re_opa := opa\<rparr>) q st = redact_stage ev re q st"
      "cache_stage ev (re\<lparr>re_opa := opa\<rparr>) q s = cache_stage ev re q s"
      "admission_stage ev (re\<lparr>re_opa := opa\<rparr>) q x s = admission_stage ev re q x s"
      "upstream_stage ev (re\<lparr>re_opa := opa\<rparr>) q b v prep s = upstream_stage ev re q b v prep s" for s x b
      using assms(3)
      by (simp_all add: redact_stage_def cache_stage_def admission_stage_def preflight_def burn_stage_def
          report_blocked_def blocked_payload_def upstream_stage_def handle_streaming_response_def
          cong: option.case_cong sum.case_cong if_cong)
    show ?thesis
      using admitted body w by (simp add: execute_proxy_def same Let_def)
  qed
  ultimately show ?thesis using net by blast
qed (use assms in \<open>auto simp: handle_cache_hit_def Let_def\<close>)

definition stream_sample :: proxy_request where
  "stream_sample = (pq_sample ''t'' ''hi'')\<lparr>pq_body :=
     enc_json (JObj [(''model'', JStr ''m''), (''stream'', JBool True)])\<rparr>"

lemma stream_sample_result:
  "\<exists>r. fst (execute_proxy ev_sample re_sample stream_sample st_sample) = Inr r \<and> \<not> px_cache_hit r"
proof -
  have m: "parse_json_model (enc_json (JObj [(''model'', JStr ''m''), (''stream'', JBool True)])) = Some (Some ''m'')"
    by (simp add: parse_json_model_def)
  show ?thesis
    by (simp add: execute_proxy_def Let_def redact_stage_def cache_stage_def get_exact_def stream_sample_def
      idle_get_def idle_view_def get_semantic_def lookup_cache_def prep_upstream_request_def sample_defs
      m healthy_keys_def dl_get_def get_provider_config_def starts_with_def
      build_provider_request_def provider_endpoint_def provider_body_def admission_stage_def
      preflight_def enforce_token_bucket_def enforce_loop_detection_def burn_stage_def
      enforce_burn_rate_def upstream_stage_def execute_upstream_request_def is_retryable_error_def
      handle_streaming_response_def)
qed

lemma stream_not_inspected_witness:
  "execute_proxy ev_sample (re_sample\<lparr>re_opa := (\<lambda>q. HErr False)\<rparr>) stream_sample st_sample =
     execute_proxy ev_sample re_sample stream_sample st_sample"
proof -
  obtain r where r: "fst (execute_proxy ev_sample re_sample stream_sample st_sample) = Inr r" "\<not> px_cache_hit r"
    using stream_sample_result by blast
  have v: "\<not> ev_pii ev_sample (pq_prompt stream_sample)"
    "parse_value (ev_sd ev_sample) (pq_body stream_sample) =
       Some (JObj [(''model'', JStr ''m''), (''stream'', JBool True)])"
    "Option.bind (jget (JObj [(''model'', JStr ''m''), (''stream'', JBool True)]) ''stream'') as_bool = Some True"
    by (simp_all add: stream_sample_def sample_defs starts_with_def)
  from stream_not_inspected [OF v r] show ?thesis by blast
qed

section \<open>Token accounting\<close>

text \<open>The bucket is charged the tokens used: for a live bucket that covers the estimate, admission
  followed by reconciliation takes exactly the actual token count of the reply from the
  tenant's balance, and keeps the expiry, whichever of estimate and actual use is larger.\<close>

theorem bucket_charged_actual_use:
  assumes "redis_server F exec view"
    and "view s t (bucket_key tenant) = Some (DStr (Dec v), dl)"
    and "int (estimate_tokens prompt) \<le> v" and "v < 2 ^ 62" and "estimate_tokens prompt < 2 ^ 32"
    and "t \<le> t'" and "\<forall>d. dl = Some d \<longrightarrow> t' < d"
  shows "view (sync_token_bucket exec (t', Delivered) tenant (estimate_u32 prompt) (actual_tokens sd prompt body)
      (snd (enforce_token_bucket exec (t, Delivered) tenant prompt s))) t' (bucket_key tenant) =
    Some (DStr (Dec (v - uint (actual_tokens sd prompt body))), dl)"
proof (rule redis_server.enforce_then_sync [OF assms(1-4,6,7)])
  have "unat (estimate_u32 prompt) = estimate_tokens prompt"
    using assms(5) by (simp add: estimate_u32_def unat_usize_as_u32)
  then show "uint (estimate_u32 prompt) = int (estimate_tokens prompt)"
    by (metis uint_nat)
qed

lemma bucket_charged_actual_use_witness:
  "ref_view (sync_token_bucket (ref_exec F0) (9, Delivered) ''t'' (estimate_u32 ''hello world'')
      (actual_tokens sd1 ''hello world'' ''x'')
      (snd (enforce_token_bucket (ref_exec F0) (1, Delivered) ''t'' ''hello world''
        [bucket_key ''t'' \<mapsto> (DStr (Dec 50), Some 100)]))) 9 (bucket_key ''t'') =
    Some (DStr (Dec (50 - uint (actual_tokens sd1 ''hello world'' ''x''))), Some 100)"
  by (rule bucket_charged_actual_use [OF ref.redis_server_axioms])
    (simp_all add: ref_view_def at_time_def estimate_tokens_def)

end
