(* ===== verification/Gateway_Api.thy ===== *)
theory Gateway_Api
  imports Proxy
begin

text \<open>
  The gateway's HTTP surface for chat completions: authentication
  (\<open>api/middleware/auth.rs\<close>), trace context (\<open>api/middleware/trace_context.rs\<close>), session
  resolution (\<open>usecases/agentic_tracker.rs\<close>), the handler (\<open>api/handlers.rs\<close>) and the order
  the router puts them in (\<open>api/routes.rs\<close>).

  Third-party code: \<open>jwt secret token\<close> is the verification of an HS256 token with its
  expiry, \<open>uuid_parse\<close> reads a UUID into its hyphenated form, \<open>sha\<close> is the hex digest and
  \<open>keys\<close> the answer of the API-key query; \<open>lossy\<close> is \<open>String::from_utf8_lossy\<close>.
\<close>

section \<open>Requests\<close>

record claims =
  cl_sub :: string
  cl_tenant_id :: string
  cl_exp :: u64

record http_request =
  hq_method :: string
  hq_path :: string
  hq_headers :: headers
  hq_body :: string
  hq_trace :: "trace_context option"
  hq_claims :: "claims option"

definition status_response :: "nat \<Rightarrow> response" where
  "status_response s = \<lparr>rstatus = s, rheaders = [], rbody = BEmpty\<rparr>"

section \<open>Authentication\<close>

definition live_prefix :: string where "live_prefix = ''re_live_''"

definition cookie_token :: "string \<Rightarrow> string option" where
  "cookie_token cookies =
     first_of (List.map_filter (\<lambda>c.
       case strip_prefix (trim_ws c) ''re_token='' of
         None \<Rightarrow> None
       | Some token \<Rightarrow> if length (split_char (CHR 0x2E) token) = 3 \<and> token \<noteq> [] then Some token else None)
       (split_char (CHR 0x3B) cookies))"

text \<open>The token of a request and whether it is an API key: the bearer header, the API-key header, the cookie.\<close>

definition request_token :: "headers \<Rightarrow> (string \<times> bool) option" where
  "request_token hs =
     (case Option.bind (hdr_str hs ''authorization'') (\<lambda>a. strip_prefix a ''Bearer '') of
        Some token \<Rightarrow> Some (token, starts_with token live_prefix)
      | None \<Rightarrow>
          (case hdr_str hs ''x-api-key'' of
             Some token \<Rightarrow>
               if starts_with token live_prefix then Some (token, True)
               else map_option (\<lambda>t. (t, False)) (Option.bind (hdr_str hs ''cookie'') cookie_token)
           | None \<Rightarrow> map_option (\<lambda>t. (t, False)) (Option.bind (hdr_str hs ''cookie'') cookie_token)))"

definition verify_jwt ::
  "string option \<Rightarrow> (string \<Rightarrow> string \<Rightarrow> claims option) \<Rightarrow> string \<Rightarrow> nat + claims" where
  "verify_jwt secret jwt token =
     (case secret of None \<Rightarrow> Inl 500
      | Some s \<Rightarrow> (case jwt s token of None \<Rightarrow> Inl 401 | Some c \<Rightarrow> Inr c))"

definition handle_jwt ::
  "string option \<Rightarrow> (string \<Rightarrow> string \<Rightarrow> claims option) \<Rightarrow> (string \<Rightarrow> string option) \<Rightarrow> string \<Rightarrow>
   http_request \<Rightarrow> (http_request \<Rightarrow> 'st \<Rightarrow> response \<times> 'st) \<Rightarrow> 'st \<Rightarrow> response \<times> 'st" where
  "handle_jwt secret jwt uuid_parse token rq nxt st =
     (case verify_jwt secret jwt token of
        Inl s \<Rightarrow> (status_response s, st)
      | Inr c \<Rightarrow>
          (case uuid_parse (cl_tenant_id c) of
             None \<Rightarrow> (status_response 401, st)
           | Some tenant \<Rightarrow>
               nxt (rq\<lparr>hq_headers := hdr_insert ''x-tenant-id'' tenant (hq_headers rq),
                       hq_claims := Some c\<rparr>) st))"

text \<open>The answer of \<open>SELECT tenant_id FROM api_keys WHERE key_hash = $1 AND is_active = true\<close>.\<close>

datatype key_row = KeyDbError | KeyMissing | KeyTenant string

definition handle_api_key ::
  "(string \<Rightarrow> string) \<Rightarrow> (string \<Rightarrow> key_row) \<Rightarrow> string \<Rightarrow>
   http_request \<Rightarrow> (http_request \<Rightarrow> 'st \<Rightarrow> response \<times> 'st) \<Rightarrow> 'st \<Rightarrow> response \<times> 'st" where
  "handle_api_key sha keys key rq nxt st =
     (case keys (sha key) of
        KeyDbError \<Rightarrow> (status_response 500, st)
      | KeyMissing \<Rightarrow> (status_response 401, st)
      | KeyTenant tenant \<Rightarrow>
          nxt (rq\<lparr>hq_headers := hdr_insert ''x-tenant-id'' tenant (hq_headers rq),
                  hq_claims := Some \<lparr>cl_sub = ''api_key'', cl_tenant_id = tenant, cl_exp = 0\<rparr>\<rparr>) st)"

record auth_env =
  ae_secret :: "string option"
  ae_jwt :: "string \<Rightarrow> string \<Rightarrow> claims option"
  ae_uuid :: "string \<Rightarrow> string option"
  ae_sha :: "string \<Rightarrow> string"
  ae_keys :: "string \<Rightarrow> key_row"

definition auth_middleware ::
  "auth_env \<Rightarrow> (http_request \<Rightarrow> 'st \<Rightarrow> response \<times> 'st) \<Rightarrow> http_request \<Rightarrow> 'st \<Rightarrow> response \<times> 'st" where
  "auth_middleware ae nxt rq st =
     (if hq_method rq = ''OPTIONS'' \<or> hq_path rq = ''/health'' \<or> hq_path rq = ''/v1/health'' then nxt rq st
      else (case request_token (hq_headers rq) of
          None \<Rightarrow> (status_response 401, st)
        | Some (token, api) \<Rightarrow>
            (if api then handle_api_key (ae_sha ae) (ae_keys ae) token rq nxt st
             else handle_jwt (ae_secret ae) (ae_jwt ae) (ae_uuid ae) token rq nxt st)))"

text \<open>Decryption of a stored key: a 32-byte master key, a 12-byte nonce in front.\<close>

definition decrypt_api_key ::
  "(string \<Rightarrow> string \<Rightarrow> string \<Rightarrow> string option) \<Rightarrow> (string \<Rightarrow> bool) \<Rightarrow> string option \<Rightarrow> string \<Rightarrow>
   unit + string" where
  "decrypt_api_key aes utf8 master_key enc =
     (case master_key of None \<Rightarrow> Inl ()
      | Some k \<Rightarrow>
          if length k \<noteq> 32 \<or> length enc < 12 then Inl ()
          else (case aes k (take 12 enc) (drop 12 enc) of
              None \<Rightarrow> Inl ()
            | Some p \<Rightarrow> if utf8 p then Inr p else Inl ()))"

section \<open>Trace context\<close>

definition trace_context_of :: "string \<Rightarrow> string \<Rightarrow> headers \<Rightarrow> trace_context" where
  "trace_context_of trace_uuid session_uuid hs =
     \<lparr>tr_trace_id = trace_uuid,
      tr_session_id = str_or session_uuid (hdr_str hs ''x-session-id''),
      tr_parent = hdr_str hs ''x-parent-trace-id''\<rparr>"

text \<open>\<open>HeaderValue::from_str\<close> accepts visible text only.\<close>

definition hdr_insert_valid :: "string \<Rightarrow> string \<Rightarrow> headers \<Rightarrow> headers" where
  "hdr_insert_valid k v hs = (if list_all hdr_visible v then hdr_insert k v hs else hs)"

definition trace_context_middleware ::
  "string \<Rightarrow> string \<Rightarrow> (http_request \<Rightarrow> 'st \<Rightarrow> response \<times> 'st) \<Rightarrow> http_request \<Rightarrow> 'st \<Rightarrow> response \<times> 'st" where
  "trace_context_middleware trace_uuid session_uuid nxt rq st =
     (let ctx = trace_context_of trace_uuid session_uuid (hq_headers rq);
          r = nxt (rq\<lparr>hq_trace := Some ctx\<rparr>) st
      in ((fst r)\<lparr>rheaders := hdr_insert_valid ''x-session-id'' (tr_session_id ctx)
             (hdr_insert_valid ''x-trace-id'' (tr_trace_id ctx) (rheaders (fst r)))\<rparr>, snd r))"

section \<open>Sessions\<close>

definition resolve_session_id ::
  "(string \<Rightarrow> string) \<Rightarrow> string option \<Rightarrow> string option \<Rightarrow> string \<Rightarrow> string \<Rightarrow> string \<Rightarrow> string" where
  "resolve_session_id sha provided idem tenant api_key payload =
     (let p = (case provided of None \<Rightarrow> [] | Some s \<Rightarrow> trim_ws s);
          i = (case idem of None \<Rightarrow> [] | Some s \<Rightarrow> trim_ws s)
      in if p \<noteq> [] then p
         else if i \<noteq> [] then tenant @ ''_'' @ i
         else sha (tenant @ api_key @ take 256 payload))"

section \<open>The handler\<close>

definition health_check :: "string \<Rightarrow> response" where
  "health_check version = json_response 200 (jobject [(''status'', JStr ''ok''),
     (''service'', JStr ''redeye_gateway''), (''version'', JStr version)])"

definition detect_agentic_payload :: "serde \<Rightarrow> string \<Rightarrow> string \<Rightarrow> bool" where
  "detect_agentic_payload sd body content_type =
     (if 5 * 1024 * 1024 < length body \<or> \<not> starts_with content_type ''application/json'' then False
      else (case parse_value sd body of
          Some (JObj ob) \<Rightarrow> map_of ob ''tools'' \<noteq> None \<or> map_of ob ''tool_choice'' \<noteq> None
        | _ \<Rightarrow> False))"

record chat_replies =
  cr_proxy :: replies
  cr_budget :: call
  cr_clock :: "nat option"
  cr_uuid :: string
  cr_secs :: f64
  cr_stamp :: string

definition loop_event :: "chat_replies \<Rightarrow> string \<Rightarrow> string \<Rightarrow> nat \<Rightarrow> json" where
  "loop_event cr session tenant hit = jobject
     [(''type'', JStr ''agentic_loop_detection''), (''session_id'', JStr session),
      (''tenant_id'', JStr tenant), (''agentic_requests_total'', jnat 1),
      (''loop_limit_hits'', jnat (of_nat hit)), (''detection_latency_seconds'', json_f64 (cr_secs cr)),
      (''timestamp'', JStr (cr_stamp cr))]"

text \<open>The loop budget of an agentic request: the session's count, or the refusal.\<close>

definition budget_stage ::
  "('s, 'c, 'e) gw_env \<Rightarrow> chat_replies \<Rightarrow> http_request \<Rightarrow> string \<Rightarrow> ('s, 'c, 'e) gw_state \<Rightarrow>
   (gateway_error + nat option) \<times> ('s, 'c, 'e) gw_state" where
  "budget_stage ev cr rq tenant st =
     (let hs = hq_headers rq in
      if \<not> detect_agentic_payload (ev_sd ev) (hq_body rq) (str_or [] (hdr_str hs ''content-type''))
      then (Inr None, st)
      else
        (let session = resolve_session_id (ev_sha ev) (hdr_str hs ''x-session-id'')
               (hdr_str hs ''x-idempotency-key'') tenant
               (str_or [] (Option.bind (hdr_str hs ''authorization'') (\<lambda>a. strip_prefix a ''Bearer '')))
               (hq_body rq);
             r = enforce_agentic_loop_budget (ev_exec ev) (cr_budget cr) (cr_clock cr) (cr_uuid cr) session
               (gs_redis st, gs_counters st);
             st1 = st\<lparr>gs_redis := fst (snd r), gs_counters := snd (snd r)\<rparr>
         in case fst r of
              Inl e \<Rightarrow> (Inl e, spawn_job (SendJob (loop_event cr session tenant 1)) st1)
            | Inr n \<Rightarrow> (Inr (Some n), spawn_job (SendJob (loop_event cr session tenant 0)) st1)))"

definition chat_response :: "nat option \<Rightarrow> proxy_result \<Rightarrow> response" where
  "chat_response loop_count r =
     (let cnt = (case loop_count of None \<Rightarrow> [] | Some n \<Rightarrow> [(''x-redeye-loop-count'', show_nat n)])
      in \<lparr>rstatus = px_status r,
          rheaders = [(''content-type'', px_content_type r),
                      (''x-cache'', if px_cache_hit r then ''HIT'' else ''MISS'')] @ cnt,
          rbody = (case px_body r of Buffered b \<Rightarrow> BBytes b | Streamed cs \<Rightarrow> BStream (delivered cs))\<rparr>)"

definition chat_completions ::
  "('s, 'c, 'e) gw_env \<Rightarrow> (string \<Rightarrow> string) \<Rightarrow> chat_replies \<Rightarrow> http_request \<Rightarrow> ('s, 'c, 'e) gw_state \<Rightarrow>
   response \<times> ('s, 'c, 'e) gw_state" where
  "chat_completions ev lossy cr rq st =
     (let hs = hq_headers rq; body = hq_body rq; sd = ev_sd ev;
          tenant = str_or ''anonymous'' (hdr_str hs ''x-tenant-id'');
          model = (case parse_model sd body of Some (Some m) \<Rightarrow> m | _ \<Rightarrow> ''gpt-4o'');
          bs = budget_stage ev cr rq tenant st
      in case fst bs of
           Inl e \<Rightarrow> (error_response e, snd bs)
         | Inr cnt \<Rightarrow>
             (let st1 = (snd bs)\<lparr>gs_prefetch := try_prefetch (ev_mcp ev) body (gs_prefetch (snd bs))\<rparr>;
                  sent = (case inject_lazy_summaries (ev_G ev) (ev_words ev) (ev_lc ev) sd (ev_tools ev) body of
                     None \<Rightarrow> body | Some b \<Rightarrow> b);
                  r = execute_proxy ev (cr_proxy cr)
                    \<lparr>pq_body = sent, pq_tenant = tenant, pq_model = model, pq_prompt = lossy body,
                     pq_accept = str_or ''application/json'' (hdr_str hs ''accept''),
                     pq_trace = (case hq_trace rq of Some c \<Rightarrow> c
                       | None \<Rightarrow> \<lparr>tr_trace_id = [], tr_session_id = [], tr_parent = None\<rparr>)\<rparr> st1
              in case fst r of
                   Inl e \<Rightarrow> (error_response e, snd r)
                 | Inr px \<Rightarrow> (chat_response cnt px, snd r)))"

section \<open>The router\<close>

text \<open>Redis as the middleware sees it, inside the gateway's state.\<close>

definition lift_exec ::
  "(nat \<Rightarrow> rcmd \<Rightarrow> 's \<Rightarrow> rval \<times> 's) \<Rightarrow> nat \<Rightarrow> rcmd \<Rightarrow> ('s, 'c, 'e) gw_state \<Rightarrow>
   rval \<times> ('s, 'c, 'e) gw_state" where
  "lift_exec exec t c st = (let r = exec t c (gs_redis st) in (fst r, st\<lparr>gs_redis := snd r\<rparr>))"

record route_env =
  ro_limit :: u32
  ro_window :: u32
  ro_c1 :: call
  ro_c2 :: call
  ro_ip :: string
  ro_trace_uuid :: string
  ro_session_uuid :: string

text \<open>
  \<open>POST /v1/chat/completions\<close> as routed: trace context outermost, then the rate limiter,
  then authentication, then the handler. The nested router strips the prefix from the path.
\<close>

definition chat_route ::
  "('s, 'c, 'e) gw_env \<Rightarrow> auth_env \<Rightarrow> route_env \<Rightarrow> (string \<Rightarrow> string) \<Rightarrow> chat_replies \<Rightarrow>
   http_request \<Rightarrow> ('s, 'c, 'e) gw_state \<Rightarrow> response \<times> ('s, 'c, 'e) gw_state" where
  "chat_route ev ae ro lossy cr rq0 st =
     trace_context_middleware (ro_trace_uuid ro) (ro_session_uuid ro)
       (\<lambda>rq. rate_limit_middleware (lift_exec (ev_exec ev)) (ro_limit ro) (ro_window ro)
          (ro_c1 ro) (ro_c2 ro) (ro_ip ro)
          (\<lambda>hs. auth_middleware ae (chat_completions ev lossy cr) (rq\<lparr>hq_headers := hs\<rparr>)) (hq_headers rq))
       (rq0\<lparr>hq_method := ''POST'', hq_path := ''/chat/completions''\<rparr>) st"

section \<open>Lemmas\<close>

lemma lift_exec_redis:
  assumes "redis_server F exec view"
  shows "redis_server F (lift_exec exec) (\<lambda>st. view (gs_redis st))"
proof
  fix t c and st :: "('a, 'b, 'c) gw_state"
  show "fst (lift_exec exec t c st) = cmd_reply F t c (view (gs_redis st) t (cmd_key c))"
    using redis_server.exec_reply [OF assms] by (simp add: lift_exec_def Let_def)
  show "view (gs_redis (snd (lift_exec exec t c st))) t =
      (view (gs_redis st) t)(cmd_key c := at_time t (cmd_effect F t c (view (gs_redis st) t (cmd_key c))))"
    using redis_server.exec_view [OF assms] by (simp add: lift_exec_def Let_def)
next
  fix t t' :: nat and k and st :: "('a, 'b, 'c) gw_state"
  assume "t \<le> t'"
  then show "view (gs_redis st) t' k = at_time t' (view (gs_redis st) t k)"
    by (rule redis_server.time_passes [OF assms])
qed

text \<open>The three outcomes of authentication: passed on with a verified tenant, open, or refused.\<close>

definition verified_tenant :: "auth_env \<Rightarrow> headers \<Rightarrow> string \<Rightarrow> bool" where
  "verified_tenant ae hs tenant \<longleftrightarrow>
     (\<exists>key. request_token hs = Some (key, True) \<and> ae_keys ae (ae_sha ae key) = KeyTenant tenant) \<or>
     (\<exists>token secret c. request_token hs = Some (token, False) \<and> ae_secret ae = Some secret \<and>
        ae_jwt ae secret token = Some c \<and> ae_uuid ae (cl_tenant_id c) = Some tenant)"

lemma auth_outcomes:
  fixes ae :: auth_env
  assumes "hq_method rq \<noteq> ''OPTIONS''" "hq_path rq \<noteq> ''/health''" "hq_path rq \<noteq> ''/v1/health''"
  shows "(\<exists>tenant c. verified_tenant ae (hq_headers rq) tenant \<and>
      (\<forall>(nxt :: http_request \<Rightarrow> 'st \<Rightarrow> response \<times> 'st) st. auth_middleware ae nxt rq st =
        nxt (rq\<lparr>hq_headers := hdr_insert ''x-tenant-id'' tenant (hq_headers rq), hq_claims := Some c\<rparr>) st)) \<or>
    ((\<forall>tenant. \<not> verified_tenant ae (hq_headers rq) tenant) \<and>
      (\<exists>s \<in> {401, 500}. \<forall>(nxt :: http_request \<Rightarrow> 'st \<Rightarrow> response \<times> 'st) st. auth_middleware ae nxt rq st = (status_response s, st)))"
proof (cases "request_token (hq_headers rq)")
  case None
  then show ?thesis using assms by (simp add: auth_middleware_def verified_tenant_def)
next
  case (Some ta)
  obtain token api where ta: "ta = (token, api)" by (cases ta)
  consider (key) tenant where "api" "ae_keys ae (ae_sha ae token) = KeyTenant tenant"
    | (jwt) secret c tenant where "\<not> api" "ae_secret ae = Some secret" "ae_jwt ae secret token = Some c"
        "ae_uuid ae (cl_tenant_id c) = Some tenant"
    | (no) "\<forall>tenant. \<not> verified_tenant ae (hq_headers rq) tenant"
    using Some ta by (cases api) (auto simp: verified_tenant_def)
  then show ?thesis
  proof cases
    case key
    then have "verified_tenant ae (hq_headers rq) tenant"
      using Some ta by (auto simp: verified_tenant_def)
    moreover have "\<forall>(nxt :: http_request \<Rightarrow> 'st \<Rightarrow> response \<times> 'st) st. auth_middleware ae nxt rq st =
        nxt (rq\<lparr>hq_headers := hdr_insert ''x-tenant-id'' tenant (hq_headers rq),
          hq_claims := Some \<lparr>cl_sub = ''api_key'', cl_tenant_id = tenant, cl_exp = 0\<rparr>\<rparr>) st"
      using key Some ta assms by (simp add: auth_middleware_def handle_api_key_def)
    ultimately show ?thesis by blast
  next
    case jwt
    then have "verified_tenant ae (hq_headers rq) tenant"
      using Some ta by (auto simp: verified_tenant_def)
    moreover have "\<forall>(nxt :: http_request \<Rightarrow> 'st \<Rightarrow> response \<times> 'st) st. auth_middleware ae nxt rq st =
        nxt (rq\<lparr>hq_headers := hdr_insert ''x-tenant-id'' tenant (hq_headers rq), hq_claims := Some c\<rparr>) st"
      using jwt Some ta assms by (simp add: auth_middleware_def handle_jwt_def verify_jwt_def)
    ultimately show ?thesis by blast
  next
    case no
    then have "\<exists>s \<in> {401, 500}. \<forall>(nxt :: http_request \<Rightarrow> 'st \<Rightarrow> response \<times> 'st) st.
        auth_middleware ae nxt rq st = (status_response s, st)"
      using Some ta assms
      by (cases api) (auto simp: auth_middleware_def verified_tenant_def handle_api_key_def handle_jwt_def
        verify_jwt_def split: key_row.split option.split sum.split)
    with no show ?thesis by blast
  qed
qed

lemma lifted_rate_check_frames [simp]:
  "gs_upstream (snd (rate_check (lift_exec exec) l w c1 c2 k st)) = gs_upstream st"
  "gs_telemetry (snd (rate_check (lift_exec exec) l w c1 c2 k st)) = gs_telemetry st"
  "gs_jobs (snd (rate_check (lift_exec exec) l w c1 c2 k st)) = gs_jobs st"
proof -
  have f: "gs_upstream (snd (lift_exec exec t c s)) = gs_upstream s"
    "gs_telemetry (snd (lift_exec exec t c s)) = gs_telemetry s"
    "gs_jobs (snd (lift_exec exec t c s)) = gs_jobs s" for t c s
    by (simp_all add: lift_exec_def Let_def)
  have g: "gs_upstream (snd (rate_script (lift_exec exec t) k n s)) = gs_upstream s"
    "gs_telemetry (snd (rate_script (lift_exec exec t) k n s)) = gs_telemetry s"
    "gs_jobs (snd (rate_script (lift_exec exec t) k n s)) = gs_jobs s" for t n s
    by (simp_all add: rate_script_def Let_def f)
  show "gs_upstream (snd (rate_check (lift_exec exec) l w c1 c2 k st)) = gs_upstream st"
    "gs_telemetry (snd (rate_check (lift_exec exec) l w c1 c2 k st)) = gs_telemetry st"
    "gs_jobs (snd (rate_check (lift_exec exec) l w c1 c2 k st)) = gs_jobs st"
    by (simp_all add: rate_check_def redis_call_def Let_def f g split: fault.split)
qed

lemma budget_errors:
  "fst (enforce_agentic_loop_budget exec c clock uuid session sm) = Inl e \<Longrightarrow> is_loop_budget e"
proof -
  have "case fst (enforce_agentic_loop_budget exec c clock uuid session sm) of Inl e \<Rightarrow> is_loop_budget e | Inr n \<Rightarrow> True"
    unfolding enforce_agentic_loop_budget_def Let_def
    by (simp add: budget_exceeded_def split: option.split list.split rval.split)
  then show "fst (enforce_agentic_loop_budget exec c clock uuid session sm) = Inl e \<Longrightarrow> is_loop_budget e"
    by simp
qed

lemma budget_stage_error:
  assumes "fst (budget_stage ev cr rq tenant st) = Inl e"
  shows "is_loop_budget e" and "\<exists>st1 session. snd (budget_stage ev cr rq tenant st) =
      spawn_job (SendJob (loop_event cr session tenant 1)) st1 \<and> gs_upstream st1 = gs_upstream st \<and>
      gs_l1 st1 = gs_l1 st \<and> gs_jobs st1 = gs_jobs st"
proof -
  define session where "session = resolve_session_id (ev_sha ev) (hdr_str (hq_headers rq) ''x-session-id'')
      (hdr_str (hq_headers rq) ''x-idempotency-key'') tenant
      (str_or [] (Option.bind (hdr_str (hq_headers rq) ''authorization'') (\<lambda>a. strip_prefix a ''Bearer '')))
      (hq_body rq)"
  define r where "r = enforce_agentic_loop_budget (ev_exec ev) (cr_budget cr) (cr_clock cr) (cr_uuid cr) session
      (gs_redis st, gs_counters st)"
  have "fst r = Inl e" and snd: "snd (budget_stage ev cr rq tenant st) =
      spawn_job (SendJob (loop_event cr session tenant 1))
        (st\<lparr>gs_redis := fst (snd r), gs_counters := snd (snd r)\<rparr>)"
    using assms unfolding budget_stage_def Let_def session_def [symmetric] r_def [symmetric]
    by (auto split: if_splits sum.splits)
  from budget_errors [OF this(1) [unfolded r_def]] show "is_loop_budget e" .
  show "\<exists>st1 session. snd (budget_stage ev cr rq tenant st) =
      spawn_job (SendJob (loop_event cr session tenant 1)) st1 \<and> gs_upstream st1 = gs_upstream st \<and>
      gs_l1 st1 = gs_l1 st \<and> gs_jobs st1 = gs_jobs st"
    unfolding snd by (intro exI conjI) (rule refl, simp_all)
qed

end
