(* ===== verification/Gateway_Properties.thy ===== *)
theory Gateway_Properties
  imports Gateway_Api Proxy_Properties
begin

text \<open>The properties of the gateway's HTTP surface, each with a concrete instance.\<close>

definition ae_sample :: auth_env where
  "ae_sample = \<lparr>ae_secret = Some ''s'', ae_jwt = (\<lambda>s t. None), ae_uuid = Some, ae_sha = id,
     ae_keys = (\<lambda>h. if h = ''re_live_k'' then KeyTenant ''t1'' else KeyMissing)\<rparr>"

definition rq_sample :: "headers \<Rightarrow> http_request" where
  "rq_sample hs = \<lparr>hq_method = ''POST'', hq_path = ''/chat/completions'', hq_headers = hs,
     hq_body = enc_json (JObj [(''model'', JStr ''m''), (''tools'', JArr [])]), hq_trace = None, hq_claims = None\<rparr>"

text \<open>C8. The tenant cannot be forged: outside preflight and health checks a request is passed on only
  with a credential that verifies, and then with the tenant of that credential in
  \<open>x-tenant-id\<close>, whatever the client sent there, and everything else unchanged; any other
  request is answered 401 or 500 without running the rest of the stack.\<close>

theorem tenant_not_forgeable:
  fixes ae :: auth_env
  assumes "hq_method rq \<noteq> ''OPTIONS''" "hq_path rq \<noteq> ''/health''" "hq_path rq \<noteq> ''/v1/health''"
  shows "(\<exists>tenant rq'. verified_tenant ae (hq_headers rq) tenant \<and>
      map_of (hq_headers rq') ''x-tenant-id'' = Some tenant \<and>
      (\<forall>k. k \<noteq> ''x-tenant-id'' \<longrightarrow> map_of (hq_headers rq') k = map_of (hq_headers rq) k) \<and>
      hq_body rq' = hq_body rq \<and> hq_trace rq' = hq_trace rq \<and>
      (\<forall>(nxt :: http_request \<Rightarrow> 'st \<Rightarrow> response \<times> 'st) st. auth_middleware ae nxt rq st = nxt rq' st)) \<or>
    ((\<forall>tenant. \<not> verified_tenant ae (hq_headers rq) tenant) \<and>
      (\<exists>s \<in> {401, 500}. \<forall>(nxt :: http_request \<Rightarrow> 'st \<Rightarrow> response \<times> 'st) st. auth_middleware ae nxt rq st = (status_response s, st)))"
  using auth_outcomes [OF assms, of ae, where ?'st = 'st]
proof
  assume "\<exists>tenant c. verified_tenant ae (hq_headers rq) tenant \<and>
      (\<forall>(nxt :: http_request \<Rightarrow> 'st \<Rightarrow> response \<times> 'st) st. auth_middleware ae nxt rq st =
        nxt (rq\<lparr>hq_headers := hdr_insert ''x-tenant-id'' tenant (hq_headers rq), hq_claims := Some c\<rparr>) st)"
  then obtain tenant c where t: "verified_tenant ae (hq_headers rq) tenant"
    "\<forall>(nxt :: http_request \<Rightarrow> 'st \<Rightarrow> response \<times> 'st) st. auth_middleware ae nxt rq st =
        nxt (rq\<lparr>hq_headers := hdr_insert ''x-tenant-id'' tenant (hq_headers rq), hq_claims := Some c\<rparr>) st"
    by blast
  let ?rq = "rq\<lparr>hq_headers := hdr_insert ''x-tenant-id'' tenant (hq_headers rq), hq_claims := Some c\<rparr>"
  have "map_of (hq_headers ?rq) ''x-tenant-id'' = Some tenant"
    "\<forall>k. k \<noteq> ''x-tenant-id'' \<longrightarrow> map_of (hq_headers ?rq) k = map_of (hq_headers rq) k"
    by (simp_all add: map_of_hdr_insert)
  with t show ?thesis by (intro disjI1 exI [of _ tenant] exI [of _ ?rq]) simp
qed blast

lemma tenant_not_forgeable_witness:
  "\<exists>tenant (rq' :: http_request). verified_tenant ae_sample
      [(''authorization'', ''Bearer re_live_k''), (''x-tenant-id'', ''victim'')] tenant \<and>
     map_of (hq_headers rq') ''x-tenant-id'' = Some tenant"
proof -
  let ?hs = "[(''authorization'', ''Bearer re_live_k''), (''x-tenant-id'', ''victim'')]"
  have v: "verified_tenant ae_sample ?hs ''t1''"
    by (simp add: verified_tenant_def request_token_def hdr_str_def hdr_visible_def strip_prefix_def
        starts_with_def live_prefix_def ae_sample_def)
  have h: "hq_headers (rq_sample ?hs) = ?hs" by (simp add: rq_sample_def)
  have m: "hq_method (rq_sample ?hs) \<noteq> ''OPTIONS''" "hq_path (rq_sample ?hs) \<noteq> ''/health''"
    "hq_path (rq_sample ?hs) \<noteq> ''/v1/health''"
    by (simp_all add: rq_sample_def)
  from tenant_not_forgeable [OF m, of ae_sample, where ?'st = unit] show ?thesis
  proof (elim disjE exE conjE)
    fix tenant and rq' :: http_request
    assume "verified_tenant ae_sample (hq_headers (rq_sample ?hs)) tenant"
      and "map_of (hq_headers rq') ''x-tenant-id'' = Some tenant"
    then show ?thesis unfolding h by blast
  next
    assume "\<forall>tenant. \<not> verified_tenant ae_sample (hq_headers (rq_sample ?hs)) tenant"
    with v show ?thesis unfolding h by blast
  qed
qed

text \<open>Without a credential nothing happens: on the chat route a request that carries no verifiable
  credential is answered 401, 429 or 500, and no provider is contacted, no telemetry written
  and no background job started.\<close>

theorem chat_needs_credential:
  fixes ev :: "('s, 'c, 'e) gw_env"
  assumes "\<And>tenant. \<not> verified_tenant ae (hq_headers rq) tenant"
  shows "rstatus (fst (chat_route ev ae ro lossy cr rq st)) \<in> {401, 429, 500} \<and>
    gs_upstream (snd (chat_route ev ae ro lossy cr rq st)) = gs_upstream st \<and>
    gs_telemetry (snd (chat_route ev ae ro lossy cr rq st)) = gs_telemetry st \<and>
    gs_jobs (snd (chat_route ev ae ro lossy cr rq st)) = gs_jobs st"
proof -
  let ?rq = "rq\<lparr>hq_method := ''POST'', hq_path := ''/chat/completions'',
    hq_trace := Some (trace_context_of (ro_trace_uuid ro) (ro_session_uuid ro) (hq_headers rq))\<rparr>"
  obtain s where s: "s \<in> {401, 500}"
    "\<And>nxt (st' :: ('s, 'c, 'e) gw_state). auth_middleware ae nxt ?rq st' = (status_response s, st')"
    using auth_outcomes [of ?rq ae, where ?'st = "('s, 'c, 'e) gw_state"] assms by auto
  have id: "?rq\<lparr>hq_headers := hq_headers rq\<rparr> = ?rq" by simp
  show ?thesis
    using s(1)
    by (auto simp: chat_route_def trace_context_middleware_def rate_limit_middleware_def Let_def id
        s(2) status_response_def rate_limited_response_def)
qed

definition ro_sample :: route_env where
  "ro_sample = \<lparr>ro_limit = 10, ro_window = 60, ro_c1 = (1, Delivered), ro_c2 = (1, Delivered),
     ro_ip = ''ip'', ro_trace_uuid = ''tr'', ro_session_uuid = ''se''\<rparr>"

definition cr_sample :: chat_replies where
  "cr_sample = \<lparr>cr_proxy = re_sample, cr_budget = (1, LostRequest), cr_clock = Some 1, cr_uuid = ''u'',
     cr_secs = 0, cr_stamp = ''now''\<rparr>"

lemma chat_needs_credential_witness:
  "gs_upstream (snd (chat_route ev_sample ae_sample ro_sample id cr_sample
     (rq_sample [(''x-tenant-id'', ''victim'')]) st_sample)) = []"
proof -
  have "\<And>tenant. \<not> verified_tenant ae_sample (hq_headers (rq_sample [(''x-tenant-id'', ''victim'')])) tenant"
    by (simp add: verified_tenant_def request_token_def hdr_str_def rq_sample_def)
  from chat_needs_credential [OF this, of ev_sample ro_sample id cr_sample st_sample]
  show ?thesis by (simp add: st_sample_def)
qed

text \<open>A session over its loop budget is stopped: the request is answered 429 with
  \<open>Retry-After: 300\<close> and the OpenAI-style loop error, before any provider, cache or tool
  server is involved, and the hit is reported to telemetry.\<close>

theorem over_budget_stopped:
  assumes "fst (budget_stage ev cr rq (str_or ''anonymous'' (hdr_str (hq_headers rq) ''x-tenant-id'')) st) = Inl e"
  shows "rstatus (fst (chat_completions ev lossy cr rq st)) = 429 \<and>
    map_of (rheaders (fst (chat_completions ev lossy cr rq st))) ''retry-after'' = Some ''300'' \<and>
    gs_upstream (snd (chat_completions ev lossy cr rq st)) = gs_upstream st \<and>
    gs_l1 (snd (chat_completions ev lossy cr rq st)) = gs_l1 st \<and>
    (\<exists>p. gs_jobs (snd (chat_completions ev lossy cr rq st)) = gs_jobs st @ [SendJob p] \<and>
      jget_u64 p ''loop_limit_hits'' = Some 1)"
proof -
  from budget_stage_error(1) [OF assms] obtain m where e: "e = AgentLoopBudgetExceeded m"
    by (cases e) auto
  obtain st1 session where st1: "snd (budget_stage ev cr rq (str_or ''anonymous'' (hdr_str (hq_headers rq) ''x-tenant-id'')) st) =
      spawn_job (SendJob (loop_event cr session (str_or ''anonymous'' (hdr_str (hq_headers rq) ''x-tenant-id'')) 1)) st1"
    "gs_upstream st1 = gs_upstream st" "gs_l1 st1 = gs_l1 st" "gs_jobs st1 = gs_jobs st"
    using budget_stage_error(2) [OF assms] by blast
  have "jget_u64 (loop_event cr session tn 1) ''loop_limit_hits'' = Some 1" for tn
    by (simp add: loop_event_def jget_u64_def jnat_def)
  then show ?thesis
    using assms st1 e by (simp add: chat_completions_def Let_def error_response_def map_of_hdr_insert)
qed

lemma over_budget_stopped_witness:
  "rstatus (fst (chat_completions ev_sample id (cr_sample\<lparr>cr_clock := None\<rparr>)
     (rq_sample [(''content-type'', ''application/json'')]) st_sample)) = 429"
proof -
  have "fst (budget_stage ev_sample (cr_sample\<lparr>cr_clock := None\<rparr>) (rq_sample [(''content-type'', ''application/json'')])
      (str_or ''anonymous'' (hdr_str (hq_headers (rq_sample [(''content-type'', ''application/json'')])) ''x-tenant-id''))
      st_sample) = Inl (AgentLoopBudgetExceeded ''System time drift'')"
  proof -
    have "length (enc_json (JObj [(''model'', JStr ''m''), (''tools'', JArr [])])) < 100"
      by code_simp
    then show ?thesis
      by (simp add: budget_stage_def detect_agentic_payload_def rq_sample_def hdr_str_def str_or_def
          starts_with_def hdr_visible_def ev_sample_def enforce_agentic_loop_budget_def cr_sample_def Let_def)
  qed
  from over_budget_stopped [OF this, of id] show ?thesis by simp
qed

text \<open>The loop budget is opt-in for the client: a request without a content type beginning with
  \<open>application/json\<close> is never charged to a loop budget and never refused by one, although
  the rest of the handler treats it like any other request.\<close>

theorem loop_budget_evaded:
  assumes "\<not> starts_with (str_or [] (hdr_str (hq_headers rq) ''content-type'')) ''application/json''"
  shows "chat_completions ev lossy (cr\<lparr>cr_budget := b, cr_clock := k\<rparr>) rq st = chat_completions ev lossy cr rq st
    \<and> gs_counters (snd (budget_stage ev cr rq tenant st)) = gs_counters st
    \<and> gs_redis (snd (budget_stage ev cr rq tenant st)) = gs_redis st"
  using assms by (simp add: chat_completions_def budget_stage_def detect_agentic_payload_def Let_def)

lemma loop_budget_evaded_witness:
  "chat_completions ev_sample id (cr_sample\<lparr>cr_budget := (1, Delivered), cr_clock := None\<rparr>)
     (rq_sample [(''content-type'', ''text/plain'')]) st_sample =
   chat_completions ev_sample id cr_sample (rq_sample [(''content-type'', ''text/plain'')]) st_sample"
proof -
  have "\<not> starts_with (str_or [] (hdr_str (hq_headers (rq_sample [(''content-type'', ''text/plain'')]))
      ''content-type'')) ''application/json''"
    by (simp add: rq_sample_def hdr_str_def str_or_def starts_with_def hdr_visible_def)
  from loop_budget_evaded [OF this, where ev = ev_sample and lossy = id and cr = cr_sample and
      b = "(1, Delivered)" and k = None and st = st_sample]
  show ?thesis by simp
qed

end
