(* ===== verification/Telemetry.thy ===== *)
theory Telemetry
  imports Json
begin

text \<open>
  The background worker that batches telemetry for the analytics store (the task spawned in
  \<open>redeye_gateway/src/main.rs\<close>), and the direct insert of \<open>clickhouse_logger::log_request\<close>.
  A flush is one POST whose outcome the worker ignores.
\<close>

section \<open>Requests to the store\<close>

definition insert_url :: "string \<Rightarrow> string" where
  "insert_url base = base @ ''/?query=INSERT INTO RedEye_telemetry.request_logs FORMAT JSONEachRow''"

definition batch_body :: "serde \<Rightarrow> json list \<Rightarrow> string" where
  "batch_body sd rows = concat (map (\<lambda>p. print_value sd p @ [CHR 0x0A]) rows)"

definition log_request_entry :: "string \<Rightarrow> string \<Rightarrow> nat \<Rightarrow> u32 \<Rightarrow> string \<Rightarrow> u32 \<Rightarrow> json" where
  "log_request_entry uuid tenant status latency model tokens = jobject
     [(''id'', JStr uuid), (''tenant_id'', JStr tenant), (''status'', jnat (of_nat status)),
      (''latency_ms'', jnat (ucast latency)), (''model'', JStr model), (''tokens'', jnat (ucast tokens))]"

section \<open>The worker\<close>

text \<open>The interface of the buffer: what was pushed since it was emptied, in order.\<close>

locale row_buffer =
  fixes empty :: 'b
    and push :: "'b \<Rightarrow> 'x \<Rightarrow> 'b"
    and rows :: "'b \<Rightarrow> 'x list"
  assumes rows_empty: "rows empty = []"
    and rows_push: "rows (push b x) = rows b @ [x]"
begin

lemma rows_pushes: "rows (foldl push b xs) = rows b @ xs"
  by (induction xs arbitrary: b) (simp_all add: rows_push)

lemma rows_fresh: "rows (foldl push empty xs) = xs"
  by (simp add: rows_pushes rows_empty)

lemma rows_length: "length (rows (push b x)) = Suc (length (rows b))"
  by (simp add: rows_push)

end

definition push_row :: "json list \<Rightarrow> json \<Rightarrow> json list" where
  "push_row buffer p = buffer @ [p]"

interpretation vec: row_buffer "[]" push_row id
  by unfold_locales (simp_all add: push_row_def)

definition flush_size :: nat where "flush_size = 1000"

datatype worker_event = Tick | Recv json | Closed

text \<open>
  Running with a buffer, or stopped; the batches sent so far. A full buffer is flushed at
  once, a tick flushes what is there, the end of the channel flushes the rest.
\<close>

datatype worker = Running "json list" | Stopped

definition flush :: "json list \<Rightarrow> json list list" where
  "flush buffer = (if buffer = [] then [] else [buffer])"

fun worker_step :: "worker_event \<Rightarrow> worker \<Rightarrow> json list list \<times> worker" where
  "worker_step e Stopped = ([], Stopped)"
| "worker_step Tick (Running b) = (flush b, Running [])"
| "worker_step (Recv p) (Running b) =
     (let b' = push_row b p
      in if flush_size \<le> length b' then ([b'], Running []) else ([], Running b'))"
| "worker_step Closed (Running b) = (flush b, Stopped)"

fun worker_run :: "worker_event list \<Rightarrow> worker \<Rightarrow> json list list \<times> worker" where
  "worker_run [] w = ([], w)"
| "worker_run (e # es) w =
     (let s = worker_step e w; r = worker_run es (snd s) in (fst s @ fst r, snd r))"

section \<open>Lemmas\<close>

text \<open>The worker as a step relation: what it sends on an event.\<close>

inductive worker_trans :: "worker \<Rightarrow> json list list \<Rightarrow> worker \<Rightarrow> bool" where
  tick: "worker_trans (Running b) (flush b) (Running [])"
| full: "flush_size \<le> length (push_row b p) \<Longrightarrow> worker_trans (Running b) [push_row b p] (Running [])"
| keep: "length (push_row b p) < flush_size \<Longrightarrow> worker_trans (Running b) [] (Running (push_row b p))"
| close: "worker_trans (Running b) (flush b) Stopped"

inductive_cases worker_transE: "worker_trans w out w'"
inductive_simps worker_trans_stopped: "worker_trans Stopped out w'"

lemma worker_step_trans: "w \<noteq> Stopped \<Longrightarrow> worker_trans w (fst (worker_step e w)) (snd (worker_step e w))"
  by (cases w; cases e) (auto simp: Let_def intro: worker_trans.intros)

definition worker_ok :: "worker \<Rightarrow> bool" where
  "worker_ok w \<longleftrightarrow> (case w of Running b \<Rightarrow> length b < flush_size | Stopped \<Rightarrow> True)"

lemma flush_size_pos: "0 < flush_size"
  by (simp add: flush_size_def)

lemma worker_trans_ok:
  "worker_trans w out w' \<Longrightarrow> worker_ok w \<Longrightarrow>
   worker_ok w' \<and> (\<forall>b \<in> set out. b \<noteq> [] \<and> length b \<le> flush_size)"
  by (elim worker_transE)
    (auto simp: worker_ok_def flush_def push_row_def flush_size_pos)

lemma worker_run_ok:
  "worker_ok w \<Longrightarrow> \<forall>b \<in> set (fst (worker_run es w)). b \<noteq> [] \<and> length b \<le> flush_size"
proof (induction es arbitrary: w)
  case (Cons e es)
  show ?case
  proof (cases "w = Stopped")
    case True
    with Cons show ?thesis by (simp add: Let_def)
  next
    case False
    from worker_trans_ok [OF worker_step_trans [OF False] Cons.prems] Cons.IH
    show ?thesis by (auto simp: Let_def)
  qed
qed simp

definition received :: "worker_event list \<Rightarrow> json list" where
  "received es = List.map_filter (\<lambda>e. case e of Recv p \<Rightarrow> Some p | _ \<Rightarrow> None) es"

lemma received_simps [simp]:
  "received [] = []" "received (Tick # es) = received es" "received (Closed # es) = received es"
  "received (Recv p # es) = p # received es"
  by (simp_all add: received_def map_filter_simps)

lemma worker_run_stopped [simp]: "worker_run es Stopped = ([], Stopped)"
  by (induction es) (simp_all add: Let_def)

lemma concat_flush [simp]: "concat (flush b) = b"
  by (simp add: flush_def)

lemma worker_run_rows:
  "Closed \<notin> set es \<Longrightarrow>
   (\<exists>b'. snd (worker_run es (Running b)) = Running b' \<and>
     concat (fst (worker_run es (Running b))) @ b' = b @ received es)"
proof (induction es arbitrary: b)
  case (Cons e es)
  show ?case
  proof (cases e)
    case Tick
    with Cons show ?thesis by (force simp: Let_def)
  next
    case (Recv p)
    show ?thesis
    proof (cases "flush_size \<le> length (push_row b p)")
      case True
      with Recv Cons.IH [of "[]"] Cons.prems show ?thesis by (force simp: Let_def push_row_def)
    next
      case False
      with Recv Cons.IH [of "push_row b p"] Cons.prems show ?thesis by (force simp: Let_def push_row_def)
    qed
  qed (use Cons.prems in simp)
qed simp

lemma worker_run_append:
  "worker_run (xs @ ys) w =
     (fst (worker_run xs w) @ fst (worker_run ys (snd (worker_run xs w))),
      snd (worker_run ys (snd (worker_run xs w))))"
  by (induction xs arbitrary: w) (simp_all add: Let_def)

text \<open>C27. Exactly once: over any history of receptions and ticks that ends with the channel closed,
  every telemetry row is sent in exactly one batch, in the order received, every batch is
  non-empty and has at most a thousand rows, and the worker stops.\<close>

theorem telemetry_exactly_once:
  assumes "Closed \<notin> set es"
  shows "concat (fst (worker_run (es @ [Closed]) (Running []))) = received es \<and>
    (\<forall>b \<in> set (fst (worker_run (es @ [Closed]) (Running []))). b \<noteq> [] \<and> length b \<le> flush_size) \<and>
    snd (worker_run (es @ [Closed]) (Running [])) = Stopped"
proof -
  obtain b' where "snd (worker_run es (Running [])) = Running b'"
    "concat (fst (worker_run es (Running []))) @ b' = received es"
    using worker_run_rows [OF assms, of "[]"] by auto
  moreover have "worker_ok (Running [])" by (simp add: worker_ok_def flush_size_pos)
  ultimately show ?thesis
    using worker_run_ok [of "Running []" "es @ [Closed]"] by (simp add: worker_run_append Let_def)
qed

lemma telemetry_exactly_once_witness:
  "concat (fst (worker_run ([Recv JNull, Tick, Recv (JBool True)] @ [Closed]) (Running []))) = [JNull, JBool True]"
  using telemetry_exactly_once [of "[Recv JNull, Tick, Recv (JBool True)]"] by simp

end
