(* ===== verification/Compliance_Models.thy ===== *)
theory Compliance_Models
  imports Gateway_Error
begin

text \<open>
  The compliance service's errors and their responses (\<open>redeye_compliance/src/error.rs\<close>) and
  its domain model (\<open>redeye_compliance/src/domain/models.rs\<close>), with the JSON forms the
  service sends.
\<close>

section \<open>Errors\<close>

datatype error_code =
    EcInternal | EcBadRequest | EcUnauthorized | EcConflict | EcNotFound | EcRateLimited
  | EcPolicyViolation | EcServiceUnavailable | EcRegionLockViolation | EcPiiEngineFailure

fun code_str :: "error_code \<Rightarrow> string" where
  "code_str EcInternal = ''INTERNAL_ERROR''"
| "code_str EcBadRequest = ''BAD_REQUEST''"
| "code_str EcUnauthorized = ''UNAUTHORIZED''"
| "code_str EcConflict = ''CONFLICT''"
| "code_str EcNotFound = ''NOT_FOUND''"
| "code_str EcRateLimited = ''RATE_LIMITED''"
| "code_str EcPolicyViolation = ''POLICY_VIOLATION''"
| "code_str EcServiceUnavailable = ''SERVICE_UNAVAILABLE''"
| "code_str EcRegionLockViolation = ''REGION_LOCK_VIOLATION''"
| "code_str EcPiiEngineFailure = ''PII_ENGINE_FAILURE''"

datatype compliance_error =
    CeInternal string
  | CeBadRequest string
  | CeUnauthorized string
  | CeConflict string
  | CeNotFound string
  | CeRateLimited string
  | CePolicyViolation string
  | CeServiceUnavailable string
  | CeRegionLockViolation string
  | CePiiEngineFailure string

fun status_code :: "compliance_error \<Rightarrow> nat" where
  "status_code (CeInternal _) = 500"
| "status_code (CeBadRequest _) = 400"
| "status_code (CeUnauthorized _) = 401"
| "status_code (CeConflict _) = 409"
| "status_code (CeNotFound _) = 404"
| "status_code (CeRateLimited _) = 429"
| "status_code (CePolicyViolation _) = 422"
| "status_code (CeServiceUnavailable _) = 503"
| "status_code (CeRegionLockViolation _) = 403"
| "status_code (CePiiEngineFailure _) = 503"

fun error_code_of :: "compliance_error \<Rightarrow> error_code" where
  "error_code_of (CeInternal _) = EcInternal"
| "error_code_of (CeBadRequest _) = EcBadRequest"
| "error_code_of (CeUnauthorized _) = EcUnauthorized"
| "error_code_of (CeConflict _) = EcConflict"
| "error_code_of (CeNotFound _) = EcNotFound"
| "error_code_of (CeRateLimited _) = EcRateLimited"
| "error_code_of (CePolicyViolation _) = EcPolicyViolation"
| "error_code_of (CeServiceUnavailable _) = EcServiceUnavailable"
| "error_code_of (CeRegionLockViolation _) = EcRegionLockViolation"
| "error_code_of (CePiiEngineFailure _) = EcPiiEngineFailure"

text \<open>What the client is told: internal details stay inside.\<close>

fun user_message :: "compliance_error \<Rightarrow> string" where
  "user_message (CeInternal _) = ''An unexpected error occurred. Please try again later.''"
| "user_message (CeBadRequest m) = m"
| "user_message (CeUnauthorized m) = m"
| "user_message (CeConflict m) = m"
| "user_message (CeNotFound m) = m"
| "user_message (CeRateLimited m) = m"
| "user_message (CePolicyViolation m) = m"
| "user_message (CeServiceUnavailable m) = m"
| "user_message (CeRegionLockViolation m) = m"
| "user_message (CePiiEngineFailure _) =
     ''PII protection engine unavailable. Request blocked for data safety.''"

definition compliance_response :: "compliance_error \<Rightarrow> response" where
  "compliance_response e = json_response (status_code e) (jobject [(''error'', jobject
     [(''code'', JStr (code_str (error_code_of e))), (''message'', JStr (user_message e))])])"

definition compliance_error_text :: "compliance_error \<Rightarrow> string" where
  "compliance_error_text e = code_str (error_code_of e) @ '': '' @ user_message e"

section \<open>Domain model\<close>

record compliance_policy =
  cp_frameworks :: "string list"
  cp_enable_redaction :: bool
  cp_targets :: "string list"
  cp_fail_closed :: bool

record residency_rule =
  rr_region :: string
  rr_endpoint :: string
  rr_strict :: bool

record opa_input =
  oi_trace_id :: string
  oi_tenant_id :: string
  oi_region :: string
  oi_model :: string
  oi_frameworks :: "string list"

record opa_result =
  ox_allow :: bool
  ox_reason :: "string option"

record audit_record =
  ad_trace_id :: string
  ad_tenant_id :: string
  ad_timestamp :: string
  ad_result :: bool
  ad_count :: u32
  ad_region :: string
  ad_reason :: "string option"

definition opt_str :: "string option \<Rightarrow> json" where
  "opt_str x = (case x of None \<Rightarrow> JNull | Some s \<Rightarrow> JStr s)"

definition opa_payload_json :: "opa_input \<Rightarrow> json" where
  "opa_payload_json i = jobject [(''input'', jobject
     [(''trace_id'', JStr (oi_trace_id i)), (''tenant_id'', JStr (oi_tenant_id i)),
      (''user_region'', JStr (oi_region i)), (''model_requested'', JStr (oi_model i)),
      (''active_frameworks'', JArr (map JStr (oi_frameworks i)))])]"

definition audit_json :: "audit_record \<Rightarrow> json" where
  "audit_json a = jobject
     [(''trace_id'', JStr (ad_trace_id a)), (''tenant_id'', JStr (ad_tenant_id a)),
      (''timestamp'', JStr (ad_timestamp a)), (''policy_result'', JBool (ad_result a)),
      (''redacted_entity_count'', jnat (ucast (ad_count a))),
      (''destination_region'', JStr (ad_region a)), (''block_reason'', opt_str (ad_reason a))]"

section \<open>Lemmas\<close>

lemma compliance_status_class: "400 \<le> status_code e \<and> status_code e < 600"
  by (cases e) auto

text \<open>The details of an internal or engine error never reach the client.\<close>

lemma internal_details_hidden:
  "compliance_response (CeInternal m) = compliance_response (CeInternal m')"
  "compliance_response (CePiiEngineFailure m) = compliance_response (CePiiEngineFailure m')"
  by (simp_all add: compliance_response_def)

end
