(* ===== verification/Pii_Engine.thy ===== *)
theory Pii_Engine
  imports Compliance_Models "HOL-Library.AList" "HOL-Library.Multiset" "HOL-Library.Sublist"
begin

text \<open>
  The two-tier redaction engine (\<open>redeye_compliance/src/usecases/pii_engine.rs\<close>): a keyword
  and digit scan over the text of a payload, the analyzer it escalates to, and the
  substitution of the entities found by tokens.

  Third-party code: \<open>ac\<close> is the Aho-Corasick automaton (built case-insensitively from the
  keywords, it lists the pattern of each match), \<open>re\<close> the regular-expression matcher,
  \<open>analyze\<close> the analyzer behind the trait, \<open>uuid k\<close> the k-th fresh identifier. A hash map is
  iterated in an order of its own, \<open>perm\<close>. \<open>None\<close> is a panic.
\<close>

section \<open>Entities and the analyzer\<close>

record pii_entity =
  en_type :: string
  en_start :: nat
  en_end :: nat
  en_score :: f64

text \<open>The regular expressions of the production client, with their labels, in order.\<close>

definition bs :: string where "bs = [CHR 0x5C]"

definition presidio_patterns :: "(string \<times> string) list" where
  "presidio_patterns =
     [(bs @ ''b'' @ bs @ ''d{3}-'' @ bs @ ''d{2}-'' @ bs @ ''d{4}'' @ bs @ ''b'', ''SSN''),
      (bs @ ''b(?:'' @ bs @ ''d[ -]*?){13,16}'' @ bs @ ''b'', ''CREDIT_CARD''),
      (bs @ ''b[A-Za-z0-9._%+-]+@[A-Za-z0-9.-]+'' @ bs @ ''.[A-Za-z]{2,7}'' @ bs @ ''b'', ''EMAIL''),
      (bs @ ''b'' @ bs @ ''d{4}[ -]?'' @ bs @ ''d{4}[ -]?'' @ bs @ ''d{4}'' @ bs @ ''b'', ''AADHAAR''),
      (bs @ ''b[A-Z]{5}'' @ bs @ ''d{4}[A-Z]'' @ bs @ ''b'', ''PAN''),
      (bs @ ''b[A-Z]{4}0[A-Z0-9]{6}'' @ bs @ ''b'', ''IFSC''),
      (bs @ ''b'' @ bs @ ''d{9,18}'' @ bs @ ''b'', ''BANK_ACCOUNT'')]"

definition collect_matches ::
  "(string \<Rightarrow> string \<Rightarrow> (nat \<times> nat) list) \<Rightarrow> f64 \<Rightarrow> string \<Rightarrow> string \<Rightarrow> string \<Rightarrow> pii_entity list" where
  "collect_matches re score pat label txt =
     map (\<lambda>m. \<lparr>en_type = label, en_start = fst m, en_end = snd m, en_score = score\<rparr>) (re pat txt)"

text \<open>The client never fails; \<open>score\<close> is the literal 0.95.\<close>

definition presidio_analyze ::
  "(string \<Rightarrow> string \<Rightarrow> (nat \<times> nat) list) \<Rightarrow> f64 \<Rightarrow> string \<Rightarrow> compliance_error + pii_entity list" where
  "presidio_analyze re score txt =
     Inr (concat (map (\<lambda>p. collect_matches re score (fst p) (snd p) txt) presidio_patterns))"

section \<open>The keyword scan\<close>

datatype pii_category = IndianId | Financial | UsId | Contact

definition pii_keywords :: "string list" where
  "pii_keywords =
     [''aadhaar'', ''aadhar'', ''pan card'', ''pan number'', ''ifsc'',
      ''credit card'', ''debit card'', ''card number'', ''bank account'', ''account number'',
      ''ssn'', ''social security'', ''@'']"

definition pattern_categories :: "pii_category list" where
  "pattern_categories =
     [IndianId, IndianId, IndianId, IndianId, IndianId,
      Financial, Financial, Financial, Financial, Financial, UsId, UsId, Contact]"

definition tier1_hits :: "(string list \<Rightarrow> string \<Rightarrow> nat list) \<Rightarrow> string \<Rightarrow> pii_category list" where
  "tier1_hits ac txt = List.map_filter
     (\<lambda>i. if i < length pattern_categories then Some (pattern_categories ! i) else None)
     (ac pii_keywords txt)"

text \<open>\<open>contains_digit_sequence\<close>: the digits counted so far; blanks and dashes do not reset them.\<close>

fun digit_sequence :: "nat \<Rightarrow> nat \<Rightarrow> string \<Rightarrow> bool" where
  "digit_sequence m n [] = False"
| "digit_sequence m n (c # cs) =
     (if is_digit c then m \<le> n + 1 \<or> digit_sequence m (n + 1) cs
      else digit_sequence m (if c = CHR 0x20 \<or> c = CHR 0x2D then n else 0) cs)"

definition contains_digit_sequence :: "string \<Rightarrow> nat \<Rightarrow> bool" where
  "contains_digit_sequence txt m = digit_sequence m 0 txt"

text \<open>The text of a payload: every string value, each followed by a blank.\<close>

fun collect_text :: "json \<Rightarrow> string" where
  "collect_text (JStr s) = s @ [CHR 0x20]"
| "collect_text (JArr xs) = concat (map collect_text xs)"
| "collect_text (JObj ob) = concat (map (\<lambda>e. collect_text (snd e)) ob)"
| "collect_text _ = []"

section \<open>Substitution\<close>

definition substitute :: "(string \<times> string) list \<Rightarrow> string \<Rightarrow> string" where
  "substitute reps s =
     foldl (\<lambda>t r. if contains_str t (fst r) then replacen1 t (fst r) (snd r) else t) s reps"

fun apply_token_replacements :: "(string \<times> string) list \<Rightarrow> json \<Rightarrow> json" where
  "apply_token_replacements reps (JStr s) = JStr (substitute reps s)"
| "apply_token_replacements reps (JArr xs) = JArr (map (apply_token_replacements reps) xs)"
| "apply_token_replacements reps (JObj ob) =
     JObj (map (\<lambda>e. (fst e, apply_token_replacements reps (snd e))) ob)"
| "apply_token_replacements reps v = v"

text \<open>A slice panics unless its ends are in order and on character boundaries.\<close>

definition char_boundary :: "string \<Rightarrow> nat \<Rightarrow> bool" where
  "char_boundary s i \<longleftrightarrow> i = 0 \<or> i = length s \<or> i < length s \<and> (of_char (s ! i) :: nat) div 64 \<noteq> 2"

definition str_slice :: "string \<Rightarrow> nat \<Rightarrow> nat \<Rightarrow> string option" where
  "str_slice s a b =
     (if a \<le> b \<and> b \<le> length s \<and> char_boundary s a \<and> char_boundary s b
      then Some (take (b - a) (drop a s)) else None)"

definition redaction_token :: "string \<Rightarrow> string \<Rightarrow> string" where
  "redaction_token ty u = ''<'' @ ty @ ''_REDACTED>_'' @ u"

text \<open>The loop over the entities: the token map and the count so far; \<open>k\<close> counts the identifiers drawn.\<close>

fun bind_entities ::
  "(nat \<Rightarrow> string) \<Rightarrow> string \<Rightarrow> nat \<Rightarrow> pii_entity list \<Rightarrow> (string \<times> string) list \<Rightarrow> u32 \<Rightarrow>
   ((string \<times> string) list \<times> u32) option" where
  "bind_entities uuid txt k [] tm n = Some (tm, n)"
| "bind_entities uuid txt k (e # es) tm n =
     (if en_start e < length txt \<and> en_end e \<le> length txt then
        (case str_slice txt (en_start e) (en_end e) of
           None \<Rightarrow> None
         | Some original \<Rightarrow>
             bind_entities uuid txt (Suc k) es
               (AList.update (redaction_token (en_type e) (uuid k)) original tm) (n + 1))
      else bind_entities uuid txt k es tm n)"

section \<open>The scan\<close>

record redaction_result =
  rx_payload :: json
  rx_tokens :: "(string \<times> string) list"
  rx_count :: u32
  rx_indian :: bool

definition unredacted :: "json \<Rightarrow> bool \<Rightarrow> redaction_result" where
  "unredacted payload indian =
     \<lparr>rx_payload = payload, rx_tokens = [], rx_count = 0, rx_indian = indian\<rparr>"

record pii_engine =
  pe_ac :: "string list \<Rightarrow> string \<Rightarrow> nat list"
  pe_analyze :: "string \<Rightarrow> compliance_error + pii_entity list"
  pe_uuid :: "nat \<Rightarrow> string"
  pe_perm :: "(string \<times> string) list \<Rightarrow> (string \<times> string) list"

definition pii_to_token :: "pii_engine \<Rightarrow> (string \<times> string) list \<Rightarrow> (string \<times> string) list" where
  "pii_to_token pe tm = map (\<lambda>p. (snd p, fst p)) (pe_perm pe tm)"

definition is_indian_entity :: "pii_entity \<Rightarrow> bool" where
  "is_indian_entity e \<longleftrightarrow> en_type e = ''AADHAAR'' \<or> en_type e = ''PAN'' \<or> en_type e = ''IFSC''"

definition scan :: "pii_engine \<Rightarrow> json \<Rightarrow> (compliance_error + redaction_result) option" where
  "scan pe payload =
     (let txt = collect_text payload;
          hits = tier1_hits (pe_ac pe) txt;
          indian = (IndianId \<in> set hits)
      in if txt = [] then Some (Inr (unredacted payload False))
         else if hits = [] \<and> \<not> contains_digit_sequence txt 9 then Some (Inr (unredacted payload False))
         else (case pe_analyze pe txt of
             Inl e \<Rightarrow> Some (Inl e)
           | Inr [] \<Rightarrow> Some (Inr (unredacted payload indian))
           | Inr es \<Rightarrow>
               (case bind_entities (pe_uuid pe) txt 0 es [] 0 of
                  None \<Rightarrow> None
                | Some (tm, n) \<Rightarrow> Some (Inr
                    \<lparr>rx_payload = apply_token_replacements (pii_to_token pe tm) payload,
                     rx_tokens = tm, rx_count = n,
                     rx_indian = (indian \<or> list_ex is_indian_entity es)\<rparr>))))"

text \<open>The wrapper the handler calls: a failed scan becomes the null payload.\<close>

definition redact_payload :: "pii_engine \<Rightarrow> json \<Rightarrow> redaction_result option" where
  "redact_payload pe payload =
     (case scan pe payload of
        None \<Rightarrow> None
      | Some (Inl e) \<Rightarrow> Some (unredacted JNull False)
      | Some (Inr r) \<Rightarrow> Some r)"

end
