(* ===== verification/Pii_Laws.thy ===== *)
theory Pii_Laws
  imports Pii_Engine
begin

text \<open>
  Laws of the redaction engine: what the keyword automaton promises, the shape redaction
  keeps, and the inverse of the token substitution.
\<close>

section \<open>The keyword automaton\<close>

text \<open>
  The documented behaviour of the automaton's \<open>find_iter\<close>: every match is an occurrence of
  its pattern up to ASCII case, and there is a match when there is an occurrence.
\<close>

locale keyword_automaton =
  fixes find :: "string list \<Rightarrow> string \<Rightarrow> nat list"
  assumes sound: "i \<in> set (find ks s) \<Longrightarrow>
      i < length ks \<and> contains_str (ascii_lower s) (ascii_lower (ks ! i))"
    and complete: "i < length ks \<Longrightarrow> contains_str (ascii_lower s) (ascii_lower (ks ! i)) \<Longrightarrow> find ks s \<noteq> []"
begin

lemma silent: "find ks s = [] \<longleftrightarrow> (\<forall>k \<in> set ks. \<not> contains_str (ascii_lower s) (ascii_lower k))"
proof
  assume "find ks s = []"
  then show "\<forall>k \<in> set ks. \<not> contains_str (ascii_lower s) (ascii_lower k)"
    using complete by (metis in_set_conv_nth)
next
  assume a: "\<forall>k \<in> set ks. \<not> contains_str (ascii_lower s) (ascii_lower k)"
  show "find ks s = []"
  proof (rule ccontr)
    assume "find ks s \<noteq> []"
    then obtain i where "i \<in> set (find ks s)" by (cases "find ks s") auto
    with sound a show False by (meson nth_mem)
  qed
qed

lemma tier1_silent:
  "tier1_hits find s = [] \<longleftrightarrow> (\<forall>k \<in> set pii_keywords. \<not> contains_str (ascii_lower s) (ascii_lower k))"
proof -
  have "length pattern_categories = length pii_keywords"
    by (simp add: pattern_categories_def pii_keywords_def)
  then have "i \<in> set (find pii_keywords s) \<Longrightarrow> i < length pattern_categories" for i
    using sound by metis
  then have "tier1_hits find s = [] \<longleftrightarrow> find pii_keywords s = []"
    by (cases "find pii_keywords s") (auto simp: tier1_hits_def map_filter_simps)
  then show ?thesis by (simp add: silent)
qed

end

text \<open>A reference automaton: every pattern that occurs.\<close>

definition find_patterns :: "string list \<Rightarrow> string \<Rightarrow> nat list" where
  "find_patterns ks s =
     filter (\<lambda>i. contains_str (ascii_lower s) (ascii_lower (ks ! i))) [0..<length ks]"

interpretation ac: keyword_automaton find_patterns
  by unfold_locales (auto simp: find_patterns_def filter_empty_conv)

section \<open>Maps over the strings of a value\<close>

fun map_strings :: "(string \<Rightarrow> string) \<Rightarrow> json \<Rightarrow> json" where
  "map_strings f (JStr s) = JStr (f s)"
| "map_strings f (JArr xs) = JArr (map (map_strings f) xs)"
| "map_strings f (JObj ob) = JObj (map (\<lambda>e. (fst e, map_strings f (snd e))) ob)"
| "map_strings f v = v"

fun strings_of :: "json \<Rightarrow> string list" where
  "strings_of (JStr s) = [s]"
| "strings_of (JArr xs) = concat (map strings_of xs)"
| "strings_of (JObj ob) = concat (map (\<lambda>e. strings_of (snd e)) ob)"
| "strings_of _ = []"

lemma apply_as_map: "apply_token_replacements reps v = map_strings (substitute reps) v"
  by (induction reps v rule: apply_token_replacements.induct) auto

lemma map_strings_compose: "map_strings f (map_strings g v) = map_strings (\<lambda>s. f (g s)) v"
  by (induction g v rule: map_strings.induct) auto

lemma map_strings_id: "(\<And>s. s \<in> set (strings_of v) \<Longrightarrow> f s = s) \<Longrightarrow> map_strings f v = v"
proof (induction f v rule: map_strings.induct)
  case (2 f xs)
  then show ?case by (auto intro!: map_idI)
next
  case (3 f ob)
  then have "e \<in> set ob \<Longrightarrow> map_strings f (snd e) = snd e" for e by (cases e) fastforce
  then show ?case by (simp add: map_idI)
qed auto

lemma strings_map_strings: "strings_of (map_strings f v) = map f (strings_of v)"
  by (induction f v rule: map_strings.induct) (auto simp: map_concat comp_def cong: map_cong)

text \<open>Two values with the same shape: only string values may differ.\<close>

fun same_shape :: "json \<Rightarrow> json \<Rightarrow> bool" where
  "same_shape (JStr s) (JStr t) = True"
| "same_shape (JArr xs) (JArr ys) = list_all2 same_shape xs ys"
| "same_shape (JObj ob) (JObj ob') =
     list_all2 (\<lambda>e e'. fst e = fst e' \<and> same_shape (snd e) (snd e')) ob ob'"
| "same_shape v w = (v = w)"

lemma same_shape_map_strings: "same_shape v (map_strings f v)"
  by (induction f v rule: map_strings.induct)
    (auto simp: list.rel_map intro!: list.rel_refl_strong)

lemma same_shape_refl: "same_shape v v"
  using same_shape_map_strings [of v "\<lambda>s. s"] map_strings_id [of v "\<lambda>s. s"] by simp

lemma concat_concat: "concat (concat xss) = concat (map concat xss)"
  by (induction xss) auto

lemma collect_text_strings: "collect_text v = concat (map (\<lambda>s. s @ [CHR 0x20]) (strings_of v))"
  by (induction v rule: collect_text.induct) (auto simp: map_concat comp_def concat_concat cong: map_cong)

section \<open>Undoing the substitution\<close>

definition restore :: "(string \<times> string) list \<Rightarrow> string \<Rightarrow> string" where
  "restore reps s =
     foldr (\<lambda>r t. if contains_str t (snd r) then replacen1 t (snd r) (fst r) else t) reps s"

text \<open>A mark: a text whose first character occurs in it only once.\<close>

definition mark :: "string \<Rightarrow> bool" where
  "mark m \<longleftrightarrow> (\<exists>w. m = CHR 0x3C # w \<and> CHR 0x3C \<notin> set w)"

lemma find_mark:
  assumes "c \<notin> set w" and "\<not> contains_str u (c # w)"
  shows "find_str (u @ c # w @ v) (c # w) = Some (length u)"
  using assms(2)
proof (induction u)
  case Nil
  have "starts_with (c # w @ v) (c # w)" by (simp add: starts_with_def)
  then show ?case by simp
next
  case (Cons x u)
  have "\<not> starts_with (x # u @ c # w @ v) (c # w)"
  proof
    assume "starts_with (x # u @ c # w @ v) (c # w)"
    then have x: "x = c" and w: "take (length w) (u @ c # w @ v) = w" by (auto simp: starts_with_def)
    show False
    proof (cases "length w \<le> length u")
      case True
      then have "starts_with (x # u) (c # w)" using x w by (simp add: starts_with_def)
      with Cons.prems show False by simp
    next
      case False
      then have "(take (length w) (u @ c # w @ v)) ! length u = c" by (simp add: nth_append)
      then have "w ! length u = c" by (simp only: w)
      moreover have "length u < length w" using False by simp
      ultimately show False using assms(1) nth_mem by blast
    qed
  qed
  moreover have "\<not> contains_str u (c # w)" using Cons.prems by simp
  ultimately show ?case using Cons.IH by simp
qed

lemma undo_step:
  assumes "mark m" and "\<not> contains_str t m" and "contains_str t old"
  shows "contains_str (replacen1 t old m) m \<and> replacen1 (replacen1 t old m) m old = t"
proof -
  obtain i where i: "find_str t old = Some i"
    using assms(3) find_str_None [of t old] by (cases "find_str t old") auto
  define u v where "u = take i t" and "v = drop (i + length old) t"
  have t: "t = u @ old @ v" using find_str_parts [OF i] by (simp add: u_def v_def)
  obtain w where m: "m = CHR 0x3C # w" "CHR 0x3C \<notin> set w" using assms(1) by (auto simp: mark_def)
  have r: "replacen1 t old m = u @ m @ v" by (simp add: replacen1_def i u_def v_def)
  have "\<not> contains_str u m" using assms(2) t by (metis append.assoc contains_str_iff)
  then have "find_str (u @ m @ v) m = Some (length u)" using find_mark [OF m(2), of u v] m(1) by simp
  then have "replacen1 (u @ m @ v) m old = t" unfolding t by (simp add: replacen1_def)
  then show ?thesis unfolding r by (auto simp: contains_str_iff)
qed

lemma contains_insert_mark:
  assumes "mark m" "mark n" and "\<not> prefix m n" "\<not> prefix n m" and "contains_str (u @ m @ v) n"
  shows "contains_str u n \<or> contains_str v n"
proof -
  obtain w where m: "m = CHR 0x3C # w" "CHR 0x3C \<notin> set w" using assms(1) by (auto simp: mark_def)
  obtain x where n: "n = CHR 0x3C # x" "CHR 0x3C \<notin> set x" using assms(2) by (auto simp: mark_def)
  obtain a b where ab: "u @ m @ v = a @ n @ b" using assms(5) by (auto simp: contains_str_iff)
  have related: False if "m @ p = n @ q" for p q
    using that assms(3,4) by (metis prefix_same_cases prefixI)
  have split: "(\<exists>p. xs = zs @ p \<and> p @ ys = ts) \<or> (\<exists>p. zs = xs @ p \<and> ys = p @ ts)"
    if "xs @ ys = zs @ ts" for xs ys zs ts :: string
    using that unfolding append_eq_append_conv2 by metis
  from split [OF ab] consider (left) p where "u = a @ p" "p @ m @ v = n @ b" | (right) p where "a = u @ p" "m @ v = p @ n @ b"
    by blast
  then show ?thesis
  proof cases
    case left
    from split [OF left(2)] consider (in_u) q where "p = n @ q" | (cut) q where "n = p @ q" "m @ v = q @ b"
      by blast
    then show ?thesis
    proof cases
      case in_u
      then show ?thesis using left(1) by (auto simp: contains_str_iff)
    next
      case cut
      show ?thesis
      proof (cases p)
        case Nil
        then show ?thesis using cut related [of v b] by simp
      next
        case (Cons y p')
        then have "x = p' @ q" using cut(1) n(1) by simp
        then have "q = []" using cut(2) m(1) n(2) by (cases q) auto
        then have "n = p" using cut(1) by simp
        then show ?thesis using left(1) by (metis append_Nil2 contains_str_iff)
      qed
    qed
  next
    case right
    from split [OF right(2)] consider (in_v) q where "p = m @ q" "v = q @ n @ b" | (cut) q where "m = p @ q" "n @ b = q @ v"
      by metis
    then show ?thesis
    proof cases
      case in_v
      then show ?thesis by (auto simp: contains_str_iff)
    next
      case cut
      show ?thesis
      proof (cases p)
        case Nil
        then show ?thesis using cut related [of v b] by simp
      next
        case (Cons y p')
        then have "w = p' @ q" using cut(1) m(1) by simp
        then have "q = []" using cut(2) n(1) m(2) by (cases q) auto
        then show ?thesis using cut(2) by (metis append_Nil contains_str_iff)
      qed
    qed
  qed
qed

text \<open>
  A set of tokens that cannot be confused: marks, none a prefix of another. A text that
  contains none of them has none of them after substitutions by others, and every
  substitution can be undone.
\<close>

definition clear_marks :: "string set \<Rightarrow> bool" where
  "clear_marks M \<longleftrightarrow> (\<forall>m \<in> M. mark m) \<and> (\<forall>m \<in> M. \<forall>n \<in> M. prefix m n \<longrightarrow> m = n)"

lemma substitute_snoc:
  "substitute (reps @ [r]) s =
     (let t = substitute reps s in if contains_str t (fst r) then replacen1 t (fst r) (snd r) else t)"
  by (simp add: substitute_def Let_def)

lemma restore_snoc:
  "restore (reps @ [r]) s =
     restore reps (if contains_str s (snd r) then replacen1 s (snd r) (fst r) else s)"
  by (simp add: restore_def)

lemma contains_replacen1:
  assumes "contains_str (replacen1 t old m) n" "mark m" "mark n" "\<not> prefix m n" "\<not> prefix n m"
  shows "contains_str t n"
proof (cases "find_str t old")
  case None
  then show ?thesis using assms(1) by (simp add: replacen1_def)
next
  case (Some i)
  then have "contains_str (take i t) n \<or> contains_str (drop (i + length old) t) n"
    using contains_insert_mark [OF assms(2-5)] assms(1) by (simp add: replacen1_def)
  then show ?thesis unfolding contains_str_iff
    by (metis append.assoc append_take_drop_id)
qed

lemma substitute_fresh:
  assumes "clear_marks (insert n (snd ` set reps))" and "n \<notin> snd ` set reps" and "\<not> contains_str s n"
  shows "\<not> contains_str (substitute reps s) n"
  using assms
proof (induction reps rule: rev_induct)
  case Nil
  then show ?case by (simp add: substitute_def)
next
  case (snoc r reps)
  have cm: "clear_marks (insert n (snd ` set reps))" and n: "n \<notin> snd ` set reps" "snd r \<noteq> n"
    and r: "mark (snd r)" "mark n" "\<not> prefix (snd r) n" "\<not> prefix n (snd r)"
    using snoc.prems by (auto simp: clear_marks_def)
  from snoc.IH [OF cm n(1) snoc.prems(3)] contains_replacen1 [OF _ r]
  show ?case by (auto simp: substitute_snoc Let_def)
qed

lemma restore_substitute:
  assumes "clear_marks (snd ` set reps)" and "distinct (map snd reps)"
    and "\<forall>m \<in> snd ` set reps. \<not> contains_str s m"
  shows "restore reps (substitute reps s) = s"
  using assms
proof (induction reps rule: rev_induct)
  case Nil
  then show ?case by (simp add: substitute_def restore_def)
next
  case (snoc r reps)
  let ?t = "substitute reps s"
  have cm: "clear_marks (snd ` set reps)" using snoc.prems(1) by (auto simp: clear_marks_def)
  then have IH: "restore reps ?t = s" using snoc by auto
  have fresh: "\<not> contains_str ?t (snd r)"
    using snoc.prems by (intro substitute_fresh) auto
  have "mark (snd r)" using snoc.prems(1) by (auto simp: clear_marks_def)
  with undo_step [OF this fresh] fresh IH show ?case
    by (auto simp: substitute_snoc restore_snoc Let_def)
qed

section \<open>Tokens\<close>

text \<open>Labels and identifiers as the analyzer and the UUID library give them: no angle brackets, 32 digits.\<close>

definition plain_label :: "string \<Rightarrow> bool" where
  "plain_label s \<longleftrightarrow> CHR 0x3C \<notin> set s \<and> CHR 0x3E \<notin> set s"

definition uuid_shape :: "(nat \<Rightarrow> string) \<Rightarrow> bool" where
  "uuid_shape uuid \<longleftrightarrow> (\<forall>k. length (uuid k) = 32 \<and> plain_label (uuid k))"

lemma token_prefix:
  assumes "plain_label t1" "plain_label t2" "plain_label u1" "plain_label u2" "length u1 = length u2"
    and "prefix (redaction_token t1 u1) (redaction_token t2 u2)"
  shows "t1 = t2 \<and> u1 = u2"
proof -
  let ?c = "\<lambda>x. x \<noteq> CHR 0x3E"
  obtain z where z: "redaction_token t2 u2 = redaction_token t1 u1 @ z"
    using assms(6) by (auto simp: prefix_def)
  have tw: "takeWhile ?c (redaction_token t u @ r) = ''<'' @ t @ ''_REDACTED''"
    "dropWhile ?c (redaction_token t u @ r) = ''>_'' @ u @ r" if "plain_label t" for t u r
  proof -
    have "\<And>x. x \<in> set (''<'' @ t @ ''_REDACTED'') \<Longrightarrow> ?c x" using that by (auto simp: plain_label_def)
    then show "takeWhile ?c (redaction_token t u @ r) = ''<'' @ t @ ''_REDACTED''"
      and "dropWhile ?c (redaction_token t u @ r) = ''>_'' @ u @ r"
      using takeWhile_append2 [of "''<'' @ t @ ''_REDACTED''" ?c "''>_'' @ u @ r"]
        dropWhile_append2 [of "''<'' @ t @ ''_REDACTED''" ?c "''>_'' @ u @ r"]
      by (simp_all add: redaction_token_def)
  qed
  have "''<'' @ t2 @ ''_REDACTED'' = ''<'' @ t1 @ ''_REDACTED''"
    using tw(1) [OF assms(2), of u2 "[]"] tw(1) [OF assms(1), of u1 z] z by simp
  moreover have "''>_'' @ u2 = ''>_'' @ u1 @ z"
    using tw(2) [OF assms(2), of u2 "[]"] tw(2) [OF assms(1), of u1 z] z by simp
  ultimately show ?thesis using assms(5) by simp
qed

definition tokens_from :: "(nat \<Rightarrow> string) \<Rightarrow> pii_entity list \<Rightarrow> string set" where
  "tokens_from uuid es = {redaction_token (en_type e) (uuid k) | e k. e \<in> set es}"

lemma tokens_from_clear:
  assumes "uuid_shape uuid" and "\<forall>e \<in> set es. plain_label (en_type e)"
  shows "clear_marks (tokens_from uuid es)"
proof -
  have "mark m" if "m \<in> tokens_from uuid es" for m
    using that assms by (auto simp: tokens_from_def mark_def redaction_token_def plain_label_def uuid_shape_def)
  moreover have "m = n" if mn: "m \<in> tokens_from uuid es" "n \<in> tokens_from uuid es" "prefix m n" for m n
  proof -
    obtain e k e' k' where "m = redaction_token (en_type e) (uuid k)" "e \<in> set es"
      "n = redaction_token (en_type e') (uuid k')" "e' \<in> set es"
      using mn(1,2) by (auto simp: tokens_from_def)
    with token_prefix [of "en_type e" "en_type e'" "uuid k" "uuid k'"] mn(3) assms
    show ?thesis by (simp add: uuid_shape_def)
  qed
  ultimately show ?thesis by (simp add: clear_marks_def)
qed

lemma bind_entities_tokens:
  "bind_entities uuid txt k es tm n = Some (tm', n') \<Longrightarrow> distinct (map fst tm) \<Longrightarrow>
   distinct (map fst tm') \<and> fst ` set tm' \<subseteq> fst ` set tm \<union> tokens_from uuid es"
proof (induction uuid "txt" k es tm n rule: bind_entities.induct)
  case (1 uuid s k tm n)
  then show ?case by simp
next
  case (2 uuid s k e es tm n)
  have sub: "tokens_from uuid es \<subseteq> tokens_from uuid (e # es)" by (auto simp: tokens_from_def)
  have tok: "redaction_token (en_type e) (uuid k) \<in> tokens_from uuid (e # es)"
    by (auto simp: tokens_from_def)
  show ?case
  proof (cases "en_start e < length s \<and> en_end e \<le> length s")
    case True
    then obtain orig where o: "str_slice s (en_start e) (en_end e) = Some orig"
      using "2.prems"(1) by (auto split: option.splits)
    let ?tm = "AList.update (redaction_token (en_type e) (uuid k)) orig tm"
    have "distinct (map fst ?tm)" using "2.prems"(2) by (rule distinct_update)
    with "2.IH"(1) [OF True o] "2.prems"(1) True o
    have d: "distinct (map fst tm')" and s1: "fst ` set tm' \<subseteq> fst ` set ?tm \<union> tokens_from uuid es" by auto
    have s2: "fst ` set ?tm \<subseteq> fst ` set tm \<union> tokens_from uuid (e # es)"
      using tok dom_update [of "redaction_token (en_type e) (uuid k)" orig tm] by simp
    from d order_trans [OF s1 Un_least [OF s2 le_supI2 [OF sub]]] show ?thesis by simp
  next
    case False
    then have "bind_entities uuid s k es tm n = Some (tm', n')" using "2.prems"(1) by auto
    from "2.IH"(2) [OF False this "2.prems"(2)]
    have d: "distinct (map fst tm')" and s1: "fst ` set tm' \<subseteq> fst ` set tm \<union> tokens_from uuid es" by auto
    from d order_trans [OF s1 Un_mono [OF subset_refl sub]] show ?thesis by simp
  qed
qed

end
