(* ===== verification/Pii_Scan.thy ===== *)
theory Pii_Scan
  imports Pii_Laws
begin

text \<open>
  The redaction scan as a whole: its cases, what its result keeps of the payload, and the
  digit scan against the property it looks for.
\<close>

section \<open>The cases of a scan\<close>

definition escalates :: "pii_engine \<Rightarrow> json \<Rightarrow> bool" where
  "escalates pe v \<longleftrightarrow> collect_text v \<noteq> [] \<and>
     (tier1_hits (pe_ac pe) (collect_text v) \<noteq> [] \<or> contains_digit_sequence (collect_text v) 9)"

lemma scan_silent: "\<not> escalates pe v \<Longrightarrow> scan pe v = Some (Inr (unredacted v False))"
  by (auto simp: scan_def escalates_def Let_def)

lemma scan_failed: "escalates pe v \<Longrightarrow> pe_analyze pe (collect_text v) = Inl e \<Longrightarrow> scan pe v = Some (Inl e)"
  by (auto simp: scan_def escalates_def Let_def)

text \<open>A scan that succeeds left the payload alone, or substituted the tokens of the entities found.\<close>

lemma scan_cases:
  assumes "scan pe v = Some (Inr r)"
  obtains (same) "rx_payload r = v" "rx_tokens r = []" "rx_count r = 0"
      "\<not> escalates pe v \<or> pe_analyze pe (collect_text v) = Inr []"
  | (entities) es where "escalates pe v" "pe_analyze pe (collect_text v) = Inr es"
      "bind_entities (pe_uuid pe) (collect_text v) 0 es [] 0 = Some (rx_tokens r, rx_count r)"
      "rx_payload r = map_strings (substitute (pii_to_token pe (rx_tokens r))) v"
proof (cases "escalates pe v")
  case False
  then have "r = unredacted v False" using assms scan_silent [OF False] by simp
  with False same show ?thesis by (simp add: unredacted_def)
next
  case True
  show ?thesis
  proof (cases "pe_analyze pe (collect_text v)")
    case (Inl e)
    then show ?thesis using assms scan_failed [OF True Inl] by simp
  next
    case (Inr es)
    show ?thesis
    proof (cases "es = []")
      case nil: True
      then have "scan pe v = Some (Inr (unredacted v (IndianId \<in> set (tier1_hits (pe_ac pe) (collect_text v)))))"
        using True Inr by (auto simp: scan_def escalates_def Let_def)
      then have "r = unredacted v (IndianId \<in> set (tier1_hits (pe_ac pe) (collect_text v)))"
        using assms by simp
      with same Inr nil show ?thesis by (simp add: unredacted_def)
    next
      case False
      then have "\<exists>tm n. bind_entities (pe_uuid pe) (collect_text v) 0 es [] 0 = Some (tm, n) \<and>
          rx_payload r = apply_token_replacements (pii_to_token pe tm) v \<and> rx_tokens r = tm \<and> rx_count r = n"
        using True Inr assms
        by (cases es) (auto simp: scan_def escalates_def Let_def split: option.splits)
      with entities True Inr show ?thesis by (auto simp: apply_as_map)
    qed
  qed
qed

section \<open>The substitution\<close>

text \<open>A permuted hash map has the entries of the map.\<close>

definition permutes_entries :: "pii_engine \<Rightarrow> bool" where
  "permutes_entries pe \<longleftrightarrow> (\<forall>tm. mset (pe_perm pe tm) = mset tm)"

lemma pii_to_token_perm:
  assumes "permutes_entries pe"
  shows "set (pii_to_token pe tm) = (\<lambda>p. (snd p, fst p)) ` set tm"
    and "snd ` set (pii_to_token pe tm) = fst ` set tm"
    and "distinct (map snd (pii_to_token pe tm)) = distinct (map fst tm)"
proof -
  have m: "mset (pe_perm pe tm) = mset tm" using assms by (simp add: permutes_entries_def)
  then have s: "set (pe_perm pe tm) = set tm" by (rule mset_eq_setD)
  then show eq: "set (pii_to_token pe tm) = (\<lambda>p. (snd p, fst p)) ` set tm" by (simp add: pii_to_token_def)
  show "snd ` set (pii_to_token pe tm) = fst ` set tm" unfolding eq by (simp add: image_image)
  have "mset (map fst (pe_perm pe tm)) = mset (map fst tm)" using m by simp
  then have "distinct (map fst (pe_perm pe tm)) = distinct (map fst tm)" by (rule mset_eq_imp_distinct_iff)
  then show "distinct (map snd (pii_to_token pe tm)) = distinct (map fst tm)"
    by (simp add: pii_to_token_def comp_def)
qed

text \<open>A substitution leaves a string alone that has none of the originals.\<close>

lemma substitute_absent: "\<forall>r \<in> set reps. \<not> contains_str s (fst r) \<Longrightarrow> substitute reps s = s"
  by (induction reps rule: rev_induct) (auto simp: substitute_snoc substitute_def [of "[]"] Let_def)

lemma substitute_untouched:
  assumes "permutes_entries pe" and "\<forall>p \<in> set tm. \<not> contains_str s (snd p)"
  shows "substitute (pii_to_token pe tm) s = s"
  using assms pii_to_token_perm(1) by (intro substitute_absent) auto

section \<open>The digit scan\<close>

text \<open>Digits with blanks and dashes between them, and the same at the front of a text.\<close>

definition digit_char :: "char \<Rightarrow> bool" where
  "digit_char c \<longleftrightarrow> is_digit c \<or> c = CHR 0x20 \<or> c = CHR 0x2D"

definition digit_front :: "nat \<Rightarrow> nat \<Rightarrow> string \<Rightarrow> bool" where
  "digit_front m n s \<longleftrightarrow> (\<exists>w v. s = w @ v \<and> list_all digit_char w \<and> m \<le> n + length (filter is_digit w))"

definition digit_run :: "nat \<Rightarrow> string \<Rightarrow> bool" where
  "digit_run m s \<longleftrightarrow> (\<exists>u w v. s = u @ w @ v \<and> list_all digit_char w \<and> m \<le> length (filter is_digit w))"

lemma digit_front_Cons:
  assumes "n < m"
  shows "digit_front m n (c # cs) \<longleftrightarrow> digit_char c \<and> digit_front m (if is_digit c then n + 1 else n) cs"
proof
  assume "digit_front m n (c # cs)"
  then obtain w v where w: "c # cs = w @ v" "list_all digit_char w" "m \<le> n + length (filter is_digit w)"
    by (auto simp: digit_front_def)
  then have "w \<noteq> []" using assms by auto
  then obtain w' where "w = c # w'" using w(1) by (cases w) auto
  with w show "digit_char c \<and> digit_front m (if is_digit c then n + 1 else n) cs"
    unfolding digit_front_def by (intro conjI exI [of _ w'] exI [of _ v]) (auto split: if_splits)
next
  assume "digit_char c \<and> digit_front m (if is_digit c then n + 1 else n) cs"
  then obtain w v where "digit_char c" "cs = w @ v" "list_all digit_char w"
    "m \<le> (if is_digit c then n + 1 else n) + length (filter is_digit w)" by (auto simp: digit_front_def)
  then show "digit_front m n (c # cs)"
    unfolding digit_front_def by (intro exI [of _ "c # w"] exI [of _ v]) (auto split: if_splits)
qed

lemma digit_front_mono: "digit_front m 0 s \<Longrightarrow> digit_front m n s"
  unfolding digit_front_def by fastforce

lemma digit_run_Cons: "digit_run m (c # cs) \<longleftrightarrow> digit_front m 0 (c # cs) \<or> digit_run m cs"
proof
  assume "digit_run m (c # cs)"
  then obtain u w v where u: "c # cs = u @ w @ v" "list_all digit_char w" "m \<le> length (filter is_digit w)"
    by (auto simp: digit_run_def)
  then show "digit_front m 0 (c # cs) \<or> digit_run m cs"
    by (cases u) (auto simp: digit_front_def digit_run_def)
next
  assume "digit_front m 0 (c # cs) \<or> digit_run m cs"
  then show "digit_run m (c # cs)"
  proof
    assume "digit_front m 0 (c # cs)"
    then show ?thesis unfolding digit_run_def digit_front_def by (metis add_0 append_Nil)
  next
    assume "digit_run m cs"
    then show ?thesis unfolding digit_run_def by (metis append_Cons)
  qed
qed

lemma digit_sequence_run: "n < m \<Longrightarrow> digit_sequence m n s \<longleftrightarrow> digit_front m n s \<or> digit_run m s"
proof (induction s arbitrary: n)
  case Nil
  then show ?case by (auto simp: digit_front_def digit_run_def)
next
  case (Cons c cs)
  have pos: "0 < m" using Cons.prems by simp
  have z: "digit_front m m cs" unfolding digit_front_def by (intro exI [of _ "[]"] exI [of _ cs]) simp
  show ?case
  proof (cases "is_digit c")
    case True
    then have ok: "digit_char c" by (simp add: digit_char_def)
    show ?thesis
    proof (cases "m \<le> n + 1")
      case last: True
      then have "n + 1 = m" using Cons.prems by simp
      then have "digit_front m (n + 1) cs" using z by simp
      with last True ok Cons.prems show ?thesis by (simp add: digit_front_Cons)
    next
      case False
      then have "digit_sequence m n (c # cs) \<longleftrightarrow> digit_front m (n + 1) cs \<or> digit_run m cs"
        using True Cons.IH [of "n + 1"] by simp
      moreover have "digit_front m 0 (c # cs) \<Longrightarrow> digit_front m n (c # cs)" by (rule digit_front_mono)
      ultimately show ?thesis
        using True ok Cons.prems by (auto simp: digit_front_Cons digit_run_Cons)
    qed
  next
    case False
    have "digit_front m 0 cs \<Longrightarrow> digit_run m cs"
      unfolding digit_run_def digit_front_def by (metis add_0 append_Nil)
    moreover have "digit_front m 0 cs \<Longrightarrow> digit_front m n cs" by (rule digit_front_mono)
    ultimately show ?thesis
      using False Cons.IH [OF Cons.prems] Cons.IH [OF pos] Cons.prems pos
      by (auto simp: digit_front_Cons digit_run_Cons digit_char_def)
  qed
qed

lemma digit_sequence_spec: "0 < m \<Longrightarrow> contains_digit_sequence s m \<longleftrightarrow> digit_run m s"
  unfolding contains_digit_sequence_def digit_sequence_run
  by (auto simp: digit_run_def digit_front_def) (metis append_Nil)

section \<open>Entities\<close>

definition entity_in_range :: "string \<Rightarrow> pii_entity \<Rightarrow> bool" where
  "entity_in_range txt e \<longleftrightarrow> en_start e < length txt \<and> en_end e \<le> length txt"

definition slice_panics :: "string \<Rightarrow> pii_entity \<Rightarrow> bool" where
  "slice_panics txt e \<longleftrightarrow> entity_in_range txt e \<and> str_slice txt (en_start e) (en_end e) = None"

lemma bind_entities_None: "bind_entities uuid txt k es tm n = None \<longleftrightarrow> list_ex (slice_panics txt) es"
  by (induction uuid "txt" k es tm n rule: bind_entities.induct)
    (auto simp: slice_panics_def entity_in_range_def split: option.split)

lemma bind_entities_count:
  "bind_entities uuid txt k es tm n = Some (tm', n') \<Longrightarrow>
   n' = n + of_nat (length (filter (entity_in_range txt) es))"
  by (induction uuid "txt" k es tm n rule: bind_entities.induct)
    (auto simp: entity_in_range_def split: option.splits if_splits)

lemma scan_panics_iff:
  "scan pe v = None \<longleftrightarrow> escalates pe v \<and>
     (\<exists>es. pe_analyze pe (collect_text v) = Inr es \<and> list_ex (slice_panics (collect_text v)) es)"
proof (cases "escalates pe v")
  case True
  show ?thesis
  proof (cases "pe_analyze pe (collect_text v)")
    case (Inl e)
    with True scan_failed show ?thesis by auto
  next
    case (Inr es)
    with True bind_entities_None [of "pe_uuid pe" "collect_text v" 0 es "[]" 0] show ?thesis
      by (cases es) (auto simp: scan_def escalates_def Let_def split: option.split)
  qed
qed (simp add: scan_silent)

lemma scan_count:
  assumes "scan pe v = Some (Inr r)" and "escalates pe v" and "pe_analyze pe (collect_text v) = Inr es"
  shows "unat (rx_count r) = length (filter (entity_in_range (collect_text v)) es) mod 2 ^ 32"
  using assms(1)
proof (cases rule: scan_cases)
  case same
  then show ?thesis using assms(2,3) by simp
next
  case (entities fs)
  then show ?thesis using assms(3) bind_entities_count [OF entities(3)] by (simp add: unat_of_nat)
qed

text \<open>When the first tier escalates, for an automaton that keeps its promise.\<close>

definition hot_text :: "string \<Rightarrow> bool" where
  "hot_text s \<longleftrightarrow> (\<exists>k \<in> set pii_keywords. contains_str (ascii_lower s) (ascii_lower k)) \<or> digit_run 9 s"

lemma escalates_iff:
  assumes "keyword_automaton (pe_ac pe)"
  shows "escalates pe v \<longleftrightarrow> hot_text (collect_text v)"
proof -
  have "\<not> hot_text []"
    by (auto simp: hot_text_def digit_run_def ascii_lower_def pii_keywords_def)
  then show ?thesis
    using keyword_automaton.tier1_silent [OF assms, of "collect_text v"] digit_sequence_spec [of 9 "collect_text v"]
    by (auto simp: escalates_def hot_text_def)
qed

end
