(* ===== verification/Compliance_Api.thy ===== *)
theory Compliance_Api
  imports Pii_Laws Sandbox
begin

text \<open>
  The redaction endpoint of the compliance service (\<open>redeye_compliance/src/api/handlers.rs\<close>,
  \<open>api/routes.rs\<close>, \<open>main.rs\<close>) as another service sees it: from the request sent to the reply
  received.
\<close>

section \<open>The handler\<close>

definition redact_reply :: "redaction_result \<Rightarrow> json" where
  "redact_reply r = jobject
     [(''sanitized_payload'', rx_payload r), (''mapping_stored'', JBool True),
      (''redacted_count'', jnat (ucast (rx_count r))),
      (''token_map'', jobject (map (\<lambda>p. (fst p, JStr (snd p))) (rx_tokens r)))]"

text \<open>\<open>None\<close> is a panic of the engine: the task dies and the connection with it.\<close>

definition redact_prompt :: "pii_engine \<Rightarrow> json \<Rightarrow> response option" where
  "redact_prompt pe payload = map_option (\<lambda>r. json_response 200 (redact_reply r)) (redact_payload pe payload)"

section \<open>The endpoint\<close>

text \<open>
  What the \<open>Json\<close> extractor refuses: a content type that is not JSON (\<open>mime\<close> reads it), a body over
  the limit of \<open>main.rs\<close>, a body that is not JSON.
\<close>

definition body_limit :: nat where "body_limit = 10 * 1024 * 1024"

definition json_body :: "(string \<Rightarrow> bool) \<Rightarrow> serde \<Rightarrow> upstream_req \<Rightarrow> nat + json" where
  "json_body mime sd rq =
     (if \<not> (case hdr_str (ur_headers rq) ''content-type'' of Some c \<Rightarrow> mime c | None \<Rightarrow> False) then Inl 415
      else if body_limit < length (ur_body rq) then Inl 413
      else ok_or (parse_value sd (ur_body rq)) 400)"

definition wire :: "serde \<Rightarrow> response \<Rightarrow> http_response" where
  "wire sd r = \<lparr>hr_status = rstatus r, hr_headers = rheaders r,
     hr_body = (case rbody r of BJson v \<Rightarrow> [Chunk (print_value sd v)] | BBytes b \<Rightarrow> [Chunk b]
       | BStream cs \<Rightarrow> map Chunk cs | BEmpty \<Rightarrow> [])\<rparr>"

definition redact_endpoint :: "(string \<Rightarrow> bool) \<Rightarrow> serde \<Rightarrow> pii_engine \<Rightarrow> upstream_req \<Rightarrow> http_result" where
  "redact_endpoint mime sd pe rq =
     (case json_body mime sd rq of
        Inl status \<Rightarrow> HOk \<lparr>hr_status = status, hr_headers = [], hr_body = []\<rparr>
      | Inr payload \<Rightarrow>
          (case redact_prompt pe payload of
             None \<Rightarrow> HErr False
           | Some r \<Rightarrow> HOk (wire sd r)))"

section \<open>Lemmas\<close>

lemma redact_payload_cases:
  obtains (panic) "scan pe v = None" "redact_payload pe v = None"
  | (failed) e where "scan pe v = Some (Inl e)" "redact_payload pe v = Some (unredacted JNull False)"
  | (scanned) r where "scan pe v = Some (Inr r)" "redact_payload pe v = Some r"
proof (cases "scan pe v")
  case None
  with panic show ?thesis by (simp add: redact_payload_def)
next
  case (Some x)
  with failed scanned show ?thesis by (cases x) (simp_all add: redact_payload_def)
qed

lemma redact_reply_payload [simp]: "jget (redact_reply r) ''sanitized_payload'' = Some (rx_payload r)"
  by (simp add: redact_reply_def)

lemma json_body_cases:
  "json_body mime sd rq = Inl s \<Longrightarrow> s \<in> {400, 413, 415}"
  by (auto simp: json_body_def ok_or_def split: if_splits option.splits)

text \<open>A reply of the endpoint that another service can read carries the payload of the engine.\<close>

lemma redact_endpoint_reply:
  assumes "serde_roundtrip sd" and "redact_endpoint mime sd pe rq = HOk resp" and "is_success (hr_status resp)"
  obtains v r where "json_body mime sd rq = Inr v" and "redact_payload pe v = Some r"
    and "reply_json sd resp = Some (redact_reply r)"
proof (cases "json_body mime sd rq")
  case (Inl s)
  with assms(2,3) json_body_cases [OF Inl] show ?thesis
    by (auto simp: redact_endpoint_def is_success_def)
next
  case (Inr v)
  with assms(2) obtain x where x: "redact_prompt pe v = Some x" "resp = wire sd x"
    by (auto simp: redact_endpoint_def split: option.splits)
  then obtain r where r: "redact_payload pe v = Some r" "x = json_response 200 (redact_reply r)"
    by (auto simp: redact_prompt_def)
  have "reply_json sd resp = Some (redact_reply r)"
    using assms(1) x(2) r(2) by (simp add: reply_json_def wire_def serde_roundtrip_def)
  with Inr r(1) that show ?thesis by blast
qed

end
