(* ===== verification/Pii_Properties.thy ===== *)
theory Pii_Properties
  imports Pii_Scan Compliance_Api Proxy_Properties
begin

text \<open>The properties of redaction: reversible, confined, two tiers, and the redaction a gateway gets.\<close>

section \<open>A concrete engine\<close>

definition pe_sample :: "pii_entity list \<Rightarrow> pii_engine" where
  "pe_sample es = \<lparr>pe_ac = find_patterns, pe_analyze = (\<lambda>s. Inr es),
     pe_uuid = (\<lambda>k. replicate 32 (CHR ''f'')), pe_perm = id\<rparr>"

definition en_sample :: "string \<Rightarrow> nat \<Rightarrow> nat \<Rightarrow> pii_entity" where
  "en_sample ty a b = \<lparr>en_type = ty, en_start = a, en_end = b, en_score = 0\<rparr>"

lemma pe_sample_simps [simp]:
  "pe_ac (pe_sample es) = find_patterns" "pe_analyze (pe_sample es) s = Inr es"
  "pe_uuid (pe_sample es) k = replicate 32 (CHR ''f'')" "pe_perm (pe_sample es) tm = tm"
  by (simp_all add: pe_sample_def)

lemma pe_sample_permutes: "permutes_entries (pe_sample es)"
  by (simp add: permutes_entries_def)

lemma scan_sample:
  "scan (pe_sample [en_sample ''EMAIL'' 0 3]) (JStr ''a@b'') = Some (Inr
     \<lparr>rx_payload = JStr (redaction_token ''EMAIL'' (replicate 32 (CHR ''f''))),
      rx_tokens = [(redaction_token ''EMAIL'' (replicate 32 (CHR ''f'')), ''a@b'')],
      rx_count = 1, rx_indian = False\<rparr>)"
  by code_simp

section \<open>Redaction can be undone\<close>

text \<open>C3. What redaction hides can be restored: from the token map and the sanitised payload the
  tokens are replaced back and give the original payload, whatever the entities were and in
  whatever order the map was walked, provided the payload did not already contain a token.\<close>

theorem redaction_reversible:
  assumes scan: "scan pe v = Some (Inr r)"
    and lib: "permutes_entries pe" "uuid_shape (pe_uuid pe)"
    and labels: "\<And>es e. pe_analyze pe (collect_text v) = Inr es \<Longrightarrow> e \<in> set es \<Longrightarrow> plain_label (en_type e)"
    and fresh: "\<And>p s. p \<in> set (rx_tokens r) \<Longrightarrow> s \<in> set (strings_of v) \<Longrightarrow> \<not> contains_str s (fst p)"
  shows "map_strings (restore (pii_to_token pe (rx_tokens r))) (rx_payload r) = v"
  using scan
proof (cases rule: scan_cases)
  case same
  then show ?thesis using pii_to_token_perm(1) [OF lib(1), of "[]"]
    by (simp add: restore_def map_strings_id)
next
  case (entities es)
  let ?reps = "pii_to_token pe (rx_tokens r)"
  have tok: "distinct (map fst (rx_tokens r))" "fst ` set (rx_tokens r) \<subseteq> tokens_from (pe_uuid pe) es"
    using bind_entities_tokens [OF entities(3)] by simp_all
  have "clear_marks (tokens_from (pe_uuid pe) es)"
    using tokens_from_clear [OF lib(2)] labels [OF entities(2)] by blast
  then have clear: "clear_marks (snd ` set ?reps)"
    using tok(2) unfolding pii_to_token_perm(2) [OF lib(1)] clear_marks_def by blast
  have "restore ?reps (substitute ?reps s) = s" if "s \<in> set (strings_of v)" for s
  proof (rule restore_substitute [OF clear])
    show "distinct (map snd ?reps)" using tok(1) by (simp add: pii_to_token_perm(3) [OF lib(1)])
    show "\<forall>m \<in> snd ` set ?reps. \<not> contains_str s m"
      using fresh that by (auto simp: pii_to_token_perm(2) [OF lib(1)])
  qed
  then show ?thesis by (simp add: entities(4) map_strings_compose map_strings_id)
qed

lemma redaction_reversible_witness:
  "\<exists>r. scan (pe_sample [en_sample ''EMAIL'' 0 3]) (JStr ''a@b'') = Some (Inr r) \<and> rx_payload r \<noteq> JStr ''a@b'' \<and>
     map_strings (restore (pii_to_token (pe_sample [en_sample ''EMAIL'' 0 3]) (rx_tokens r))) (rx_payload r)
       = JStr ''a@b''"
proof -
  let ?r = "\<lparr>rx_payload = JStr (redaction_token ''EMAIL'' (replicate 32 (CHR ''f''))),
      rx_tokens = [(redaction_token ''EMAIL'' (replicate 32 (CHR ''f'')), ''a@b'')],
      rx_count = 1, rx_indian = False\<rparr>"
  have "map_strings (restore (pii_to_token (pe_sample [en_sample ''EMAIL'' 0 3]) (rx_tokens ?r))) (rx_payload ?r)
      = JStr ''a@b''"
  proof (rule redaction_reversible [OF scan_sample pe_sample_permutes])
    show "uuid_shape (pe_uuid (pe_sample [en_sample ''EMAIL'' 0 3]))"
      by (simp add: uuid_shape_def plain_label_def)
  next
    fix es e assume "pe_analyze (pe_sample [en_sample ''EMAIL'' 0 3]) (collect_text (JStr ''a@b'')) = Inr es"
      and "e \<in> set es"
    then show "plain_label (en_type e)" by (auto simp: en_sample_def plain_label_def)
  next
    fix p s assume "p \<in> set (rx_tokens ?r)" and "s \<in> set (strings_of (JStr ''a@b''))"
    then show "\<not> contains_str s (fst p)" by (simp add: redaction_token_def starts_with_def)
  qed
  with scan_sample show ?thesis by (auto simp: redaction_token_def)
qed

section \<open>Redaction is confined\<close>

text \<open>C4. Redaction changes nothing but the text it must: the sanitised payload has the objects,
  keys, arrays, numbers and literals of the original, and a string value differs only when it
  contains one of the texts that were given a token.\<close>

theorem redaction_confined:
  assumes "scan pe v = Some (Inr r)" and "permutes_entries pe"
  shows "same_shape v (rx_payload r) \<and>
    (\<exists>f. rx_payload r = map_strings f v \<and>
      (\<forall>s. (\<forall>p \<in> set (rx_tokens r). \<not> contains_str s (snd p)) \<longrightarrow> f s = s))"
  using assms(1)
proof (cases rule: scan_cases)
  case same
  then show ?thesis by (auto simp: same_shape_refl map_strings_id intro!: exI [of _ "\<lambda>s. s"])
next
  case (entities es)
  then show ?thesis
    using substitute_untouched [OF assms(2)]
    by (auto simp: same_shape_map_strings intro!: exI [of _ "substitute (pii_to_token pe (rx_tokens r))"])
qed

lemma redaction_confined_witness:
  "same_shape (JStr ''a@b'') (JStr (redaction_token ''EMAIL'' (replicate 32 (CHR ''f''))))"
  using redaction_confined [OF scan_sample pe_sample_permutes] by simp

text \<open>A detection that no single string contains hides nothing: when an identifier is spread
  over two strings of the payload, the entity is counted and gets a token, and the payload is
  forwarded as it is.\<close>

theorem split_entity_leaks:
  assumes "scan pe v = Some (Inr r)" and "permutes_entries pe"
    and "\<And>s p. s \<in> set (strings_of v) \<Longrightarrow> p \<in> set (rx_tokens r) \<Longrightarrow> \<not> contains_str s (snd p)"
  shows "rx_payload r = v"
  using assms(1)
proof (cases rule: scan_cases)
  case (entities es)
  have "substitute (pii_to_token pe (rx_tokens r)) s = s" if "s \<in> set (strings_of v)" for s
    using substitute_untouched [OF assms(2)] assms(3) that by blast
  then show ?thesis by (simp add: entities(4) map_strings_id)
qed simp

definition split_card :: json where
  "split_card = JArr [JStr ''1234 5678'', JStr ''9012'']"

definition split_result :: redaction_result where
  "split_result = \<lparr>rx_payload = split_card,
     rx_tokens = [(redaction_token ''AADHAAR'' (replicate 32 (CHR ''f'')), ''1234 5678 9012'')],
     rx_count = 1, rx_indian = True\<rparr>"

lemma scan_split: "scan (pe_sample [en_sample ''AADHAAR'' 0 14]) split_card = Some (Inr split_result)"
  by code_simp

lemma split_entity_leaks_witness: "rx_count split_result = 1 \<and> rx_payload split_result = split_card"
proof -
  have "rx_payload split_result = split_card"
    by (rule split_entity_leaks [OF scan_split pe_sample_permutes])
      (auto simp: split_card_def split_result_def starts_with_def)
  then show ?thesis by (simp add: split_result_def)
qed

section \<open>Two tiers\<close>

text \<open>The digit scan finds what it is for: a text has a run of at least m digits, blanks and
  dashes between them allowed, exactly when the one-pass scan says so.\<close>

theorem digit_scan_correct:
  assumes "0 < m"
  shows "contains_digit_sequence s m \<longleftrightarrow>
    (\<exists>u w v. s = u @ w @ v \<and> (\<forall>c \<in> set w. is_digit c \<or> c = CHR 0x20 \<or> c = CHR 0x2D) \<and>
       m \<le> length (filter is_digit w))"
  using digit_sequence_spec [OF assms, of s] by (simp add: digit_run_def digit_char_def list_all_iff)

lemma digit_scan_correct_witness:
  "\<exists>u w v. ''a 12-3'' = u @ w @ v \<and> (\<forall>c \<in> set w. is_digit c \<or> c = CHR 0x20 \<or> c = CHR 0x2D) \<and>
     (3::nat) \<le> length (filter is_digit w)"
proof -
  have "contains_digit_sequence ''a 12-3'' 3" by code_simp
  then show ?thesis using digit_scan_correct [of 3 "''a 12-3''"] by simp
qed

text \<open>C39. The analyzer decides exactly the payloads whose text has a keyword (in any case) or nine
  digits: then its failure is the scan's and every entity within the text is counted, modulo
  2^32; every other payload passes unchanged whatever the analyzer would have found in it,
  a PAN or IFSC code without its keyword included.\<close>

theorem two_tier_exact:
  fixes pe :: pii_engine and v :: json
  assumes "keyword_automaton (pe_ac pe)"
  defines "txt \<equiv> collect_text v"
  shows "if hot_text txt
    then (\<forall>e. pe_analyze pe txt = Inl e \<longrightarrow> scan pe v = Some (Inl e)) \<and>
      (\<forall>es r. pe_analyze pe txt = Inr es \<longrightarrow> scan pe v = Some (Inr r) \<longrightarrow>
         unat (rx_count r) = length (filter (\<lambda>e. en_start e < length txt \<and> en_end e \<le> length txt) es) mod 2 ^ 32)
    else scan pe v = Some (Inr \<lparr>rx_payload = v, rx_tokens = [], rx_count = 0, rx_indian = False\<rparr>)"
  using scan_count [of pe v] scan_failed [of pe v] scan_silent [of pe v]
  unfolding txt_def escalates_iff [OF assms(1), symmetric] entity_in_range_def [abs_def] unredacted_def
  by auto

lemma find_patterns_laws: "keyword_automaton (pe_ac (pe_sample es))"
  by (simp add: ac.keyword_automaton_axioms)

lemma not_hot:
  assumes "\<not> contains_digit_sequence s 9" and "list_all (\<lambda>k. \<not> contains_str (ascii_lower s) (ascii_lower k)) pii_keywords"
  shows "\<not> hot_text s"
  using assms by (auto simp: hot_text_def digit_sequence_spec list_all_iff)

lemma pan_not_hot: "\<not> hot_text ''ABCDE1234F ''"
  by (rule not_hot) (code_simp, code_simp)

lemma two_tier_exact_witness:
  "\<exists>r. scan (pe_sample [en_sample ''PAN'' 0 10]) (JStr ''ABCDE1234F'') = Some (Inr r) \<and>
     rx_payload r = JStr ''ABCDE1234F''"
  using two_tier_exact [OF find_patterns_laws [of "[en_sample ''PAN'' 0 10]"], of "JStr ''ABCDE1234F''"] pan_not_hot
  by simp

text \<open>C40. The engine panics on nothing but an entity whose offsets are out of order or inside a
  character; a failed analysis is not reported to the caller but answered 200 with the null
  payload.\<close>

theorem redaction_failures:
  "(redact_prompt pe v = None \<longleftrightarrow> escalates pe v \<and> (\<exists>es. pe_analyze pe (collect_text v) = Inr es \<and>
      (\<exists>e \<in> set es. en_start e < length (collect_text v) \<and> en_end e \<le> length (collect_text v) \<and>
        str_slice (collect_text v) (en_start e) (en_end e) = None)))
   \<and> (scan pe v = Some (Inl e) \<longrightarrow> redact_prompt pe v =
       Some (json_response 200 (redact_reply (unredacted JNull False))))"
  using scan_panics_iff [of pe v]
  by (cases rule: redact_payload_cases [of pe v])
    (auto simp: redact_prompt_def list_ex_iff slice_panics_def entity_in_range_def)

lemma redaction_failures_witness:
  "redact_prompt ((pe_sample [])\<lparr>pe_analyze := \<lambda>s. Inl (CePiiEngineFailure [])\<rparr>) (JStr ''a@b'') =
     Some (json_response 200 (redact_reply (unredacted JNull False)))"
proof -
  have "scan ((pe_sample [])\<lparr>pe_analyze := \<lambda>s. Inl (CePiiEngineFailure [])\<rparr>) (JStr ''a@b'') =
      Some (Inl (CePiiEngineFailure []))" by code_simp
  then show ?thesis using redaction_failures by blast
qed

section \<open>Redaction across services\<close>

text \<open>C2. Redaction end to end: when the gateway's compliance service is this engine, a prompt that
  matches the gateway's PII patterns reaches a provider only as the sanitised payload of a
  successful scan of the request's body; after a failed or panicked scan nothing is sent.\<close>

theorem redaction_end_to_end:
  assumes pii: "ev_pii ev (pq_prompt q)" and sd: "serde_roundtrip (ev_sd ev)"
    and null: "parse_model (ev_sd ev) (print_value (ev_sd ev) JNull) = None"
    and engine: "re_compliance re = redact_endpoint mime (ev_sd ev) pe"
    and sent: "r \<in> set (sent_by ev re q st)"
  shows "\<exists>v rr pc model. parse_value (ev_sd ev) (pq_body q) = Some v \<and> scan pe v = Some (Inr rr) \<and>
    provider_body (ev_F ev) (ev_sd ev) pc model (print_value (ev_sd ev) (rx_payload rr)) = Inr (ur_body r)"
  using pii sent
proof (rule redacted_sent)
  fix v p pc model
  let ?rq = "redact_request (ev_sd ev) (ev_compliance_url ev) v (pq_trace q)"
  assume v: "parse_value (ev_sd ev) (pq_body q) = Some v"
    and call: "call_compliance_redact (ev_sd ev) (re_compliance re ?rq) = Inr p"
    and model: "parse_model (ev_sd ev) (print_value (ev_sd ev) p) \<noteq> None"
    and body: "provider_body (ev_F ev) (ev_sd ev) pc model (print_value (ev_sd ev) p) = Inr (ur_body r)"
  obtain resp where resp: "redact_endpoint mime (ev_sd ev) pe ?rq = HOk resp" "is_success (hr_status resp)"
    using call by (auto simp: engine call_compliance_redact_def split: http_result.splits if_splits)
  obtain w rr where w: "json_body mime (ev_sd ev) ?rq = Inr w" "redact_payload pe w = Some rr"
    and reply: "reply_json (ev_sd ev) resp = Some (redact_reply rr)"
    using redact_endpoint_reply [OF sd resp] by blast
  have "w = v" using w(1) sd by (auto simp: json_body_def redact_request_def ok_or_eq_Inr serde_roundtrip_def split: if_splits)
  have p: "p = rx_payload rr" using call resp reply by (simp add: engine call_compliance_redact_def)
  have "scan pe v = Some (Inr rr)"
    using w(2) model p null unfolding \<open>w = v\<close>
    by (cases rule: redact_payload_cases [of pe v]) (auto simp: unredacted_def)
  with v body p show ?thesis by auto
qed

definition re_engine :: replies where
  "re_engine = re_sample\<lparr>re_compliance := redact_endpoint (\<lambda>c. True) sd1 (pe_sample [])\<rparr>"

definition pii_body :: json where
  "pii_body = JObj [(''model'', JStr ''m'')]"

lemma scan_body: "scan (pe_sample es) pii_body = Some (Inr (unredacted pii_body False))"
proof -
  have "\<not> hot_text ''m ''" by (rule not_hot) (code_simp, code_simp)
  then show ?thesis
    by (intro scan_silent) (simp add: escalates_iff [OF find_patterns_laws] pii_body_def)
qed

lemma redact_body:
  "redact_stage ev_sample re_engine (pq_sample ''t'' ''a@b'') st_sample =
     (Inr (enc_json pii_body, Some pii_body),
      st_sample\<lparr>gs_compliance := [redact_request sd1 ''http://c'' pii_body trace_sample]\<rparr>)"
proof -
  let ?rq = "redact_request sd1 ''http://c'' pii_body trace_sample"
  have "length (enc_json pii_body) \<le> 200" by (simp add: pii_body_def enc_json.simps)
  then have "json_body (\<lambda>c. True) sd1 ?rq = Inr pii_body"
    by (simp add: json_body_def redact_request_def hdr_str_def hdr_visible_def body_limit_def)
  then have "redact_endpoint (\<lambda>c. True) sd1 (pe_sample []) ?rq =
      HOk (wire sd1 (json_response 200 (redact_reply (unredacted pii_body False))))"
    by (simp add: redact_endpoint_def redact_prompt_def redact_payload_def scan_body)
  then have "call_compliance_redact sd1 (re_compliance re_engine ?rq) = Inr pii_body"
    by (simp add: call_compliance_redact_def re_engine_def reply_json_def wire_def is_success_def unredacted_def)
  then show ?thesis
    by (simp add: redact_stage_def Let_def ev_sample_def pq_sample_def st_sample_def starts_with_def
        pii_body_def)
qed

lemma engine_sent: "sent_by ev_sample re_engine (pq_sample ''t'' ''a@b'') st_sample \<noteq> []"
  by (simp add: sent_by_def execute_proxy_def Let_def redact_body, simp add: Let_def cache_stage_def get_exact_def
      idle_get_def idle_view_def get_semantic_def lookup_cache_def prep_upstream_request_def sample_defs
      re_engine_def pii_body_def sample_body healthy_keys_def dl_get_def get_provider_config_def starts_with_def
      build_provider_request_def provider_endpoint_def provider_body_def admission_stage_def
      preflight_def enforce_token_bucket_def enforce_loop_detection_def burn_stage_def
      enforce_burn_rate_def upstream_stage_def execute_upstream_request_def is_retryable_error_def
      handle_buffered_response_def)

lemma redaction_end_to_end_witness:
  "\<exists>r \<in> set (sent_by ev_sample re_engine (pq_sample ''t'' ''a@b'') st_sample).
     \<exists>v rr. parse_json (enc_json (JObj [(''model'', JStr ''m'')])) = Some v \<and> scan (pe_sample []) v = Some (Inr rr)"
proof -
  obtain r where r: "r \<in> set (sent_by ev_sample re_engine (pq_sample ''t'' ''a@b'') st_sample)"
    using engine_sent by (meson list.set_sel(1))
  have "parse_model (ev_sd ev_sample) (print_value (ev_sd ev_sample) JNull) = None"
    by (simp add: ev_sample_def parse_json_model_def)
  moreover have "ev_pii ev_sample (pq_prompt (pq_sample ''t'' ''a@b''))" by (simp add: sample_defs starts_with_def)
  moreover have "re_compliance re_engine = redact_endpoint (\<lambda>c. True) (ev_sd ev_sample) (pe_sample [])"
    by (simp add: re_engine_def ev_sample_def)
  moreover have "serde_roundtrip (ev_sd ev_sample)" using sd1_roundtrip by (simp add: ev_sample_def)
  ultimately show ?thesis
    using r redaction_end_to_end [of ev_sample "pq_sample ''t'' ''a@b''" re_engine "\<lambda>c. True" "pe_sample []" r st_sample]
    by (auto simp: ev_sample_def pq_sample_def)
qed

end
