(* ===== verification/Geo_Routing.thy ===== *)
theory Geo_Routing
  imports Compliance_Models
begin

text \<open>
  Data residency in the compliance service (\<open>redeye_compliance/src/api/middleware/geo_routing.rs\<close>):
  the region of a request, the residency rule of a region, and the middleware that enforces
  the Indian border. \<open>uc\<close> is \<open>str::to_uppercase\<close>.
\<close>

text \<open>A request of the service: headers, body, and the rule in its extensions.\<close>

record comp_request =
  cm_headers :: headers
  cm_body :: string
  cm_rule :: "residency_rule option"

record shared_config =
  sc_default :: string
  sc_eu :: string
  sc_us :: string
  sc_in :: string

definition us_only_models :: "string list" where
  "us_only_models = [''o1-preview'', ''o1-mini'']"

definition get_region_for_ip :: "string \<Rightarrow> string" where
  "get_region_for_ip ip =
     (if starts_with ip ''192.168.1'' \<or> starts_with ip ''10.'' then ''EU''
      else if starts_with ip ''172.'' then ''US''
      else if starts_with ip ''103.'' \<or> starts_with ip ''49.'' \<or> starts_with ip ''223.'' then ''IN''
      else ''GLOBAL'')"

text \<open>A header read as a string counts when it is not empty.\<close>

definition non_empty_header :: "headers \<Rightarrow> string \<Rightarrow> string option" where
  "non_empty_header hs k = (case hdr_str hs k of None \<Rightarrow> None | Some s \<Rightarrow> if s = [] then None else Some s)"

definition extract_region :: "(string \<Rightarrow> string) \<Rightarrow> headers \<Rightarrow> string" where
  "extract_region uc hs =
     (case non_empty_header hs ''x-user-region'' of
        Some s \<Rightarrow> uc s
      | None \<Rightarrow>
          (case non_empty_header hs ''x-enforce-region'' of
             Some s \<Rightarrow> uc s
           | None \<Rightarrow> get_region_for_ip
               (case hdr_str hs ''x-forwarded-for'' of Some ip \<Rightarrow> ip | None \<Rightarrow> ''unknown'')))"

definition extract_model_from_headers :: "headers \<Rightarrow> string option" where
  "extract_model_from_headers hs = hdr_str hs ''x-model-requested''"

definition build_residency_rule :: "string \<Rightarrow> shared_config \<Rightarrow> residency_rule" where
  "build_residency_rule region cfg =
     (if region = ''EU'' then \<lparr>rr_region = ''EU'', rr_endpoint = sc_eu cfg, rr_strict = True\<rparr>
      else if region = ''US'' then \<lparr>rr_region = ''US'', rr_endpoint = sc_us cfg, rr_strict = False\<rparr>
      else if region = ''IN'' then \<lparr>rr_region = ''IN'', rr_endpoint = sc_in cfg, rr_strict = True\<rparr>
      else \<lparr>rr_region = ''GLOBAL'', rr_endpoint = sc_default cfg, rr_strict = False\<rparr>)"

definition region_lock_message :: "string \<Rightarrow> string" where
  "region_lock_message model =
     ''Model '' @ [CHR 0x27] @ model @ [CHR 0x27] @ '' is restricted to US infrastructure and cannot '' @
     ''be accessed from region IN (DPDP compliance)''"

definition geo_routing_middleware ::
  "(string \<Rightarrow> string) \<Rightarrow> shared_config \<Rightarrow> (comp_request \<Rightarrow> 'st \<Rightarrow> response \<times> 'st) \<Rightarrow>
   comp_request \<Rightarrow> 'st \<Rightarrow> response \<times> 'st" where
  "geo_routing_middleware uc cfg nxt rq st =
     (let region = extract_region uc (cm_headers rq);
          refused = (if region = ''IN'' then
              (case extract_model_from_headers (cm_headers rq) of
                 Some m \<Rightarrow> if list_ex (contains_str m) us_only_models then Some m else None
               | None \<Rightarrow> None)
            else None)
      in case refused of
           Some m \<Rightarrow> (compliance_response (CeRegionLockViolation (region_lock_message m)), st)
         | None \<Rightarrow>
             (let rule = build_residency_rule region cfg;
                  r = nxt (rq\<lparr>cm_rule := Some rule\<rparr>) st;
                  hs = hdr_insert ''x-routed-region'' (rr_region rule) (rheaders (fst r))
              in ((fst r)\<lparr>rheaders :=
                    if region = ''IN'' \<or> rr_region rule = ''IN''
                    then hdr_insert ''x-redeye-allowed-regions'' ''in'' hs else hs\<rparr>, snd r)))"

section \<open>Lemmas\<close>

lemma rule_region: "rr_region (build_residency_rule region cfg) = ''IN'' \<longleftrightarrow> region = ''IN''"
  by (simp add: build_residency_rule_def)

lemma rule_cases:
  "build_residency_rule region cfg \<in>
     {\<lparr>rr_region = ''EU'', rr_endpoint = sc_eu cfg, rr_strict = True\<rparr>,
      \<lparr>rr_region = ''US'', rr_endpoint = sc_us cfg, rr_strict = False\<rparr>,
      \<lparr>rr_region = ''IN'', rr_endpoint = sc_in cfg, rr_strict = True\<rparr>,
      \<lparr>rr_region = ''GLOBAL'', rr_endpoint = sc_default cfg, rr_strict = False\<rparr>}"
  by (simp add: build_residency_rule_def)

definition us_only_request :: "headers \<Rightarrow> bool" where
  "us_only_request hs \<longleftrightarrow>
     (\<exists>m. extract_model_from_headers hs = Some m \<and> (\<exists>u \<in> set us_only_models. contains_str m u))"

lemma geo_refused:
  assumes "extract_region uc (cm_headers rq) = ''IN''" and "us_only_request (cm_headers rq)"
  shows "\<exists>m. geo_routing_middleware uc cfg nxt rq st =
      (compliance_response (CeRegionLockViolation (region_lock_message m)), st)"
  using assms by (auto simp: geo_routing_middleware_def us_only_request_def list_ex_iff)

lemma geo_passed:
  fixes nxt :: "comp_request \<Rightarrow> 'st \<Rightarrow> response \<times> 'st" and cfg :: shared_config
    and uc :: "string \<Rightarrow> string" and rq :: comp_request and st :: 'st
  assumes "\<not> (extract_region uc (cm_headers rq) = ''IN'' \<and> us_only_request (cm_headers rq))"
  defines "rule \<equiv> build_residency_rule (extract_region uc (cm_headers rq)) cfg"
  defines "r \<equiv> nxt (rq\<lparr>cm_rule := Some rule\<rparr>) st"
  shows "snd (geo_routing_middleware uc cfg nxt rq st) = snd r"
    and "rstatus (fst (geo_routing_middleware uc cfg nxt rq st)) = rstatus (fst r)"
    and "rbody (fst (geo_routing_middleware uc cfg nxt rq st)) = rbody (fst r)"
    and "map_of (rheaders (fst (geo_routing_middleware uc cfg nxt rq st))) ''x-routed-region'' =
      Some (rr_region rule)"
    and "rr_region rule = ''IN'' \<Longrightarrow>
      map_of (rheaders (fst (geo_routing_middleware uc cfg nxt rq st))) ''x-redeye-allowed-regions'' = Some ''in''"
proof -
  have "(if extract_region uc (cm_headers rq) = ''IN'' then
      (case extract_model_from_headers (cm_headers rq) of
         Some m \<Rightarrow> if list_ex (contains_str m) us_only_models then Some m else None
       | None \<Rightarrow> None) else None) = None"
    using assms(1) by (auto simp: us_only_request_def list_ex_iff split: option.split)
  then have g: "geo_routing_middleware uc cfg nxt rq st = ((fst r)\<lparr>rheaders :=
      if extract_region uc (cm_headers rq) = ''IN'' \<or> rr_region rule = ''IN''
      then hdr_insert ''x-redeye-allowed-regions'' ''in''
        (hdr_insert ''x-routed-region'' (rr_region rule) (rheaders (fst r)))
      else hdr_insert ''x-routed-region'' (rr_region rule) (rheaders (fst r))\<rparr>, snd r)"
    unfolding geo_routing_middleware_def Let_def r_def rule_def by (simp only: option.case)
  show "snd (geo_routing_middleware uc cfg nxt rq st) = snd r"
    and "rstatus (fst (geo_routing_middleware uc cfg nxt rq st)) = rstatus (fst r)"
    and "rbody (fst (geo_routing_middleware uc cfg nxt rq st)) = rbody (fst r)"
    and "map_of (rheaders (fst (geo_routing_middleware uc cfg nxt rq st))) ''x-routed-region'' =
      Some (rr_region rule)"
    and "rr_region rule = ''IN'' \<Longrightarrow>
      map_of (rheaders (fst (geo_routing_middleware uc cfg nxt rq st))) ''x-redeye-allowed-regions'' = Some ''in''"
    unfolding g by (simp_all add: map_of_hdr_insert)
qed

end
