(* ===== verification/Security_Guard.thy ===== *)
theory Security_Guard
  imports Geo_Routing Sandbox
begin

text \<open>
  The security guard of the compliance service
  (\<open>redeye_compliance/src/api/middleware/security.rs\<close>) with its policy client
  (\<open>usecases/opa_client.rs\<close>) and audit log (\<open>infrastructure/clickhouse.rs\<close>), and the
  completion route it protects (\<open>api/routes.rs\<close>, \<open>api/handlers.rs\<close>). \<open>lc\<close> is
  \<open>str::to_lowercase\<close>, \<open>opa\<close> the answer of the policy service.
\<close>

section \<open>The policy client\<close>

definition de_opa_result :: "json \<Rightarrow> opa_result option" where
  "de_opa_result v = Option.bind (struct_view [''allow'', ''block_reason''] v) (\<lambda>g.
     Option.bind (de_req as_bool (g ''allow'')) (\<lambda>a.
     Option.bind (de_opt as_str (g ''block_reason'')) (\<lambda>r.
     Some \<lparr>ox_allow = a, ox_reason = r\<rparr>)))"

definition de_opa_response :: "json \<Rightarrow> opa_result option" where
  "de_opa_response v = Option.bind (struct_view [''result''] v) (\<lambda>g. de_req de_opa_result (g ''result''))"

definition opa_policy_request :: "serde \<Rightarrow> string \<Rightarrow> opa_input \<Rightarrow> upstream_req" where
  "opa_policy_request sd base i =
     \<lparr>ur_url = base @ ''/v1/data/redeye/compliance/allow'',
      ur_headers = [(''content-type'', ''application/json'')],
      ur_body = print_value sd (opa_payload_json i)\<rparr>"

definition evaluate_policy ::
  "serde \<Rightarrow> string \<Rightarrow> (upstream_req \<Rightarrow> http_result) \<Rightarrow> opa_input \<Rightarrow> string + opa_result" where
  "evaluate_policy sd base opa i =
     (case opa (opa_policy_request sd base i) of
        HErr e \<Rightarrow> Inl ''OPA Engine Unreachable''
      | HOk resp \<Rightarrow>
          if \<not> is_success (hr_status resp) then Inl ''OPA Server Error''
          else (case Option.bind (reply_json sd resp) de_opa_response of
              None \<Rightarrow> Inl ''Invalid OPA response format''
            | Some r \<Rightarrow> Inr r))"

section \<open>The guard\<close>

definition injection_patterns :: "string list" where
  "injection_patterns = [''ignore previous instructions'', ''you are now acting as'', ''jailbreak'',
     ''system prompt bypass'']"

definition contains_prompt_injection :: "(string \<Rightarrow> string) \<Rightarrow> string \<Rightarrow> bool" where
  "contains_prompt_injection lc s = list_ex (contains_str (lc s)) injection_patterns"

record security_state =
  sy_policy :: compliance_policy
  sy_opa_url :: string
  sy_clickhouse_url :: string

text \<open>The identity a request claims in its headers.\<close>

definition header_or :: "headers \<Rightarrow> string \<Rightarrow> string \<Rightarrow> string" where
  "header_or hs k d = (case hdr_str hs k of Some s \<Rightarrow> s | None \<Rightarrow> d)"

definition guard_input :: "security_state \<Rightarrow> headers \<Rightarrow> json \<Rightarrow> opa_input" where
  "guard_input sy hs payload =
     \<lparr>oi_trace_id = header_or hs ''x-trace-id'' ''unknown'',
      oi_tenant_id = header_or hs ''x-tenant-id'' ''unknown'',
      oi_region = header_or hs ''x-forwarded-for'' ''GLOBAL'',
      oi_model = (case jget_str payload ''model'' of Some m \<Rightarrow> m | None \<Rightarrow> ''unknown''),
      oi_frameworks = cp_frameworks (sy_policy sy)\<rparr>"

definition injection_reason :: string where
  "injection_reason = ''Security Violation: Malicious prompt pattern detected.''"

text \<open>The decision on a body: whether it passes, and the reason when it does not.\<close>

definition guard_decision ::
  "(string \<Rightarrow> string) \<Rightarrow> serde \<Rightarrow> security_state \<Rightarrow> (upstream_req \<Rightarrow> http_result) \<Rightarrow>
   headers \<Rightarrow> string \<Rightarrow> bool \<times> string option" where
  "guard_decision lc sd sy opa hs body =
     (case parse_value sd body of
        None \<Rightarrow> (True, None)
      | Some payload \<Rightarrow>
          if (case jget_str payload ''prompt'' of Some p \<Rightarrow> contains_prompt_injection lc p | None \<Rightarrow> False)
          then (False, Some injection_reason)
          else (case evaluate_policy sd (sy_opa_url sy) opa (guard_input sy hs payload) of
              Inr r \<Rightarrow>
                if ox_allow r then (True, None)
                else (False, Some (case ox_reason r of Some s \<Rightarrow> s
                       | None \<Rightarrow> ''Blocked by organizational policy''))
            | Inl e \<Rightarrow>
                if cp_fail_closed (sy_policy sy)
                then (False, Some ''Security System Unavailable (Fail-Closed active)'')
                else (True, None)))"

text \<open>The audit record of a decision; the log is appended in the background.\<close>

definition guard_audit ::
  "headers \<Rightarrow> residency_rule option \<Rightarrow> string \<Rightarrow> bool \<times> string option \<Rightarrow> audit_record" where
  "guard_audit hs rule timestamp d =
     \<lparr>ad_trace_id = header_or hs ''x-trace-id'' ''unknown'',
      ad_tenant_id = header_or hs ''x-tenant-id'' ''unknown'',
      ad_timestamp = timestamp, ad_result = fst d, ad_count = 0,
      ad_region = (case rule of Some r \<Rightarrow> rr_region r | None \<Rightarrow> header_or hs ''x-forwarded-for'' ''GLOBAL''),
      ad_reason = snd d\<rparr>"

definition audit_request :: "serde \<Rightarrow> string \<Rightarrow> audit_record \<Rightarrow> upstream_req" where
  "audit_request sd base a =
     \<lparr>ur_url = base @ ''/?query=INSERT INTO RedEye_telemetry.compliance_engine_audit FORMAT JSONEachRow'',
      ur_headers = [(''content-type'', ''application/json'')],
      ur_body = print_value sd (audit_json a)\<rparr>"

type_synonym audit_log = "upstream_req list"

definition log_audit_event :: "serde \<Rightarrow> string \<Rightarrow> audit_record \<Rightarrow> audit_log \<Rightarrow> audit_log" where
  "log_audit_event sd base a log = log @ [audit_request sd base a]"

definition violation_response :: "string option \<Rightarrow> response" where
  "violation_response reason = json_response 403 (jobject
     [(''error'', JStr ''Compliance or Security Violation''), (''reason'', opt_str reason)])"

text \<open>\<open>read\<close> is the body as it is collected: \<open>None\<close> when reading it fails.\<close>

definition security_guard_middleware ::
  "(string \<Rightarrow> string) \<Rightarrow> serde \<Rightarrow> security_state \<Rightarrow> (upstream_req \<Rightarrow> http_result) \<Rightarrow> string \<Rightarrow>
   (comp_request \<Rightarrow> audit_log \<Rightarrow> response \<times> audit_log) \<Rightarrow> string option \<Rightarrow> comp_request \<Rightarrow> audit_log \<Rightarrow>
   response \<times> audit_log" where
  "security_guard_middleware lc sd sy opa timestamp nxt read rq log =
     (case read of
        None \<Rightarrow> (\<lparr>rstatus = 400, rheaders = [], rbody = BEmpty\<rparr>, log)
      | Some body \<Rightarrow>
          (let d = guard_decision lc sd sy opa (cm_headers rq) body;
               log1 = log_audit_event sd (sy_clickhouse_url sy)
                 (guard_audit (cm_headers rq) (cm_rule rq) timestamp d) log
           in if \<not> fst d then (violation_response (snd d), log1)
              else nxt (rq\<lparr>cm_body := body\<rparr>) log1))"

section \<open>The route\<close>

definition check_routing :: "residency_rule \<Rightarrow> response" where
  "check_routing rule = json_response 200 (jobject
     [(''status'', JStr ''routed''), (''region'', JStr (rr_region rule)),
      (''endpoint'', JStr (rr_endpoint rule)), (''isolation'', JBool (rr_strict rule))])"

text \<open>
  The layers of \<open>POST /v1/llm/completion\<close>: the guard outside, geo-routing inside. The
  handler's extension is there because the geo-routing put it there; without it the
  extractor answers 500.
\<close>

definition completion_route ::
  "(string \<Rightarrow> string) \<Rightarrow> (string \<Rightarrow> string) \<Rightarrow> serde \<Rightarrow> shared_config \<Rightarrow> security_state \<Rightarrow>
   (upstream_req \<Rightarrow> http_result) \<Rightarrow> string \<Rightarrow> string option \<Rightarrow> headers \<Rightarrow> audit_log \<Rightarrow> response \<times> audit_log" where
  "completion_route lc uc sd cfg sy opa timestamp read hs log =
     security_guard_middleware lc sd sy opa timestamp
       (geo_routing_middleware uc cfg
          (\<lambda>rq st. (case cm_rule rq of Some rule \<Rightarrow> check_routing rule
             | None \<Rightarrow> \<lparr>rstatus = 500, rheaders = [], rbody = BEmpty\<rparr>, st)))
       read \<lparr>cm_headers = hs, cm_body = [], cm_rule = None\<rparr> log"

end
