(* ===== verification/Compliance_Properties.thy ===== *)
theory Compliance_Properties
  imports Security_Guard Json_Codec
begin

text \<open>The properties of the compliance service's residency lock, policy guard and audit log.\<close>

section \<open>The residency lock\<close>

text \<open>The border of region IN holds: a request from it that asks for a model restricted to the
  US in its header is answered 403 without running the handler; every other request
  reaches the handler with the rule of its region, and the response says where it was routed
  and, for IN, that only Indian processing is allowed.\<close>

theorem geo_lock:
  fixes nxt :: "comp_request \<Rightarrow> 'st \<Rightarrow> response \<times> 'st"
  shows "if extract_region uc (cm_headers rq) = ''IN'' \<and> us_only_request (cm_headers rq)
    then rstatus (fst (geo_routing_middleware uc cfg nxt rq st)) = 403 \<and>
      snd (geo_routing_middleware uc cfg nxt rq st) = st
    else snd (geo_routing_middleware uc cfg nxt rq st) =
        snd (nxt (rq\<lparr>cm_rule := Some (build_residency_rule (extract_region uc (cm_headers rq)) cfg)\<rparr>) st) \<and>
      rstatus (fst (geo_routing_middleware uc cfg nxt rq st)) =
        rstatus (fst (nxt (rq\<lparr>cm_rule := Some (build_residency_rule (extract_region uc (cm_headers rq)) cfg)\<rparr>) st)) \<and>
      map_of (rheaders (fst (geo_routing_middleware uc cfg nxt rq st))) ''x-routed-region'' =
        Some (rr_region (build_residency_rule (extract_region uc (cm_headers rq)) cfg)) \<and>
      (extract_region uc (cm_headers rq) = ''IN'' \<longrightarrow>
        map_of (rheaders (fst (geo_routing_middleware uc cfg nxt rq st))) ''x-redeye-allowed-regions'' = Some ''in'')"
proof (cases "extract_region uc (cm_headers rq) = ''IN'' \<and> us_only_request (cm_headers rq)")
  case True
  then obtain m where m: "geo_routing_middleware uc cfg nxt rq st =
      (compliance_response (CeRegionLockViolation (region_lock_message m)), st)"
    using geo_refused [of uc rq cfg nxt st] by auto
  show ?thesis unfolding if_P [OF True] m by (simp add: compliance_response_def)
next
  case False
  show ?thesis unfolding if_not_P [OF False]
    by (intro conjI impI geo_passed [OF False]) (simp add: rule_region)
qed

definition cfg_sample :: shared_config where
  "cfg_sample = \<lparr>sc_default = ''d'', sc_eu = ''e'', sc_us = ''u'', sc_in = ''i''\<rparr>"

lemma geo_lock_witness:
  "map_of (rheaders (fst (geo_routing_middleware ascii_upper cfg_sample
     (\<lambda>rq st. (json_response 200 JNull, st)) \<lparr>cm_headers = [(''x-forwarded-for'', ''103.1'')], cm_body = [], cm_rule = None\<rparr> ())))
     ''x-redeye-allowed-regions'' = Some ''in''"
proof -
  have "extract_region ascii_upper [(''x-forwarded-for'', ''103.1'')] = ''IN''" by code_simp
  moreover have "\<not> us_only_request [(''x-forwarded-for'', ''103.1'')]"
    by (simp add: us_only_request_def extract_model_from_headers_def hdr_str_def)
  ultimately show ?thesis
    using geo_lock [where uc = ascii_upper and cfg = cfg_sample and st = "()" and
      nxt = "\<lambda>rq st. (json_response 200 JNull, st)" and
      rq = "\<lparr>cm_headers = [(''x-forwarded-for'', ''103.1'')], cm_body = [], cm_rule = None\<rparr>"] by simp
qed

text \<open>The lock trusts what the client writes: without a readable x-model-requested header the
  model in the body is never looked at, and an x-user-region header of the client's choice
  takes precedence over the region the tenant enforces and over the address.\<close>

theorem geo_lock_evaded:
  fixes nxt :: "comp_request \<Rightarrow> 'st \<Rightarrow> response \<times> 'st"
  assumes "hdr_str (cm_headers rq) ''x-model-requested'' = None \<or>
    (\<exists>s. hdr_str (cm_headers rq) ''x-user-region'' = Some s \<and> s \<noteq> [] \<and> uc s \<noteq> ''IN'')"
  shows "\<exists>rule. snd (geo_routing_middleware uc cfg nxt rq st) = snd (nxt (rq\<lparr>cm_rule := Some rule\<rparr>) st) \<and>
    rstatus (fst (geo_routing_middleware uc cfg nxt rq st)) = rstatus (fst (nxt (rq\<lparr>cm_rule := Some rule\<rparr>) st))"
proof -
  have "\<not> (extract_region uc (cm_headers rq) = ''IN'' \<and> us_only_request (cm_headers rq))"
    using assms by (auto simp: us_only_request_def extract_model_from_headers_def extract_region_def non_empty_header_def)
  from geo_passed(1,2) [OF this, of cfg nxt st] show ?thesis by blast
qed

lemma geo_lock_evaded_witness:
  "rstatus (fst (geo_routing_middleware ascii_upper cfg_sample (\<lambda>rq st. (json_response 200 JNull, st))
     \<lparr>cm_headers = [(''x-enforce-region'', ''IN''), (''x-user-region'', ''us''), (''x-model-requested'', ''o1-mini'')],
      cm_body = [], cm_rule = None\<rparr> ())) = 200"
proof -
  have "hdr_str [(''x-enforce-region'', ''IN''), (''x-user-region'', ''us''), (''x-model-requested'', ''o1-mini'')]
      ''x-user-region'' = Some ''us'' \<and> ascii_upper ''us'' \<noteq> ''IN''" by code_simp
  then show ?thesis
    using geo_lock_evaded [where uc = ascii_upper and cfg = cfg_sample and st = "()" and
      nxt = "\<lambda>rq st. (json_response 200 JNull, st)" and
      rq = "\<lparr>cm_headers = [(''x-enforce-region'', ''IN''), (''x-user-region'', ''us''), (''x-model-requested'', ''o1-mini'')],
        cm_body = [], cm_rule = None\<rparr>"] by fastforce
qed

section \<open>The guard\<close>

lemma guard_allows:
  assumes "parse_value sd body = Some payload" and "cp_fail_closed (sy_policy sy)"
    and "fst (guard_decision lc sd sy opa hs body)"
  shows "(\<forall>p k. jget_str payload ''prompt'' = Some p \<longrightarrow> k \<in> set injection_patterns \<longrightarrow> \<not> contains_str (lc p) k) \<and>
    (\<exists>resp r. opa (opa_policy_request sd (sy_opa_url sy) (guard_input sy hs payload)) = HOk resp \<and>
      is_success (hr_status resp) \<and> Option.bind (reply_json sd resp) de_opa_response = Some r \<and> ox_allow r)"
proof -
  have "\<not> (case jget_str payload ''prompt'' of Some p \<Rightarrow> contains_prompt_injection lc p | None \<Rightarrow> False)"
    using assms by (auto simp: guard_decision_def)
  moreover from this obtain r where "evaluate_policy sd (sy_opa_url sy) opa (guard_input sy hs payload) = Inr r" "ox_allow r"
    using assms by (auto simp: guard_decision_def split: sum.splits if_splits)
  ultimately show ?thesis
    by (auto simp: contains_prompt_injection_def list_ex_iff evaluate_policy_def
        split: http_result.splits if_splits option.splits)
qed

text \<open>With the fail-closed policy a JSON body passes the guard only when its prompt has none of
  the injection patterns and the policy service answered 2xx with a well-formed result that
  allows it; an unreachable service, an error status and a malformed answer all refuse.\<close>

theorem guard_needs_allow:
  assumes "parse_value sd body = Some payload" and "cp_fail_closed (sy_policy sy)"
    and "fst (guard_decision lc sd sy opa hs body)"
  shows "(\<forall>p k. jget_str payload ''prompt'' = Some p \<longrightarrow> k \<in> set injection_patterns \<longrightarrow> \<not> contains_str (lc p) k) \<and>
    (\<exists>resp r. opa (opa_policy_request sd (sy_opa_url sy) (guard_input sy hs payload)) = HOk resp \<and>
      is_success (hr_status resp) \<and> Option.bind (reply_json sd resp) de_opa_response = Some r \<and> ox_allow r)"
  using assms by (rule guard_allows)

definition sy_sample :: security_state where
  "sy_sample = \<lparr>sy_policy = \<lparr>cp_frameworks = [''GDPR''], cp_enable_redaction = True, cp_targets = [], cp_fail_closed = True\<rparr>,
     sy_opa_url = ''http://o'', sy_clickhouse_url = ''http://c''\<rparr>"

definition opa_yes :: "upstream_req \<Rightarrow> http_result" where
  "opa_yes rq = HOk \<lparr>hr_status = 200, hr_headers = [],
     hr_body = [Chunk (enc_json (JObj [(''result'', JObj [(''allow'', JBool True)])]))]\<rparr>"

definition prompt_body :: json where
  "prompt_body = JObj [(''prompt'', JStr ''hi'')]"

lemma prompt_passes: "fst (guard_decision id sd1 sy_sample opa_yes [] (enc_json prompt_body))"
  by (simp add: guard_decision_def prompt_body_def jget_str_def contains_prompt_injection_def injection_patterns_def
      starts_with_def evaluate_policy_def opa_yes_def is_success_def reply_json_def de_opa_response_def
      de_opa_result_def struct_view_def de_req_def de_opt_def)

lemma guard_needs_allow_witness:
  "\<exists>resp r. opa_yes (opa_policy_request sd1 ''http://o'' (guard_input sy_sample [] prompt_body)) = HOk resp \<and>
     Option.bind (reply_json sd1 resp) de_opa_response = Some r \<and> ox_allow r"
  using guard_needs_allow [OF _ _ prompt_passes] by (auto simp: sy_sample_def)

text \<open>The guard sees little: a body that is not JSON passes without asking the policy service, and
  for a JSON body without a top-level prompt string the text is never inspected, so that
  chat messages are not checked for injections.\<close>

theorem guard_blind_spots:
  "(parse_value sd body = None \<longrightarrow> guard_decision lc sd sy opa hs body = (True, None)) \<and>
   (\<forall>payload lc'. parse_value sd body = Some payload \<longrightarrow> jget_str payload ''prompt'' = None \<longrightarrow>
      guard_decision lc sd sy opa hs body = guard_decision lc' sd sy opa hs body)"
  by (simp add: guard_decision_def)

lemma guard_blind_spots_witness: "guard_decision id sd1 sy_sample opa_yes [] ''?'' = (True, None)"
proof -
  have "parse_value sd1 ''?'' = None" by code_simp
  then show ?thesis using guard_blind_spots by blast
qed

text \<open>Every readable completion request leaves exactly one audit record, with the decision, and is
  answered 403 with the reason whenever the decision was negative; the region of the record is
  the x-forwarded-for header of the client, never the region the request is routed to, because
  routing happens after the record is written.\<close>

theorem completion_audited:
  "\<exists>a. snd (completion_route lc uc sd cfg sy opa timestamp (Some body) hs log) =
      log @ [audit_request sd (sy_clickhouse_url sy) a] \<and>
    (ad_result a, ad_reason a) = guard_decision lc sd sy opa hs body \<and>
    ad_region a = header_or hs ''x-forwarded-for'' ''GLOBAL'' \<and>
    (if ad_result a
     then rstatus (fst (completion_route lc uc sd cfg sy opa timestamp (Some body) hs log)) =
       (if extract_region uc hs = ''IN'' \<and> us_only_request hs then 403 else 200)
     else fst (completion_route lc uc sd cfg sy opa timestamp (Some body) hs log) = violation_response (ad_reason a))"
proof -
  let ?rq = "\<lparr>cm_headers = hs, cm_body = body, cm_rule = None\<rparr>"
  let ?h = "\<lambda>rq st. (case cm_rule rq of Some rule \<Rightarrow> check_routing rule
       | None \<Rightarrow> \<lparr>rstatus = 500, rheaders = [], rbody = BEmpty\<rparr>, st :: audit_log)"
  let ?d = "guard_decision lc sd sy opa hs body"
  let ?a = "guard_audit hs None timestamp ?d"
  let ?log = "log @ [audit_request sd (sy_clickhouse_url sy) ?a]"
  have c: "completion_route lc uc sd cfg sy opa timestamp (Some body) hs log =
      (if \<not> fst ?d then (violation_response (snd ?d), ?log) else geo_routing_middleware uc cfg ?h ?rq ?log)"
    by (simp add: completion_route_def security_guard_middleware_def log_audit_event_def Let_def)
  have g: "snd (geo_routing_middleware uc cfg ?h ?rq ?log) = ?log \<and>
      rstatus (fst (geo_routing_middleware uc cfg ?h ?rq ?log)) =
        (if extract_region uc hs = ''IN'' \<and> us_only_request hs then 403 else 200)"
  proof (cases "extract_region uc hs = ''IN'' \<and> us_only_request hs")
    case True
    then obtain m where "geo_routing_middleware uc cfg ?h ?rq ?log =
        (compliance_response (CeRegionLockViolation (region_lock_message m)), ?log)"
      using geo_refused [of uc ?rq cfg ?h ?log] by auto
    with True show ?thesis by (simp add: compliance_response_def)
  next
    case False
    then have "\<not> (extract_region uc (cm_headers ?rq) = ''IN'' \<and> us_only_request (cm_headers ?rq))" by simp
    from False geo_passed(1,2) [OF this, of cfg ?h ?log] show ?thesis by (simp add: check_routing_def)
  qed
  have a: "ad_result ?a = fst ?d" "ad_reason ?a = snd ?d" "ad_region ?a = header_or hs ''x-forwarded-for'' ''GLOBAL''"
    by (simp_all add: guard_audit_def)
  show ?thesis
    by (rule exI [of _ ?a]) (cases "fst ?d", simp_all only: c g a if_True if_False prod_eq_iff fst_conv snd_conv simp_thms)
qed

end
