(* ===== verification/Auth_Models.thy ===== *)
theory Auth_Models
  imports Gateway_Api
begin

text \<open>
  The auth service's errors (\<open>redeye_auth/src/error.rs\<close>), its entities
  (\<open>redeye_auth/src/domain/models.rs\<close>) as rows of its tables, and the effects its handlers are
  made of: a computation reads and writes the database, sends mail, and ends in a value, an
  error or a panic. Times are microseconds; identifiers are UUIDs in their hyphenated form.
\<close>

section \<open>Errors\<close>

datatype auth_error =
    AeInternal string
  | AeBadRequest string
  | AeUnauthorized string
  | AeConflict string
  | AeNotFound string
  | AeRateLimited string

fun auth_status :: "auth_error \<Rightarrow> nat" where
  "auth_status (AeInternal _) = 500"
| "auth_status (AeBadRequest _) = 400"
| "auth_status (AeUnauthorized _) = 401"
| "auth_status (AeConflict _) = 409"
| "auth_status (AeNotFound _) = 404"
| "auth_status (AeRateLimited _) = 429"

text \<open>\<open>error_code\<close> followed by \<open>as_str\<close>.\<close>

fun auth_code :: "auth_error \<Rightarrow> string" where
  "auth_code (AeInternal _) = ''INTERNAL_ERROR''"
| "auth_code (AeBadRequest _) = ''BAD_REQUEST''"
| "auth_code (AeUnauthorized _) = ''UNAUTHORIZED''"
| "auth_code (AeConflict _) = ''CONFLICT''"
| "auth_code (AeNotFound _) = ''NOT_FOUND''"
| "auth_code (AeRateLimited _) = ''RATE_LIMITED''"

fun auth_message :: "auth_error \<Rightarrow> string" where
  "auth_message (AeInternal _) = ''An unexpected error occurred. Please try again later.''"
| "auth_message (AeBadRequest m) = m"
| "auth_message (AeUnauthorized m) = m"
| "auth_message (AeConflict m) = m"
| "auth_message (AeNotFound m) = m"
| "auth_message (AeRateLimited m) = m"

definition auth_error_response :: "auth_error \<Rightarrow> response" where
  "auth_error_response e = json_response (auth_status e) (jobject [(''error'', jobject
     [(''code'', JStr (auth_code e)), (''message'', JStr (auth_message e))])])"

datatype sqlx_error = RowNotFound | UniqueViolation | DatabaseError | ConnectionError

fun from_sqlx :: "sqlx_error \<Rightarrow> auth_error" where
  "from_sqlx RowNotFound = AeNotFound ''Resource not found''"
| "from_sqlx UniqueViolation = AeConflict ''Resource already exists''"
| "from_sqlx DatabaseError = AeInternal ''Database error: ''"
| "from_sqlx ConnectionError = AeInternal ''Database operation failed''"

section \<open>Tables\<close>

datatype account_type = Individual | Team

record tenant =
  tn_id :: string
  tn_name :: string
  tn_created_at :: nat
  tn_is_active :: bool
  tn_onboarding_status :: bool
  tn_account_type :: account_type

record api_key =
  ak_id :: string
  ak_tenant_id :: string
  ak_key_hash :: string
  ak_name :: string
  ak_created_at :: nat
  ak_expires_at :: "nat option"
  ak_is_active :: bool

text \<open>The migrations add the weight.\<close>

record provider_key =
  pk_id :: string
  pk_tenant_id :: string
  pk_provider_name :: string
  pk_key_alias :: string
  pk_priority :: int
  pk_is_active :: bool
  pk_weight :: int
  pk_encrypted_key :: string
  pk_created_at :: nat

text \<open>The migrations make the password hash optional and add the two columns of external accounts.\<close>

record user =
  us_id :: string
  us_email :: string
  us_password_hash :: "string option"
  us_tenant_id :: string
  us_created_at :: nat
  us_auth_provider :: string
  us_provider_id :: "string option"

record llm_route =
  lr_id :: string
  lr_tenant_id :: string
  lr_provider :: string
  lr_model :: string
  lr_is_default :: bool
  lr_encrypted_api_key :: "string option"
  lr_created_at :: nat

record refresh_token =
  rt_id :: string
  rt_user_id :: string
  rt_token_hash :: string
  rt_expires_at :: nat
  rt_created_at :: nat

record auth_otp =
  ot_id :: string
  ot_email :: string
  ot_code :: string
  ot_expires_at :: nat
  ot_created_at :: nat

record auth_db =
  db_tenants :: "tenant list"
  db_users :: "user list"
  db_api_keys :: "api_key list"
  db_provider_keys :: "provider_key list"
  db_llm_routes :: "llm_route list"
  db_refresh :: "refresh_token list"
  db_otps :: "auth_otp list"

section \<open>Effects\<close>

text \<open>What one request meets: the clock, the fate of each database call and the identifier it draws,
  the replies of other services, and the random values it draws itself.\<close>

record auth_io =
  io_now :: nat
  io_fault :: "nat \<Rightarrow> fault"
  io_id :: "nat \<Rightarrow> string"
  io_net :: "upstream_req \<Rightarrow> http_result"
  io_token :: string
  io_alnum :: string
  io_salt :: string
  io_nonce :: string
  io_digit :: "nat \<Rightarrow> nat"
  io_exchange :: "string \<Rightarrow> string \<Rightarrow> string option"
  io_csrf :: string

record au_state =
  au_db :: auth_db
  au_calls :: nat
  au_mail :: "upstream_req list"

datatype auth_failure = Failed auth_error | Panicked

type_synonym 'a au = "au_state \<Rightarrow> (auth_failure + 'a) \<times> au_state"

definition au_ret :: "'a \<Rightarrow> 'a au" where
  "au_ret x s = (Inr x, s)"

definition au_fail :: "auth_error \<Rightarrow> 'a au" where
  "au_fail e s = (Inl (Failed e), s)"

definition au_panic :: "'a au" where
  "au_panic s = (Inl Panicked, s)"

definition au_bind :: "'a au \<Rightarrow> ('a \<Rightarrow> 'b au) \<Rightarrow> 'b au" where
  "au_bind m f s = (case m s of (Inl e, s') \<Rightarrow> (Inl e, s') | (Inr x, s') \<Rightarrow> f x s')"

definition au_lift :: "auth_error + 'a \<Rightarrow> 'a au" where
  "au_lift r = (case r of Inl e \<Rightarrow> au_fail e | Inr x \<Rightarrow> au_ret x)"

text \<open>A statement on the tables, and a call of the database that executes one: the request can be
  lost before it takes effect, or its reply after.\<close>

type_synonym 'a stmt = "auth_db \<Rightarrow> sqlx_error + 'a \<times> auth_db"

definition au_call :: "auth_io \<Rightarrow> (string \<Rightarrow> 'a stmt) \<Rightarrow> 'a au" where
  "au_call io q s =
     (let n = au_calls s; s1 = s\<lparr>au_calls := Suc n\<rparr> in
      if io_fault io n = LostRequest then (Inl (Failed (from_sqlx ConnectionError)), s1)
      else (case q (io_id io n) (au_db s) of
          Inl e \<Rightarrow> (Inl (Failed (from_sqlx (if io_fault io n = LostReply then ConnectionError else e))), s1)
        | Inr (x, db) \<Rightarrow>
            (if io_fault io n = LostReply then Inl (Failed (from_sqlx ConnectionError)) else Inr x,
             s1\<lparr>au_db := db\<rparr>)))"

text \<open>
  A transaction: what its body did is undone unless it is committed; a commit whose reply is
  lost took effect.
\<close>

definition au_transaction :: "auth_io \<Rightarrow> 'a au \<Rightarrow> 'a au" where
  "au_transaction io body s =
     (case au_call io (\<lambda>_ db. Inr ((), db)) s of
        (Inl e, s1) \<Rightarrow> (Inl e, s1)
      | (Inr _, s1) \<Rightarrow>
          (case body s1 of
             (Inl e, s2) \<Rightarrow> (Inl e, s2\<lparr>au_db := au_db s\<rparr>)
           | (Inr x, s2) \<Rightarrow>
               (case au_call io (\<lambda>_ db. Inr ((), db)) s2 of
                  (Inl e, s3) \<Rightarrow> (Inl e, if io_fault io (au_calls s2) = LostReply then s3 else s3\<lparr>au_db := au_db s\<rparr>)
                | (Inr _, s3) \<Rightarrow> (Inr x, s3))))"

text \<open>The HTTP response of a handler; \<open>None\<close> is a connection that dies with its task.\<close>

definition au_response :: "(auth_failure + response) \<times> au_state \<Rightarrow> response option \<times> au_state" where
  "au_response r =
     (case fst r of
        Inr x \<Rightarrow> Some x
      | Inl (Failed e) \<Rightarrow> Some (auth_error_response e)
      | Inl Panicked \<Rightarrow> None, snd r)"

section \<open>Laws of the effects\<close>

lemma au_simps [simp]:
  "au_ret x s = (Inr x, s)"
  "au_fail e s = (Inl (Failed e), s)"
  "au_panic s = (Inl Panicked, s)"
  "au_lift (Inl e) = au_fail e"
  "au_lift (Inr x) = au_ret x"
  by (simp_all add: au_ret_def au_fail_def au_panic_def au_lift_def)

lemma au_bind_cases:
  "au_bind m f s = (case fst (m s) of Inl e \<Rightarrow> (Inl e, snd (m s)) | Inr x \<Rightarrow> f x (snd (m s)))"
  by (cases "m s"; cases "fst (m s)") (simp_all add: au_bind_def)

lemma au_bind_Inr: "fst (au_bind m f s) = Inr y \<longleftrightarrow> (\<exists>x. fst (m s) = Inr x \<and> fst (f x (snd (m s))) = Inr y)"
  by (simp add: au_bind_cases split: sum.split)

lemma au_bind_simps [simp]:
  "m s = (Inl e, s') \<Longrightarrow> au_bind m f s = (Inl e, s')"
  "m s = (Inr x, s') \<Longrightarrow> au_bind m f s = f x s'"
  "au_bind (au_ret x) f = f x"
  "au_bind (au_fail err) f = au_fail err"
  by (simp_all add: au_bind_def fun_eq_iff)

lemma au_lift_Inr: "fst (au_lift r s) = Inr x \<longleftrightarrow> r = Inr x"
  by (cases r) auto

lemma au_lift_state [simp]: "snd (au_lift r s) = s"
  by (cases r) auto

lemma auth_error_class: "400 \<le> auth_status e \<and> auth_status e \<le> 500"
  by (cases e) auto

text \<open>An invariant of the tables that every step keeps is kept by the whole computation.\<close>

definition au_keeps :: "(auth_db \<Rightarrow> bool) \<Rightarrow> 'a au \<Rightarrow> bool" where
  "au_keeps P m \<longleftrightarrow> (\<forall>s. P (au_db s) \<longrightarrow> P (au_db (snd (m s))))"

definition stmt_keeps :: "(auth_db \<Rightarrow> bool) \<Rightarrow> 'a stmt \<Rightarrow> bool" where
  "stmt_keeps P q \<longleftrightarrow> (\<forall>db x db'. P db \<longrightarrow> q db = Inr (x, db') \<longrightarrow> P db')"

named_theorems au_frames \<open>computations that keep an invariant of the tables\<close>

lemma au_keeps_basic [au_frames]:
  "au_keeps P (au_ret x)" "au_keeps P (au_fail e)" "au_keeps P au_panic" "au_keeps P (au_lift r)"
  by (simp_all add: au_keeps_def)

lemma au_keeps_bind [au_frames]: "au_keeps P m \<Longrightarrow> (\<And>x. au_keeps P (f x)) \<Longrightarrow> au_keeps P (au_bind m f)"
  by (auto simp: au_keeps_def au_bind_cases split: sum.split)

lemma au_keeps_call [au_frames]: "(\<And>i. stmt_keeps P (q i)) \<Longrightarrow> au_keeps P (au_call io q)"
  by (auto simp: au_keeps_def stmt_keeps_def au_call_def Let_def split: sum.split)

lemma au_call_fst: "au_call io (\<lambda>_ db. Inr ((), db)) s =
   (if io_fault io (au_calls s) = Delivered then Inr () else Inl (Failed (from_sqlx ConnectionError)),
    s\<lparr>au_calls := Suc (au_calls s)\<rparr>)"
  by (cases "io_fault io (au_calls s)") (auto simp: au_call_def Let_def)

lemma au_keeps_transaction [au_frames]: "au_keeps P m \<Longrightarrow> au_keeps P (au_transaction io m)"
  by (auto simp: au_keeps_def au_transaction_def au_call_fst split: sum.split prod.split)
    (metis snd_conv au_state.select_convs(1) au_state.surjective au_state.update_convs(2))+

end
