(* ===== verification/Auth_Security.thy ===== *)
theory Auth_Security
  imports Auth_Models
begin

text \<open>
  The auth service's credentials (\<open>redeye_auth/src/infrastructure/security.rs\<close>), the check of a
  provider key (\<open>infrastructure/llm_validator.rs\<close>), its cookies (\<open>api/handlers.rs\<close>) and the
  middleware of its protected routes (\<open>api/middleware/auth.rs\<close>).

  Third-party code: Argon2 (\<open>ac_argon\<close> hashes with a salt, \<open>ac_argon_verify\<close> is \<open>None\<close> on a hash
  it cannot read), AES-256-GCM, the JWT library (\<open>ac_jwt_decode secret now\<close> checks the signature
  and the expiry at \<open>now\<close> seconds), the hexadecimal SHA-256 digest, the UUID parser,
  \<open>str::to_lowercase\<close>, and the process environment.
\<close>

record auth_cfg =
  ac_env :: "string \<Rightarrow> string option"
  ac_lc :: "string \<Rightarrow> string"
  ac_sha :: "string \<Rightarrow> string"
  ac_argon :: "string \<Rightarrow> string \<Rightarrow> string option"
  ac_argon_verify :: "string \<Rightarrow> string \<Rightarrow> bool option"
  ac_aes_enc :: "string \<Rightarrow> string \<Rightarrow> string \<Rightarrow> string option"
  ac_aes_dec :: "string \<Rightarrow> string \<Rightarrow> string \<Rightarrow> string option"
  ac_utf8 :: "string \<Rightarrow> bool"
  ac_jwt_encode :: "string \<Rightarrow> claims \<Rightarrow> string option"
  ac_jwt_decode :: "string \<Rightarrow> nat \<Rightarrow> string \<Rightarrow> claims option"
  ac_uuid :: "string \<Rightarrow> string option"
  ac_url_ok :: "string \<Rightarrow> bool"
  ac_sd :: serde
  ac_rfc3339 :: "nat \<Rightarrow> string"
  ac_authorize :: "string \<Rightarrow> string \<Rightarrow> string \<Rightarrow> string list \<Rightarrow> string \<Rightarrow> string"

section \<open>Passwords\<close>

definition hash_password :: "auth_cfg \<Rightarrow> string \<Rightarrow> string \<Rightarrow> auth_error + string" where
  "hash_password ac salt password = ok_or (ac_argon ac salt password) (AeInternal ''Password hashing failed'')"

definition verify_password :: "auth_cfg \<Rightarrow> string \<Rightarrow> string \<Rightarrow> auth_error + bool" where
  "verify_password ac hash password = ok_or (ac_argon_verify ac hash password) (AeInternal ''Invalid hash format'')"

section \<open>Encryption\<close>

definition master_key :: "auth_cfg \<Rightarrow> auth_error + string" where
  "master_key ac =
     (case ac_env ac ''AES_MASTER_KEY'' of
        None \<Rightarrow> Inl (AeInternal ''AES_MASTER_KEY missing'')
      | Some k \<Rightarrow> if length k \<noteq> 32 then Inl (AeInternal ''AES_MASTER_KEY must be exactly 32 bytes long'') else Inr k)"

definition encrypt_api_key :: "auth_cfg \<Rightarrow> string \<Rightarrow> string \<Rightarrow> auth_error + string" where
  "encrypt_api_key ac nonce plaintext =
     res_bind (master_key ac) (\<lambda>k.
     res_bind (ok_or (ac_aes_enc ac k nonce plaintext) (AeInternal ''Encryption failed'')) (\<lambda>c.
     Inr (nonce @ c)))"

definition decrypt_stored_key :: "auth_cfg \<Rightarrow> string \<Rightarrow> auth_error + string" where
  "decrypt_stored_key ac enc =
     res_bind (master_key ac) (\<lambda>k.
       if length enc < 12 then Inl (AeInternal ''Encrypted data too short'')
       else res_bind (ok_or (ac_aes_dec ac k (take 12 enc) (drop 12 enc)) (AeInternal ''Decryption failed'')) (\<lambda>p.
         if ac_utf8 ac p then Inr p else Inl (AeInternal ''Invalid UTF-8 in decrypted data'')))"

section \<open>Tokens\<close>

definition jwt_secret :: "auth_cfg \<Rightarrow> auth_error + string" where
  "jwt_secret ac = ok_or (ac_env ac ''JWT_SECRET'') (AeInternal ''JWT configuration error'')"

definition jwt_lifetime :: nat where "jwt_lifetime = 7 * 86400"

definition generate_jwt :: "auth_cfg \<Rightarrow> nat \<Rightarrow> string \<Rightarrow> string \<Rightarrow> auth_error + string" where
  "generate_jwt ac now user_id tenant_id =
     res_bind (jwt_secret ac) (\<lambda>secret.
     ok_or (ac_jwt_encode ac secret \<lparr>cl_sub = user_id, cl_tenant_id = tenant_id,
         cl_exp = of_nat (now div 1000000 + jwt_lifetime)\<rparr>)
       (AeInternal ''Token generation failed''))"

definition verify_auth_jwt :: "auth_cfg \<Rightarrow> nat \<Rightarrow> string \<Rightarrow> auth_error + claims" where
  "verify_auth_jwt ac now token =
     res_bind (jwt_secret ac) (\<lambda>secret.
     ok_or (ac_jwt_decode ac secret (now div 1000000) token) (AeUnauthorized ''Invalid token''))"

text \<open>The raw token is the hexadecimal text of the random bytes; only its digest is stored.\<close>

definition generate_refresh_token :: "auth_cfg \<Rightarrow> auth_io \<Rightarrow> string \<times> string" where
  "generate_refresh_token ac io = (io_token io, ac_sha ac (io_token io))"

definition generate_redeye_api_key :: "auth_io \<Rightarrow> string" where
  "generate_redeye_api_key io = ''re_live_'' @ io_alnum io"

definition hash_api_key :: "auth_cfg \<Rightarrow> string \<Rightarrow> string" where
  "hash_api_key ac key = ac_sha ac key"

section \<open>Cookies\<close>

definition jwt_max_age_secs :: nat where "jwt_max_age_secs = 604800"

definition is_prod :: "auth_cfg \<Rightarrow> bool" where
  "is_prod ac \<longleftrightarrow>
     ac_lc ac (str_or [] (ac_env ac ''APP_ENV'')) = ''production'' \<or>
     ac_lc ac (str_or [] (ac_env ac ''NODE_ENV'')) = ''production''"

definition create_cookie_header :: "auth_cfg \<Rightarrow> string \<Rightarrow> string \<Rightarrow> nat \<Rightarrow> string \<Rightarrow> string" where
  "create_cookie_header ac name value max_age same_site =
     name @ ''='' @ value @ ''; HttpOnly; Path=/; Max-Age='' @ show_nat max_age @ ''; SameSite='' @ same_site @
     (if is_prod ac then ''; Secure'' else []) @
     (case ac_env ac ''COOKIE_DOMAIN'' of
        None \<Rightarrow> []
      | Some d \<Rightarrow> if trim_ws d \<noteq> [] then ''; Domain='' @ trim_ws d else [])"

text \<open>\<open>HeaderValue::from_str(..).unwrap()\<close> panics on a value that is not visible text.\<close>

definition set_cookies :: "string list \<Rightarrow> headers au" where
  "set_cookies cs =
     (if list_all (list_all hdr_visible) cs then au_ret (map (\<lambda>c. (''set-cookie'', c)) cs) else au_panic)"

section \<open>The check of a provider key\<close>

definition provider_probe :: "string \<Rightarrow> string \<Rightarrow> (string \<times> headers) option" where
  "provider_probe provider key =
     (if provider = ''openai'' then Some (''https://api.openai.com/v1/models'', [(''authorization'', ''Bearer '' @ key)])
      else if provider = ''gemini'' then
        Some (''https://generativelanguage.googleapis.com/v1/models'', [(''x-goog-api-key'', key)])
      else if provider = ''groq'' then
        Some (''https://api.groq.com/openai/v1/models'', [(''authorization'', ''Bearer '' @ key)])
      else if provider = ''anthropic'' then
        Some (''https://api.anthropic.com/v1/models'', [(''x-api-key'', key), (''anthropic-version'', ''2023-06-01'')])
      else if provider = ''deepseek'' then
        Some (''https://api.deepseek.com/models'', [(''authorization'', ''Bearer '' @ key)])
      else if provider = ''openrouter'' then
        Some (''https://openrouter.ai/api/v1/models'', [(''authorization'', ''Bearer '' @ key)])
      else if provider = ''together'' then
        Some (''https://api.together.xyz/v1/models'', [(''authorization'', ''Bearer '' @ key)])
      else None)"

text \<open>A request with a header value of control characters fails to build.\<close>

definition sendable :: "upstream_req \<Rightarrow> bool" where
  "sendable rq = list_all (\<lambda>h. list_all (\<lambda>c. c = CHR 0x09 \<or> 32 \<le> (of_char c :: nat) \<and> (of_char c :: nat) \<noteq> 127) (snd h))
     (ur_headers rq)"

definition send_request :: "(upstream_req \<Rightarrow> http_result) \<Rightarrow> upstream_req \<Rightarrow> http_result" where
  "send_request net rq = (if sendable rq then net rq else HErr False)"

definition validate_api_key :: "(upstream_req \<Rightarrow> http_result) \<Rightarrow> string \<Rightarrow> string \<Rightarrow> string + bool" where
  "validate_api_key net provider key =
     (case provider_probe provider key of
        None \<Rightarrow> Inr True
      | Some (url, hs) \<Rightarrow>
          (case send_request net \<lparr>ur_url = url, ur_headers = hs, ur_body = []\<rparr> of
             HOk resp \<Rightarrow> Inr (is_success (hr_status resp))
           | HErr timeout \<Rightarrow>
               Inl (if timeout then ''API key validation timed out'' else ''API key validation failed: '')))"

section \<open>The middleware\<close>

datatype token_source = BearerHeader | CookieSource

text \<open>\<open>split_once('=')\<close> at the first equals sign.\<close>

definition split_once :: "char \<Rightarrow> string \<Rightarrow> (string \<times> string) option" where
  "split_once d s = (case dropWhile (\<lambda>c. c \<noteq> d) s of [] \<Rightarrow> None | _ # r \<Rightarrow> Some (takeWhile (\<lambda>c. c \<noteq> d) s, r))"

definition extract_token :: "headers \<Rightarrow> (string \<times> token_source) option" where
  "extract_token hs =
     (case Option.bind (hdr_str hs ''authorization'')
         (\<lambda>a. if 7 \<le> length a \<and> ascii_lower (take 7 a) = ''bearer '' then Some (drop 7 a) else None) of
        Some t \<Rightarrow> Some (t, BearerHeader)
      | None \<Rightarrow> map_option (\<lambda>t. (t, CookieSource)) (Option.bind (hdr_str hs ''cookie'') (\<lambda>c.
          first_of (List.map_filter (\<lambda>p. case split_once (CHR 0x3D) (trim_ws p) of
              Some (name, value) \<Rightarrow> if trim_ws name = ''re_token'' then Some value else None
            | None \<Rightarrow> None) (split_char (CHR 0x3B) c)))))"

definition csrf_present :: "headers \<Rightarrow> bool" where
  "csrf_present hs = (case hdr_str hs ''x-csrf-token'' of Some v \<Rightarrow> trim_ws v \<noteq> [] | None \<Rightarrow> False)"

definition auth_service_middleware ::
  "auth_cfg \<Rightarrow> nat \<Rightarrow> (http_request \<Rightarrow> 'st \<Rightarrow> response option \<times> 'st) \<Rightarrow> http_request \<Rightarrow> 'st \<Rightarrow> response option \<times> 'st" where
  "auth_service_middleware ac now nxt rq st =
     (if hq_method rq = ''OPTIONS'' then nxt rq st
      else (case extract_token (hq_headers rq) of
          None \<Rightarrow> (Some (status_response 401), st)
        | Some (token, source) \<Rightarrow>
            if source = CookieSource \<and> hq_method rq \<noteq> ''GET'' \<and> hq_method rq \<noteq> ''HEAD'' \<and>
               \<not> csrf_present (hq_headers rq) then (Some (status_response 403), st)
            else (case verify_auth_jwt ac now token of
                Inl e \<Rightarrow> (Some (status_response 401), st)
              | Inr c \<Rightarrow> nxt (rq\<lparr>hq_claims := Some c\<rparr>) st)))"

section \<open>Lemmas\<close>

text \<open>What the libraries promise: decryption undoes encryption, decoding accepts what was encoded until it expires.\<close>

definition aes_inverse :: "auth_cfg \<Rightarrow> bool" where
  "aes_inverse ac \<longleftrightarrow> (\<forall>k n p c. ac_aes_enc ac k n p = Some c \<longrightarrow> ac_aes_dec ac k n c = Some p)"

definition jwt_inverse :: "auth_cfg \<Rightarrow> bool" where
  "jwt_inverse ac \<longleftrightarrow> (\<forall>s c t now. ac_jwt_encode ac s c = Some t \<longrightarrow> now < unat (cl_exp c) \<longrightarrow>
     ac_jwt_decode ac s now t = Some c)"

lemma encrypt_decrypt:
  assumes "aes_inverse ac" and "length nonce = 12" and "ac_utf8 ac p" and "encrypt_api_key ac nonce p = Inr enc"
  shows "decrypt_stored_key ac enc = Inr p"
  using assms by (auto simp: encrypt_api_key_def decrypt_stored_key_def res_bind_eq_Inr ok_or_eq_Inr aes_inverse_def)

lemma jwt_roundtrip:
  assumes "jwt_inverse ac" and "generate_jwt ac now u t = Inr token" and "now div 1000000 + jwt_lifetime < 2 ^ 64"
    and "later div 1000000 < now div 1000000 + jwt_lifetime"
  shows "\<exists>c. verify_auth_jwt ac later token = Inr c \<and> cl_sub c = u \<and> cl_tenant_id c = t"
proof -
  let ?c = "\<lparr>cl_sub = u, cl_tenant_id = t, cl_exp = of_nat (now div 1000000 + jwt_lifetime)\<rparr>"
  obtain secret where secret: "jwt_secret ac = Inr secret" and "ac_jwt_encode ac secret ?c = Some token"
    using assms(2) by (auto simp: generate_jwt_def res_bind_eq_Inr ok_or_eq_Inr)
  moreover have "unat (cl_exp ?c) = now div 1000000 + jwt_lifetime"
    using assms(3) by (simp add: unat_of_nat del: of_nat_add)
  ultimately have "ac_jwt_decode ac secret (later div 1000000) token = Some ?c"
    using assms(1,4) unfolding jwt_inverse_def by metis
  with secret show ?thesis by (simp add: verify_auth_jwt_def)
qed

end
