(* ===== verification/Auth_Db.thy ===== *)
theory Auth_Db
  imports Auth_Security
begin

text \<open>
  The SQL statements of the auth service's handlers (\<open>redeye_auth/src/api/handlers.rs\<close>) on the
  tables its migrations and \<open>infra/postgres/init.sql\<close> declare: the keys, unique indexes, foreign
  keys, checks and column widths are those of the schema, and a violated one is the error
  PostgreSQL documents for it. The last argument of an insertion is the identifier drawn.
\<close>

section \<open>Constraints\<close>

text \<open>\<open>VARCHAR(n)\<close> counts characters: the bytes that do not continue one.\<close>

definition char_count :: "string \<Rightarrow> nat" where
  "char_count s = length (filter (\<lambda>c. (of_char c :: nat) div 64 \<noteq> 2) s)"

definition route_providers :: "string list" where
  "route_providers = [''openai'', ''gemini'', ''groq'', ''anthropic'']"

section \<open>Accounts\<close>

definition q_email_exists :: "string \<Rightarrow> bool stmt" where
  "q_email_exists email db = Inr (list_ex (\<lambda>u. us_email u = email) (db_users db), db)"

definition q_workspace_exists :: "string \<Rightarrow> bool stmt" where
  "q_workspace_exists name db = Inr (list_ex (\<lambda>t. tn_name t = name) (db_tenants db), db)"

definition q_insert_tenant :: "nat \<Rightarrow> string \<Rightarrow> string \<Rightarrow> string stmt" where
  "q_insert_tenant now name i db =
     (if list_ex (\<lambda>t. tn_id t = i \<or> tn_name t = name) (db_tenants db) then Inl UniqueViolation
      else Inr (i, db\<lparr>db_tenants := db_tenants db @
        [\<lparr>tn_id = i, tn_name = name, tn_created_at = now, tn_is_active = True, tn_onboarding_status = False,
          tn_account_type = Individual\<rparr>]\<rparr>))"

definition q_insert_user ::
  "nat \<Rightarrow> string \<Rightarrow> string option \<Rightarrow> string \<Rightarrow> string \<Rightarrow> string option \<Rightarrow> string \<Rightarrow> string stmt" where
  "q_insert_user now email hash tenant provider pid i db =
     (if (case pid of Some p \<Rightarrow> 255 < char_count p | None \<Rightarrow> False) then Inl DatabaseError
      else if list_ex (\<lambda>u. us_id u = i \<or> us_email u = email) (db_users db) then Inl UniqueViolation
      else if \<not> list_ex (\<lambda>t. tn_id t = tenant) (db_tenants db) then Inl DatabaseError
      else Inr (i, db\<lparr>db_users := db_users db @
        [\<lparr>us_id = i, us_email = email, us_password_hash = hash, us_tenant_id = tenant, us_created_at = now,
          us_auth_provider = provider, us_provider_id = pid\<rparr>]\<rparr>))"

text \<open>The join of a user with its tenant.\<close>

definition q_login :: "string \<Rightarrow> (user \<times> tenant) option stmt" where
  "q_login email db = Inr (Option.bind (find (\<lambda>u. us_email u = email) (db_users db)) (\<lambda>u.
     map_option (Pair u) (find (\<lambda>t. tn_id t = us_tenant_id u) (db_tenants db))), db)"

definition q_user_by_email :: "string \<Rightarrow> user option stmt" where
  "q_user_by_email email db = Inr (find (\<lambda>u. us_email u = email) (db_users db), db)"

definition q_user :: "string \<Rightarrow> user stmt" where
  "q_user i db = (case find (\<lambda>u. us_id u = i) (db_users db) of None \<Rightarrow> Inl RowNotFound | Some u \<Rightarrow> Inr (u, db))"

definition q_tenant :: "string \<Rightarrow> tenant stmt" where
  "q_tenant i db = (case find (\<lambda>t. tn_id t = i) (db_tenants db) of None \<Rightarrow> Inl RowNotFound | Some t \<Rightarrow> Inr (t, db))"

definition q_set_provider :: "string \<Rightarrow> string \<Rightarrow> string \<Rightarrow> unit stmt" where
  "q_set_provider provider sub i db =
     (if 255 < char_count sub \<and> list_ex (\<lambda>u. us_id u = i) (db_users db) then Inl DatabaseError
      else Inr ((), db\<lparr>db_users := map (\<lambda>u. if us_id u = i
        then u\<lparr>us_auth_provider := provider, us_provider_id := Some sub\<rparr> else u) (db_users db)\<rparr>))"

section \<open>Sessions\<close>

definition refresh_lifetime :: nat where "refresh_lifetime = 7 * 86400 * 1000000"

definition q_insert_refresh :: "nat \<Rightarrow> string \<Rightarrow> string \<Rightarrow> string \<Rightarrow> unit stmt" where
  "q_insert_refresh now user_id hash i db =
     (if 64 < char_count hash then Inl DatabaseError
      else if list_ex (\<lambda>r. rt_id r = i \<or> rt_token_hash r = hash) (db_refresh db) then Inl UniqueViolation
      else if \<not> list_ex (\<lambda>u. us_id u = user_id) (db_users db) then Inl DatabaseError
      else Inr ((), db\<lparr>db_refresh := db_refresh db @
        [\<lparr>rt_id = i, rt_user_id = user_id, rt_token_hash = hash, rt_expires_at = now + refresh_lifetime,
          rt_created_at = now\<rparr>]\<rparr>))"

definition q_refresh_user :: "nat \<Rightarrow> string \<Rightarrow> string option stmt" where
  "q_refresh_user now hash db =
     Inr (map_option rt_user_id (find (\<lambda>r. rt_token_hash r = hash \<and> now < rt_expires_at r) (db_refresh db)), db)"

definition q_delete_refresh :: "string \<Rightarrow> unit stmt" where
  "q_delete_refresh hash db =
     Inr ((), db\<lparr>db_refresh := filter (\<lambda>r. rt_token_hash r \<noteq> hash) (db_refresh db)\<rparr>)"

section \<open>One-time passwords\<close>

definition q_insert_otp :: "nat \<Rightarrow> string \<Rightarrow> string \<Rightarrow> nat \<Rightarrow> string \<Rightarrow> unit stmt" where
  "q_insert_otp now email code expires i db =
     (if 255 < char_count email \<or> 10 < char_count code then Inl DatabaseError
      else if list_ex (\<lambda>r. ot_id r = i) (db_otps db) then Inl UniqueViolation
      else Inr ((), db\<lparr>db_otps := db_otps db @
        [\<lparr>ot_id = i, ot_email = email, ot_code = code, ot_expires_at = expires, ot_created_at = now\<rparr>]\<rparr>))"

definition q_find_otp :: "nat \<Rightarrow> string \<Rightarrow> string \<Rightarrow> bool stmt" where
  "q_find_otp now email code db =
     Inr (list_ex (\<lambda>r. ot_email r = email \<and> ot_code r = code \<and> now < ot_expires_at r) (db_otps db), db)"

definition q_delete_otp :: "string \<Rightarrow> string \<Rightarrow> unit stmt" where
  "q_delete_otp email code db =
     Inr ((), db\<lparr>db_otps := filter (\<lambda>r. \<not> (ot_email r = email \<and> ot_code r = code)) (db_otps db)\<rparr>)"

section \<open>Onboarding and keys\<close>

definition q_onboard_tenant :: "account_type \<Rightarrow> string option \<Rightarrow> string \<Rightarrow> unit stmt" where
  "q_onboard_tenant acct name i db =
     (if (case name of None \<Rightarrow> False
          | Some n \<Rightarrow> list_ex (\<lambda>t. tn_name t = n \<and> tn_id t \<noteq> i) (db_tenants db) \<and> list_ex (\<lambda>t. tn_id t = i) (db_tenants db))
      then Inl UniqueViolation
      else Inr ((), db\<lparr>db_tenants := map (\<lambda>t. if tn_id t = i
        then t\<lparr>tn_onboarding_status := True, tn_account_type := acct,
               tn_name := (case name of None \<Rightarrow> tn_name t | Some n \<Rightarrow> n)\<rparr> else t) (db_tenants db)\<rparr>))"

text \<open>Without an alias the column takes its default.\<close>

definition q_upsert_provider_key ::
  "nat \<Rightarrow> string \<Rightarrow> string \<Rightarrow> string option \<Rightarrow> string \<Rightarrow> string \<Rightarrow> provider_key stmt" where
  "q_upsert_provider_key now tenant provider alias enc i db =
     (let al = (case alias of None \<Rightarrow> ''default'' | Some a \<Rightarrow> a);
          same = (\<lambda>k. pk_tenant_id k = tenant \<and> pk_provider_name k = provider \<and> pk_key_alias k = al)
      in if 50 < char_count provider then Inl DatabaseError
         else (case find same (db_provider_keys db) of
             Some k \<Rightarrow> Inr (k\<lparr>pk_encrypted_key := enc\<rparr>, db\<lparr>db_provider_keys :=
                map (\<lambda>k. if same k then k\<lparr>pk_encrypted_key := enc\<rparr> else k) (db_provider_keys db)\<rparr>)
           | None \<Rightarrow>
               if list_ex (\<lambda>k. pk_id k = i) (db_provider_keys db) then Inl UniqueViolation
               else if \<not> list_ex (\<lambda>t. tn_id t = tenant) (db_tenants db) then Inl DatabaseError
               else (let k = \<lparr>pk_id = i, pk_tenant_id = tenant, pk_provider_name = provider, pk_key_alias = al,
                       pk_priority = 1, pk_is_active = True, pk_weight = 100, pk_encrypted_key = enc, pk_created_at = now\<rparr>
                     in Inr (k, db\<lparr>db_provider_keys := db_provider_keys db @ [k]\<rparr>))))"

definition q_insert_api_key :: "nat \<Rightarrow> string \<Rightarrow> string \<Rightarrow> string \<Rightarrow> string \<Rightarrow> unit stmt" where
  "q_insert_api_key now tenant hash name i db =
     (if list_ex (\<lambda>k. ak_id k = i \<or> ak_key_hash k = hash) (db_api_keys db) then Inl UniqueViolation
      else if \<not> list_ex (\<lambda>t. tn_id t = tenant) (db_tenants db) then Inl DatabaseError
      else Inr ((), db\<lparr>db_api_keys := db_api_keys db @
        [\<lparr>ak_id = i, ak_tenant_id = tenant, ak_key_hash = hash, ak_name = name, ak_created_at = now,
          ak_expires_at = None, ak_is_active = True\<rparr>]\<rparr>))"

definition q_upsert_route :: "nat \<Rightarrow> string \<Rightarrow> string \<Rightarrow> string \<Rightarrow> string \<Rightarrow> unit stmt" where
  "q_upsert_route now tenant provider enc i db =
     (let same = (\<lambda>r. lr_tenant_id r = tenant \<and> lr_provider r = provider)
      in if provider \<notin> set route_providers then Inl DatabaseError
         else if list_ex same (db_llm_routes db)
         then Inr ((), db\<lparr>db_llm_routes :=
           map (\<lambda>r. if same r then r\<lparr>lr_encrypted_api_key := Some enc\<rparr> else r) (db_llm_routes db)\<rparr>)
         else if list_ex (\<lambda>r. lr_id r = i) (db_llm_routes db) then Inl UniqueViolation
         else if \<not> list_ex (\<lambda>t. tn_id t = tenant) (db_tenants db) then Inl DatabaseError
         else Inr ((), db\<lparr>db_llm_routes := db_llm_routes db @
           [\<lparr>lr_id = i, lr_tenant_id = tenant, lr_provider = provider, lr_model = ''default'', lr_is_default = True,
             lr_encrypted_api_key = Some enc, lr_created_at = now\<rparr>]\<rparr>))"

definition q_api_keys :: "string \<Rightarrow> api_key list stmt" where
  "q_api_keys tenant db =
     Inr (rev (sort_key ak_created_at (filter (\<lambda>k. ak_tenant_id k = tenant) (db_api_keys db))), db)"

definition q_provider_keys :: "string \<Rightarrow> provider_key list stmt" where
  "q_provider_keys tenant db =
     Inr (rev (sort_key pk_created_at (filter (\<lambda>k. pk_tenant_id k = tenant) (db_provider_keys db))), db)"

section \<open>The integrity of the tables\<close>

definition has_tenant :: "auth_db \<Rightarrow> string \<Rightarrow> bool" where
  "has_tenant db i \<longleftrightarrow> i \<in> tn_id ` set (db_tenants db)"

definition db_ok :: "auth_db \<Rightarrow> bool" where
  "db_ok db \<longleftrightarrow>
     distinct (map tn_id (db_tenants db)) \<and> distinct (map tn_name (db_tenants db)) \<and>
     distinct (map us_id (db_users db)) \<and> distinct (map us_email (db_users db)) \<and>
     (\<forall>u \<in> set (db_users db). has_tenant db (us_tenant_id u)) \<and>
     distinct (map rt_token_hash (db_refresh db)) \<and>
     (\<forall>r \<in> set (db_refresh db). rt_user_id r \<in> us_id ` set (db_users db)) \<and>
     distinct (map ak_key_hash (db_api_keys db)) \<and>
     (\<forall>k \<in> set (db_api_keys db). has_tenant db (ak_tenant_id k)) \<and>
     distinct (map (\<lambda>k. (pk_tenant_id k, pk_provider_name k, pk_key_alias k)) (db_provider_keys db)) \<and>
     (\<forall>k \<in> set (db_provider_keys db). has_tenant db (pk_tenant_id k)) \<and>
     distinct (map (\<lambda>r. (lr_tenant_id r, lr_provider r)) (db_llm_routes db)) \<and>
     (\<forall>r \<in> set (db_llm_routes db). lr_provider r \<in> set route_providers \<and> has_tenant db (lr_tenant_id r))"

lemma find_Some_in: "find P xs = Some x \<Longrightarrow> x \<in> set xs \<and> P x"
  by (induction xs) (auto split: if_splits)

text \<open>Statements that do not write.\<close>

lemma reads_keep [au_frames]:
  "stmt_keeps P (q_email_exists e)" "stmt_keeps P (q_workspace_exists n)" "stmt_keeps P (q_login e)"
  "stmt_keeps P (q_user_by_email e)" "stmt_keeps P (q_user i)" "stmt_keeps P (q_tenant i)"
  "stmt_keeps P (q_refresh_user t h)" "stmt_keeps P (q_find_otp t e c)" "stmt_keeps P (q_api_keys i)"
  "stmt_keeps P (q_provider_keys i)"
  by (auto simp: stmt_keeps_def q_email_exists_def q_workspace_exists_def q_login_def q_user_by_email_def
      q_user_def q_tenant_def q_refresh_user_def q_find_otp_def q_api_keys_def q_provider_keys_def
      split: option.splits)

lemma insert_account_ok [au_frames]:
  "stmt_keeps db_ok (q_insert_tenant now name i)"
  "stmt_keeps db_ok (q_insert_user now email hash tenant provider pid i)"
  "stmt_keeps db_ok (q_insert_refresh now user_id h i)"
  by (fastforce simp: stmt_keeps_def q_insert_tenant_def q_insert_user_def q_insert_refresh_def db_ok_def
      has_tenant_def list_ex_iff split: if_splits)+

lemma delete_ok [au_frames]:
  "stmt_keeps db_ok (q_delete_refresh h)" "stmt_keeps db_ok (q_delete_otp e c)"
  "stmt_keeps db_ok (q_insert_otp now e c x i)"
  by (auto simp: stmt_keeps_def q_delete_refresh_def q_delete_otp_def q_insert_otp_def db_ok_def has_tenant_def
      distinct_map_filter split: if_splits)

lemma insert_api_key_ok [au_frames]: "stmt_keeps db_ok (q_insert_api_key now tenant h name i)"
  by (fastforce simp: stmt_keeps_def q_insert_api_key_def db_ok_def has_tenant_def list_ex_iff split: if_splits)

lemma set_provider_ok [au_frames]: "stmt_keeps db_ok (q_set_provider p sub i)"
proof (unfold stmt_keeps_def, intro allI impI)
  fix db x db' assume ok: "db_ok db" and q: "q_set_provider p sub i db = Inr (x, db')"
  let ?f = "\<lambda>u. if us_id u = i then u\<lparr>us_auth_provider := p, us_provider_id := Some sub\<rparr> else u"
  have db': "db' = db\<lparr>db_users := map ?f (db_users db)\<rparr>" using q by (auto simp: q_set_provider_def split: if_splits)
  define xs where "xs = map ?f (db_users db)"
  have m: "map us_id xs = map us_id (db_users db)" "map us_email xs = map us_email (db_users db)"
    unfolding xs_def by simp_all
  then have "us_id ` set xs = us_id ` set (db_users db)" by (metis set_map)
  moreover have "\<forall>u \<in> set xs. has_tenant db (us_tenant_id u)" using ok by (auto simp: xs_def db_ok_def)
  ultimately show "db_ok db'"
    using ok m unfolding db' xs_def [symmetric] by (simp add: db_ok_def has_tenant_def)
qed

lemma onboard_ok [au_frames]: "stmt_keeps db_ok (q_onboard_tenant acct name i)"
proof (unfold stmt_keeps_def, intro allI impI)
  fix db x db' assume ok: "db_ok db" and q: "q_onboard_tenant acct name i db = Inr (x, db')"
  let ?f = "\<lambda>t. if tn_id t = i then t\<lparr>tn_onboarding_status := True, tn_account_type := acct,
               tn_name := (case name of None \<Rightarrow> tn_name t | Some n \<Rightarrow> n)\<rparr> else t"
  have db': "db' = db\<lparr>db_tenants := map ?f (db_tenants db)\<rparr>"
    using q by (auto simp: q_onboard_tenant_def split: if_splits)
  have m: "map tn_id (map ?f (db_tenants db)) = map tn_id (db_tenants db)" by simp
  then have s: "tn_id ` set (map ?f (db_tenants db)) = tn_id ` set (db_tenants db)" by (metis set_map)
  have "distinct (map tn_name (map ?f (db_tenants db)))"
  proof (cases name)
    case None
    then have eq: "map tn_name (map ?f (db_tenants db)) = map tn_name (db_tenants db)" by simp
    show ?thesis unfolding eq using ok by (simp add: db_ok_def)
  next
    case (Some n)
    have d: "distinct (map tn_id (db_tenants db))" "distinct (map tn_name (db_tenants db))"
      using ok by (simp_all add: db_ok_def)
    have free: "\<not> (list_ex (\<lambda>t. tn_name t = n \<and> tn_id t \<noteq> i) (db_tenants db) \<and> list_ex (\<lambda>t. tn_id t = i) (db_tenants db))"
      using q Some by (auto simp: q_onboard_tenant_def split: if_splits)
    have "inj_on (tn_name \<circ> ?f) (set (db_tenants db))"
    proof (rule inj_onI)
      fix t u assume t: "t \<in> set (db_tenants db)" and u: "u \<in> set (db_tenants db)" and eq: "(tn_name \<circ> ?f) t = (tn_name \<circ> ?f) u"
      have same_id: "tn_id t = tn_id u \<Longrightarrow> t = u" and same_name: "tn_name t = tn_name u \<Longrightarrow> t = u"
        using d t u by (auto simp: distinct_map inj_on_def)
      show "t = u"
        using eq same_id same_name free t u Some by (auto simp: list_ex_iff split: if_splits)
    qed
    moreover have "distinct (db_tenants db)" using d by (simp add: distinct_map)
    ultimately show ?thesis by (simp add: distinct_map inj_on_def)
  qed
  moreover define xs where "xs = map ?f (db_tenants db)"
  ultimately show "db_ok db'"
    using ok m s unfolding db' xs_def [symmetric] by (simp add: db_ok_def has_tenant_def)
qed

lemma upsert_provider_key_ok [au_frames]: "stmt_keeps db_ok (q_upsert_provider_key now tenant provider alias enc i)"
proof (unfold stmt_keeps_def, intro allI impI)
  fix db x db' assume ok: "db_ok db" and q: "q_upsert_provider_key now tenant provider alias enc i db = Inr (x, db')"
  let ?al = "case alias of None \<Rightarrow> ''default'' | Some a \<Rightarrow> a"
  let ?same = "\<lambda>k. pk_tenant_id k = tenant \<and> pk_provider_name k = provider \<and> pk_key_alias k = ?al"
  show "db_ok db'"
  proof (cases "find ?same (db_provider_keys db)")
    case None
    then have new: "(tenant, provider, ?al) \<notin>
        (\<lambda>k. (pk_tenant_id k, pk_provider_name k, pk_key_alias k)) ` set (db_provider_keys db)"
      by (auto simp: find_None_iff)
    obtain k where k: "db' = db\<lparr>db_provider_keys := db_provider_keys db @ [k]\<rparr>" "pk_tenant_id k = tenant"
      "pk_provider_name k = provider" "pk_key_alias k = ?al" "list_ex (\<lambda>t. tn_id t = tenant) (db_tenants db)"
      using q None by (auto simp: q_upsert_provider_key_def Let_def split: if_splits)
    have "has_tenant db tenant" using k(5) by (force simp: has_tenant_def list_ex_iff)
    with ok new k(2-4) show ?thesis unfolding k(1) by (simp add: db_ok_def has_tenant_def)
  next
    case (Some k)
    then have db': "db' = db\<lparr>db_provider_keys :=
        map (\<lambda>k. if ?same k then k\<lparr>pk_encrypted_key := enc\<rparr> else k) (db_provider_keys db)\<rparr>"
      using q by (auto simp: q_upsert_provider_key_def Let_def split: if_splits)
    define xs where "xs = map (\<lambda>k. if ?same k then k\<lparr>pk_encrypted_key := enc\<rparr> else k) (db_provider_keys db)"
    have "map (\<lambda>k. (pk_tenant_id k, pk_provider_name k, pk_key_alias k)) xs =
        map (\<lambda>k. (pk_tenant_id k, pk_provider_name k, pk_key_alias k)) (db_provider_keys db)"
      by (simp add: xs_def)
    moreover have "\<forall>k \<in> set xs. has_tenant db (pk_tenant_id k)" using ok by (auto simp: xs_def db_ok_def)
    ultimately show ?thesis
      using ok unfolding db' xs_def [symmetric] by (simp add: db_ok_def has_tenant_def)
  qed
qed

lemma upsert_route_ok [au_frames]: "stmt_keeps db_ok (q_upsert_route now tenant provider enc i)"
proof (unfold stmt_keeps_def, intro allI impI)
  fix db x db' assume ok: "db_ok db" and q: "q_upsert_route now tenant provider enc i db = Inr (x, db')"
  let ?same = "\<lambda>r. lr_tenant_id r = tenant \<and> lr_provider r = provider"
  show "db_ok db'"
  proof (cases "list_ex ?same (db_llm_routes db)")
    case False
    then show ?thesis using ok q
      by (fastforce simp: q_upsert_route_def Let_def db_ok_def has_tenant_def list_ex_iff split: if_splits)
  next
    case True
    then have db': "db' = db\<lparr>db_llm_routes :=
        map (\<lambda>r. if ?same r then r\<lparr>lr_encrypted_api_key := Some enc\<rparr> else r) (db_llm_routes db)\<rparr>"
      using q by (auto simp: q_upsert_route_def Let_def split: if_splits)
    define xs where "xs = map (\<lambda>r. if ?same r then r\<lparr>lr_encrypted_api_key := Some enc\<rparr> else r) (db_llm_routes db)"
    have "map (\<lambda>r. (lr_tenant_id r, lr_provider r)) xs = map (\<lambda>r. (lr_tenant_id r, lr_provider r)) (db_llm_routes db)"
      by (simp add: xs_def)
    moreover have "\<forall>r \<in> set xs. lr_provider r \<in> set route_providers \<and> has_tenant db (lr_tenant_id r)"
      using ok by (auto simp: xs_def db_ok_def)
    ultimately show ?thesis
      using ok unfolding db' xs_def [symmetric] by (simp add: db_ok_def has_tenant_def)
  qed
qed

end
