(* ===== verification/Auth_Api.thy ===== *)
theory Auth_Api
  imports Auth_Db
begin

text \<open>
  The handlers of the auth service (\<open>redeye_auth/src/api/handlers.rs\<close>) and their routes
  (\<open>api/router.rs\<close>). A handler gets the payload its extractor read; \<open>protected_route\<close> puts the
  middleware in front of it.
\<close>

section \<open>Payloads\<close>

record signup_request =
  sq_email :: string
  sq_password :: string
  sq_company_name :: string

record login_request =
  lq_email :: string
  lq_password :: string

record onboard_request =
  oq_account_type :: string
  oq_provider :: string
  oq_api_key :: string
  oq_workspace_name :: "string option"

record provider_key_request =
  kq_provider_name :: string
  kq_api_key :: string
  kq_key_alias :: string

record otp_verify =
  vq_email :: string
  vq_otp_code :: string

section \<open>Responses\<close>

record auth_response =
  ar_id :: string
  ar_email :: string
  ar_tenant_id :: string
  ar_workspace_name :: string
  ar_onboarding_complete :: bool
  ar_token :: string
  ar_redeye_api_key :: "string option"

definition auth_response_json :: "auth_response \<Rightarrow> json" where
  "auth_response_json r = jobject
     [(''id'', JStr (ar_id r)), (''email'', JStr (ar_email r)), (''tenant_id'', JStr (ar_tenant_id r)),
      (''workspace_name'', JStr (ar_workspace_name r)), (''onboarding_complete'', JBool (ar_onboarding_complete r)),
      (''token'', JStr (ar_token r)),
      (''redeye_api_key'', case ar_redeye_api_key r of None \<Rightarrow> JNull | Some k \<Rightarrow> JStr k)]"

definition with_headers :: "headers \<Rightarrow> response \<Rightarrow> response" where
  "with_headers hs r = r\<lparr>rheaders := rheaders r @ hs\<rparr>"

text \<open>\<open>Redirect::to\<close> answers 303 and panics on a target that is not visible text.\<close>

definition redirect_to :: "string \<Rightarrow> response au" where
  "redirect_to url =
     (if list_all hdr_visible url then au_ret \<lparr>rstatus = 303, rheaders = [(''location'', url)], rbody = BEmpty\<rparr>
      else au_panic)"

section \<open>Sessions\<close>

text \<open>
  A new session: the token, the stored digest of the refresh token, and both cookies; the
  handlers repeat these steps.
\<close>

definition start_session :: "auth_cfg \<Rightarrow> auth_io \<Rightarrow> string \<Rightarrow> string \<Rightarrow> (string \<times> string \<times> string) au" where
  "start_session ac io user_id tenant_id =
     au_bind (au_lift (generate_jwt ac (io_now io) user_id tenant_id)) (\<lambda>token.
     let rt = generate_refresh_token ac io in
     au_bind (au_call io (q_insert_refresh (io_now io) user_id (snd rt))) (\<lambda>_.
     au_ret (token, create_cookie_header ac ''refresh_token'' (fst rt) jwt_max_age_secs ''Strict'',
             create_cookie_header ac ''re_token'' token jwt_max_age_secs ''Lax'')))"

definition signup :: "auth_cfg \<Rightarrow> auth_io \<Rightarrow> signup_request \<Rightarrow> response au" where
  "signup ac io q =
     au_bind (au_call io (\<lambda>_. q_email_exists (sq_email q))) (\<lambda>taken.
     if taken then au_fail (AeConflict ''Email already registered'')
     else au_bind (au_call io (\<lambda>_. q_workspace_exists (sq_company_name q))) (\<lambda>named.
     if named then au_fail (AeConflict ''Workspace name already taken'')
     else au_bind (au_lift (hash_password ac (io_salt io) (sq_password q))) (\<lambda>hash.
     au_bind (au_transaction io (
       au_bind (au_call io (q_insert_tenant (io_now io) (sq_company_name q))) (\<lambda>tenant_id.
       au_bind (au_call io (q_insert_user (io_now io) (sq_email q) (Some hash) tenant_id ''email_password'' None)) (\<lambda>user_id.
       au_ret (user_id, tenant_id))))) (\<lambda>(user_id, tenant_id).
     au_bind (start_session ac io user_id tenant_id) (\<lambda>(token, refresh_cookie, jwt_cookie).
     au_bind (set_cookies [refresh_cookie, jwt_cookie]) (\<lambda>hs.
     au_ret (with_headers hs (json_response 200 (auth_response_json
       \<lparr>ar_id = user_id, ar_email = sq_email q, ar_tenant_id = tenant_id, ar_workspace_name = sq_company_name q,
        ar_onboarding_complete = False, ar_token = token, ar_redeye_api_key = None\<rparr>)))))))))"

text \<open>\<open>get("password_hash")\<close> as a string panics on a null.\<close>

definition login :: "auth_cfg \<Rightarrow> auth_io \<Rightarrow> login_request \<Rightarrow> response au" where
  "login ac io q =
     au_bind (au_call io (\<lambda>_. q_login (lq_email q))) (\<lambda>row.
     case row of
       None \<Rightarrow> au_fail (AeUnauthorized ''Invalid email or password'')
     | Some (u, t) \<Rightarrow>
         (case us_password_hash u of
            None \<Rightarrow> au_panic
          | Some hash \<Rightarrow>
              au_bind (au_lift (verify_password ac hash (lq_password q))) (\<lambda>valid.
              if \<not> valid then au_fail (AeUnauthorized ''Invalid email or password'')
              else au_bind (start_session ac io (us_id u) (us_tenant_id u)) (\<lambda>(token, refresh_cookie, jwt_cookie).
              au_bind (set_cookies [refresh_cookie, jwt_cookie]) (\<lambda>hs.
              au_ret (with_headers hs (json_response 200 (auth_response_json
                \<lparr>ar_id = us_id u, ar_email = lq_email q, ar_tenant_id = us_tenant_id u, ar_workspace_name = tn_name t,
                 ar_onboarding_complete = tn_onboarding_status t, ar_token = token, ar_redeye_api_key = None\<rparr>))))))))"

text \<open>The value of a named cookie of a request.\<close>

definition cookie_value :: "string \<Rightarrow> string \<Rightarrow> string option" where
  "cookie_value name cookies =
     first_of (List.map_filter (\<lambda>c. strip_prefix (trim_ws c) (name @ ''='')) (split_char (CHR 0x3B) cookies))"

definition refresh :: "auth_cfg \<Rightarrow> auth_io \<Rightarrow> headers \<Rightarrow> response au" where
  "refresh ac io hs =
     au_bind (au_lift (ok_or (hdr_str hs ''cookie'') (AeUnauthorized ''Missing refresh token cookie''))) (\<lambda>cookies.
     au_bind (au_lift (ok_or (cookie_value ''refresh_token'' cookies) (AeUnauthorized ''Refresh token cookie not found''))) (\<lambda>raw.
     let old_hash = ac_sha ac raw in
     au_bind (au_call io (\<lambda>_. q_refresh_user (io_now io) old_hash)) (\<lambda>row.
     case row of
       None \<Rightarrow> au_fail (AeUnauthorized ''Invalid or expired refresh token'')
     | Some user_id \<Rightarrow>
         au_bind (au_call io (\<lambda>_. q_delete_refresh old_hash)) (\<lambda>_.
         au_bind (au_call io (\<lambda>_. q_user user_id)) (\<lambda>u.
         au_bind (au_call io (\<lambda>_. q_tenant (us_tenant_id u))) (\<lambda>t.
         au_bind (start_session ac io user_id (us_tenant_id u)) (\<lambda>(token, refresh_cookie, jwt_cookie).
         au_bind (set_cookies [jwt_cookie, refresh_cookie]) (\<lambda>hs.
         au_ret (with_headers hs (json_response 200 (auth_response_json
           \<lparr>ar_id = user_id, ar_email = us_email u, ar_tenant_id = us_tenant_id u, ar_workspace_name = tn_name t,
            ar_onboarding_complete = tn_onboarding_status t, ar_token = token, ar_redeye_api_key = None\<rparr>)))))))))))"

section \<open>Onboarding\<close>

definition claim_ids :: "auth_cfg \<Rightarrow> claims \<Rightarrow> auth_error + string \<times> string" where
  "claim_ids ac c =
     res_bind (ok_or (ac_uuid ac (cl_tenant_id c)) (AeInternal ''Invalid tenant ID in token'')) (\<lambda>t.
     res_bind (ok_or (ac_uuid ac (cl_sub c)) (AeInternal ''Invalid user ID in token'')) (\<lambda>u.
     Inr (t, u)))"

definition virtual_key_name :: "string \<Rightarrow> string option \<Rightarrow> string" where
  "virtual_key_name acct workspace =
     (if acct = ''team'' then (case workspace of Some n \<Rightarrow> n @ '' Key'' | None \<Rightarrow> ''Team Key'') else ''Default'')"

definition checked_provider_key :: "auth_cfg \<Rightarrow> auth_io \<Rightarrow> string \<Rightarrow> string \<Rightarrow> string au" where
  "checked_provider_key ac io provider key =
     (case validate_api_key (io_net io) provider key of
        Inl e \<Rightarrow> au_fail (AeInternal e)
      | Inr valid \<Rightarrow>
          if \<not> valid then au_fail (AeBadRequest ''Invalid Provider API Key'')
          else au_lift (encrypt_api_key ac (io_nonce io) key))"

definition onboard_tables ::
  "auth_io \<Rightarrow> string \<Rightarrow> onboard_request \<Rightarrow> string \<Rightarrow> string \<Rightarrow> string \<Rightarrow> string au" where
  "onboard_tables io tenant_id q acct enc key_hash =
     au_bind (au_call io (\<lambda>_. q_onboard_tenant (if acct = ''team'' then Team else Individual) (oq_workspace_name q) tenant_id)) (\<lambda>_.
     au_bind (case oq_workspace_name q of
         Some n \<Rightarrow> au_ret n
       | None \<Rightarrow> au_bind (au_call io (\<lambda>_. q_tenant tenant_id)) (\<lambda>t. au_ret (tn_name t))) (\<lambda>name.
     au_bind (au_call io (q_upsert_provider_key (io_now io) tenant_id (oq_provider q) None enc)) (\<lambda>_.
     au_bind (au_call io (q_insert_api_key (io_now io) tenant_id key_hash (virtual_key_name acct (oq_workspace_name q)))) (\<lambda>_.
     au_bind (au_call io (q_upsert_route (io_now io) tenant_id (oq_provider q) enc)) (\<lambda>_.
     au_ret name)))))"

definition onboard :: "auth_cfg \<Rightarrow> auth_io \<Rightarrow> claims \<Rightarrow> onboard_request \<Rightarrow> response au" where
  "onboard ac io c q =
     au_bind (au_lift (claim_ids ac c)) (\<lambda>(tenant_id, user_id).
     let acct = ac_lc ac (oq_account_type q) in
     if acct \<noteq> ''individual'' \<and> acct \<noteq> ''team'' then
       au_fail (AeBadRequest (''account_type must be '' @ [CHR 0x27] @ ''individual'' @ [CHR 0x27] @ '' or '' @
         [CHR 0x27] @ ''team'' @ [CHR 0x27]))
     else au_bind (checked_provider_key ac io (oq_provider q) (oq_api_key q)) (\<lambda>enc.
     let key = generate_redeye_api_key io; key_hash = hash_api_key ac key in
     au_bind (au_transaction io (onboard_tables io tenant_id q acct enc key_hash)) (\<lambda>name.
     au_bind (au_call io (\<lambda>_. q_user user_id)) (\<lambda>u.
     au_bind (au_lift (generate_jwt ac (io_now io) user_id tenant_id)) (\<lambda>token.
     au_ret (json_response 200 (auth_response_json
       \<lparr>ar_id = user_id, ar_email = us_email u, ar_tenant_id = tenant_id, ar_workspace_name = name,
        ar_onboarding_complete = True, ar_token = token, ar_redeye_api_key = Some key\<rparr>)))))))"

section \<open>Keys\<close>

definition tenant_of_claims :: "auth_cfg \<Rightarrow> claims \<Rightarrow> auth_error + string" where
  "tenant_of_claims ac c = ok_or (ac_uuid ac (cl_tenant_id c)) (AeInternal ''Invalid tenant ID in token'')"

definition get_api_keys :: "auth_cfg \<Rightarrow> auth_io \<Rightarrow> claims \<Rightarrow> response au" where
  "get_api_keys ac io c =
     au_bind (au_lift (tenant_of_claims ac c)) (\<lambda>tenant_id.
     au_bind (au_call io (\<lambda>_. q_api_keys tenant_id)) (\<lambda>rows.
     au_ret (json_response 200 (JArr (map (\<lambda>k. jobject
       [(''id'', JStr (ak_id k)), (''name'', JStr (ak_name k)), (''key_hash'', JStr (ak_key_hash k)),
        (''created_at'', JStr (ac_rfc3339 ac (ak_created_at k))), (''status'', JStr ''Active'')]) rows)))))"

definition provider_key_json :: "auth_cfg \<Rightarrow> provider_key \<Rightarrow> json" where
  "provider_key_json ac k = jobject
     [(''id'', JStr (pk_id k)), (''provider_name'', JStr (pk_provider_name k)), (''key_alias'', JStr (pk_key_alias k)),
      (''created_at'', JStr (ac_rfc3339 ac (pk_created_at k)))]"

definition add_provider_key :: "auth_cfg \<Rightarrow> auth_io \<Rightarrow> claims \<Rightarrow> provider_key_request \<Rightarrow> response au" where
  "add_provider_key ac io c q =
     au_bind (au_lift (tenant_of_claims ac c)) (\<lambda>tenant_id.
     if trim_ws (kq_key_alias q) = [] then
       au_fail (AeBadRequest ([CHR 0x60] @ ''key_alias'' @ [CHR 0x60] @ '' must not be blank''))
     else au_bind (checked_provider_key ac io (kq_provider_name q) (kq_api_key q)) (\<lambda>enc.
     au_bind (au_call io (q_upsert_provider_key (io_now io) tenant_id (kq_provider_name q) (Some (kq_key_alias q)) enc)) (\<lambda>k.
     au_ret (json_response 200 (provider_key_json ac k)))))"

definition get_provider_keys :: "auth_cfg \<Rightarrow> auth_io \<Rightarrow> claims \<Rightarrow> response au" where
  "get_provider_keys ac io c =
     au_bind (au_lift (tenant_of_claims ac c)) (\<lambda>tenant_id.
     au_bind (au_call io (\<lambda>_. q_provider_keys tenant_id)) (\<lambda>rows.
     au_ret (json_response 200 (JArr (map (provider_key_json ac) rows)))))"

section \<open>One-time passwords\<close>

definition otp_code :: "auth_io \<Rightarrow> string" where
  "otp_code io = concat (map (\<lambda>i. show_nat (io_digit io i)) [0..<6])"

definition otp_lifetime :: nat where "otp_lifetime = 10 * 60 * 1000000"

definition otp_html :: "string \<Rightarrow> string" where
  "otp_html code =
     (let q = [CHR 0x22]; nl = [CHR 0x0A] @ replicate 12 (CHR 0x20) in
      ''<div style='' @ q @ ''font-family: sans-serif; max-width: 500px; margin: 0 auto;'' @ q @ ''>'' @ nl @
      ''<h2>Welcome to RedEye Gateway</h2>'' @ nl @
      ''<p>Your magic login code is:</p>'' @ nl @
      ''<h1 style='' @ q @ ''font-size: 40px; letter-spacing: 5px; color: #22d3ee;'' @ q @ ''>'' @ code @ ''</h1>'' @ nl @
      ''<p>This code will expire in 10 minutes.</p>'' @ [CHR 0x0A] @ replicate 8 (CHR 0x20) @ ''</div>'')"

definition otp_mail :: "auth_cfg \<Rightarrow> string \<Rightarrow> string \<Rightarrow> upstream_req" where
  "otp_mail ac to code =
     \<lparr>ur_url = ''https://api.resend.com/emails'',
      ur_headers = [(''authorization'', ''Bearer '' @ str_or [] (ac_env ac ''RESEND_API_KEY'')),
                    (''content-type'', ''application/json'')],
      ur_body = print_value (ac_sd ac) (jobject
        [(''from'', JStr ''RedEye Auth <onboarding@resend.dev>''), (''to'', JArr [JStr to]),
         (''subject'', JStr ''Your RedEye Login Code''), (''html'', JStr (otp_html code))])\<rparr>"

text \<open>A refusal of the mail service is only logged.\<close>

definition send_real_otp_email :: "auth_cfg \<Rightarrow> auth_io \<Rightarrow> string \<Rightarrow> string \<Rightarrow> unit au" where
  "send_real_otp_email ac io to code s =
     (let rq = otp_mail ac to code; s1 = s\<lparr>au_mail := au_mail s @ (if sendable rq then [rq] else [])\<rparr> in
      case send_request (io_net io) rq of
        HErr _ \<Rightarrow> (Inl (Failed (AeInternal ''Failed to send email'')), s1)
      | HOk _ \<Rightarrow> (Inr (), s1))"

definition request_otp :: "auth_cfg \<Rightarrow> auth_io \<Rightarrow> string \<Rightarrow> response au" where
  "request_otp ac io email =
     au_bind (au_call io (q_insert_otp (io_now io) email (otp_code io) (io_now io + otp_lifetime))) (\<lambda>_.
     au_bind (send_real_otp_email ac io email (otp_code io)) (\<lambda>_.
     au_ret (json_response 200 (jobject [(''message'', JStr ''OTP sent to email successfully'')]))))"

text \<open>
  The account of an address, made when there is none: its user, tenant, workspace name and
  onboarding status. An existing account is marked with the external provider it came by.
\<close>

definition account_of ::
  "auth_io \<Rightarrow> string \<Rightarrow> string \<Rightarrow> string option \<Rightarrow> (string \<times> string \<times> string \<times> bool) au" where
  "account_of io email provider sub =
     au_bind (au_call io (\<lambda>_. q_user_by_email email)) (\<lambda>row.
     case row of
       Some u \<Rightarrow>
         au_bind (au_call io (\<lambda>_. q_tenant (us_tenant_id u))) (\<lambda>t.
         au_bind (case sub of None \<Rightarrow> au_ret () | Some p \<Rightarrow> au_call io (\<lambda>_. q_set_provider provider p (us_id u))) (\<lambda>_.
         au_ret (us_id u, us_tenant_id u, tn_name t, tn_onboarding_status t)))
     | None \<Rightarrow>
         au_bind (au_call io (q_insert_tenant (io_now io) ''My Workspace'')) (\<lambda>tenant_id.
         au_bind (au_call io (q_insert_user (io_now io) email None tenant_id provider sub)) (\<lambda>user_id.
         au_ret (user_id, tenant_id, ''My Workspace'', False))))"

definition verify_otp :: "auth_cfg \<Rightarrow> auth_io \<Rightarrow> otp_verify \<Rightarrow> response au" where
  "verify_otp ac io q =
     au_bind (au_call io (\<lambda>_. q_find_otp (io_now io) (vq_email q) (vq_otp_code q))) (\<lambda>found.
     if \<not> found then au_fail (AeUnauthorized ''Invalid or expired OTP'')
     else au_bind (au_transaction io (
       au_bind (au_call io (\<lambda>_. q_delete_otp (vq_email q) (vq_otp_code q))) (\<lambda>_.
       account_of io (vq_email q) ''email_otp'' None))) (\<lambda>(user_id, tenant_id, name, onboarded).
     au_bind (start_session ac io user_id tenant_id) (\<lambda>(token, refresh_cookie, jwt_cookie).
     au_bind (set_cookies [refresh_cookie, jwt_cookie]) (\<lambda>hs.
     au_ret (with_headers hs (json_response 200 (auth_response_json
       \<lparr>ar_id = user_id, ar_email = vq_email q, ar_tenant_id = tenant_id, ar_workspace_name = name,
        ar_onboarding_complete = onboarded, ar_token = token, ar_redeye_api_key = None\<rparr>)))))))"

section \<open>External accounts\<close>

record oauth_client =
  oc_id :: string
  oc_secret :: string
  oc_auth_url :: string
  oc_token_url :: string
  oc_redirect :: string

text \<open>A redirection address that is not a URL panics.\<close>

definition google_oauth_client :: "auth_cfg \<Rightarrow> oauth_client au" where
  "google_oauth_client ac =
     (let redirect = str_or ''http://localhost:8084/v1/auth/google/callback'' (ac_env ac ''GOOGLE_REDIRECT_URI'') in
      if \<not> ac_url_ok ac redirect then au_panic
      else au_ret \<lparr>oc_id = str_or [] (ac_env ac ''GOOGLE_CLIENT_ID''),
        oc_secret = str_or [] (ac_env ac ''GOOGLE_CLIENT_SECRET''),
        oc_auth_url = ''https://accounts.google.com/o/oauth2/v2/auth'',
        oc_token_url = ''https://oauth2.googleapis.com/token'', oc_redirect = redirect\<rparr>)"

definition github_oauth_client :: "auth_cfg \<Rightarrow> oauth_client au" where
  "github_oauth_client ac =
     (let redirect = str_or ''http://localhost:8084/v1/auth/github/callback'' (ac_env ac ''GITHUB_REDIRECT_URI'') in
      if \<not> ac_url_ok ac redirect then au_panic
      else au_ret \<lparr>oc_id = str_or [] (ac_env ac ''GITHUB_CLIENT_ID''),
        oc_secret = str_or [] (ac_env ac ''GITHUB_CLIENT_SECRET''),
        oc_auth_url = ''https://github.com/login/oauth/authorize'',
        oc_token_url = ''https://github.com/login/oauth/access_token'', oc_redirect = redirect\<rparr>)"

definition oauth_login :: "auth_cfg \<Rightarrow> auth_io \<Rightarrow> oauth_client au \<Rightarrow> string list \<Rightarrow> response au" where
  "oauth_login ac io client scopes =
     au_bind client (\<lambda>oc.
     au_bind (set_cookies [create_cookie_header ac ''oauth_state'' (io_csrf io) 600 ''Lax'']) (\<lambda>hs.
     au_bind (redirect_to (ac_authorize ac (oc_id oc) (oc_auth_url oc) (oc_redirect oc) scopes (io_csrf io))) (\<lambda>r.
     au_ret (with_headers hs r))))"

definition google_login :: "auth_cfg \<Rightarrow> auth_io \<Rightarrow> response au" where
  "google_login ac io = oauth_login ac io (google_oauth_client ac) [''email'', ''profile'']"

definition github_login :: "auth_cfg \<Rightarrow> auth_io \<Rightarrow> response au" where
  "github_login ac io = oauth_login ac io (github_oauth_client ac) [''user:email'']"

record oauth_callback_query =
  cq_code :: string
  cq_state :: string

text \<open>The check of the state against the cookie, and the exchange of the code for an access token.\<close>

definition oauth_access :: "auth_cfg \<Rightarrow> auth_io \<Rightarrow> oauth_client au \<Rightarrow> oauth_callback_query \<Rightarrow> headers \<Rightarrow> string au" where
  "oauth_access ac io client q hs =
     au_bind (au_lift (ok_or (hdr_str hs ''cookie'') (AeUnauthorized ''Missing OAuth state cookie''))) (\<lambda>cookies.
     au_bind (au_lift (ok_or (cookie_value ''oauth_state'' cookies) (AeUnauthorized ''OAuth state cookie not found''))) (\<lambda>saved.
     if cq_state q \<noteq> saved then au_fail (AeUnauthorized ''Invalid CSRF state'')
     else au_bind client (\<lambda>oc.
     au_lift (ok_or (io_exchange io (oc_token_url oc) (cq_code q)) (AeUnauthorized ''OAuth failed: '')))))"

definition fetch_json :: "auth_cfg \<Rightarrow> auth_io \<Rightarrow> string \<Rightarrow> headers \<Rightarrow> json au" where
  "fetch_json ac io url hs =
     (case send_request (io_net io) \<lparr>ur_url = url, ur_headers = hs, ur_body = []\<rparr> of
        HErr _ \<Rightarrow> au_fail (AeInternal [])
      | HOk resp \<Rightarrow> au_lift (ok_or (reply_json (ac_sd ac) resp) (AeInternal [])))"

definition google_identity :: "auth_cfg \<Rightarrow> auth_io \<Rightarrow> string \<Rightarrow> (string \<times> string) au" where
  "google_identity ac io token =
     au_bind (fetch_json ac io ''https://www.googleapis.com/oauth2/v3/userinfo''
         [(''authorization'', ''Bearer '' @ token)]) (\<lambda>info.
     let email = str_or [] (jget_str info ''email'') in
     if email = [] then au_fail (AeUnauthorized ''No email from Google'')
     else au_ret (email, str_or [] (jget_str info ''sub'')))"

definition primary_email :: "json list \<Rightarrow> string" where
  "primary_email es =
     (case find (\<lambda>e. Option.bind (jget e ''primary'') as_bool = Some True) es of
        None \<Rightarrow> [] | Some e \<Rightarrow> str_or [] (jget_str e ''email''))"

definition github_identity :: "auth_cfg \<Rightarrow> auth_io \<Rightarrow> string \<Rightarrow> (string \<times> string) au" where
  "github_identity ac io token =
     (let hs = [(''authorization'', ''Bearer '' @ token), (''user-agent'', ''RedEye-Auth-Backend'')] in
      au_bind (fetch_json ac io ''https://api.github.com/user'' hs) (\<lambda>info.
      let sub = (case jget info ''id'' of None \<Rightarrow> [] | Some v \<Rightarrow> print_value (ac_sd ac) v);
          public = str_or [] (jget_str info ''email'') in
      au_bind (if public \<noteq> [] then au_ret public
        else au_bind (fetch_json ac io ''https://api.github.com/user/emails'' hs) (\<lambda>v.
          au_lift (ok_or (map_option primary_email (as_arr v)) (AeInternal [])))) (\<lambda>email.
      if email = [] then au_fail (AeUnauthorized ''No primary email from GitHub'')
      else au_ret (email, sub))))"

text \<open>The rest of both callbacks: the account, the session, the three cookies and the redirection.\<close>

definition oauth_finish ::
  "auth_cfg \<Rightarrow> auth_io \<Rightarrow> string \<Rightarrow> (bool \<Rightarrow> string) \<Rightarrow> string \<times> string \<Rightarrow> response au" where
  "oauth_finish ac io provider path identity =
     au_bind (au_transaction io (account_of io (fst identity) provider (Some (snd identity)))) (\<lambda>(user_id, tenant_id, name, onboarded).
     au_bind (start_session ac io user_id tenant_id) (\<lambda>(token, refresh_cookie, jwt_cookie).
     au_bind (set_cookies [refresh_cookie, create_cookie_header ac ''oauth_state'' [] 0 ''Lax'', jwt_cookie]) (\<lambda>hs.
     au_bind (redirect_to (str_or ''http://localhost:5173'' (ac_env ac ''DASHBOARD_URL'') @ path onboarded @
         ''?onboarding_complete='' @ (if onboarded then ''true'' else ''false''))) (\<lambda>r.
     au_ret (with_headers hs r)))))"

definition google_callback :: "auth_cfg \<Rightarrow> auth_io \<Rightarrow> oauth_callback_query \<Rightarrow> headers \<Rightarrow> response au" where
  "google_callback ac io q hs =
     au_bind (oauth_access ac io (google_oauth_client ac) q hs) (\<lambda>token.
     au_bind (google_identity ac io token) (oauth_finish ac io ''google'' (\<lambda>_. ''/oauth/callback'')))"

definition github_callback :: "auth_cfg \<Rightarrow> auth_io \<Rightarrow> oauth_callback_query \<Rightarrow> headers \<Rightarrow> response au" where
  "github_callback ac io q hs =
     au_bind (oauth_access ac io (github_oauth_client ac) q hs) (\<lambda>token.
     au_bind (github_identity ac io token)
       (oauth_finish ac io ''github'' (\<lambda>done. if done then ''/dashboard'' else ''/onboarding'')))"

section \<open>Protected routes\<close>

text \<open>Without the claims in its extensions a handler is not run and the answer is 500.\<close>

definition protected_route ::
  "auth_cfg \<Rightarrow> auth_io \<Rightarrow> (claims \<Rightarrow> response au) \<Rightarrow> http_request \<Rightarrow> au_state \<Rightarrow> response option \<times> au_state" where
  "protected_route ac io handler rq st =
     auth_service_middleware ac (io_now io)
       (\<lambda>rq st. case hq_claims rq of
          None \<Rightarrow> (Some (status_response 500), st)
        | Some c \<Rightarrow> au_response (handler c st))
       (rq\<lparr>hq_claims := None\<rparr>) st"

end
