(* ===== verification/Auth_Laws.thy ===== *)
theory Auth_Laws
  imports Auth_Api
begin

text \<open>
  Laws of the auth service's handlers: each keeps the integrity of the tables, and what a
  new session, a rotation and an account lookup do.
\<close>

section \<open>Integrity\<close>

lemma au_keeps_cases [au_frames]:
  "(c \<Longrightarrow> au_keeps P m) \<Longrightarrow> (\<not> c \<Longrightarrow> au_keeps P m') \<Longrightarrow> au_keeps P (if c then m else m')"
  "au_keeps P n \<Longrightarrow> (\<And>x. au_keeps P (f x)) \<Longrightarrow> au_keeps P (case y of None \<Rightarrow> n | Some x \<Rightarrow> f x)"
  "(\<And>x y. au_keeps P (g x y)) \<Longrightarrow> au_keeps P (case p of (x, y) \<Rightarrow> g x y)"
  "(\<And>x. au_keeps P (h x)) \<Longrightarrow> (\<And>x. au_keeps P (k x)) \<Longrightarrow> au_keeps P (case s of Inl x \<Rightarrow> h x | Inr x \<Rightarrow> k x)"
  "au_keeps P (l z) \<Longrightarrow> au_keeps P (Let z l)"
  by (auto split: option.split prod.split sum.split)

lemma au_keeps_io [au_frames]:
  "au_keeps P (set_cookies cs)" "au_keeps P (redirect_to url)" "au_keeps P (send_real_otp_email ac io to code)"
  "au_keeps P (fetch_json ac io url hs)" "au_keeps P (google_oauth_client ac)" "au_keeps P (github_oauth_client ac)"
  by (auto simp: au_keeps_def set_cookies_def redirect_to_def send_real_otp_email_def fetch_json_def
      google_oauth_client_def github_oauth_client_def Let_def split: http_result.split)

text \<open>
  A property of the tables that every writing statement of a request keeps is kept by its
  handler. \<open>mails\<close> limits the addresses one-time passwords are requested for.
\<close>

locale table_invariant =
  fixes P :: "auth_db \<Rightarrow> bool" and ac :: auth_cfg and io :: auth_io and mails :: "string \<Rightarrow> bool"
  assumes tenant_in: "stmt_keeps P (q_insert_tenant (io_now io) name i)"
    and user_in: "stmt_keeps P (q_insert_user (io_now io) email hash tenant provider pid i)"
    and provider_set: "stmt_keeps P (q_set_provider provider sub u)"
    and refresh_in: "stmt_keeps P (q_insert_refresh (io_now io) u (ac_sha ac (io_token io)) i)"
    and refresh_out: "stmt_keeps P (q_delete_refresh h)"
    and otp_in: "mails email \<Longrightarrow> stmt_keeps P (q_insert_otp (io_now io) email (otp_code io) expires i)"
    and otp_out: "stmt_keeps P (q_delete_otp email code)"
    and onboarded: "stmt_keeps P (q_onboard_tenant acct n t)"
    and provider_key_in: "stmt_keeps P (q_upsert_provider_key (io_now io) tenant provider alias enc i)"
    and api_key_in: "stmt_keeps P (q_insert_api_key (io_now io) tenant h name i)"
    and route_in: "stmt_keeps P (q_upsert_route (io_now io) tenant provider enc i)"
begin

lemma token_in: "stmt_keeps P (q_insert_refresh (io_now io) u (snd (generate_refresh_token ac io)) i)"
  by (simp add: generate_refresh_token_def refresh_in)

lemmas statements = tenant_in user_in provider_set token_in refresh_out otp_out onboarded
  provider_key_in api_key_in route_in

lemma sessions:
  "au_keeps P (start_session ac io u t)"
  "au_keeps P (account_of io email provider sub)"
  "au_keeps P (onboard_tables io t q acct enc h)"
  unfolding start_session_def account_of_def onboard_tables_def
  by (intro au_frames statements)+

lemma external:
  "au_keeps P (oauth_access ac io (google_oauth_client ac) q hs)"
  "au_keeps P (oauth_access ac io (github_oauth_client ac) q hs)"
  "au_keeps P (google_identity ac io token)" "au_keeps P (github_identity ac io token)"
  "au_keeps P (checked_provider_key ac io p k)" "au_keeps P (oauth_finish ac io p path ident)"
  unfolding oauth_access_def google_identity_def github_identity_def checked_provider_key_def oauth_finish_def
  by (intro au_frames sessions)+

lemma handlers:
  "au_keeps P (signup ac io sq)"
  "au_keeps P (login ac io lq)"
  "au_keeps P (refresh ac io hs)"
  "au_keeps P (onboard ac io c oq)"
  "au_keeps P (get_api_keys ac io c)"
  "au_keeps P (add_provider_key ac io c kq)"
  "au_keeps P (get_provider_keys ac io c)"
  "au_keeps P (verify_otp ac io vq)"
  "au_keeps P (google_callback ac io q hs)"
  "au_keeps P (github_callback ac io q hs)"
  unfolding signup_def login_def refresh_def onboard_def get_api_keys_def add_provider_key_def
    get_provider_keys_def verify_otp_def google_callback_def github_callback_def
  by (intro au_frames statements sessions external)+

lemma otp_handler: "mails email \<Longrightarrow> au_keeps P (request_otp ac io email)"
  unfolding request_otp_def by (intro au_frames otp_in)

end

interpretation integrity: table_invariant db_ok ac io "\<lambda>_. True" for ac io
  by unfold_locales (rule au_frames)+

section \<open>Histories\<close>

datatype auth_event =
    EvSignup signup_request
  | EvLogin login_request
  | EvRefresh headers
  | EvOnboard claims onboard_request
  | EvApiKeys claims
  | EvAddKey claims provider_key_request
  | EvProviderKeys claims
  | EvRequestOtp string
  | EvVerifyOtp otp_verify
  | EvGoogle oauth_callback_query headers
  | EvGithub oauth_callback_query headers

fun auth_step :: "auth_cfg \<Rightarrow> auth_io \<Rightarrow> auth_event \<Rightarrow> response au" where
  "auth_step ac io (EvSignup q) = signup ac io q"
| "auth_step ac io (EvLogin q) = login ac io q"
| "auth_step ac io (EvRefresh hs) = refresh ac io hs"
| "auth_step ac io (EvOnboard c q) = onboard ac io c q"
| "auth_step ac io (EvApiKeys c) = get_api_keys ac io c"
| "auth_step ac io (EvAddKey c q) = add_provider_key ac io c q"
| "auth_step ac io (EvProviderKeys c) = get_provider_keys ac io c"
| "auth_step ac io (EvRequestOtp e) = request_otp ac io e"
| "auth_step ac io (EvVerifyOtp q) = verify_otp ac io q"
| "auth_step ac io (EvGoogle q hs) = google_callback ac io q hs"
| "auth_step ac io (EvGithub q hs) = github_callback ac io q hs"

fun auth_run :: "auth_cfg \<Rightarrow> (auth_io \<times> auth_event) list \<Rightarrow> au_state \<Rightarrow> au_state" where
  "auth_run ac [] s = s"
| "auth_run ac ((io, ev) # evs) s = auth_run ac evs (snd (auth_step ac io ev s))"

text \<open>An event draws a new refresh token and may ask for a one-time password.\<close>

fun otp_asked :: "auth_event \<Rightarrow> string option" where
  "otp_asked (EvRequestOtp e) = Some e"
| "otp_asked _ = None"

context table_invariant begin

lemma step: "(\<And>e. otp_asked ev = Some e \<Longrightarrow> mails e) \<Longrightarrow> au_keeps P (auth_step ac io ev)"
  by (cases ev) (auto intro: handlers otp_handler)

end

section \<open>Spent credentials\<close>

definition no_refresh :: "string \<Rightarrow> auth_db \<Rightarrow> bool" where
  "no_refresh h db \<longleftrightarrow> (\<forall>r \<in> set (db_refresh db). rt_token_hash r \<noteq> h)"

definition no_otp :: "string \<Rightarrow> string \<Rightarrow> auth_db \<Rightarrow> bool" where
  "no_otp email code db \<longleftrightarrow> (\<forall>r \<in> set (db_otps db). ot_email r \<noteq> email \<or> ot_code r \<noteq> code)"

lemmas statement_defs = q_insert_tenant_def q_insert_user_def q_set_provider_def q_insert_refresh_def
  q_delete_refresh_def q_insert_otp_def q_delete_otp_def q_onboard_tenant_def q_upsert_provider_key_def
  q_insert_api_key_def q_upsert_route_def

interpretation spent_token: table_invariant
    "\<lambda>db. ac_sha ac (io_token io) = h \<or> no_refresh h db" ac io "\<lambda>_. True" for ac io h
  by unfold_locales
    (auto simp: stmt_keeps_def no_refresh_def statement_defs Let_def split: if_splits option.splits)

interpretation spent_otp: table_invariant
    "no_otp email code" ac io "\<lambda>e. e \<noteq> email \<or> otp_code io \<noteq> code" for ac io email code
  by unfold_locales
    (auto simp: stmt_keeps_def no_otp_def statement_defs Let_def split: if_splits option.splits)

lemma no_refresh_run:
  assumes "no_refresh h (au_db s)" and "\<And>io ev. (io, ev) \<in> set evs \<Longrightarrow> ac_sha ac (io_token io) \<noteq> h"
  shows "no_refresh h (au_db (auth_run ac evs s))"
  using assms
proof (induction ac evs s rule: auth_run.induct)
  case (2 ac io ev evs s)
  have "ac_sha ac (io_token io) \<noteq> h" using "2.prems"(2) [of io ev] by simp
  then have now: "no_refresh h (au_db (snd (auth_step ac io ev s)))"
    using spent_token.step [of ev ac io h] "2.prems"(1) by (simp add: au_keeps_def)
  have "ac_sha ac (io_token io') \<noteq> h" if "(io', ev') \<in> set evs" for io' ev'
    using "2.prems"(2) [of io' ev'] that by simp
  from "2.IH" [OF now this] show ?case by simp
qed simp

lemma no_otp_run:
  assumes "no_otp email code (au_db s)"
    and "\<And>io. (io, EvRequestOtp email) \<in> set evs \<Longrightarrow> otp_code io \<noteq> code"
  shows "no_otp email code (au_db (auth_run ac evs s))"
  using assms
proof (induction ac evs s rule: auth_run.induct)
  case (2 ac io ev evs s)
  have "otp_asked ev = Some e \<Longrightarrow> e \<noteq> email \<or> otp_code io \<noteq> code" for e
    using "2.prems"(2) [of io] by (cases ev) auto
  then have "au_keeps (no_otp email code) (auth_step ac io ev)" by (rule spent_otp.step)
  then have now: "no_otp email code (au_db (snd (auth_step ac io ev s)))"
    using "2.prems"(1) by (simp add: au_keeps_def)
  have "otp_code io' \<noteq> code" if "(io', EvRequestOtp email) \<in> set evs" for io'
    using "2.prems"(2) [of io'] that by simp
  from "2.IH" [OF now this] show ?case by simp
qed simp

lemma integrity_run: "db_ok (au_db s) \<Longrightarrow> db_ok (au_db (auth_run ac evs s))"
proof (induction ac evs s rule: auth_run.induct)
  case (2 ac io ev evs s)
  then show ?case using integrity.step [of ev ac io] by (simp add: au_keeps_def)
qed simp

section \<open>Calls that succeed\<close>

lemma au_call_Inr:
  "fst (au_call io q s) = Inr x \<longleftrightarrow> io_fault io (au_calls s) = Delivered \<and>
     (\<exists>db. q (io_id io (au_calls s)) (au_db s) = Inr (x, db))"
  by (cases "io_fault io (au_calls s)") (auto simp: au_call_def Let_def split: sum.split prod.split)

lemma au_call_state:
  "q (io_id io (au_calls s)) (au_db s) = Inr (x, db) \<Longrightarrow> io_fault io (au_calls s) \<noteq> LostRequest \<Longrightarrow>
   snd (au_call io q s) = s\<lparr>au_calls := Suc (au_calls s), au_db := db\<rparr>"
  by (simp add: au_call_def Let_def)

lemma au_call_pure:
  "io_fault io (au_calls s) = Delivered \<Longrightarrow> q (io_id io (au_calls s)) (au_db s) = Inr (x, au_db s) \<Longrightarrow>
   au_call io q s = (Inr x, s\<lparr>au_calls := Suc (au_calls s)\<rparr>)"
  by (simp add: au_call_def Let_def)

lemma au_call_lost:
  "io_fault io (au_calls s) \<noteq> Delivered \<Longrightarrow> fst (au_call io q s) = Inl (Failed (from_sqlx ConnectionError))"
  by (cases "io_fault io (au_calls s)") (auto simp: au_call_def Let_def split: sum.split prod.split)

lemma au_bind_Inl: "fst (m s) = Inl e \<Longrightarrow> au_bind m f s = (Inl e, snd (m s))"
  by (simp add: au_bind_cases)

lemma au_bind_state: "fst (m s) = Inr x \<Longrightarrow> snd (au_bind m f s) = snd (f x (snd (m s)))"
  by (simp add: au_bind_cases)

text \<open>A transaction leaves the tables as they were or as its body made them.\<close>

lemma transaction_atomic:
  obtains (undone) "au_db (snd (au_transaction io m s)) = au_db s"
  | (committed) x where "fst (m (s\<lparr>au_calls := Suc (au_calls s)\<rparr>)) = Inr x"
      "au_db (snd (au_transaction io m s)) = au_db (snd (m (s\<lparr>au_calls := Suc (au_calls s)\<rparr>)))"
proof -
  let ?s = "s\<lparr>au_calls := Suc (au_calls s)\<rparr>"
  obtain r s2 where m: "m ?s = (r, s2)" by (cases "m ?s")
  show thesis
  proof (cases "io_fault io (au_calls s) = Delivered")
    case False
    then have "au_db (snd (au_transaction io m s)) = au_db s" by (simp add: au_transaction_def au_call_fst)
    then show ?thesis by (rule undone)
  next
    case True
    show ?thesis
    proof (cases r)
      case (Inl e)
      then have "au_db (snd (au_transaction io m s)) = au_db s" using m by (simp add: au_transaction_def au_call_fst True)
      then show ?thesis by (rule undone)
    next
      case (Inr x)
      then have "au_db (snd (au_transaction io m s)) = au_db s \<or> au_db (snd (au_transaction io m s)) = au_db s2"
        using m by (simp add: au_transaction_def au_call_fst True)
      then show ?thesis using undone committed m Inr by auto
    qed
  qed
qed

section \<open>Spending a credential\<close>

lemma refresh_unknown:
  assumes "hdr_str hs ''cookie'' = Some ck" and "cookie_value ''refresh_token'' ck = Some raw"
    and "no_refresh (ac_sha ac raw) (au_db s)"
  shows "fst (refresh ac io hs s) = Inl (Failed (if io_fault io (au_calls s) = Delivered
      then AeUnauthorized ''Invalid or expired refresh token'' else from_sqlx ConnectionError))"
proof -
  have none: "q_refresh_user (io_now io) (ac_sha ac raw) (au_db s) = Inr (None, au_db s)"
    using assms(3) by (auto simp: q_refresh_user_def no_refresh_def find_None_iff)
  show ?thesis
  proof (cases "io_fault io (au_calls s) = Delivered")
    case True
    from au_call_pure [of io s "\<lambda>_. q_refresh_user (io_now io) (ac_sha ac raw)", OF True none] True
    show ?thesis using assms(1,2) by (simp add: refresh_def Let_def au_bind_cases [of "au_call io q" for q])
  next
    case False
    then show ?thesis using assms(1,2)
      by (simp add: refresh_def Let_def au_bind_Inl [OF au_call_lost])
  qed
qed

text \<open>A successful refresh deleted the digest of the token it was given.\<close>

lemma refresh_spends:
  assumes "fst (refresh ac io hs s) = Inr r" and "hdr_str hs ''cookie'' = Some ck"
    and "cookie_value ''refresh_token'' ck = Some raw" and "ac_sha ac (io_token io) \<noteq> ac_sha ac raw"
  shows "no_refresh (ac_sha ac raw) (au_db (snd (refresh ac io hs s)))"
proof -
  let ?h = "ac_sha ac raw"
  let ?look = "au_call io (\<lambda>_. q_refresh_user (io_now io) ?h)"
  let ?del = "au_call io (\<lambda>_. q_delete_refresh ?h)"
  obtain u where look: "fst (?look s) = Inr (Some u)"
    using assms(1-3) by (auto simp: refresh_def Let_def au_bind_Inr split: option.splits)
  let ?rest = "\<lambda>_. au_bind (au_call io (\<lambda>_. q_user u)) (\<lambda>w.
         au_bind (au_call io (\<lambda>_. q_tenant (us_tenant_id w))) (\<lambda>t.
         au_bind (start_session ac io u (us_tenant_id w)) (\<lambda>(token, refresh_cookie, jwt_cookie).
         au_bind (set_cookies [jwt_cookie, refresh_cookie]) (\<lambda>hs.
         au_ret (with_headers hs (json_response 200 (auth_response_json
           \<lparr>ar_id = u, ar_email = us_email w, ar_tenant_id = us_tenant_id w, ar_workspace_name = tn_name t,
            ar_onboarding_complete = tn_onboarding_status t, ar_token = token, ar_redeye_api_key = None\<rparr>)))))))"
  have eq: "refresh ac io hs s = au_bind ?del ?rest (snd (?look s))"
    using assms(2,3) look by (simp add: refresh_def Let_def au_bind_cases [of ?look])
  then obtain x where del: "fst (?del (snd (?look s))) = Inr x" using assms(1) by (auto simp: au_bind_Inr)
  then have "no_refresh ?h (au_db (snd (?del (snd (?look s)))))"
    by (auto simp: au_call_def Let_def q_delete_refresh_def no_refresh_def split: if_splits)
  moreover have "au_keeps (\<lambda>db. ac_sha ac (io_token io) = ?h \<or> no_refresh ?h db) (?rest x)"
    by (intro au_frames spent_token.sessions)
  ultimately show ?thesis
    using assms(4) unfolding eq au_bind_state [where m = ?del and f = ?rest, OF del] by (simp add: au_keeps_def)
qed

lemma verify_unknown:
  assumes "no_otp (vq_email q) (vq_otp_code q) (au_db s)"
  shows "fst (verify_otp ac io q s) = Inl (Failed (if io_fault io (au_calls s) = Delivered
      then AeUnauthorized ''Invalid or expired OTP'' else from_sqlx ConnectionError))"
proof -
  have none: "q_find_otp (io_now io) (vq_email q) (vq_otp_code q) (au_db s) = Inr (False, au_db s)"
    using assms by (auto simp: q_find_otp_def no_otp_def list_ex_iff)
  show ?thesis
  proof (cases "io_fault io (au_calls s) = Delivered")
    case True
    from au_call_pure [of io s "\<lambda>_. q_find_otp (io_now io) (vq_email q) (vq_otp_code q)", OF True none] True
    show ?thesis by (simp add: verify_otp_def au_bind_cases)
  next
    case False
    then show ?thesis by (simp add: verify_otp_def au_bind_Inl [OF au_call_lost])
  qed
qed

lemma transaction_Inr:
  assumes "fst (au_transaction io m s) = Inr x"
  shows "fst (m (s\<lparr>au_calls := Suc (au_calls s)\<rparr>)) = Inr x"
    and "au_db (snd (au_transaction io m s)) = au_db (snd (m (s\<lparr>au_calls := Suc (au_calls s)\<rparr>)))"
proof -
  obtain r s2 where m: "m (s\<lparr>au_calls := Suc (au_calls s)\<rparr>) = (r, s2)" by (cases "m (s\<lparr>au_calls := Suc (au_calls s)\<rparr>)")
  have "io_fault io (au_calls s) = Delivered" using assms by (auto simp: au_transaction_def au_call_fst split: if_splits)
  with assms m show "fst (m (s\<lparr>au_calls := Suc (au_calls s)\<rparr>)) = Inr x"
    and "au_db (snd (au_transaction io m s)) = au_db (snd (m (s\<lparr>au_calls := Suc (au_calls s)\<rparr>)))"
    by (cases r; auto simp: au_transaction_def au_call_fst split: if_splits)+
qed

text \<open>A successful verification deleted the password it was given.\<close>

lemma verify_spends:
  assumes "fst (verify_otp ac io q s) = Inr r"
  shows "no_otp (vq_email q) (vq_otp_code q) (au_db (snd (verify_otp ac io q s)))"
proof -
  let ?P = "no_otp (vq_email q) (vq_otp_code q)"
  let ?look = "au_call io (\<lambda>_. q_find_otp (io_now io) (vq_email q) (vq_otp_code q))"
  let ?body = "au_bind (au_call io (\<lambda>_. q_delete_otp (vq_email q) (vq_otp_code q)))
       (\<lambda>_. account_of io (vq_email q) ''email_otp'' None)"
  let ?rest = "\<lambda>(user_id, tenant_id, name, onboarded).
     au_bind (start_session ac io user_id tenant_id) (\<lambda>(token, refresh_cookie, jwt_cookie).
     au_bind (set_cookies [refresh_cookie, jwt_cookie]) (\<lambda>hs.
     au_ret (with_headers hs (json_response 200 (auth_response_json
       \<lparr>ar_id = user_id, ar_email = vq_email q, ar_tenant_id = tenant_id, ar_workspace_name = name,
        ar_onboarding_complete = onboarded, ar_token = token, ar_redeye_api_key = None\<rparr>)))))"
  have "fst (?look s) = Inr True" using assms by (auto simp: verify_otp_def au_bind_Inr split: if_splits)
  then have eq: "verify_otp ac io q s = au_bind (au_transaction io ?body) ?rest (snd (?look s))"
    by (simp add: verify_otp_def au_bind_cases [of ?look])
  then obtain x where tr: "fst (au_transaction io ?body (snd (?look s))) = Inr x"
    using assms by (auto simp: au_bind_Inr)
  let ?s1 = "(snd (?look s))\<lparr>au_calls := Suc (au_calls (snd (?look s)))\<rparr>"
  obtain y where del: "fst (au_call io (\<lambda>_. q_delete_otp (vq_email q) (vq_otp_code q)) ?s1) = Inr y"
    using transaction_Inr(1) [OF tr] by (auto simp: au_bind_Inr)
  have "?P (au_db (snd (au_call io (\<lambda>_. q_delete_otp (vq_email q) (vq_otp_code q)) ?s1)))"
    using del by (auto simp: au_call_def Let_def q_delete_otp_def no_otp_def split: if_splits)
  moreover have "au_keeps ?P (account_of io (vq_email q) ''email_otp'' None)"
    by (rule spent_otp.sessions(2))
  ultimately have "?P (au_db (snd (?body ?s1)))"
    using del by (simp add: au_bind_cases au_keeps_def)
  then have "?P (au_db (snd (au_transaction io ?body (snd (?look s)))))" using transaction_Inr(2) [OF tr] by simp
  moreover have "au_keeps ?P (?rest x)" by (intro au_frames spent_otp.sessions)
  ultimately show ?thesis unfolding eq using tr by (simp add: au_bind_cases au_keeps_def)
qed

section \<open>Sessions and accounts\<close>

lemma start_session_token:
  "fst (start_session ac io u t s) = Inr (token, rc, jc) \<Longrightarrow> generate_jwt ac (io_now io) u t = Inr token"
  by (auto simp: start_session_def au_bind_Inr au_lift_Inr Let_def)

text \<open>A new external account needs the workspace name to be free.\<close>

lemma account_of_clash:
  assumes "\<not> list_ex (\<lambda>u. us_email u = email) (db_users (au_db s))"
    and "list_ex (\<lambda>t. tn_name t = ''My Workspace'') (db_tenants (au_db s))"
  shows "isl (fst (account_of io email provider sub s))"
proof -
  have find: "q_user_by_email email (au_db s) = Inr (None, au_db s)"
    using assms(1) by (auto simp: q_user_by_email_def find_None_iff list_ex_iff)
  have clash: "q_insert_tenant (io_now io) ''My Workspace'' i (au_db s) = Inl UniqueViolation" for i
    using assms(2) by (auto simp: q_insert_tenant_def list_ex_iff)
  show ?thesis
    by (cases "io_fault io (au_calls s)"; cases "io_fault io (Suc (au_calls s))")
      (auto simp: account_of_def au_bind_cases au_call_def Let_def find clash)
qed

lemma au_bind_isl: "isl (fst (m s)) \<or> (\<forall>x. isl (fst (f x (snd (m s))))) \<Longrightarrow> isl (fst (au_bind m f s))"
  by (auto simp: au_bind_cases split: sum.split)

text \<open>A transaction whose body fails leaves the tables as they were, and so does what only it could let through.\<close>

lemma transaction_failed:
  assumes "isl (fst (m (s\<lparr>au_calls := Suc (au_calls s)\<rparr>)))"
  shows "isl (fst (au_bind (au_transaction io m) f s)) \<and> au_db (snd (au_bind (au_transaction io m) f s)) = au_db s"
proof -
  obtain e s2 where m: "m (s\<lparr>au_calls := Suc (au_calls s)\<rparr>) = (Inl e, s2)"
    using assms by (cases "m (s\<lparr>au_calls := Suc (au_calls s)\<rparr>)") (auto simp: isl_def)
  show ?thesis
    by (cases "io_fault io (au_calls s) = Delivered") (simp_all add: au_bind_cases au_transaction_def au_call_fst m)
qed

lemma call_reads:
  assumes "q (io_id io (au_calls s)) (au_db s) = Inr (x, au_db s)"
  shows "au_db (snd (au_call io q s)) = au_db s"
    and "fst (au_call io q s) = Inr x \<or> isl (fst (au_call io q s))"
  using assms by (auto simp: au_call_def Let_def)

text \<open>A verification that finds no live password changes no table.\<close>

lemma verify_wrong:
  assumes "\<not> list_ex (\<lambda>r. ot_email r = vq_email q \<and> ot_code r = vq_otp_code q \<and> io_now io < ot_expires_at r) (db_otps (au_db s))"
  shows "au_db (snd (verify_otp ac io q s)) = au_db s"
proof -
  have f: "q_find_otp (io_now io) (vq_email q) (vq_otp_code q) (au_db s) = Inr (False, au_db s)"
    using assms by (simp add: q_find_otp_def)
  note r = call_reads [where q = "\<lambda>_. q_find_otp (io_now io) (vq_email q) (vq_otp_code q)" and io = io, OF f]
  from r(2) show ?thesis
    by (auto simp: verify_otp_def au_bind_cases [of "au_call io q" for q] r(1) isl_def)
qed

text \<open>The tail of an external sign-in when the workspace name is taken.\<close>

lemma external_blocked:
  assumes "list_ex (\<lambda>t. tn_name t = ''My Workspace'') (db_tenants (au_db s))"
    and "\<not> list_ex (\<lambda>u. us_email u = vq_email q) (db_users (au_db s))"
  shows "isl (fst (verify_otp ac io q s)) \<and> au_db (snd (verify_otp ac io q s)) = au_db s"
proof -
  let ?look = "au_call io (\<lambda>_. q_find_otp (io_now io) (vq_email q) (vq_otp_code q))"
  let ?del = "au_call io (\<lambda>_. q_delete_otp (vq_email q) (vq_otp_code q))"
  let ?body = "au_bind ?del (\<lambda>_. account_of io (vq_email q) ''email_otp'' None)"
  have db: "au_db (snd (?look s)) = au_db s" by (rule call_reads) (simp add: q_find_otp_def)
  have del: "db_tenants (au_db (snd (?del s'))) = db_tenants (au_db s') \<and> db_users (au_db (snd (?del s'))) = db_users (au_db s')" for s'
    by (auto simp: au_call_def Let_def q_delete_otp_def)
  have "isl (fst (?body ((snd (?look s))\<lparr>au_calls := Suc (au_calls (snd (?look s)))\<rparr>)))"
    by (rule au_bind_isl, rule disjI2, rule allI, rule account_of_clash) (simp_all add: del db assms)
  note tr = transaction_failed [where m = ?body, OF this]
  show ?thesis
    by (cases "fst (?look s)")
      (auto simp: verify_otp_def au_bind_cases [of ?look] db tr [unfolded db])
qed

section \<open>What a success established\<close>

text \<open>\<open>au_ensures\<close>: whenever the computation ends in a value, the tables satisfy a property of it.\<close>

definition au_ensures :: "'a au \<Rightarrow> ('a \<Rightarrow> auth_db \<Rightarrow> bool) \<Rightarrow> bool" where
  "au_ensures m Q \<longleftrightarrow> (\<forall>s x. fst (m s) = Inr x \<longrightarrow> Q x (au_db (snd (m s))))"

lemma ensures_bind:
  assumes "\<And>x. au_ensures (f x) Q"
  shows "au_ensures (au_bind m f) Q"
  using assms by (auto simp: au_ensures_def au_bind_cases split: sum.split)

lemma ensures_call:
  assumes "\<And>i db x db'. q i db = Inr (x, db') \<Longrightarrow> R db'" and "\<And>x. au_keeps R (f x)"
  shows "au_ensures (au_bind (au_call io q) f) (\<lambda>_. R)"
proof (unfold au_ensures_def, intro allI impI)
  fix s y assume y: "fst (au_bind (au_call io q) f s) = Inr y"
  then obtain x where x: "fst (au_call io q s) = Inr x" by (auto simp: au_bind_Inr)
  then obtain db where db: "q (io_id io (au_calls s)) (au_db s) = Inr (x, db)" and d: "io_fault io (au_calls s) = Delivered"
    by (auto simp: au_call_Inr)
  then have "R (au_db (snd (au_call io q s)))" using assms(1) by (simp add: au_call_state)
  with x assms(2) show "R (au_db (snd (au_bind (au_call io q) f s)))"
    by (simp add: au_bind_cases au_keeps_def)
qed

lemma ensures_transaction: "au_ensures m Q \<Longrightarrow> au_ensures (au_transaction io m) Q"
  using transaction_Inr unfolding au_ensures_def by metis

definition has_key :: "string \<Rightarrow> string \<Rightarrow> auth_db \<Rightarrow> bool" where
  "has_key tenant h db \<longleftrightarrow> (\<exists>k \<in> set (db_api_keys db). ak_tenant_id k = tenant \<and> ak_key_hash k = h \<and> ak_is_active k)"

definition has_provider_key :: "string \<Rightarrow> string \<Rightarrow> string \<Rightarrow> string \<Rightarrow> auth_db \<Rightarrow> bool" where
  "has_provider_key tenant provider alias enc db \<longleftrightarrow> (\<exists>k \<in> set (db_provider_keys db). pk_tenant_id k = tenant \<and>
     pk_provider_name k = provider \<and> pk_key_alias k = alias \<and> pk_encrypted_key k = enc)"

lemma key_stays [au_frames]:
  "stmt_keeps (has_key t h) (q_upsert_route now tenant provider enc i)"
  "stmt_keeps (has_provider_key t p a e) (q_upsert_route now tenant provider enc i)"
  "stmt_keeps (has_provider_key t p a e) (q_insert_api_key now tenant h' name i)"
  by (auto simp: stmt_keeps_def has_key_def has_provider_key_def q_upsert_route_def q_insert_api_key_def Let_def
      split: if_splits)

lemma insert_api_key_has: "q_insert_api_key now tenant h name i db = Inr (x, db') \<Longrightarrow> has_key tenant h db'"
  by (auto simp: q_insert_api_key_def has_key_def split: if_splits)

lemma upsert_provider_key_has:
  assumes "q_upsert_provider_key now tenant provider alias enc i db = Inr (x, db')"
  shows "has_provider_key tenant provider (case alias of None \<Rightarrow> ''default'' | Some a \<Rightarrow> a) enc db'"
proof -
  let ?al = "case alias of None \<Rightarrow> ''default'' | Some a \<Rightarrow> a"
  let ?same = "\<lambda>k. pk_tenant_id k = tenant \<and> pk_provider_name k = provider \<and> pk_key_alias k = ?al"
  show ?thesis
  proof (cases "find ?same (db_provider_keys db)")
    case None
    let ?k = "\<lparr>pk_id = i, pk_tenant_id = tenant, pk_provider_name = provider, pk_key_alias = ?al,
        pk_priority = 1, pk_is_active = True, pk_weight = 100, pk_encrypted_key = enc, pk_created_at = now\<rparr>"
    have "db' = db\<lparr>db_provider_keys := db_provider_keys db @ [?k]\<rparr>"
      using assms unfolding q_upsert_provider_key_def Let_def None option.case by (clarsimp split: if_splits)
    then have "?k \<in> set (db_provider_keys db')" by simp
    then show ?thesis unfolding has_provider_key_def by (rule bexI [rotated]) simp
  next
    case (Some k)
    then have k: "k \<in> set (db_provider_keys db)" "?same k" using find_Some_in [OF Some] by simp_all
    have "db' = db\<lparr>db_provider_keys := map (\<lambda>k. if ?same k then k\<lparr>pk_encrypted_key := enc\<rparr> else k) (db_provider_keys db)\<rparr>"
      using assms Some by (auto simp: q_upsert_provider_key_def Let_def split: if_splits)
    then have "k\<lparr>pk_encrypted_key := enc\<rparr> \<in> set (db_provider_keys db')" using k by force
    then show ?thesis unfolding has_provider_key_def using k(2) by (intro bexI) auto
  qed
qed

lemma onboard_tables_ensures:
  "au_ensures (onboard_tables io t q acct enc h) (\<lambda>_. has_key t h)"
  "au_ensures (onboard_tables io t q acct enc h) (\<lambda>_. has_provider_key t (oq_provider q) ''default'' enc)"
  "au_ensures (onboard_tables io t q acct enc h) (\<lambda>_ _. oq_provider q \<in> set route_providers)"
proof -
  show "au_ensures (onboard_tables io t q acct enc h) (\<lambda>_. has_key t h)"
    unfolding onboard_tables_def
    by (rule ensures_bind, rule ensures_bind, rule ensures_bind, rule ensures_call, erule insert_api_key_has)
      (intro au_frames)
  show "au_ensures (onboard_tables io t q acct enc h) (\<lambda>_. has_provider_key t (oq_provider q) ''default'' enc)"
    unfolding onboard_tables_def
    by (rule ensures_bind, rule ensures_bind, rule ensures_call,
        drule upsert_provider_key_has, simp only: option.case) (intro au_frames)
  show "au_ensures (onboard_tables io t q acct enc h) (\<lambda>_ _. oq_provider q \<in> set route_providers)"
    unfolding onboard_tables_def
    by (rule ensures_bind, rule ensures_bind, rule ensures_bind, rule ensures_bind, rule ensures_call)
      (auto simp: q_upsert_route_def Let_def au_keeps_def split: if_splits)
qed

lemma au_bind_InrE:
  assumes "fst (au_bind m f s) = Inr y"
  obtains x where "fst (m s) = Inr x" "fst (f x (snd (m s))) = Inr y"
  using assms by (auto simp: au_bind_Inr)

text \<open>A successful login found the user and its hash, and gave a token for it.\<close>

lemma login_success:
  assumes "fst (login ac io q s) = Inr r"
  shows "\<exists>u \<in> set (db_users (au_db s)). \<exists>hash token. us_email u = lq_email q \<and> us_password_hash u = Some hash \<and>
    ac_argon_verify ac hash (lq_password q) = Some True \<and>
    generate_jwt ac (io_now io) (us_id u) (us_tenant_id u) = Inr token \<and>
    (\<exists>v. rbody r = BJson v \<and> jget_str v ''token'' = Some token)"
  using assms unfolding login_def
proof (elim au_bind_InrE)
  fix row
  let ?s = "snd (au_call io (\<lambda>_. q_login (lq_email q)) s)"
  assume look: "fst (au_call io (\<lambda>_. q_login (lq_email q)) s) = Inr row"
    and rest: "fst ((case row of
       None \<Rightarrow> au_fail (AeUnauthorized ''Invalid email or password'')
     | Some (u, t) \<Rightarrow>
         (case us_password_hash u of
            None \<Rightarrow> au_panic
          | Some hash \<Rightarrow>
              au_bind (au_lift (verify_password ac hash (lq_password q))) (\<lambda>valid.
              if \<not> valid then au_fail (AeUnauthorized ''Invalid email or password'')
              else au_bind (start_session ac io (us_id u) (us_tenant_id u)) (\<lambda>(token, refresh_cookie, jwt_cookie).
              au_bind (set_cookies [refresh_cookie, jwt_cookie]) (\<lambda>hs.
              au_ret (with_headers hs (json_response 200 (auth_response_json
                \<lparr>ar_id = us_id u, ar_email = lq_email q, ar_tenant_id = us_tenant_id u, ar_workspace_name = tn_name t,
                 ar_onboarding_complete = tn_onboarding_status t, ar_token = token, ar_redeye_api_key = None\<rparr>)))))))) ?s) = Inr r"
  obtain u t where row: "row = Some (u, t)" using rest by (cases row) auto
  have u: "u \<in> set (db_users (au_db s))" "us_email u = lq_email q"
    using look row by (auto simp: au_call_Inr q_login_def bind_eq_Some_conv dest!: find_Some_in)
  obtain hash where hash: "us_password_hash u = Some hash" using rest row by (cases "us_password_hash u") auto
  have ok: "ac_argon_verify ac hash (lq_password q) = Some True"
    using rest row hash
    by (auto simp: au_bind_Inr au_lift_Inr verify_password_def ok_or_eq_Inr split: if_splits)
  then have v: "verify_password ac hash (lq_password q) = Inr True" by (simp add: verify_password_def)
  obtain token rc jc hs where "fst (start_session ac io (us_id u) (us_tenant_id u) ?s) = Inr (token, rc, jc)"
    and r: "r = with_headers hs (json_response 200 (auth_response_json
                \<lparr>ar_id = us_id u, ar_email = lq_email q, ar_tenant_id = us_tenant_id u, ar_workspace_name = tn_name t,
                 ar_onboarding_complete = tn_onboarding_status t, ar_token = token, ar_redeye_api_key = None\<rparr>))"
    using rest row hash by (auto simp: v au_bind_Inr)
  then have "generate_jwt ac (io_now io) (us_id u) (us_tenant_id u) = Inr token"
    by (auto dest: start_session_token)
  then show ?thesis
    using u hash ok r by (auto simp: with_headers_def auth_response_json_def jget_str_def)
qed

text \<open>A successful onboarding: the provider was accepted, its key encrypted, and the rows are there.\<close>

lemma onboard_success:
  assumes "fst (onboard ac io c q s) = Inr r"
  shows "\<exists>t u enc. claim_ids ac c = Inr (t, u) \<and> encrypt_api_key ac (io_nonce io) (oq_api_key q) = Inr enc \<and>
    has_key t (ac_sha ac (''re_live_'' @ io_alnum io)) (au_db (snd (onboard ac io c q s))) \<and>
    has_provider_key t (oq_provider q) ''default'' enc (au_db (snd (onboard ac io c q s))) \<and>
    oq_provider q \<in> set route_providers \<and>
    (\<exists>v. rbody r = BJson v \<and> jget_str v ''redeye_api_key'' = Some (''re_live_'' @ io_alnum io))"
proof -
  obtain t u where ids: "claim_ids ac c = Inr (t, u)"
    using assms by (auto simp: onboard_def au_bind_Inr au_lift_Inr)
  let ?acct = "ac_lc ac (oq_account_type q)"
  let ?h = "ac_sha ac (''re_live_'' @ io_alnum io)"
  have acct: "\<not> (?acct \<noteq> ''individual'' \<and> ?acct \<noteq> ''team'')"
  proof
    assume "?acct \<noteq> ''individual'' \<and> ?acct \<noteq> ''team''"
    then show False using assms by (simp add: onboard_def ids Let_def)
  qed
  let ?rest = "\<lambda>name. au_bind (au_call io (\<lambda>_. q_user u)) (\<lambda>w.
     au_bind (au_lift (generate_jwt ac (io_now io) u t)) (\<lambda>token.
     au_ret (json_response 200 (auth_response_json
       \<lparr>ar_id = u, ar_email = us_email w, ar_tenant_id = t, ar_workspace_name = name,
        ar_onboarding_complete = True, ar_token = token, ar_redeye_api_key = Some (''re_live_'' @ io_alnum io)\<rparr>))))"
  have eq: "onboard ac io c q = au_bind (checked_provider_key ac io (oq_provider q) (oq_api_key q)) (\<lambda>enc.
      au_bind (au_transaction io (onboard_tables io t q ?acct enc ?h)) ?rest)"
    by (simp only: onboard_def ids au_simps au_bind_simps prod.case Let_def if_not_P [OF acct]
        generate_redeye_api_key_def hash_api_key_def)
  obtain enc where enc: "fst (checked_provider_key ac io (oq_provider q) (oq_api_key q) s) = Inr enc"
    using assms unfolding eq by (elim au_bind_InrE)
  let ?s = "snd (checked_provider_key ac io (oq_provider q) (oq_api_key q) s)"
  let ?m = "au_transaction io (onboard_tables io t q ?acct enc ?h)"
  have fin: "fst (au_bind ?m ?rest ?s) = Inr r" "snd (onboard ac io c q s) = snd (au_bind ?m ?rest ?s)"
    using assms enc unfolding eq by (simp_all add: au_bind_cases [of "checked_provider_key ac io p k" for p k])
  then obtain name where name: "fst (?m ?s) = Inr name" by (elim au_bind_InrE)
  have keeps: "au_keeps P (?rest name)" for P by (intro au_frames)
  have "P (au_db (snd (onboard ac io c q s)))"
    if "au_ensures (onboard_tables io t q ?acct enc ?h) (\<lambda>_. P)" for P
  proof -
    have "P (au_db (snd (?m ?s)))" using ensures_transaction [OF that, of io] name unfolding au_ensures_def by blast
    then show ?thesis
      using keeps [of P] unfolding fin(2) au_bind_state [where m = ?m and f = ?rest, OF name] au_keeps_def by blast
  qed
  from this [OF onboard_tables_ensures(1)] this [OF onboard_tables_ensures(2)] this [OF onboard_tables_ensures(3)]
  have rows: "has_key t ?h (au_db (snd (onboard ac io c q s)))"
    "has_provider_key t (oq_provider q) ''default'' enc (au_db (snd (onboard ac io c q s)))"
    "oq_provider q \<in> set route_providers" .
  have "encrypt_api_key ac (io_nonce io) (oq_api_key q) = Inr enc"
    using enc by (auto simp: checked_provider_key_def au_lift_Inr split: sum.splits if_splits)
  moreover have "\<exists>v. rbody r = BJson v \<and> jget_str v ''redeye_api_key'' = Some (''re_live_'' @ io_alnum io)"
    using fin(1) name
    by (auto simp: au_bind_Inr auth_response_json_def jget_str_def)
  ultimately show ?thesis using ids rows by blast
qed

text \<open>A key that was given out stays valid.\<close>

interpretation key_kept: table_invariant "has_key t h" ac io "\<lambda>_. True" for t h ac io
  by unfold_locales
    (auto simp: stmt_keeps_def has_key_def statement_defs Let_def split: if_splits option.splits)

lemma has_key_run: "has_key t h (au_db s) \<Longrightarrow> has_key t h (au_db (auth_run ac evs s))"
proof (induction ac evs s rule: auth_run.induct)
  case (2 ac io ev evs s)
  then show ?case using key_kept.step [of ev t h ac io] by (simp add: au_keeps_def)
qed simp

text \<open>A provider without routes: the transaction fails, and nothing before it wrote.\<close>

lemma onboard_unroutable:
  assumes "oq_provider q \<notin> set route_providers"
  shows "au_db (snd (onboard ac io c q s)) = au_db s"
proof -
  have keys: "au_keeps P (checked_provider_key ac io p k)" for P p k
    unfolding checked_provider_key_def by (intro au_frames)
  have fails: "isl (fst (onboard_tables io t q acct enc h s'))" for t acct enc h s'
    using onboard_tables_ensures(3) [of io t q acct enc h] assms unfolding au_ensures_def
    by (cases "fst (onboard_tables io t q acct enc h s')") auto
  let ?P = "\<lambda>db. db = au_db s"
  have tx_keeps: "au_keeps ?P (au_bind (au_transaction io (onboard_tables io t q acct enc h)) f)"
    for t acct enc h and f :: "string \<Rightarrow> response au"
    using transaction_failed [where m = "onboard_tables io t q acct enc h" and io = io and f = f, OF fails]
    by (simp add: au_keeps_def)
  have "au_keeps ?P (onboard ac io c q)"
    unfolding onboard_def by (intro au_frames keys tx_keeps)
  then show ?thesis by (simp add: au_keeps_def)
qed

section \<open>New accounts\<close>

text \<open>\<open>au_leads P Q\<close>: from tables with P the computation ends, on every path, in tables with Q.\<close>

definition au_leads :: "(auth_db \<Rightarrow> bool) \<Rightarrow> (auth_db \<Rightarrow> bool) \<Rightarrow> 'a au \<Rightarrow> bool" where
  "au_leads P Q m \<longleftrightarrow> (\<forall>s. P (au_db s) \<longrightarrow> Q (au_db (snd (m s))))"

lemma leads_keeps: "au_keeps P m \<Longrightarrow> (\<And>db. P db \<Longrightarrow> Q db) \<Longrightarrow> au_leads P Q m"
  by (simp add: au_leads_def au_keeps_def)

lemma leads_later:
  assumes "au_keeps P m" and "\<And>db. P db \<Longrightarrow> Q db" and "\<And>x. au_leads P Q (f x)"
  shows "au_leads P Q (au_bind m f)"
  using assms by (auto simp: au_leads_def au_keeps_def au_bind_cases split: sum.split)

lemma leads_now:
  assumes "au_leads P Q m" and "\<And>x. au_keeps Q (f x)"
  shows "au_leads P Q (au_bind m f)"
  using assms by (auto simp: au_leads_def au_keeps_def au_bind_cases split: sum.split)

lemma leads_transaction:
  assumes "\<And>s x. P (au_db s) \<Longrightarrow> fst (m s) = Inr x \<Longrightarrow> Q (au_db (snd (m s)))" and "\<And>db. P db \<Longrightarrow> Q db"
  shows "au_leads P Q (au_transaction io m)"
proof (unfold au_leads_def, intro allI impI)
  fix s :: au_state assume P: "P (au_db s)"
  show "Q (au_db (snd (au_transaction io m s)))"
  proof (cases rule: transaction_atomic [of io m s])
    case undone
    then show ?thesis using assms(2) [OF P] by simp
  next
    case (committed x)
    then show ?thesis using assms(1) [of "s\<lparr>au_calls := Suc (au_calls s)\<rparr>" x] P by simp
  qed
qed

text \<open>The accounts of the tables are unchanged, or one workspace and its owner were added.\<close>

definition account_added :: "(string \<Rightarrow> bool) \<Rightarrow> string \<Rightarrow> string \<Rightarrow> auth_db \<Rightarrow> auth_db \<Rightarrow> bool" where
  "account_added hashed email name db db' \<longleftrightarrow>
     (db_tenants db' = db_tenants db \<and> db_users db' = db_users db) \<or>
     (\<exists>t u h. db_tenants db' = db_tenants db @ [t] \<and> db_users db' = db_users db @ [u] \<and>
        tn_name t = name \<and> us_tenant_id u = tn_id t \<and> us_email u = email \<and> us_password_hash u = Some h \<and> hashed h)"

lemma account_added_frames [au_frames]:
  "stmt_keeps (account_added A email name db) (q_insert_refresh now u h i)"
  by (auto simp: stmt_keeps_def account_added_def q_insert_refresh_def split: if_splits)

lemma read_keeps [au_frames]: "stmt_keeps P (q_email_exists e)" "stmt_keeps P (q_workspace_exists n)"
  by (auto simp: stmt_keeps_def q_email_exists_def q_workspace_exists_def)

lemma signup_adds:
  "account_added (\<lambda>h. ac_argon ac (io_salt io) (sq_password q) = Some h) (sq_email q) (sq_company_name q)
     (au_db s) (au_db (snd (signup ac io q s)))"
proof -
  let ?P = "\<lambda>db. db = au_db s"
  let ?A = "account_added (\<lambda>h. ac_argon ac (io_salt io) (sq_password q) = Some h) (sq_email q) (sq_company_name q) (au_db s)"
  have refl: "?A db" if "?P db" for db using that by (simp add: account_added_def)
  have tx: "au_leads ?P ?A (au_bind (au_lift (hash_password ac (io_salt io) (sq_password q))) (\<lambda>hash.
     au_bind (au_transaction io (
       au_bind (au_call io (q_insert_tenant (io_now io) (sq_company_name q))) (\<lambda>tenant_id.
       au_bind (au_call io (q_insert_user (io_now io) (sq_email q) (Some hash) tenant_id ''email_password'' None)) (\<lambda>user_id.
       au_ret (user_id, tenant_id))))) f))"
    if f: "\<And>x. au_keeps ?A (f x)" for f :: "string \<times> string \<Rightarrow> response au"
  proof (cases "ac_argon ac (io_salt io) (sq_password q)")
    case None
    then show ?thesis using refl by (auto simp: hash_password_def au_leads_def au_bind_cases au_lift_def au_fail_def)
  next
    case (Some hash)
    have "au_leads ?P ?A (au_transaction io (
       au_bind (au_call io (q_insert_tenant (io_now io) (sq_company_name q))) (\<lambda>tenant_id.
       au_bind (au_call io (q_insert_user (io_now io) (sq_email q) (Some hash) tenant_id ''email_password'' None)) (\<lambda>user_id.
       au_ret (user_id, tenant_id)))))"
      by (rule leads_transaction [OF _ refl])
        (auto simp: au_bind_Inr au_bind_state au_call_Inr au_call_state q_insert_tenant_def q_insert_user_def
          account_added_def Some split: if_splits)
    from leads_now [OF this f] show ?thesis by (simp add: hash_password_def Some au_leads_def)
  qed
  have "au_leads ?P ?A (signup ac io q)"
    unfolding signup_def
    by (rule leads_later, (intro au_frames)[1], erule refl, split if_split, intro conjI impI,
        (rule leads_keeps [OF _ refl], (intro au_frames)[1], assumption)[1],
        rule leads_later, (intro au_frames)[1], erule refl, split if_split, intro conjI impI,
        (rule leads_keeps [OF _ refl], (intro au_frames)[1], assumption)[1], rule tx)
      (auto simp: start_session_def split: prod.split intro!: au_frames)
  then show ?thesis by (simp add: au_leads_def)
qed

end
