(* ===== verification/Auth_Properties.thy ===== *)
theory Auth_Properties
  imports Auth_Laws Json_Codec
begin

text \<open>The properties of the auth service, each with a concrete instance.\<close>

section \<open>A concrete service\<close>

definition jwt_sample_enc :: "claims \<Rightarrow> string" where
  "jwt_sample_enc c = enc_str (cl_sub c) @ enc_str (cl_tenant_id c) @ enc_word (cl_exp c)"

definition jwt_sample_dec :: "nat \<Rightarrow> string \<Rightarrow> claims option" where
  "jwt_sample_dec now t =
     Option.bind (dec_str t) (\<lambda>(a, r). Option.bind (dec_str r) (\<lambda>(b, r').
       if now < unat (dec_word r') then Some \<lparr>cl_sub = a, cl_tenant_id = b, cl_exp = dec_word r'\<rparr> else None))"

definition ac_sample :: auth_cfg where
  "ac_sample = \<lparr>ac_env = [''JWT_SECRET'' \<mapsto> ''s'', ''AES_MASTER_KEY'' \<mapsto> replicate 32 (CHR ''k'')],
     ac_lc = ascii_lower, ac_sha = id, ac_argon = (\<lambda>salt p. Some p), ac_argon_verify = (\<lambda>h p. Some (h = p)),
     ac_aes_enc = (\<lambda>k n p. Some p), ac_aes_dec = (\<lambda>k n c. Some c), ac_utf8 = (\<lambda>s. True),
     ac_jwt_encode = (\<lambda>k c. Some (jwt_sample_enc c)), ac_jwt_decode = (\<lambda>k. jwt_sample_dec),
     ac_uuid = Some, ac_url_ok = (\<lambda>s. True), ac_sd = sd1, ac_rfc3339 = show_nat,
     ac_authorize = (\<lambda>i u r sc st. u)\<rparr>"

definition io_sample :: "string \<Rightarrow> auth_io" where
  "io_sample token = \<lparr>io_now = 0, io_fault = (\<lambda>n. Delivered), io_id = (\<lambda>n. ''i'' @ show_nat n),
     io_net = (\<lambda>rq. HOk \<lparr>hr_status = 200, hr_headers = [], hr_body = []\<rparr>), io_token = token, io_alnum = ''kk'',
     io_salt = [], io_nonce = replicate 12 (CHR ''n''), io_digit = (\<lambda>i. i), io_exchange = (\<lambda>u c. None), io_csrf = []\<rparr>"

definition db_sample :: auth_db where
  "db_sample = \<lparr>db_tenants = [\<lparr>tn_id = ''t'', tn_name = ''My Workspace'', tn_created_at = 0, tn_is_active = True,
       tn_onboarding_status = False, tn_account_type = Individual\<rparr>],
     db_users = [\<lparr>us_id = ''u'', us_email = ''a@b'', us_password_hash = Some ''pw'', us_tenant_id = ''t'',
       us_created_at = 0, us_auth_provider = ''email_password'', us_provider_id = None\<rparr>],
     db_api_keys = [], db_provider_keys = [], db_llm_routes = [],
     db_refresh = [\<lparr>rt_id = ''r'', rt_user_id = ''u'', rt_token_hash = ''old'', rt_expires_at = 1, rt_created_at = 0\<rparr>],
     db_otps = [\<lparr>ot_id = ''o'', ot_email = ''a@b'', ot_code = ''012345'', ot_expires_at = 1, ot_created_at = 0\<rparr>]\<rparr>"

definition s_sample :: au_state where
  "s_sample = \<lparr>au_db = db_sample, au_calls = 0, au_mail = []\<rparr>"

lemmas auth_sample_defs = ac_sample_def io_sample_def db_sample_def s_sample_def

lemma db_sample_ok: "db_ok db_sample"
  by (simp add: db_ok_def db_sample_def has_tenant_def)

text \<open>Runs of the sample evaluate call by call.\<close>

lemma ac_sample_simps [simp]:
  "ac_env ac_sample = [''JWT_SECRET'' \<mapsto> ''s'', ''AES_MASTER_KEY'' \<mapsto> replicate 32 (CHR ''k'')]"
  "ac_lc ac_sample = ascii_lower" "ac_sha ac_sample x = x" "ac_argon ac_sample salt p = Some p"
  "ac_argon_verify ac_sample h p = Some (h = p)" "ac_aes_enc ac_sample k n p = Some p"
  "ac_aes_dec ac_sample k n p = Some p" "ac_utf8 ac_sample p = True"
  "ac_jwt_encode ac_sample k c = Some (jwt_sample_enc c)" "ac_jwt_decode ac_sample k = jwt_sample_dec"
  "ac_uuid ac_sample x = Some x" "ac_sd ac_sample = sd1"
  by (simp_all add: ac_sample_def)

lemma io_sample_simps [simp]:
  "io_now (io_sample tk) = 0" "io_token (io_sample tk) = tk" "io_alnum (io_sample tk) = ''kk''"
  "io_nonce (io_sample tk) = replicate 12 (CHR ''n'')" "io_fault (io_sample tk) n = Delivered"
  "io_net (io_sample tk) rq = HOk \<lparr>hr_status = 200, hr_headers = [], hr_body = []\<rparr>"
  by (simp_all add: io_sample_def)

lemma call_sample [simp]:
  "au_call (io_sample tk) q s =
     (case q (''i'' @ show_nat (au_calls s)) (au_db s) of
        Inl e \<Rightarrow> (Inl (Failed (from_sqlx e)), s\<lparr>au_calls := Suc (au_calls s)\<rparr>)
      | Inr (x, db) \<Rightarrow> (Inr x, s\<lparr>au_calls := Suc (au_calls s), au_db := db\<rparr>))"
  by (simp add: au_call_def io_sample_def Let_def split: sum.split prod.split)

lemma enc_word_visible [simp]: "list_all hdr_visible (enc_word w)"
  by (auto simp: enc_word_def list_all_iff hdr_visible_def)

lemma env_sample:
  "ac_env ac_sample ''APP_ENV'' = None" "ac_env ac_sample ''NODE_ENV'' = None"
  "ac_env ac_sample ''COOKIE_DOMAIN'' = None"
  by simp_all

lemma not_prod: "\<not> is_prod ac_sample"
proof -
  have "ascii_lower [] \<noteq> ''production''" by (simp add: ascii_lower_def)
  moreover have "str_or [] None = []" by (simp add: str_or_def)
  ultimately show ?thesis by (simp only: is_prod_def ac_sample_simps(2) env_sample simp_thms)
qed

lemma cookie_sample:
  "create_cookie_header ac_sample name value age site =
     name @ ''='' @ value @ ''; HttpOnly; Path=/; Max-Age='' @ show_nat age @ ''; SameSite='' @ site"
  unfolding create_cookie_header_def env_sample if_not_P [OF not_prod] option.case append_Nil2 append_assoc ..

lemma show_age: "show_nat jwt_max_age_secs = ''604800''"
  by (simp add: jwt_max_age_secs_def show_nat.simps char_of_def bit_0)

lemma session_sample:
  assumes "list_all hdr_visible (enc_str u @ enc_str t)" and "list_all hdr_visible tk" and "char_count tk \<le> 64"
    and "list_ex (\<lambda>x. us_id x = u) (db_users (au_db s))"
    and "\<not> list_ex (\<lambda>r. rt_id r = ''i'' @ show_nat (au_calls s) \<or> rt_token_hash r = tk) (db_refresh (au_db s))"
  shows "\<exists>jwt s'. start_session ac_sample (io_sample tk) u t s =
      (Inr (jwt, ''refresh_token='' @ tk @ ''; HttpOnly; Path=/; Max-Age=604800; SameSite=Strict'',
        ''re_token='' @ jwt @ ''; HttpOnly; Path=/; Max-Age=604800; SameSite=Lax''), s') \<and>
    list_all hdr_visible jwt"
proof -
  have jwt: "generate_jwt ac_sample 0 u t = Inr (enc_str u @ enc_str t @ enc_word 604800)"
    by (simp add: generate_jwt_def jwt_secret_def jwt_sample_enc_def jwt_lifetime_def)
  show ?thesis using assms
    by (simp add: start_session_def au_bind_cases jwt generate_refresh_token_def cookie_sample show_age
        q_insert_refresh_def)
qed

lemma cookies_sample:
  "list_all hdr_visible tk \<Longrightarrow> list_all hdr_visible jwt \<Longrightarrow>
   \<exists>hs. set_cookies [''refresh_token='' @ tk @ ''; HttpOnly; Path=/; Max-Age=604800; SameSite=Strict'',
     ''re_token='' @ jwt @ ''; HttpOnly; Path=/; Max-Age=604800; SameSite=Lax''] = au_ret hs"
  "list_all hdr_visible tk \<Longrightarrow> list_all hdr_visible jwt \<Longrightarrow>
   \<exists>hs. set_cookies [''re_token='' @ jwt @ ''; HttpOnly; Path=/; Max-Age=604800; SameSite=Lax'',
     ''refresh_token='' @ tk @ ''; HttpOnly; Path=/; Max-Age=604800; SameSite=Strict''] = au_ret hs"
  by (rule exI, simp add: set_cookies_def hdr_visible_def)+

lemma login_sample:
  "\<exists>r. fst (login ac_sample (io_sample ''new'') \<lparr>lq_email = ''a@b'', lq_password = ''pw''\<rparr> s_sample) = Inr r"
proof -
  let ?s = "s_sample\<lparr>au_calls := 1\<rparr>"
  obtain jwt s' where s: "start_session ac_sample (io_sample ''new'') ''u'' ''t'' ?s =
      (Inr (jwt, ''refresh_token='' @ ''new'' @ ''; HttpOnly; Path=/; Max-Age=604800; SameSite=Strict'',
        ''re_token='' @ jwt @ ''; HttpOnly; Path=/; Max-Age=604800; SameSite=Lax''), s')" "list_all hdr_visible jwt"
    using session_sample [of "''u''" "''t''" "''new''" ?s]
    by (auto simp: hdr_visible_def char_count_def s_sample_def db_sample_def)
  obtain hs where "set_cookies [''refresh_token='' @ ''new'' @ ''; HttpOnly; Path=/; Max-Age=604800; SameSite=Strict'',
     ''re_token='' @ jwt @ ''; HttpOnly; Path=/; Max-Age=604800; SameSite=Lax''] = au_ret hs"
    using cookies_sample(1) [of "''new''" jwt] s(2) by (auto simp: hdr_visible_def)
  with s(1) show ?thesis
    by (simp add: login_def au_bind_cases q_login_def s_sample_def db_sample_def verify_password_def)
qed

lemma refresh_sample:
  "\<exists>r. fst (refresh ac_sample (io_sample ''new'') [(''cookie'', ''refresh_token=old'')] s_sample) = Inr r"
proof -
  let ?s = "s_sample\<lparr>au_db := db_sample\<lparr>db_refresh := []\<rparr>, au_calls := 4\<rparr>"
  have ck: "hdr_str [(''cookie'', ''refresh_token=old'')] ''cookie'' = Some ''refresh_token=old''"
    "cookie_value ''refresh_token'' ''refresh_token=old'' = Some ''old''" by code_simp+
  obtain jwt s' where s: "start_session ac_sample (io_sample ''new'') ''u'' ''t'' ?s =
      (Inr (jwt, ''refresh_token='' @ ''new'' @ ''; HttpOnly; Path=/; Max-Age=604800; SameSite=Strict'',
        ''re_token='' @ jwt @ ''; HttpOnly; Path=/; Max-Age=604800; SameSite=Lax''), s')" "list_all hdr_visible jwt"
    using session_sample [of "''u''" "''t''" "''new''" ?s]
    by (auto simp: hdr_visible_def char_count_def s_sample_def db_sample_def)
  obtain hs where "set_cookies [''re_token='' @ jwt @ ''; HttpOnly; Path=/; Max-Age=604800; SameSite=Lax'',
     ''refresh_token='' @ ''new'' @ ''; HttpOnly; Path=/; Max-Age=604800; SameSite=Strict''] = au_ret hs"
    using cookies_sample(2) [of "''new''" jwt] s(2) by (auto simp: hdr_visible_def)
  with s(1) show ?thesis
    by (simp add: refresh_def ck au_bind_cases q_refresh_user_def q_delete_refresh_def q_user_def q_tenant_def
        s_sample_def db_sample_def numeral_eq_Suc)
qed

lemma verify_sample:
  "\<exists>r. fst (verify_otp ac_sample (io_sample ''new'') \<lparr>vq_email = ''a@b'', vq_otp_code = ''012345''\<rparr> s_sample) = Inr r"
proof -
  let ?s = "s_sample\<lparr>au_db := db_sample\<lparr>db_otps := []\<rparr>, au_calls := 6\<rparr>"
  obtain jwt s' where s: "start_session ac_sample (io_sample ''new'') ''u'' ''t'' ?s =
      (Inr (jwt, ''refresh_token='' @ ''new'' @ ''; HttpOnly; Path=/; Max-Age=604800; SameSite=Strict'',
        ''re_token='' @ jwt @ ''; HttpOnly; Path=/; Max-Age=604800; SameSite=Lax''), s')" "list_all hdr_visible jwt"
    using session_sample [of "''u''" "''t''" "''new''" ?s]
    by (auto simp: hdr_visible_def char_count_def s_sample_def db_sample_def)
  obtain hs where "set_cookies [''refresh_token='' @ ''new'' @ ''; HttpOnly; Path=/; Max-Age=604800; SameSite=Strict'',
     ''re_token='' @ jwt @ ''; HttpOnly; Path=/; Max-Age=604800; SameSite=Lax''] = au_ret hs"
    using cookies_sample(1) [of "''new''" jwt] s(2) by (auto simp: hdr_visible_def)
  with s(1) show ?thesis
    by (simp add: verify_otp_def account_of_def au_transaction_def au_bind_cases q_find_otp_def q_delete_otp_def
        q_user_by_email_def q_tenant_def s_sample_def db_sample_def numeral_eq_Suc)
qed

section \<open>The tables\<close>



section \<open>Credentials are spent once\<close>

text \<open>C17. A refresh token works once: after a refresh that succeeded with it, every later refresh with
  it fails, with 401 unless its database call is lost, whatever other requests the service
  served in between, as long as none of them drew a token with the same digest.\<close>

theorem refresh_single_use:
  assumes "fst (refresh ac io hs s) = Inr r" and "hdr_str hs ''cookie'' = Some ck"
    and "cookie_value ''refresh_token'' ck = Some raw"
    and "ac_sha ac (io_token io) \<noteq> ac_sha ac raw"
    and "\<And>io' ev. (io', ev) \<in> set evs \<Longrightarrow> ac_sha ac (io_token io') \<noteq> ac_sha ac raw"
    and "hdr_str hs' ''cookie'' = Some ck'" and "cookie_value ''refresh_token'' ck' = Some raw"
  defines "s' \<equiv> auth_run ac evs (snd (refresh ac io hs s))"
  shows "fst (refresh ac io2 hs' s') = Inl (Failed (if io_fault io2 (au_calls s') = Delivered
    then AeUnauthorized ''Invalid or expired refresh token'' else AeInternal ''Database operation failed''))"
proof -
  have "no_refresh (ac_sha ac raw) (au_db s')"
    unfolding s'_def by (rule no_refresh_run [OF refresh_spends [OF assms(1-4)] assms(5)])
  from refresh_unknown [OF assms(6,7) this] show ?thesis by simp
qed

lemma refresh_single_use_witness:
  "fst (refresh ac_sample (io_sample ''x'') [(''cookie'', ''refresh_token=old'')]
     (auth_run ac_sample [(io_sample ''y'', EvLogin \<lparr>lq_email = ''a@b'', lq_password = ''pw''\<rparr>)]
       (snd (refresh ac_sample (io_sample ''new'') [(''cookie'', ''refresh_token=old'')] s_sample)))) =
   Inl (Failed (AeUnauthorized ''Invalid or expired refresh token''))"
proof -
  obtain r where r: "fst (refresh ac_sample (io_sample ''new'') [(''cookie'', ''refresh_token=old'')] s_sample) = Inr r"
    using refresh_sample by blast
  have ck: "hdr_str [(''cookie'', ''refresh_token=old'')] ''cookie'' = Some ''refresh_token=old''"
    "cookie_value ''refresh_token'' ''refresh_token=old'' = Some ''old''" by code_simp+
  from refresh_single_use [OF r ck _ _ ck, of "[(io_sample ''y'', EvLogin \<lparr>lq_email = ''a@b'', lq_password = ''pw''\<rparr>)]"]
  show ?thesis by simp
qed

text \<open>A one-time password works once: after a verification that succeeded with it, every later one
  with the same address and code is refused until a request for that address draws the same
  code again.\<close>

theorem otp_single_use:
  assumes "fst (verify_otp ac io q s) = Inr r"
    and "\<And>io'. (io', EvRequestOtp (vq_email q)) \<in> set evs \<Longrightarrow> otp_code io' \<noteq> vq_otp_code q"
  defines "s' \<equiv> auth_run ac evs (snd (verify_otp ac io q s))"
  shows "fst (verify_otp ac io2 q s') = Inl (Failed (if io_fault io2 (au_calls s') = Delivered
    then AeUnauthorized ''Invalid or expired OTP'' else AeInternal ''Database operation failed''))"
proof -
  have "no_otp (vq_email q) (vq_otp_code q) (au_db s')"
    unfolding s'_def by (rule no_otp_run [OF verify_spends [OF assms(1)] assms(2)])
  from verify_unknown [OF this] show ?thesis by simp
qed

lemma otp_single_use_witness:
  "fst (verify_otp ac_sample (io_sample ''x'') \<lparr>vq_email = ''a@b'', vq_otp_code = ''012345''\<rparr>
     (auth_run ac_sample [] (snd (verify_otp ac_sample (io_sample ''new'')
       \<lparr>vq_email = ''a@b'', vq_otp_code = ''012345''\<rparr> s_sample)))) =
   Inl (Failed (AeUnauthorized ''Invalid or expired OTP''))"
proof -
  obtain r where r: "fst (verify_otp ac_sample (io_sample ''new'') \<lparr>vq_email = ''a@b'', vq_otp_code = ''012345''\<rparr> s_sample) = Inr r"
    using verify_sample by blast
  from otp_single_use [OF r, of "[]"] show ?thesis by simp
qed

text \<open>Guessing a one-time password costs nothing: a verification that fails leaves the tables as
  they are, so however many wrong codes have been tried, the right one is still accepted.\<close>

theorem otp_guesses_unlimited:
  assumes "\<And>io g. (io, g) \<in> set guesses \<Longrightarrow>
    \<not> list_ex (\<lambda>r. ot_email r = vq_email g \<and> ot_code r = vq_otp_code g \<and> io_now io < ot_expires_at r) (db_otps (au_db s))"
  shows "au_db (auth_run ac (map (\<lambda>(io, g). (io, EvVerifyOtp g)) guesses) s) = au_db s"
  using assms
proof (induction guesses arbitrary: s)
  case (Cons x guesses)
  obtain io g where x: "x = (io, g)" by (cases x)
  have "au_db (snd (verify_otp ac io g s)) = au_db s" using Cons.prems [of io g] x by (intro verify_wrong) simp
  with Cons.IH [of "snd (verify_otp ac io g s)"] Cons.prems x show ?case by simp
qed simp

lemma otp_guesses_unlimited_witness:
  "\<exists>r. fst (verify_otp ac_sample (io_sample ''new'') \<lparr>vq_email = ''a@b'', vq_otp_code = ''012345''\<rparr>
     \<lparr>au_db = au_db (auth_run ac_sample (map (\<lambda>(io, g). (io, EvVerifyOtp g))
        (replicate 1000000 (io_sample ''y'', \<lparr>vq_email = ''a@b'', vq_otp_code = ''999999''\<rparr>))) s_sample),
      au_calls = 0, au_mail = []\<rparr>) = Inr r"
proof -
  have "\<not> list_ex (\<lambda>r. ot_email r = ''a@b'' \<and> ot_code r = ''999999'' \<and> 0 < ot_expires_at r) (db_otps (au_db s_sample))"
    by (simp add: s_sample_def db_sample_def)
  then have "au_db (auth_run ac_sample (map (\<lambda>(io, g). (io, EvVerifyOtp g))
      (replicate 1000000 (io_sample ''y'', \<lparr>vq_email = ''a@b'', vq_otp_code = ''999999''\<rparr>))) s_sample) = au_db s_sample"
    by (intro otp_guesses_unlimited) (auto simp: in_set_replicate)
  then show ?thesis using verify_sample by (simp add: s_sample_def)
qed

section \<open>Accounts\<close>

text \<open>One workspace name for all: once a workspace called "My Workspace" exists, no new account can
  be made by a one-time password, by Google or by GitHub, because they all insert that name
  into a unique column; the request fails and the tables stay as they are, the one-time
  password included.\<close>

theorem external_accounts_blocked:
  assumes "list_ex (\<lambda>t. tn_name t = ''My Workspace'') (db_tenants (au_db s))"
    and "\<not> list_ex (\<lambda>u. us_email u = email) (db_users (au_db s))"
  shows "(isl (fst (verify_otp ac io \<lparr>vq_email = email, vq_otp_code = code\<rparr> s)) \<and>
      au_db (snd (verify_otp ac io \<lparr>vq_email = email, vq_otp_code = code\<rparr> s)) = au_db s) \<and>
    (isl (fst (oauth_finish ac io provider path (email, sub) s)) \<and>
      au_db (snd (oauth_finish ac io provider path (email, sub) s)) = au_db s)"
proof -
  have "isl (fst (account_of io email provider (Some sub) (s\<lparr>au_calls := Suc (au_calls s)\<rparr>)))"
    using assms by (intro account_of_clash) simp_all
  from transaction_failed [where m = "account_of io email provider (Some sub)", OF this]
  show ?thesis
    using external_blocked [of s "\<lparr>vq_email = email, vq_otp_code = code\<rparr>" ac io] assms
    by (simp add: oauth_finish_def)
qed

lemma external_accounts_blocked_witness:
  "isl (fst (verify_otp ac_sample (io_sample ''x'') \<lparr>vq_email = ''c@d'', vq_otp_code = ''1''\<rparr> s_sample))"
proof -
  have "list_ex (\<lambda>t. tn_name t = ''My Workspace'') (db_tenants (au_db s_sample))"
    and "\<not> list_ex (\<lambda>u. us_email u = ''c@d'') (db_users (au_db s_sample))"
    by (simp_all add: s_sample_def db_sample_def)
  from external_accounts_blocked [OF this] show ?thesis by blast
qed

text \<open>A signup is all or nothing: whatever database call or reply is lost and whatever it answers,
  the accounts are as they were, or exactly one workspace of the given name and one user of
  the given address were added, the user in that workspace and with an Argon2 hash of the password.\<close>

theorem signup_atomic:
  "account_added (\<lambda>h. ac_argon ac (io_salt io) (sq_password q) = Some h) (sq_email q) (sq_company_name q)
     (au_db s) (au_db (snd (signup ac io q s)))"
  by (rule signup_adds)

text \<open>C24. A login is answered with a session only for the right password: the address has a user whose
  stored hash verifies the password, and the token in the answer is one the gateway's
  authentication accepts until it expires, with that user and the user's tenant.\<close>

theorem login_session_accepted:
  assumes login: "fst (login ac io q s) = Inr r" and lib: "jwt_inverse ac"
    and time: "io_now io div 1000000 + jwt_lifetime < 2 ^ 64" "later div 1000000 < io_now io div 1000000 + jwt_lifetime"
    and gateway: "ae_secret ae = ac_env ac ''JWT_SECRET''" "ae_jwt ae = (\<lambda>k. ac_jwt_decode ac k (later div 1000000))"
      "ae_uuid ae = ac_uuid ac"
    and ids: "\<And>u. u \<in> set (db_users (au_db s)) \<Longrightarrow> ac_uuid ac (us_tenant_id u) = Some (us_tenant_id u)"
    and body: "rbody r = BJson v" "jget_str v ''token'' = Some token" "\<not> starts_with token live_prefix"
    and rq: "hdr_str (hq_headers rq) ''authorization'' = Some (''Bearer '' @ token)" "hq_method rq \<noteq> ''OPTIONS''"
      "hq_path rq \<noteq> ''/health''" "hq_path rq \<noteq> ''/v1/health''"
  shows "\<exists>u \<in> set (db_users (au_db s)). \<exists>hash c. us_email u = lq_email q \<and> us_password_hash u = Some hash \<and>
    ac_argon_verify ac hash (lq_password q) = Some True \<and> cl_sub c = us_id u \<and>
    auth_middleware ae nxt rq st = nxt (rq\<lparr>hq_headers := hdr_insert ''x-tenant-id'' (us_tenant_id u) (hq_headers rq),
      hq_claims := Some c\<rparr>) st"
proof -
  obtain u hash where u: "u \<in> set (db_users (au_db s))" "us_email u = lq_email q" "us_password_hash u = Some hash"
    "ac_argon_verify ac hash (lq_password q) = Some True"
    and t: "generate_jwt ac (io_now io) (us_id u) (us_tenant_id u) = Inr token"
    using login_success [OF login] body(1,2) by auto
  obtain c where c: "verify_auth_jwt ac later token = Inr c" "cl_sub c = us_id u" "cl_tenant_id c = us_tenant_id u"
    using jwt_roundtrip [OF lib t time] by blast
  have "request_token (hq_headers rq) = Some (token, False)"
    using rq(1) body(3) by (simp add: request_token_def strip_prefix_def starts_with_def)
  moreover have "verify_jwt (ae_secret ae) (ae_jwt ae) token = Inr c"
    using c(1) by (auto simp: verify_jwt_def gateway verify_auth_jwt_def jwt_secret_def res_bind_eq_Inr ok_or_eq_Inr)
  ultimately have "auth_middleware ae nxt rq st = nxt (rq\<lparr>hq_headers := hdr_insert ''x-tenant-id'' (us_tenant_id u) (hq_headers rq),
      hq_claims := Some c\<rparr>) st"
    using rq(2-4) c(3) ids [OF u(1)] by (simp add: auth_middleware_def handle_jwt_def gateway(3))
  with u c(2) show ?thesis by blast
qed

definition gw_request :: "string \<Rightarrow> http_request" where
  "gw_request token = \<lparr>hq_method = ''POST'', hq_path = ''/v1/chat/completions'',
     hq_headers = [(''authorization'', ''Bearer '' @ token)], hq_body = [], hq_trace = None, hq_claims = None\<rparr>"

lemma gw_request:
  assumes "list_all hdr_visible token"
  shows "hdr_str (hq_headers (gw_request token)) ''authorization'' = Some (''Bearer '' @ token)"
    "hq_method (gw_request token) \<noteq> ''OPTIONS''" "hq_path (gw_request token) \<noteq> ''/health''"
    "hq_path (gw_request token) \<noteq> ''/v1/health''"
  using assms by (simp_all add: gw_request_def hdr_str_def hdr_visible_def)

lemma jwt_sample_inverse: "jwt_inverse ac_sample"
  by (simp add: jwt_inverse_def jwt_sample_enc_def jwt_sample_dec_def)

lemma login_session_accepted_witness:
  "\<exists>r v token. fst (login ac_sample (io_sample ''new'') \<lparr>lq_email = ''a@b'', lq_password = ''pw''\<rparr> s_sample) = Inr r \<and>
    rbody r = BJson v \<and> jget_str v ''token'' = Some token \<and>
    auth_middleware \<lparr>ae_secret = Some ''s'', ae_jwt = (\<lambda>k. jwt_sample_dec 604799), ae_uuid = Some, ae_sha = id,
      ae_keys = (\<lambda>h. KeyMissing)\<rparr> (\<lambda>rq st. (status_response 200, hdr_str (hq_headers rq) ''x-tenant-id''))
      (gw_request token) None = (status_response 200, Some ''t'')"
proof -
  obtain r where r: "fst (login ac_sample (io_sample ''new'') \<lparr>lq_email = ''a@b'', lq_password = ''pw''\<rparr> s_sample) = Inr r"
    using login_sample by blast
  have users: "set (db_users (au_db s_sample)) = {\<lparr>us_id = ''u'', us_email = ''a@b'', us_password_hash = Some ''pw'',
      us_tenant_id = ''t'', us_created_at = 0, us_auth_provider = ''email_password'', us_provider_id = None\<rparr>}"
    by (simp add: s_sample_def db_sample_def)
  obtain v token where v: "rbody r = BJson v" "jget_str v ''token'' = Some token"
    and tk: "generate_jwt ac_sample 0 ''u'' ''t'' = Inr token"
    using login_success [OF r] by (auto simp: users)
  then have tok: "token = enc_str ''u'' @ enc_str ''t'' @ enc_word (of_nat jwt_lifetime)"
    by (simp add: generate_jwt_def jwt_secret_def jwt_sample_enc_def)
  from tok have nolive: "\<not> starts_with token live_prefix" by (simp add: starts_with_def live_prefix_def)
  let ?ae = "\<lparr>ae_secret = Some ''s'', ae_jwt = (\<lambda>k. jwt_sample_dec 604799), ae_uuid = Some, ae_sha = id,
      ae_keys = (\<lambda>h. KeyMissing)\<rparr>"
  let ?rq = "gw_request token"
  let ?nxt = "\<lambda>rq st. (status_response 200, hdr_str (hq_headers rq) ''x-tenant-id'')"
  have gw: "ae_secret ?ae = ac_env ac_sample ''JWT_SECRET''"
    "ae_jwt ?ae = (\<lambda>k. ac_jwt_decode ac_sample k (604799000000 div 1000000))" "ae_uuid ?ae = ac_uuid ac_sample"
    by (simp_all add: fun_eq_iff)
  have tm: "io_now (io_sample ''new'') div 1000000 + jwt_lifetime < 2 ^ 64"
    "604799000000 div 1000000 < io_now (io_sample ''new'') div 1000000 + jwt_lifetime"
    by (simp_all add: jwt_lifetime_def)
  have ids: "\<And>u. u \<in> set (db_users (au_db s_sample)) \<Longrightarrow> ac_uuid ac_sample (us_tenant_id u) = Some (us_tenant_id u)"
    by simp
  have vis: "list_all hdr_visible token" unfolding tok by (simp add: hdr_visible_def)
  from login_session_accepted [OF r jwt_sample_inverse tm gw ids v nolive gw_request [OF vis], of ?nxt None]
  obtain c where "auth_middleware ?ae ?nxt ?rq None =
    ?nxt (?rq\<lparr>hq_headers := hdr_insert ''x-tenant-id'' ''t'' (hq_headers ?rq), hq_claims := Some c\<rparr>) None"
    by (auto simp: users)
  moreover have "hdr_str (hdr_insert ''x-tenant-id'' ''t'' (hq_headers ?rq)) ''x-tenant-id'' = Some ''t''"
    by (simp add: hdr_str_def hdr_insert_def hdr_visible_def)
  ultimately show ?thesis using r v by auto
qed

section \<open>Onboarding\<close>

text \<open>The gateway finds a key by its digest in the same table.\<close>

definition gateway_key_lookup :: "auth_db \<Rightarrow> string \<Rightarrow> key_row" where
  "gateway_key_lookup db h =
     (case find (\<lambda>k. ak_key_hash k = h \<and> ak_is_active k) (db_api_keys db) of
        None \<Rightarrow> KeyMissing
      | Some k \<Rightarrow> KeyTenant (ak_tenant_id k))"

lemma lookup_has_key:
  assumes "db_ok db" and "has_key t h db"
  shows "gateway_key_lookup db h = KeyTenant t"
proof -
  obtain k where k: "k \<in> set (db_api_keys db)" "ak_tenant_id k = t" "ak_key_hash k = h" "ak_is_active k"
    using assms(2) by (auto simp: has_key_def)
  then obtain k' where k': "find (\<lambda>k. ak_key_hash k = h \<and> ak_is_active k) (db_api_keys db) = Some k'"
    by (cases "find (\<lambda>k. ak_key_hash k = h \<and> ak_is_active k) (db_api_keys db)") (auto simp: find_None_iff)
  then have "k' \<in> set (db_api_keys db)" "ak_key_hash k' = h" using find_Some_in [OF k'] by simp_all
  moreover have "distinct (map ak_key_hash (db_api_keys db))" using assms(1) by (simp add: db_ok_def)
  ultimately have "k' = k" using k by (auto simp: distinct_map dest: inj_onD)
  with k k' show ?thesis by (simp add: gateway_key_lookup_def)
qed

definition onboard_sample_request :: onboard_request where
  "onboard_sample_request = \<lparr>oq_account_type = ''individual'', oq_provider = ''openai'', oq_api_key = ''sk'',
     oq_workspace_name = None\<rparr>"

definition c_sample :: claims where
  "c_sample = \<lparr>cl_sub = ''u'', cl_tenant_id = ''t'', cl_exp = 0\<rparr>"

lemma onboard_sample:
  "\<exists>r. fst (onboard ac_sample (io_sample ''x'') c_sample onboard_sample_request s_sample) = Inr r"
proof -
  have lower: "ascii_lower ''individual'' = ''individual''" by code_simp
  have key: "encrypt_api_key ac_sample (replicate 12 (CHR ''n'')) ''sk'' = Inr (replicate 12 (CHR ''n'') @ ''sk'')"
    by (simp add: encrypt_api_key_def master_key_def)
  have valid: "validate_api_key (io_net (io_sample ''x'')) ''openai'' ''sk'' = Inr True"
    by (simp add: validate_api_key_def provider_probe_def send_request_def sendable_def is_success_def)
  have jwt: "\<exists>t. generate_jwt ac_sample 0 ''u'' ''t'' = Inr t"
    by (simp add: generate_jwt_def jwt_secret_def)
  have checked: "checked_provider_key ac_sample (io_sample ''x'') ''openai'' ''sk'' = au_ret (replicate 12 (CHR ''n'') @ ''sk'')"
    by (simp add: checked_provider_key_def valid key au_lift_def au_ret_def)
  have tables: "\<exists>s'. onboard_tables (io_sample ''x'') ''t'' onboard_sample_request ''individual'' enc h
      (s_sample\<lparr>au_calls := Suc (au_calls s_sample)\<rparr>) = (Inr ''My Workspace'', s') \<and> db_users (au_db s') = db_users db_sample" for enc h
    by (simp add: onboard_tables_def au_bind_cases onboard_sample_request_def q_onboard_tenant_def q_tenant_def
        q_upsert_provider_key_def char_count_def q_insert_api_key_def q_upsert_route_def route_providers_def Let_def
        s_sample_def db_sample_def)
  obtain s' where "au_transaction (io_sample ''x'') (onboard_tables (io_sample ''x'') ''t'' onboard_sample_request ''individual''
      (replicate 12 (CHR ''n'') @ ''sk'') ''re_live_kk'') s_sample = (Inr ''My Workspace'', s')"
    "db_users (au_db s') = db_users db_sample"
    using tables [of "replicate 12 (CHR ''n'') @ ''sk''" "''re_live_kk''"] by (auto simp: au_transaction_def)
  with jwt show ?thesis
    by (auto simp: onboard_def c_sample_def claim_ids_def lower checked au_bind_cases q_user_def Let_def
        onboard_sample_request_def db_sample_def generate_redeye_api_key_def hash_api_key_def)
qed

text \<open>C13. What onboarding hands out works: the key in its answer is one the gateway's authentication
  accepts as the caller's tenant, whatever requests the service serves in between, and the
  provider key it stored is one the gateway decrypts to the key the caller gave.\<close>

theorem onboarding_credentials_work:
  assumes onboarded: "fst (onboard ac io c q s) = Inr r" and tables: "db_ok (au_db s)"
    and lib: "aes_inverse ac" "length (io_nonce io) = 12" "ac_utf8 ac (oq_api_key q)"
    and body: "rbody r = BJson v" "jget_str v ''redeye_api_key'' = Some key"
    and gateway: "ae_sha ae = ac_sha ac"
      "ae_keys ae = gateway_key_lookup (au_db (auth_run ac evs (snd (onboard ac io c q s))))"
    and rq: "hdr_str (hq_headers rq) ''authorization'' = Some (''Bearer '' @ key)" "hq_method rq \<noteq> ''OPTIONS''"
      "hq_path rq \<noteq> ''/health''" "hq_path rq \<noteq> ''/v1/health''"
  shows "\<exists>tenant. ac_uuid ac (cl_tenant_id c) = Some tenant \<and>
    auth_middleware ae nxt rq st = nxt (rq\<lparr>hq_headers := hdr_insert ''x-tenant-id'' tenant (hq_headers rq),
      hq_claims := Some \<lparr>cl_sub = ''api_key'', cl_tenant_id = tenant, cl_exp = 0\<rparr>\<rparr>) st \<and>
    (\<exists>k \<in> set (db_provider_keys (au_db (snd (onboard ac io c q s)))). pk_tenant_id k = tenant \<and>
      pk_provider_name k = oq_provider q \<and>
      decrypt_api_key (ac_aes_dec ac) (ac_utf8 ac) (ac_env ac ''AES_MASTER_KEY'') (pk_encrypted_key k) = Inr (oq_api_key q))"
proof -
  obtain t u enc where ids: "claim_ids ac c = Inr (t, u)" and enc: "encrypt_api_key ac (io_nonce io) (oq_api_key q) = Inr enc"
    and has: "has_key t (ac_sha ac (''re_live_'' @ io_alnum io)) (au_db (snd (onboard ac io c q s)))"
      "has_provider_key t (oq_provider q) ''default'' enc (au_db (snd (onboard ac io c q s)))"
    and key: "key = ''re_live_'' @ io_alnum io"
    using onboard_success [OF onboarded] body by auto
  have t: "ac_uuid ac (cl_tenant_id c) = Some t" using ids by (auto simp: claim_ids_def res_bind_eq_Inr ok_or_eq_Inr)
  have "db_ok (au_db (snd (onboard ac io c q s)))"
    using integrity.handlers(4) [of ac io c q] tables by (simp add: au_keeps_def)
  then have "gateway_key_lookup (au_db (auth_run ac evs (snd (onboard ac io c q s)))) (ac_sha ac key) = KeyTenant t"
    using has(1) key by (intro lookup_has_key integrity_run has_key_run) simp_all
  moreover have "request_token (hq_headers rq) = Some (key, True)"
    using rq(1) by (simp add: request_token_def strip_prefix_def starts_with_def live_prefix_def key)
  ultimately have "auth_middleware ae nxt rq st = nxt (rq\<lparr>hq_headers := hdr_insert ''x-tenant-id'' t (hq_headers rq),
      hq_claims := Some \<lparr>cl_sub = ''api_key'', cl_tenant_id = t, cl_exp = 0\<rparr>\<rparr>) st"
    using rq(2-4) by (simp add: auth_middleware_def handle_api_key_def gateway)
  moreover have "decrypt_api_key (ac_aes_dec ac) (ac_utf8 ac) (ac_env ac ''AES_MASTER_KEY'') enc = Inr (oq_api_key q)"
    using enc lib by (auto simp: decrypt_api_key_def encrypt_api_key_def master_key_def aes_inverse_def
        res_bind_eq_Inr ok_or_eq_Inr split: option.splits if_splits)
  ultimately show ?thesis using t has(2) unfolding has_provider_key_def by blast
qed

lemma onboarding_credentials_work_witness:
  "let s' = snd (onboard ac_sample (io_sample ''x'') c_sample onboard_sample_request s_sample) in
    auth_middleware \<lparr>ae_secret = None, ae_jwt = (\<lambda>k t. None), ae_uuid = Some, ae_sha = (\<lambda>x. x),
      ae_keys = gateway_key_lookup (au_db (auth_run ac_sample [(io_sample ''y'', EvApiKeys c_sample)] s'))\<rparr>
      (\<lambda>rq st. (status_response 200, hdr_str (hq_headers rq) ''x-tenant-id'')) (gw_request ''re_live_kk'') None =
    (status_response 200, Some ''t'')"
proof -
  let ?s = "snd (onboard ac_sample (io_sample ''x'') c_sample onboard_sample_request s_sample)"
  let ?ae = "\<lparr>ae_secret = None, ae_jwt = (\<lambda>k t. None), ae_uuid = Some, ae_sha = (\<lambda>x. x),
      ae_keys = gateway_key_lookup (au_db (auth_run ac_sample [(io_sample ''y'', EvApiKeys c_sample)] ?s))\<rparr>"
  let ?nxt = "\<lambda>rq st. (status_response 200, hdr_str (hq_headers rq) ''x-tenant-id'')"
  obtain r where r: "fst (onboard ac_sample (io_sample ''x'') c_sample onboard_sample_request s_sample) = Inr r"
    using onboard_sample by blast
  obtain v where v: "rbody r = BJson v" "jget_str v ''redeye_api_key'' = Some ''re_live_kk''"
    using onboard_success [OF r] by auto
  have lib: "db_ok (au_db s_sample)" "aes_inverse ac_sample" "length (io_nonce (io_sample ''x'')) = 12"
    "ac_utf8 ac_sample (oq_api_key onboard_sample_request)" "ae_sha ?ae = ac_sha ac_sample"
    by (simp_all add: s_sample_def db_sample_ok aes_inverse_def fun_eq_iff)
  have vis: "list_all hdr_visible ''re_live_kk''" by (simp add: hdr_visible_def)
  have "ae_keys ?ae = gateway_key_lookup (au_db (auth_run ac_sample [(io_sample ''y'', EvApiKeys c_sample)] ?s))" by simp
  from onboarding_credentials_work [OF r lib(1-4) v lib(5) this gw_request [OF vis], of ?nxt None]
  have "auth_middleware ?ae ?nxt (gw_request ''re_live_kk'') None = (status_response 200,
      hdr_str (hdr_insert ''x-tenant-id'' ''t'' (hq_headers (gw_request ''re_live_kk''))) ''x-tenant-id'')"
    by (auto simp: c_sample_def)
  also have "hdr_str (hdr_insert ''x-tenant-id'' ''t'' (hq_headers (gw_request ''re_live_kk''))) ''x-tenant-id'' = Some ''t''"
    by (simp add: hdr_str_def hdr_insert_def hdr_visible_def)
  finally show ?thesis by simp
qed

text \<open>The providers a tenant can be onboarded with are the four of the routes table: for any other
  name, the validator's DeepSeek, OpenRouter and Together included, onboarding fails however
  valid the key is, and leaves no part of it in the tables.\<close>

theorem onboarding_unroutable_provider:
  assumes "oq_provider q \<notin> set route_providers"
  shows "isl (fst (onboard ac io c q s)) \<and> au_db (snd (onboard ac io c q s)) = au_db s"
proof (rule conjI)
  show "isl (fst (onboard ac io c q s))"
    using onboard_success [of ac io c q s] assms by (cases "fst (onboard ac io c q s)") auto
  show "au_db (snd (onboard ac io c q s)) = au_db s" using assms by (rule onboard_unroutable)
qed

lemma onboarding_unroutable_provider_witness:
  "isl (fst (onboard ac_sample (io_sample ''x'') c_sample (onboard_sample_request\<lparr>oq_provider := ''deepseek''\<rparr>) s_sample)) \<and>
   validate_api_key (io_net (io_sample ''x'')) ''deepseek'' ''sk'' = Inr True"
proof (rule conjI)
  show "isl (fst (onboard ac_sample (io_sample ''x'') c_sample (onboard_sample_request\<lparr>oq_provider := ''deepseek''\<rparr>) s_sample))"
    using onboarding_unroutable_provider [of "onboard_sample_request\<lparr>oq_provider := ''deepseek''\<rparr>" ac_sample
      "io_sample ''x''" c_sample s_sample] by (simp add: route_providers_def)
qed (simp add: validate_api_key_def provider_probe_def send_request_def sendable_def is_success_def)

text \<open>A protected route needs a verified token, and one that came in a cookie needs the CSRF header
  as well unless the method is GET or HEAD: in every other case the handler is not entered
  and the tables stay as they are.\<close>

theorem protected_needs_token:
  assumes "hq_method rq \<noteq> ''OPTIONS''"
    and "\<nexists>token source c. extract_token (hq_headers rq) = Some (token, source) \<and> verify_auth_jwt ac now token = Inr c \<and>
      (source = BearerHeader \<or> hq_method rq \<in> {''GET'', ''HEAD''} \<or> csrf_present (hq_headers rq))"
  shows "\<exists>code \<in> {401, 403}. auth_service_middleware ac now nxt rq st = (Some (status_response code), st)"
proof (cases "extract_token (hq_headers rq)")
  case (Some ts)
  obtain token source where ts: "ts = (token, source)" by (cases ts)
  show ?thesis
    using assms Some ts
    by (cases source; cases "verify_auth_jwt ac now token") (auto simp: auth_service_middleware_def)
qed (use assms(1) in \<open>simp add: auth_service_middleware_def\<close>)

lemma protected_needs_token_witness:
  "\<exists>code \<in> {401, 403}. auth_service_middleware ac_sample 0 (\<lambda>rq st. (None, Suc st))
     \<lparr>hq_method = ''POST'', hq_path = ''/v1/auth/onboard'', hq_headers = [(''cookie'', ''re_token=x'')], hq_body = [],
      hq_trace = None, hq_claims = None\<rparr> 7 = (Some (status_response code), 7)"
  by (rule protected_needs_token) (simp_all add: extract_token_def csrf_present_def hdr_str_def hdr_visible_def)

end
