(* ===== verification/Interleaving.thy ===== *)
theory Interleaving
  imports Main
begin

text \<open>
  Requests that run at the same time over a shared state: a request is a tree of atomic actions,
  an interleaving a sequence of single actions of any of the requests under way. What all
  interleavings keep is shown request by request.
\<close>

section \<open>Actions\<close>

datatype ('s, 'r) act = Done 'r | Act "'s \<Rightarrow> ('s, 'r) act \<times> 's"

primrec act_bind :: "('s, 'r) act \<Rightarrow> ('r \<Rightarrow> ('s, 'q) act) \<Rightarrow> ('s, 'q) act" where
  "act_bind (Done r) f = f r"
| "act_bind (Act k) f = Act (map_prod (\<lambda>t. act_bind t f) id \<circ> k)"

definition atomically :: "('s \<Rightarrow> 'r \<times> 's) \<Rightarrow> ('s, 'r) act" where
  "atomically m = Act (\<lambda>s. case m s of (r, s') \<Rightarrow> (Done r, s'))"

primrec run_act :: "('s, 'r) act \<Rightarrow> 's \<Rightarrow> 'r \<times> 's" where
  "run_act (Done r) = (\<lambda>s. (r, s))"
| "run_act (Act k) = (\<lambda>s. case map_prod run_act id (k s) of (g, s') \<Rightarrow> g s')"

lemma fst_fsts: "fst (k s) \<in> Basic_BNFs.fsts (k s)"
  by (cases "k s") auto

lemma run_act_Act: "run_act (Act k) s = run_act (fst (k s)) (snd (k s))"
  by (simp add: map_prod_def split_beta)

lemma run_bind: "run_act (act_bind t f) s = (case run_act t s of (r, s') \<Rightarrow> run_act (f r) s')"
proof (induction t arbitrary: s)
  case (Act k)
  from Act [OF rangeI [of k s] fst_fsts [of k s]] show ?case
    by (simp only: act_bind.simps run_act_Act) (simp add: map_prod_def split_beta comp_def)
qed simp

lemma run_atomically [simp]: "run_act (atomically m) = m"
  by (simp add: atomically_def fun_eq_iff split_beta)

section \<open>Interleavings\<close>

text \<open>One step of one of the requests under way.\<close>

inductive conc :: "'s \<times> ('s, 'r) act list \<Rightarrow> 's \<times> ('s, 'r) act list \<Rightarrow> bool" where
  turn: "i < length ts \<Longrightarrow> ts ! i = Act k \<Longrightarrow> conc (s, ts) (snd (k s), ts[i := fst (k s)])"

inductive_cases concE: "conc (s, ts) c"

abbreviation concs :: "'s \<times> ('s, 'r) act list \<Rightarrow> 's \<times> ('s, 'r) act list \<Rightarrow> bool" where
  "concs \<equiv> conc\<^sup>*\<^sup>*"

text \<open>A request may take a step, or run to its end, without the others moving.\<close>

lemma conc_atomically:
  "i < length ts \<Longrightarrow> ts ! i = act_bind (atomically m) f \<Longrightarrow> conc (s, ts) (snd (m s), ts[i := f (fst (m s))])"
  using conc.turn [of i ts "map_prod (\<lambda>t. act_bind t f) id \<circ> (\<lambda>s. case m s of (r, s') \<Rightarrow> (Done r, s'))" s]
  by (simp add: atomically_def map_prod_def split_beta)

lemma concs_finish:
  assumes "i < length ts" and "run_act (ts ! i) s = (r, s')"
  shows "concs (s, ts) (s', ts[i := Done r])"
  using assms
proof (induction "ts ! i" arbitrary: s ts)
  case (Done r')
  then have "ts ! i = Done r" "s' = s" by (metis Pair_inject run_act.simps(1))+
  then show ?case using list_update_id [of ts i] by simp
next
  case (Act k)
  have "run_act (fst (k s)) (snd (k s)) = (r, s')"
    using Act.prems(2) unfolding Act.hyps(2) [symmetric] run_act_Act .
  moreover have "fst (k s) \<in> Basic_BNFs.fsts (k s)" by (rule fst_fsts)
  ultimately have "concs (snd (k s), ts[i := fst (k s)]) (s', (ts[i := fst (k s)])[i := Done r])"
    using Act.prems(1) by (intro Act.hyps(1) [OF rangeI]) simp_all
  moreover have "conc (s, ts) (snd (k s), ts[i := fst (k s)])"
    using conc.turn [OF Act.prems(1) Act.hyps(2) [symmetric]] .
  ultimately show ?case by (simp add: converse_rtranclp_into_rtranclp)
qed

lemma conc_stuck:
  assumes "\<And>c. \<not> conc (s, ts) c"
  shows "list_all (\<lambda>t. \<exists>r. t = Done r) ts"
proof -
  have "\<exists>r. t = Done r" if "t \<in> set ts" for t
  proof (cases t)
    case (Act k)
    with that obtain i where "i < length ts" "ts ! i = Act k" by (auto simp: in_set_conv_nth)
    from conc.turn [OF this] assms show ?thesis by blast
  qed simp
  then show ?thesis by (simp add: list_all_iff)
qed

section \<open>What a request keeps\<close>

text \<open>Every step, whatever the request has seen so far, keeps a property of the state.\<close>

primrec keeps :: "('s \<Rightarrow> bool) \<Rightarrow> ('s, 'r) act \<Rightarrow> bool" where
  "keeps P (Done r) = True"
| "keeps P (Act k) = (\<forall>s. case map_prod (keeps P) id (k s) of (ok, s') \<Rightarrow> ok \<and> (P s \<longrightarrow> P s'))"

text \<open>Every step keeps it when it holds before each, and then the end has a property.\<close>

primrec assured :: "('s \<Rightarrow> bool) \<Rightarrow> ('s, 'r) act \<Rightarrow> ('r \<Rightarrow> bool) \<Rightarrow> bool" where
  "assured P (Done r) = (\<lambda>Q. Q r)"
| "assured P (Act k) = (\<lambda>Q. \<forall>s. P s \<longrightarrow> (case map_prod (assured P) id (k s) of (ok, s') \<Rightarrow> P s' \<and> ok Q))"

text \<open>It ends after at most so many steps.\<close>

primrec within :: "('s, 'r) act \<Rightarrow> nat \<Rightarrow> bool" where
  "within (Done r) = (\<lambda>m. True)"
| "within (Act k) = (\<lambda>m. \<forall>s. 0 < m \<and> (case map_prod within id (k s) of (ok, s') \<Rightarrow> ok (m - 1)))"

lemma keeps_Act: "keeps P (Act k) \<longleftrightarrow> (\<forall>s. keeps P (fst (k s)) \<and> (P s \<longrightarrow> P (snd (k s))))"
  by (simp add: map_prod_def split_beta)

lemma assured_Act: "assured P (Act k) Q \<longleftrightarrow> (\<forall>s. P s \<longrightarrow> P (snd (k s)) \<and> assured P (fst (k s)) Q)"
  by (simp add: map_prod_def split_beta)

lemma within_Act: "within (Act k) m \<longleftrightarrow> 0 < m \<and> (\<forall>s. within (fst (k s)) (m - 1))"
  by (simp add: map_prod_def split_beta)

declare keeps.simps(2) [simp del] assured.simps(2) [simp del] within.simps(2) [simp del]

lemma keeps_ActD: "keeps P (Act k) \<Longrightarrow> keeps P (fst (k s))" "keeps P (Act k) \<Longrightarrow> P s \<Longrightarrow> P (snd (k s))"
  unfolding keeps_Act by blast+

lemma assured_ActD:
  "assured P (Act k) Q \<Longrightarrow> P s \<Longrightarrow> P (snd (k s))" "assured P (Act k) Q \<Longrightarrow> P s \<Longrightarrow> assured P (fst (k s)) Q"
  unfolding assured_Act by blast+

lemma within_ActD: "within (Act k) m \<Longrightarrow> 0 < m" "within (Act k) m \<Longrightarrow> within (fst (k s)) (m - 1)"
  unfolding within_Act by blast+

lemma keeps_assured: "keeps P t \<Longrightarrow> assured P t (\<lambda>_. True)"
proof (induction t)
  case (Act k)
  have "assured P (fst (k s)) (\<lambda>_. True)" for s
    by (rule Act.IH [OF rangeI [of k s] fst_fsts [of k s] keeps_ActD(1) [OF Act.prems]])
  with keeps_ActD(2) [OF Act.prems] show ?case unfolding assured_Act by blast
qed simp

lemma assured_mono: "assured P t Q \<Longrightarrow> (\<And>r. Q r \<Longrightarrow> Q' r) \<Longrightarrow> assured P t Q'"
proof (induction t)
  case (Act k)
  have "assured P (fst (k s)) Q'" if "P s" for s
    by (rule Act.IH [OF rangeI [of k s] fst_fsts [of k s] assured_ActD(2) [OF Act.prems(1) that] Act.prems(2)])
  with assured_ActD(1) [OF Act.prems(1)] show ?case unfolding assured_Act by blast
qed simp

lemma within_mono: "within t m \<Longrightarrow> m \<le> m' \<Longrightarrow> within t m'"
proof (induction t arbitrary: m m')
  case (Act k)
  have "within (fst (k s)) (m' - 1)" for s
    using Act.prems(2) by (intro Act.IH [OF rangeI [of k s] fst_fsts [of k s] within_ActD(2) [OF Act.prems(1)]]) simp
  with within_ActD(1) [OF Act.prems(1)] Act.prems(2) show ?case unfolding within_Act by simp
qed simp

lemma keeps_bind: "keeps P t \<Longrightarrow> (\<And>r. keeps P (f r)) \<Longrightarrow> keeps P (act_bind t f)"
proof (induction t)
  case (Act k)
  have "keeps P (act_bind (fst (k s)) f)" for s
    by (rule Act.IH [OF rangeI [of k s] fst_fsts [of k s] keeps_ActD(1) [OF Act.prems(1)] Act.prems(2)])
  with keeps_ActD(2) [OF Act.prems(1)] show ?case by (simp add: keeps_Act map_prod_def split_beta)
qed simp

lemma assured_bind: "assured P t Q \<Longrightarrow> (\<And>r. Q r \<Longrightarrow> assured P (f r) R) \<Longrightarrow> assured P (act_bind t f) R"
proof (induction t)
  case (Act k)
  have "assured P (act_bind (fst (k s)) f) R" if "P s" for s
    by (rule Act.IH [OF rangeI [of k s] fst_fsts [of k s] assured_ActD(2) [OF Act.prems(1) that] Act.prems(2)])
  with assured_ActD(1) [OF Act.prems(1)] show ?case
    unfolding act_bind.simps assured_Act by (simp add: map_prod_def split_beta)
qed simp

lemma within_bind: "within t a \<Longrightarrow> (\<And>r. within (f r) b) \<Longrightarrow> within (act_bind t f) (a + b)"
proof (induction t arbitrary: a)
  case (Done r)
  then show ?case using within_mono [OF Done.prems(2), of "a + b"] by simp
next
  case (Act k)
  have "within (act_bind (fst (k s)) f) ((a - 1) + b)" for s
    by (rule Act.IH [OF rangeI [of k s] fst_fsts [of k s] within_ActD(2) [OF Act.prems(1)] Act.prems(2)])
  moreover have "a + b - 1 = a - 1 + b" using within_ActD(1) [OF Act.prems(1)] by simp
  ultimately show ?case using within_ActD(1) [OF Act.prems(1)] by (simp add: within_Act comp_def)
qed

lemma keeps_atomically: "(\<And>s. P s \<Longrightarrow> P (snd (m s))) \<Longrightarrow> keeps P (atomically m)"
  unfolding atomically_def keeps_Act by (simp add: split_beta)

lemma assured_atomically: "(\<And>s. P s \<Longrightarrow> P (snd (m s)) \<and> Q (fst (m s))) \<Longrightarrow> assured P (atomically m) Q"
  unfolding atomically_def assured_Act by (simp add: split_beta)

lemma within_atomically: "0 < m \<Longrightarrow> within (atomically a) m"
  unfolding atomically_def within_Act by (simp add: split_beta)

section \<open>What interleavings keep\<close>

lemma concs_keep:
  assumes "concs (s, ts) (s', ts')" and "\<forall>t \<in> set ts. keeps P t"
  shows "(P s \<longrightarrow> P s') \<and> (\<forall>t \<in> set ts'. keeps P t) \<and> length ts' = length ts"
  using assms(1)
proof (induction "(s', ts')" arbitrary: s' ts' rule: rtranclp_induct)
  case base
  with assms(2) show ?case by simp
next
  case (step c)
  obtain s1 ts1 where c: "c = (s1, ts1)" by (cases c)
  with step have IH: "P s \<longrightarrow> P s1" "\<forall>t \<in> set ts1. keeps P t" "length ts1 = length ts" by auto
  from step.hyps(2) c obtain i k where i: "i < length ts1" "ts1 ! i = Act k"
    and eq: "s' = snd (k s1)" "ts' = ts1[i := fst (k s1)]" by (auto elim: concE)
  from IH(2) i have "keeps P (Act k)" by (metis nth_mem)
  note this [THEN keeps_ActD(1), of s1] this [THEN keeps_ActD(2), of s1]
  with IH show ?case by (auto simp: eq dest: set_update_subset_insert [THEN subsetD])
qed

lemma concs_assured:
  assumes "concs (s, ts) (s', ts')" and "P s" and "list_all2 (assured P) ts Qs"
  shows "P s' \<and> list_all2 (assured P) ts' Qs"
  using assms(1)
proof (induction "(s', ts')" arbitrary: s' ts' rule: rtranclp_induct)
  case base
  with assms(2,3) show ?case by simp
next
  case (step c)
  obtain s1 ts1 where c: "c = (s1, ts1)" by (cases c)
  with step have IH: "P s1" "list_all2 (assured P) ts1 Qs" by auto
  from step.hyps(2) c obtain i k where i: "i < length ts1" "ts1 ! i = Act k"
    and eq: "s' = snd (k s1)" "ts' = ts1[i := fst (k s1)]" by (auto elim: concE)
  from list_all2_nthD [OF IH(2) i(1)] have a: "assured P (Act k) (Qs ! i)" by (simp add: i(2))
  have "list_all2 (assured P) ts' (Qs[i := Qs ! i])"
    unfolding eq by (intro list_all2_update_cong IH(2) assured_ActD(2) [OF a IH(1)])
  with assured_ActD(1) [OF a IH(1)] show ?case by (simp add: eq)
qed

text \<open>Every step uses up one of those the requests have left.\<close>

lemma conc_uses:
  assumes "conc (s, ts) (s', ts')" and "list_all2 within ts ms"
  shows "\<exists>ms'. list_all2 within ts' ms' \<and> sum_list ms = Suc (sum_list ms')"
proof -
  from assms(1) obtain i k where 1: "i < length ts" "ts ! i = Act k" "ts' = ts[i := fst (k s)]" by (auto elim: concE)
  have i: "i < length ms" using assms(2) 1 by (simp add: list_all2_lengthD)
  have "within (Act k) (ms ! i)" using list_all2_nthD [OF assms(2)] 1 by metis
  then have m: "0 < ms ! i" "within (fst (k s)) (ms ! i - 1)" by (rule within_ActD)+
  have "list_all2 within ts' (ms[i := ms ! i - 1])"
    using 1 m(2) by (auto intro: list_all2_update_cong assms(2))
  moreover have "sum_list ms = Suc (sum_list (ms[i := ms ! i - 1]))"
    using i m(1) elem_le_sum_list [OF i] by (simp add: sum_list_update)
  ultimately show ?thesis by blast
qed

lemma concs_bounded:
  assumes "(conc ^^ m) (s, ts) (s', ts')" and "\<forall>t \<in> set ts. within t b"
  shows "m \<le> b * length ts"
proof -
  have "\<exists>ms. list_all2 within ts' ms \<and> b * length ts = m + sum_list ms" using assms(1)
  proof (induction m arbitrary: s' ts')
    case 0
    then show ?case using assms(2)
      by (intro exI [of _ "replicate (length ts) b"]) (auto simp: list_all2_conv_all_nth sum_list_replicate)
  next
    case (Suc m)
    then obtain s1 ts1 where "(conc ^^ m) (s, ts) (s1, ts1)" and step: "conc (s1, ts1) (s', ts')" by auto
    from Suc.IH [OF this(1)] obtain ms where "list_all2 within ts1 ms" "b * length ts = m + sum_list ms" by blast
    with conc_uses [OF step] show ?case by fastforce
  qed
  then show ?thesis by auto
qed

end
