(* ===== verification/Auth_Concurrency.thy ===== *)
theory Auth_Concurrency
  imports Auth_Laws Interleaving
begin

text \<open>
  Requests of the auth service that run at the same time. A handler is cut at its database calls:
  between two of them any other request may make its own. A transaction is one step; what
  its statements would see of each other's uncommitted work is not considered.
\<close>

section \<open>Threads\<close>

text \<open>The state the requests share, and a request that is under way; a request counts its own calls.\<close>

type_synonym shared = "auth_db \<times> upstream_req list"

type_synonym 'a thread = "(shared, (auth_failure + 'a) \<times> nat) act"

type_synonym 'a th = "nat \<Rightarrow> 'a thread"

definition th_ret :: "'a \<Rightarrow> 'a th" where
  "th_ret x n = Done (Inr x, n)"

definition th_fail :: "auth_error \<Rightarrow> 'a th" where
  "th_fail e n = Done (Inl (Failed e), n)"

definition th_lift :: "auth_error + 'a \<Rightarrow> 'a th" where
  "th_lift r = (case r of Inl e \<Rightarrow> th_fail e | Inr x \<Rightarrow> th_ret x)"

definition th_bind :: "'a th \<Rightarrow> ('a \<Rightarrow> 'b th) \<Rightarrow> 'b th" where
  "th_bind m f n = act_bind (m n) (\<lambda>(r, n'). case r of Inl e \<Rightarrow> Done (Inl e, n') | Inr x \<Rightarrow> f x n')"

text \<open>A computation that the database runs as one step.\<close>

definition au_of :: "'a au \<Rightarrow> nat \<Rightarrow> shared \<Rightarrow> ((auth_failure + 'a) \<times> nat) \<times> shared" where
  "au_of m n s = (case m \<lparr>au_db = fst s, au_calls = n, au_mail = snd s\<rparr> of
     (r, s') \<Rightarrow> ((r, au_calls s'), au_db s', au_mail s'))"

definition th_atomic :: "'a au \<Rightarrow> 'a th" where
  "th_atomic m n = atomically (au_of m n)"

section \<open>Two handlers, call by call\<close>

text \<open>The end of a session's start, after the rows were found.\<close>

definition session_thread :: "auth_cfg \<Rightarrow> auth_io \<Rightarrow> string \<Rightarrow> string \<Rightarrow> (string \<times> string \<times> string) th" where
  "session_thread ac io user_id tenant_id = th_atomic (start_session ac io user_id tenant_id)"

text \<open>\<open>refresh\<close> from the deletion of the old token on.\<close>

definition rotate_thread :: "auth_cfg \<Rightarrow> auth_io \<Rightarrow> string \<Rightarrow> string \<Rightarrow> response th" where
  "rotate_thread ac io old_hash user_id =
     th_bind (th_atomic (au_call io (\<lambda>_. q_delete_refresh old_hash))) (\<lambda>_.
     th_bind (th_atomic (au_call io (\<lambda>_. q_user user_id))) (\<lambda>u.
     th_bind (th_atomic (au_call io (\<lambda>_. q_tenant (us_tenant_id u)))) (\<lambda>t.
     th_bind (session_thread ac io user_id (us_tenant_id u)) (\<lambda>(token, refresh_cookie, jwt_cookie).
     th_bind (th_atomic (set_cookies [jwt_cookie, refresh_cookie])) (\<lambda>hs.
     th_ret (with_headers hs (json_response 200 (auth_response_json
       \<lparr>ar_id = user_id, ar_email = us_email u, ar_tenant_id = us_tenant_id u, ar_workspace_name = tn_name t,
        ar_onboarding_complete = tn_onboarding_status t, ar_token = token, ar_redeye_api_key = None\<rparr>))))))))"

definition refresh_thread :: "auth_cfg \<Rightarrow> auth_io \<Rightarrow> headers \<Rightarrow> response th" where
  "refresh_thread ac io hs =
     th_bind (th_lift (ok_or (hdr_str hs ''cookie'') (AeUnauthorized ''Missing refresh token cookie''))) (\<lambda>cookies.
     th_bind (th_lift (ok_or (cookie_value ''refresh_token'' cookies) (AeUnauthorized ''Refresh token cookie not found''))) (\<lambda>raw.
     let old_hash = ac_sha ac raw in
     th_bind (th_atomic (au_call io (\<lambda>_. q_refresh_user (io_now io) old_hash))) (\<lambda>row.
     case row of
       None \<Rightarrow> th_fail (AeUnauthorized ''Invalid or expired refresh token'')
     | Some user_id \<Rightarrow> rotate_thread ac io old_hash user_id)))"

definition verify_otp_thread :: "auth_cfg \<Rightarrow> auth_io \<Rightarrow> otp_verify \<Rightarrow> response th" where
  "verify_otp_thread ac io q =
     th_bind (th_atomic (au_call io (\<lambda>_. q_find_otp (io_now io) (vq_email q) (vq_otp_code q)))) (\<lambda>found.
     if \<not> found then th_fail (AeUnauthorized ''Invalid or expired OTP'')
     else th_bind (th_atomic (au_transaction io (
       au_bind (au_call io (\<lambda>_. q_delete_otp (vq_email q) (vq_otp_code q))) (\<lambda>_.
       account_of io (vq_email q) ''email_otp'' None)))) (\<lambda>(user_id, tenant_id, name, onboarded).
     th_bind (session_thread ac io user_id tenant_id) (\<lambda>(token, refresh_cookie, jwt_cookie).
     th_bind (th_atomic (set_cookies [refresh_cookie, jwt_cookie])) (\<lambda>hs.
     th_ret (with_headers hs (json_response 200 (auth_response_json
       \<lparr>ar_id = user_id, ar_email = vq_email q, ar_tenant_id = tenant_id, ar_workspace_name = name,
        ar_onboarding_complete = onboarded, ar_token = token, ar_redeye_api_key = None\<rparr>)))))))"

section \<open>A thread that runs alone\<close>

definition implements :: "'a th \<Rightarrow> 'a au \<Rightarrow> bool" where
  "implements th m \<longleftrightarrow> (\<forall>n. run_act (th n) = au_of m n)"

named_theorems th_rules \<open>threads that run alone like their handlers\<close>

lemma au_state_eta [simp]: "\<lparr>au_db = au_db s, au_calls = au_calls s, au_mail = au_mail s\<rparr> = (s :: au_state)"
  by (cases s) simp

lemma implements_basic [th_rules]:
  "implements (th_ret x) (au_ret x)" "implements (th_fail e) (au_fail e)"
  "implements (th_lift r) (au_lift r)" "implements (th_atomic m) m"
  by (auto simp: implements_def th_ret_def th_fail_def th_lift_def th_atomic_def au_of_def fun_eq_iff
      split: sum.split prod.split)

lemma implements_bind [th_rules]:
  "implements t m \<Longrightarrow> (\<And>x. implements (f x) (g x)) \<Longrightarrow> implements (th_bind t f) (au_bind m g)"
  by (auto simp: implements_def th_bind_def fun_eq_iff run_bind au_of_def au_bind_def split: prod.split sum.split)

lemma implements_cases [th_rules]:
  "(c \<Longrightarrow> implements t m) \<Longrightarrow> (\<not> c \<Longrightarrow> implements t' m') \<Longrightarrow> implements (if c then t else t') (if c then m else m')"
  "implements t m \<Longrightarrow> (\<And>x. implements (f x) (g x)) \<Longrightarrow>
     implements (case y of None \<Rightarrow> t | Some x \<Rightarrow> f x) (case y of None \<Rightarrow> m | Some x \<Rightarrow> g x)"
  "(\<And>x y. implements (f2 x y) (g2 x y)) \<Longrightarrow> implements (case p of (x, y) \<Rightarrow> f2 x y) (case p of (x, y) \<Rightarrow> g2 x y)"
  "implements (l z) (l' z) \<Longrightarrow> implements (Let z l) (Let z l')"
  by (auto split: option.split prod.split)

lemma refresh_alone: "implements (refresh_thread ac io hs) (refresh ac io hs)"
  unfolding refresh_thread_def refresh_def rotate_thread_def session_thread_def by (intro th_rules)

lemma verify_otp_alone: "implements (verify_otp_thread ac io q) (verify_otp ac io q)"
  unfolding verify_otp_thread_def verify_otp_def session_thread_def by (intro th_rules)

section \<open>What a request keeps of the tables\<close>

named_theorems keeps_rules \<open>threads whose steps keep an invariant\<close>

definition th_keeps :: "(auth_db \<Rightarrow> bool) \<Rightarrow> 'a th \<Rightarrow> bool" where
  "th_keeps P t \<longleftrightarrow> (\<forall>n. keeps (P \<circ> fst) (t n))"

lemma th_keeps_basic [keeps_rules]:
  "th_keeps P (th_ret x)" "th_keeps P (th_fail e)" "th_keeps P (th_lift r)"
  by (auto simp: th_keeps_def th_ret_def th_fail_def th_lift_def split: sum.split)

lemma th_keeps_atomic [keeps_rules]: "au_keeps P m \<Longrightarrow> th_keeps P (th_atomic m)"
proof -
  assume keeps: "au_keeps P m"
  have "P (au_db (snd (m \<lparr>au_db = fst s, au_calls = n, au_mail = snd s\<rparr>)))" if "P (fst s)" for s :: shared and n
    using keeps that unfolding au_keeps_def by (metis au_state.select_convs(1))
  then show "th_keeps P (th_atomic m)"
    unfolding th_keeps_def th_atomic_def by (intro allI keeps_atomically) (simp add: au_of_def split_beta)
qed

lemma th_keeps_bind [keeps_rules]: "th_keeps P t \<Longrightarrow> (\<And>x. th_keeps P (f x)) \<Longrightarrow> th_keeps P (th_bind t f)"
  unfolding th_keeps_def th_bind_def by (intro allI keeps_bind) (auto split: sum.split)

lemma th_keeps_cases [keeps_rules]:
  "(c \<Longrightarrow> th_keeps P t) \<Longrightarrow> (\<not> c \<Longrightarrow> th_keeps P t') \<Longrightarrow> th_keeps P (if c then t else t')"
  "th_keeps P t \<Longrightarrow> (\<And>x. th_keeps P (f x)) \<Longrightarrow> th_keeps P (case y of None \<Rightarrow> t | Some x \<Rightarrow> f x)"
  "(\<And>x y. th_keeps P (g x y)) \<Longrightarrow> th_keeps P (case p of (x, y) \<Rightarrow> g x y)"
  "th_keeps P (l z) \<Longrightarrow> th_keeps P (Let z l)"
  by (auto split: option.split prod.split)

text \<open>The requests considered to run at the same time; one of the other kinds is a single step.\<close>

datatype session_event = CRefresh headers | CVerify otp_verify | CWhole auth_event

fun start_thread :: "auth_cfg \<Rightarrow> auth_io \<times> session_event \<Rightarrow> response thread" where
  "start_thread ac (io, CRefresh hs) = refresh_thread ac io hs 0"
| "start_thread ac (io, CVerify q) = verify_otp_thread ac io q 0"
| "start_thread ac (io, CWhole ev) = th_atomic (auth_step ac io ev) 0"

fun code_asked :: "session_event \<Rightarrow> string option" where
  "code_asked (CWhole ev) = otp_asked ev"
| "code_asked _ = None"

context table_invariant
begin

lemma threads:
  "th_keeps P (refresh_thread ac io hs)" "th_keeps P (verify_otp_thread ac io q)"
  unfolding refresh_thread_def rotate_thread_def verify_otp_thread_def session_thread_def
  by (intro keeps_rules sessions au_frames statements)+

lemma started: "(\<And>e. code_asked ev = Some e \<Longrightarrow> mails e) \<Longrightarrow> keeps (P \<circ> fst) (start_thread ac (io, ev))"
  using threads th_keeps_atomic [OF step] by (cases ev) (auto simp: th_keeps_def)

end

section \<open>How long a request takes\<close>

definition th_within :: "nat \<Rightarrow> 'a th \<Rightarrow> bool" where
  "th_within m t \<longleftrightarrow> (\<forall>n. within (t n) m)"

named_theorems within_rules \<open>bounds on the calls of a request\<close>

lemma th_within_basic [within_rules]:
  "th_within m (th_ret x)" "th_within m (th_fail e)" "th_within m (th_lift r)" "0 < m \<Longrightarrow> th_within m (th_atomic a)"
  by (auto simp: th_within_def th_ret_def th_fail_def th_lift_def th_atomic_def within_atomically split: sum.split)

lemma th_within_bind:
  "th_within a t \<Longrightarrow> (\<And>x. th_within b (f x)) \<Longrightarrow> th_within (a + b) (th_bind t f)"
  unfolding th_within_def th_bind_def by (intro allI within_bind) (auto split: sum.split)

lemma th_within_call [within_rules]:
  "0 < m \<Longrightarrow> (\<And>x. th_within (m - 1) (f x)) \<Longrightarrow> th_within m (th_bind (th_atomic a) f)"
  "(\<And>x. th_within m (f x)) \<Longrightarrow> th_within m (th_bind (th_lift r) f)"
  using th_within_bind [of 1 "th_atomic a" "m - 1" f] th_within_bind [of 0 "th_lift r" m f] by (simp_all add: th_within_basic)

lemma th_within_cases [within_rules]:
  "(c \<Longrightarrow> th_within m t) \<Longrightarrow> (\<not> c \<Longrightarrow> th_within m t') \<Longrightarrow> th_within m (if c then t else t')"
  "th_within m t \<Longrightarrow> (\<And>x. th_within m (f x)) \<Longrightarrow> th_within m (case y of None \<Rightarrow> t | Some x \<Rightarrow> f x)"
  "(\<And>x y. th_within m (g x y)) \<Longrightarrow> th_within m (case p of (x, y) \<Rightarrow> g x y)"
  "th_within m (l z) \<Longrightarrow> th_within m (Let z l)"
  by (auto split: option.split prod.split)

lemma started_within: "within (start_thread ac p) 6"
proof -
  have "th_within 6 (refresh_thread ac io hs)" "th_within 6 (verify_otp_thread ac io q)" "th_within 6 (th_atomic (auth_step ac io ev))" for io hs q ev
    unfolding refresh_thread_def rotate_thread_def verify_otp_thread_def session_thread_def
    by (intro within_rules; simp)+
  then show ?thesis by (cases "(ac, p)" rule: start_thread.cases) (simp_all add: th_within_def)
qed

section \<open>A refresh\<close>

text \<open>A refresh cut after its lookup.\<close>

definition after_lookup :: "auth_cfg \<Rightarrow> auth_io \<Rightarrow> string \<Rightarrow> shared \<Rightarrow> response thread" where
  "after_lookup ac io h s =
     (if io_fault io 0 \<noteq> Delivered then Done (Inl (Failed (from_sqlx ConnectionError)), 1)
      else case find (\<lambda>r. rt_token_hash r = h \<and> io_now io < rt_expires_at r) (db_refresh (fst s)) of
        None \<Rightarrow> Done (Inl (Failed (AeUnauthorized ''Invalid or expired refresh token'')), 1)
      | Some r \<Rightarrow> rotate_thread ac io h (rt_user_id r) 1)"

lemma refresh_thread_lookup:
  assumes "hdr_str hs ''cookie'' = Some ck" and "cookie_value ''refresh_token'' ck = Some raw"
  shows "refresh_thread ac io hs 0 = Act (\<lambda>s. (after_lookup ac io (ac_sha ac raw) s, s))"
  using assms
  by (cases "io_fault io 0")
    (auto simp: refresh_thread_def th_bind_def th_lift_def th_ret_def ok_or_def th_atomic_def atomically_def th_fail_def Let_def
      after_lookup_def au_of_def au_call_def q_refresh_user_def comp_def fun_eq_iff split: option.split)

text \<open>The rest as a computation, and what it needs and does.\<close>

definition rotate :: "auth_cfg \<Rightarrow> auth_io \<Rightarrow> string \<Rightarrow> string \<Rightarrow> response au" where
  "rotate ac io old_hash user_id =
     au_bind (au_call io (\<lambda>_. q_delete_refresh old_hash)) (\<lambda>_.
     au_bind (au_call io (\<lambda>_. q_user user_id)) (\<lambda>u.
     au_bind (au_call io (\<lambda>_. q_tenant (us_tenant_id u))) (\<lambda>t.
     au_bind (start_session ac io user_id (us_tenant_id u)) (\<lambda>(token, refresh_cookie, jwt_cookie).
     au_bind (set_cookies [jwt_cookie, refresh_cookie]) (\<lambda>hs.
     au_ret (with_headers hs (json_response 200 (auth_response_json
       \<lparr>ar_id = user_id, ar_email = us_email u, ar_tenant_id = us_tenant_id u, ar_workspace_name = tn_name t,
        ar_onboarding_complete = tn_onboarding_status t, ar_token = token, ar_redeye_api_key = None\<rparr>))))))))"

lemma rotate_alone: "implements (rotate_thread ac io h u) (rotate ac io h u)"
  unfolding rotate_thread_def rotate_def session_thread_def by (intro th_rules)

text \<open>The conditions on the tables under which the rotation succeeds, and its answer and effect then.\<close>

definition rotate_cookies :: "auth_cfg \<Rightarrow> auth_io \<Rightarrow> string \<Rightarrow> string list" where
  "rotate_cookies ac io token =
     [create_cookie_header ac ''re_token'' token jwt_max_age_secs ''Lax'',
      create_cookie_header ac ''refresh_token'' (io_token io) jwt_max_age_secs ''Strict'']"

definition rotate_reply :: "auth_cfg \<Rightarrow> auth_io \<Rightarrow> string \<Rightarrow> user \<Rightarrow> tenant \<Rightarrow> string \<Rightarrow> response" where
  "rotate_reply ac io user_id u t token = with_headers (map (\<lambda>c. (''set-cookie'', c)) (rotate_cookies ac io token))
     (json_response 200 (auth_response_json
       \<lparr>ar_id = user_id, ar_email = us_email u, ar_tenant_id = us_tenant_id u, ar_workspace_name = tn_name t,
        ar_onboarding_complete = tn_onboarding_status t, ar_token = token, ar_redeye_api_key = None\<rparr>))"

definition new_session :: "auth_cfg \<Rightarrow> auth_io \<Rightarrow> nat \<Rightarrow> string \<Rightarrow> refresh_token" where
  "new_session ac io n user_id = \<lparr>rt_id = io_id io n, rt_user_id = user_id, rt_token_hash = ac_sha ac (io_token io),
     rt_expires_at = io_now io + refresh_lifetime, rt_created_at = io_now io\<rparr>"

definition can_rotate ::
  "auth_cfg \<Rightarrow> auth_io \<Rightarrow> string \<Rightarrow> string \<Rightarrow> nat \<Rightarrow> auth_db \<Rightarrow> user \<Rightarrow> tenant \<Rightarrow> string \<Rightarrow> bool" where
  "can_rotate ac io h user_id n db u t token \<longleftrightarrow>
     list_all (\<lambda>i. io_fault io i = Delivered) [n, Suc n, Suc (Suc n), Suc (Suc (Suc n))] \<and>
     find (\<lambda>u. us_id u = user_id) (db_users db) = Some u \<and>
     find (\<lambda>t. tn_id t = us_tenant_id u) (db_tenants db) = Some t \<and>
     generate_jwt ac (io_now io) user_id (us_tenant_id u) = Inr token \<and>
     char_count (ac_sha ac (io_token io)) \<le> 64 \<and>
     (\<forall>r \<in> set (db_refresh db). rt_token_hash r = h \<or>
        rt_id r \<noteq> io_id io (Suc (Suc (Suc n))) \<and> rt_token_hash r \<noteq> ac_sha ac (io_token io)) \<and>
     list_all (list_all hdr_visible) (rotate_cookies ac io token)"

lemma call_delivered:
  "io_fault io (au_calls s) = Delivered \<Longrightarrow> au_call io q s =
     (case q (io_id io (au_calls s)) (au_db s) of
        Inl e \<Rightarrow> (Inl (Failed (from_sqlx e)), s\<lparr>au_calls := Suc (au_calls s)\<rparr>)
      | Inr (x, db) \<Rightarrow> (Inr x, s\<lparr>au_calls := Suc (au_calls s), au_db := db\<rparr>))"
  by (auto simp: au_call_def Let_def split: sum.split)

lemma call_not_delivered: "io_fault io (au_calls s) \<noteq> Delivered \<Longrightarrow> fst (au_call io q s) = Inl (Failed (from_sqlx ConnectionError))"
  by (cases "io_fault io (au_calls s)") (auto simp: au_call_def Let_def split: sum.split)

lemma bind_call:
  "fst (au_bind (au_call io q) f s) = Inr y \<longleftrightarrow>
     (\<exists>x db. io_fault io (au_calls s) = Delivered \<and> q (io_id io (au_calls s)) (au_db s) = Inr (x, db) \<and>
       fst (f x (s\<lparr>au_calls := Suc (au_calls s), au_db := db\<rparr>)) = Inr y)"
  using call_not_delivered [of io s q]
  by (cases "io_fault io (au_calls s) = Delivered") (auto simp: au_bind_cases call_delivered split: sum.splits)

lemma find_in: "find Q xs = Some x \<Longrightarrow> x \<in> set xs \<and> Q x"
  by (induction xs) (auto split: if_splits)

lemma bind_lift: "fst (au_bind (au_lift r) f s) = Inr y \<longleftrightarrow> (\<exists>x. r = Inr x \<and> fst (f x s) = Inr y)"
  by (cases r) auto

lemma bind_assoc: "au_bind (au_bind m f) g = au_bind m (\<lambda>x. au_bind (f x) g)"
  by (auto simp: fun_eq_iff au_bind_def split: prod.split sum.split)

lemma bind_cookies:
  "fst (au_bind (set_cookies cs) f s) = Inr y \<longleftrightarrow>
     list_all (list_all hdr_visible) cs \<and> fst (f (map (\<lambda>c. (''set-cookie'', c)) cs) s) = Inr y"
  by (auto simp: set_cookies_def au_bind_def)

lemma rotate_can:
  "fst (rotate ac io h u s) = Inr r \<Longrightarrow>
   \<exists>usr t token. can_rotate ac io h u (au_calls s) (au_db s) usr t token \<and> r = rotate_reply ac io u usr t token"
  by (auto simp: rotate_def start_session_def bind_assoc bind_call bind_lift bind_cookies q_delete_refresh_def q_user_def
      q_tenant_def Let_def generate_refresh_token_def q_insert_refresh_def can_rotate_def rotate_cookies_def
      rotate_reply_def list_ex_iff dest: find_in split: option.splits if_splits)

lemma rotate_does:
  "can_rotate ac io h u (au_calls s) (au_db s) usr t token \<Longrightarrow>
   fst (rotate ac io h u s) = Inr (rotate_reply ac io u usr t token) \<and>
   au_db (snd (rotate ac io h u s)) = (au_db s)\<lparr>db_refresh :=
     filter (\<lambda>r. rt_token_hash r \<noteq> h) (db_refresh (au_db s)) @ [new_session ac io (Suc (Suc (Suc (au_calls s)))) u]\<rparr>"
  by (auto simp: rotate_def start_session_def bind_assoc au_bind_cases call_delivered q_delete_refresh_def q_user_def
      q_tenant_def Let_def generate_refresh_token_def q_insert_refresh_def can_rotate_def rotate_cookies_def
      set_cookies_def list_ex_iff new_session_def rotate_reply_def dest: find_in)

lemma can_rotate_frame:
  assumes "can_rotate ac io h u n db usr t token"
    and "db_users db' = db_users db" "db_tenants db' = db_tenants db"
    and "\<And>r. r \<in> set (db_refresh db') \<Longrightarrow> r \<in> set (db_refresh db) \<or>
      rt_id r \<noteq> io_id io (Suc (Suc (Suc n))) \<and> rt_token_hash r \<noteq> ac_sha ac (io_token io)"
  shows "can_rotate ac io h u n db' usr t token"
  using assms unfolding can_rotate_def by metis

lemma rotation_runs:
  assumes "can_rotate ac io h u n (fst s) usr t token"
  shows "\<exists>n' mail. run_act (rotate_thread ac io h u n) s = ((Inr (rotate_reply ac io u usr t token), n'),
    (fst s)\<lparr>db_refresh := filter (\<lambda>r. rt_token_hash r \<noteq> h) (db_refresh (fst s)) @
      [new_session ac io (Suc (Suc (Suc n))) u]\<rparr>, mail)"
proof -
  let ?s = "\<lparr>au_db = fst s, au_calls = n, au_mail = snd s\<rparr>"
  have "fst (rotate ac io h u ?s) = Inr (rotate_reply ac io u usr t token)"
    "au_db (snd (rotate ac io h u ?s)) = (fst s)\<lparr>db_refresh :=
      filter (\<lambda>r. rt_token_hash r \<noteq> h) (db_refresh (fst s)) @ [new_session ac io (Suc (Suc (Suc n))) u]\<rparr>"
    using rotate_does [of ac io h u ?s] assms by simp_all
  moreover have "run_act (rotate_thread ac io h u n) s = au_of (rotate ac io h u) n s"
    using rotate_alone by (simp add: implements_def)
  ultimately show ?thesis by (simp add: au_of_def split_beta)
qed

end
