(* ===== verification/Concurrency_Properties.thy ===== *)
theory Concurrency_Properties
  imports Auth_Concurrency Auth_Properties
begin

text \<open>
  Requests of the auth service at the same time: what every interleaving keeps, and the exchange
  of one refresh token twice.
\<close>

section \<open>What every interleaving keeps\<close>


lemma fails_when_deleted:
  assumes "hdr_str hs ''cookie'' = Some ck" and "cookie_value ''refresh_token'' ck = Some raw"
  shows "assured (no_refresh (ac_sha ac raw) \<circ> fst) (refresh_thread ac io hs 0) (\<lambda>r. \<exists>e. fst r = Inl (Failed e))"
proof -
  have find: "find (\<lambda>r. rt_token_hash r = ac_sha ac raw \<and> t < rt_expires_at r) (db_refresh db) = None"
    if "no_refresh (ac_sha ac raw) db" for db t
    using that by (auto simp: find_None_iff no_refresh_def)
  then have ended: "\<exists>e. after_lookup ac io (ac_sha ac raw) s = Done (Inl (Failed e), 1)"
    if "no_refresh (ac_sha ac raw) (fst s)" for s
    using that by (auto simp: after_lookup_def split: option.splits dest: find)
  have "assured (no_refresh (ac_sha ac raw) \<circ> fst) (after_lookup ac io (ac_sha ac raw) s) (\<lambda>r. \<exists>e. fst r = Inl (Failed e))"
    if "no_refresh (ac_sha ac raw) (fst s)" for s
  proof -
    from ended [OF that] obtain e where "after_lookup ac io (ac_sha ac raw) s = Done (Inl (Failed e), 1)" ..
    then show ?thesis by simp
  qed
  then show ?thesis unfolding refresh_thread_lookup [OF assms] assured_Act by (simp del: split_paired_All)
qed

text \<open>A deleted refresh token is useless even to a request that comes while others are under way: a
  refresh with it that starts after the deletion fails, however it interleaves with the requests
  under way, as long as none of them draws a token with the same digest.\<close>

theorem refresh_after_deletion:
  assumes "concs (s0, map (start_thread ac) evs) (s, ts)" and "no_refresh (ac_sha ac raw) (fst s)"
    and "\<And>io' ev. (io', ev) \<in> set evs \<Longrightarrow> ac_sha ac (io_token io') \<noteq> ac_sha ac raw"
    and "hdr_str hs ''cookie'' = Some ck" and "cookie_value ''refresh_token'' ck = Some raw"
    and "concs (s, ts @ [refresh_thread ac io hs 0]) (s', ts' @ [Done (r, n)])"
  shows "\<exists>e. r = Inl (Failed e)"
proof -
  let ?P = "no_refresh (ac_sha ac raw)"
  have start: "keeps (?P \<circ> fst) (start_thread ac (io', ev))" if "ac_sha ac (io_token io') \<noteq> ac_sha ac raw" for io' ev
    using spent_token.started [where ac = ac and io = io' and h = "ac_sha ac raw" and ev = ev] that by simp
  have "\<forall>t \<in> set (map (start_thread ac) evs). keeps (?P \<circ> fst) t" using start assms(3) by auto
  from concs_keep [OF assms(1) this] have "\<forall>t \<in> set ts. keeps (?P \<circ> fst) t" by simp
  then have "list_all2 (assured (?P \<circ> fst)) ts (replicate (length ts) (\<lambda>_. True))"
    by (auto simp: list_all2_conv_all_nth keeps_assured)
  then have "list_all2 (assured (?P \<circ> fst)) (ts @ [refresh_thread ac io hs 0])
      (replicate (length ts) (\<lambda>_. True) @ [\<lambda>r. \<exists>e. fst r = Inl (Failed e)])"
    using fails_when_deleted [OF assms(4,5), of ac io] by (intro list_all2_appendI) simp_all
  from concs_assured [OF assms(6) _ this] assms(2) have "list_all2 (assured (?P \<circ> fst)) (ts' @ [Done (r, n)])
      (replicate (length ts) (\<lambda>_. True) @ [\<lambda>r. \<exists>e. fst r = Inl (Failed e)])" by simp
  then show ?thesis by (auto simp: list_all2_append2 list_all2_Cons2)
qed

section \<open>Every schedule ends\<close>


section \<open>One token exchanged twice\<close>

lemma refresh_alone_can:
  assumes "hdr_str hs ''cookie'' = Some ck" and "cookie_value ''refresh_token'' ck = Some raw"
    and "fst (refresh ac io hs \<lparr>au_db = fst s, au_calls = 0, au_mail = snd s\<rparr>) = Inr r"
  obtains u usr t token where "after_lookup ac io (ac_sha ac raw) s = rotate_thread ac io (ac_sha ac raw) u 1"
    "can_rotate ac io (ac_sha ac raw) u 1 (fst s) usr t token" "r = rotate_reply ac io u usr t token"
proof -
  let ?h = "ac_sha ac raw"
  have "fst (fst (run_act (refresh_thread ac io hs 0) s)) = Inr r"
    using assms(3) refresh_alone [of ac io hs] by (simp add: implements_def au_of_def split_beta)
  then have run: "fst (fst (run_act (after_lookup ac io ?h s) s)) = Inr r"
    by (simp add: refresh_thread_lookup [OF assms(1,2)])
  then obtain u where u: "after_lookup ac io ?h s = rotate_thread ac io ?h u 1"
    by (auto simp: after_lookup_def split: if_splits option.splits)
  have "fst (rotate ac io ?h u \<lparr>au_db = fst s, au_calls = 1, au_mail = snd s\<rparr>) = Inr r"
    using run rotate_alone [of ac io ?h u] by (simp add: u implements_def au_of_def split_beta)
  from rotate_can [OF this] u that show thesis by auto
qed

lemma two_exchanges:
  assumes "hdr_str hs1 ''cookie'' = Some ck1" and "cookie_value ''refresh_token'' ck1 = Some raw"
    and "hdr_str hs2 ''cookie'' = Some ck2" and "cookie_value ''refresh_token'' ck2 = Some raw"
    and "fst (refresh ac io1 hs1 \<lparr>au_db = fst s, au_calls = 0, au_mail = snd s\<rparr>) = Inr r1"
    and "fst (refresh ac io2 hs2 \<lparr>au_db = fst s, au_calls = 0, au_mail = snd s\<rparr>) = Inr r2"
    and "io_id io1 4 \<noteq> io_id io2 4" and "ac_sha ac (io_token io1) \<noteq> ac_sha ac (io_token io2)"
    and "ac_sha ac (io_token io1) \<noteq> ac_sha ac raw"
  shows "\<exists>s' n1 n2 u1 u2. concs (s, [refresh_thread ac io1 hs1 0, refresh_thread ac io2 hs2 0])
      (s', [Done (Inr r1, n1), Done (Inr r2, n2)]) \<and>
    {new_session ac io1 4 u1, new_session ac io2 4 u2} \<subseteq> set (db_refresh (fst s'))"
proof -
  let ?h = "ac_sha ac raw"
  have four: "Suc (Suc (Suc 1)) = (4 :: nat)" by simp
  obtain u1 usr1 t1 tok1 where 1: "after_lookup ac io1 ?h s = rotate_thread ac io1 ?h u1 1"
    "can_rotate ac io1 ?h u1 1 (fst s) usr1 t1 tok1" "r1 = rotate_reply ac io1 u1 usr1 t1 tok1"
    using refresh_alone_can [OF assms(1,2,5)] by metis
  obtain u2 usr2 t2 tok2 where 2: "after_lookup ac io2 ?h s = rotate_thread ac io2 ?h u2 1"
    "can_rotate ac io2 ?h u2 1 (fst s) usr2 t2 tok2" "r2 = rotate_reply ac io2 u2 usr2 t2 tok2"
    using refresh_alone_can [OF assms(3,4,6)] by metis
  let ?T1 = "rotate_thread ac io1 ?h u1 1" and ?T2 = "rotate_thread ac io2 ?h u2 1"
  note start1 = refresh_thread_lookup [OF assms(1,2), of ac io1] and start2 = refresh_thread_lookup [OF assms(3,4), of ac io2]
  have a: "conc (s, [refresh_thread ac io1 hs1 0, refresh_thread ac io2 hs2 0]) (s, [?T1, refresh_thread ac io2 hs2 0])"
    using conc.turn [of 0 "[refresh_thread ac io1 hs1 0, refresh_thread ac io2 hs2 0]" _ s] by (simp add: start1 1(1))
  have b: "conc (s, [?T1, refresh_thread ac io2 hs2 0]) (s, [?T1, ?T2])"
    using conc.turn [of 1 "[?T1, refresh_thread ac io2 hs2 0]" _ s] by (simp add: start2 2(1))
  obtain n1 m1 where run1: "run_act ?T1 s = ((Inr r1, n1), (fst s)\<lparr>db_refresh :=
      filter (\<lambda>r. rt_token_hash r \<noteq> ?h) (db_refresh (fst s)) @ [new_session ac io1 4 u1]\<rparr>, m1)"
    using rotation_runs [OF 1(2), unfolded four] unfolding 1(3) by blast
  define s1 where "s1 = ((fst s)\<lparr>db_refresh :=
      filter (\<lambda>r. rt_token_hash r \<noteq> ?h) (db_refresh (fst s)) @ [new_session ac io1 4 u1]\<rparr>, m1)"
  have c: "concs (s, [?T1, ?T2]) (s1, [Done (Inr r1, n1), ?T2])"
    using concs_finish [of 0 "[?T1, ?T2]" s] run1 by (simp add: s1_def)
  have "can_rotate ac io2 ?h u2 1 (fst s1) usr2 t2 tok2"
    using assms(7,8) by (intro can_rotate_frame [OF 2(2)]) (auto simp: s1_def new_session_def four simp del: One_nat_def)
  from rotation_runs [OF this, unfolded four] obtain n2 m2 where run2: "run_act ?T2 s1 = ((Inr r2, n2), (fst s1)\<lparr>db_refresh :=
      filter (\<lambda>r. rt_token_hash r \<noteq> ?h) (db_refresh (fst s1)) @ [new_session ac io2 4 u2]\<rparr>, m2)"
    unfolding 2(3) by blast
  have d: "concs (s1, [Done (Inr r1, n1), ?T2]) (((fst s1)\<lparr>db_refresh :=
      filter (\<lambda>r. rt_token_hash r \<noteq> ?h) (db_refresh (fst s1)) @ [new_session ac io2 4 u2]\<rparr>, m2), [Done (Inr r1, n1), Done (Inr r2, n2)])"
    using concs_finish [of 1 "[Done (Inr r1, n1), ?T2]" s1] run2 by simp
  from a b c d have "concs (s, [refresh_thread ac io1 hs1 0, refresh_thread ac io2 hs2 0])
      (((fst s1)\<lparr>db_refresh := filter (\<lambda>r. rt_token_hash r \<noteq> ?h) (db_refresh (fst s1)) @ [new_session ac io2 4 u2]\<rparr>, m2),
       [Done (Inr r1, n1), Done (Inr r2, n2)])"
    by (meson converse_rtranclp_into_rtranclp rtranclp_trans)
  moreover have "rt_token_hash (new_session ac io1 4 u1) \<noteq> ?h" using assms(9) by (simp add: new_session_def)
  then have "{new_session ac io1 4 u1, new_session ac io2 4 u2} \<subseteq> set (db_refresh ((fst s1)\<lparr>db_refresh :=
      filter (\<lambda>r. rt_token_hash r \<noteq> ?h) (db_refresh (fst s1)) @ [new_session ac io2 4 u2]\<rparr>))"
    by (simp add: s1_def)
  ultimately show ?thesis by (metis fst_conv)
qed

text \<open>C21. A refresh token can be exchanged twice: whenever two requests with the same token would each
  succeed alone, there is an interleaving in which both succeed and two sessions replace the one,
  because the handler looks the token up and deletes it in two calls and does not ask whether the
  deletion found it.\<close>

theorem refresh_race:
  assumes "hdr_str hs1 ''cookie'' = Some ck1" and "cookie_value ''refresh_token'' ck1 = Some raw"
    and "hdr_str hs2 ''cookie'' = Some ck2" and "cookie_value ''refresh_token'' ck2 = Some raw"
    and "fst (refresh ac io1 hs1 \<lparr>au_db = fst s, au_calls = 0, au_mail = snd s\<rparr>) = Inr r1"
    and "fst (refresh ac io2 hs2 \<lparr>au_db = fst s, au_calls = 0, au_mail = snd s\<rparr>) = Inr r2"
    and "io_id io1 4 \<noteq> io_id io2 4" and "ac_sha ac (io_token io1) \<noteq> ac_sha ac (io_token io2)"
    and "ac_sha ac (io_token io1) \<noteq> ac_sha ac raw"
  shows "\<exists>s' n1 n2 u1 u2. concs (s, [refresh_thread ac io1 hs1 0, refresh_thread ac io2 hs2 0])
      (s', [Done (Inr r1, n1), Done (Inr r2, n2)]) \<and>
    {new_session ac io1 4 u1, new_session ac io2 4 u2} \<subseteq> set (db_refresh (fst s'))"
  using assms by (rule two_exchanges)

section \<open>Concrete requests\<close>

definition io_other :: "string \<Rightarrow> auth_io" where
  "io_other tk = io_sample tk\<lparr>io_id := (\<lambda>n. ''j'' @ show_nat n)\<rparr>"

lemma refresh_cookie_sample:
  "hdr_str [(''cookie'', ''refresh_token=old'')] ''cookie'' = Some ''refresh_token=old''"
  "cookie_value ''refresh_token'' ''refresh_token=old'' = Some ''old''"
  by code_simp+

lemma refresh_succeeds:
  assumes "hdr_str hs ''cookie'' = Some ck" and "cookie_value ''refresh_token'' ck = Some raw"
    and "after_lookup ac io (ac_sha ac raw) s = rotate_thread ac io (ac_sha ac raw) u 1"
    and "can_rotate ac io (ac_sha ac raw) u 1 (fst s) usr t token"
  shows "fst (refresh ac io hs \<lparr>au_db = fst s, au_calls = 0, au_mail = snd s\<rparr>) = Inr (rotate_reply ac io u usr t token)"
proof -
  obtain n' s' where "run_act (rotate_thread ac io (ac_sha ac raw) u 1) s = ((Inr (rotate_reply ac io u usr t token), n'), s')"
    using rotation_runs [OF assms(4)] by blast
  then have "fst (fst (run_act (refresh_thread ac io hs 0) s)) = Inr (rotate_reply ac io u usr t token)"
    by (simp add: refresh_thread_lookup [OF assms(1,2)] assms(3))
  then show ?thesis using refresh_alone [of ac io hs] by (simp add: implements_def au_of_def split_beta)
qed

lemma refresh_other_sample:
  assumes "tk \<in> {''new'', ''alt''}"
  shows "\<exists>r. fst (refresh ac_sample (io_other tk) [(''cookie'', ''refresh_token=old'')] s_sample) = Inr r"
proof -
  let ?tok = "enc_str ''u'' @ enc_str ''t'' @ enc_word 604800"
  have jwt: "generate_jwt ac_sample 0 ''u'' ''t'' = Inr ?tok"
    by (simp add: generate_jwt_def jwt_secret_def jwt_sample_enc_def jwt_lifetime_def)
  have "list_all hdr_visible (enc_str ''u'' @ enc_str ''t'')" by code_simp
  then have "can_rotate ac_sample (io_other tk) ''old'' ''u'' 1 db_sample (hd (db_users db_sample)) (hd (db_tenants db_sample)) ?tok"
    using assms by (auto simp: can_rotate_def io_other_def jwt db_sample_def char_count_def rotate_cookies_def
        cookie_sample show_age hdr_visible_def)
  moreover have "after_lookup ac_sample (io_other tk) ''old'' (db_sample, []) = rotate_thread ac_sample (io_other tk) ''old'' ''u'' 1"
    by (simp add: after_lookup_def io_other_def db_sample_def)
  ultimately show ?thesis
    using refresh_succeeds [OF refresh_cookie_sample, of ac_sample "io_other tk" "(db_sample, [])"]
    by (auto simp: s_sample_def)
qed

lemma io_samples_differ:
  "io_id (io_sample ''new'') 4 \<noteq> io_id (io_other ''alt'') 4" "io_token (io_other ''alt'') = ''alt''"
  by (simp_all add: io_sample_def io_other_def)

lemma refresh_race_witness:
  "\<exists>s' r1 r2 n1 n2. concs ((db_sample, []), [refresh_thread ac_sample (io_sample ''new'') [(''cookie'', ''refresh_token=old'')] 0,
      refresh_thread ac_sample (io_other ''alt'') [(''cookie'', ''refresh_token=old'')] 0])
    (s', [Done (Inr r1, n1), Done (Inr r2, n2)])"
proof -
  obtain r1 where 1: "fst (refresh ac_sample (io_sample ''new'') [(''cookie'', ''refresh_token=old'')] s_sample) = Inr r1"
    using refresh_sample by blast
  obtain r2 where 2: "fst (refresh ac_sample (io_other ''alt'') [(''cookie'', ''refresh_token=old'')] s_sample) = Inr r2"
    using refresh_other_sample by blast
  have "\<exists>s' n1 n2 u1 u2. concs ((db_sample, []), [refresh_thread ac_sample (io_sample ''new'') [(''cookie'', ''refresh_token=old'')] 0,
        refresh_thread ac_sample (io_other ''alt'') [(''cookie'', ''refresh_token=old'')] 0])
      (s', [Done (Inr r1, n1), Done (Inr r2, n2)]) \<and>
      {new_session ac_sample (io_sample ''new'') 4 u1, new_session ac_sample (io_other ''alt'') 4 u2} \<subseteq> set (db_refresh (fst s'))"
    using 1 2 io_samples_differ
    by (intro refresh_race [OF refresh_cookie_sample refresh_cookie_sample]) (simp_all add: s_sample_def)
  then show ?thesis unfolding list.map start_thread.simps by blast
qed

lemma two_started:
  "\<exists>s' r1 r2 n1 n2. concs ((db_sample, []), map (start_thread ac_sample)
      [(io_sample ''new'', CRefresh [(''cookie'', ''refresh_token=old'')]), (io_other ''alt'', CRefresh [(''cookie'', ''refresh_token=old'')])])
    (s', [Done (Inr r1, n1), Done (Inr r2, n2)])"
proof -
  obtain r1 r2 where 1: "fst (refresh ac_sample (io_sample ''new'') [(''cookie'', ''refresh_token=old'')] s_sample) = Inr r1"
    and 2: "fst (refresh ac_sample (io_other ''alt'') [(''cookie'', ''refresh_token=old'')] s_sample) = Inr r2"
    using refresh_sample refresh_other_sample [of "''alt''"] by blast
  have "\<exists>s' n1 n2 u1 u2. concs ((db_sample, []), [refresh_thread ac_sample (io_sample ''new'') [(''cookie'', ''refresh_token=old'')] 0,
        refresh_thread ac_sample (io_other ''alt'') [(''cookie'', ''refresh_token=old'')] 0])
      (s', [Done (Inr r1, n1), Done (Inr r2, n2)]) \<and>
      {new_session ac_sample (io_sample ''new'') 4 u1, new_session ac_sample (io_other ''alt'') 4 u2} \<subseteq> set (db_refresh (fst s'))"
    using 1 2 io_samples_differ
    by (intro two_exchanges [OF refresh_cookie_sample refresh_cookie_sample]) (simp_all add: s_sample_def)
  then show ?thesis unfolding list.map start_thread.simps by blast
qed



end
