(* ===== verification/Config_Models.thy ===== *)
theory Config_Models
  imports Auth_Security
begin

text \<open>
  The configuration service: its errors (\<open>redeye_config/src/error.rs\<close>), the settings of a
  tenant with the partial update and its validation (\<open>redeye_config/src/domain/models.rs\<close>), the
  JSON forms of what it answers and publishes, and the decryption of provider keys
  (\<open>infrastructure/crypto.rs\<close>). An \<open>i32\<close> is an integer whose range the reader checks.
\<close>

section \<open>Errors\<close>

datatype config_error =
    CeNotFound string
  | CeConflict string
  | CeValidation string
  | CeUnauthorized string
  | CeDatabase string
  | CeRedis string
  | CeInternal string

fun config_status :: "config_error \<Rightarrow> nat" where
  "config_status (CeNotFound _) = 404"
| "config_status (CeConflict _) = 409"
| "config_status (CeValidation _) = 422"
| "config_status (CeUnauthorized _) = 401"
| "config_status (CeDatabase _) = 500"
| "config_status (CeRedis _) = 500"
| "config_status (CeInternal _) = 500"

text \<open>\<open>error_code\<close> followed by \<open>as_str\<close>.\<close>

fun config_code :: "config_error \<Rightarrow> string" where
  "config_code (CeNotFound _) = ''NOT_FOUND''"
| "config_code (CeConflict _) = ''CONFLICT''"
| "config_code (CeValidation _) = ''UNPROCESSABLE_ENTITY''"
| "config_code (CeUnauthorized _) = ''UNAUTHORIZED''"
| "config_code (CeDatabase _) = ''INTERNAL_ERROR''"
| "config_code (CeRedis _) = ''INTERNAL_ERROR''"
| "config_code (CeInternal _) = ''INTERNAL_ERROR''"

fun config_message :: "config_error \<Rightarrow> string" where
  "config_message (CeNotFound m) = m"
| "config_message (CeConflict m) = m"
| "config_message (CeValidation m) = m"
| "config_message (CeUnauthorized m) = m"
| "config_message (CeDatabase _) = ''An unexpected database error occurred. Please retry.''"
| "config_message (CeRedis _) = ''A caching error occurred. Please retry.''"
| "config_message (CeInternal _) = ''An unexpected internal error occurred. Please retry.''"

definition config_error_response :: "config_error \<Rightarrow> response" where
  "config_error_response e = json_response (config_status e) (jobject [(''error'', jobject
     [(''code'', JStr (config_code e)), (''message'', JStr (config_message e))])])"

datatype config_sqlx = CsRowNotFound | CsUniqueViolation | CsForeignKey | CsOther

fun config_from_sqlx :: "config_sqlx \<Rightarrow> config_error" where
  "config_from_sqlx CsRowNotFound = CeNotFound ''The requested resource was not found.''"
| "config_from_sqlx CsUniqueViolation = CeConflict ''A resource with this identifier already exists.''"
| "config_from_sqlx CsForeignKey = CeValidation (''The referenced tenant does not exist. Ensure the tenant is '' @
     ''provisioned via redeye_auth before configuring it.'')"
| "config_from_sqlx CsOther = CeDatabase ''A database operation failed unexpectedly.''"

definition config_from_redis :: config_error where
  "config_from_redis = CeRedis ''A cache synchronisation operation failed.''"

section \<open>Settings\<close>

record client_config =
  cc_tenant :: string
  cc_pii_masking :: bool
  cc_semantic_caching :: bool
  cc_routing_fallback :: bool
  cc_rate_limit_rpm :: "int option"
  cc_preferred_model :: "string option"
  cc_updated_at :: nat

definition default_for :: "nat \<Rightarrow> string \<Rightarrow> client_config" where
  "default_for now tenant =
     \<lparr>cc_tenant = tenant, cc_pii_masking = True, cc_semantic_caching = True, cc_routing_fallback = True,
      cc_rate_limit_rpm = None, cc_preferred_model = None, cc_updated_at = now\<rparr>"

record update_config_request =
  uq_pii_masking :: "bool option"
  uq_semantic_caching :: "bool option"
  uq_routing_fallback :: "bool option"
  uq_rate_limit_rpm :: "int option"
  uq_preferred_model :: "string option option"

text \<open>
  The derived reader. An \<open>Option\<close> takes a null for its own \<open>None\<close>; the inner one of the two
  of \<open>preferred_model\<close> is read only when the value is no null.
\<close>

definition de_update_config_request :: "json \<Rightarrow> update_config_request option" where
  "de_update_config_request v =
     Option.bind (struct_view [''pii_masking_enabled'', ''semantic_caching_enabled'', ''routing_fallback_enabled'',
       ''rate_limit_rpm'', ''preferred_model''] v) (\<lambda>g.
     Option.bind (de_opt as_bool (g ''pii_masking_enabled'')) (\<lambda>p.
     Option.bind (de_opt as_bool (g ''semantic_caching_enabled'')) (\<lambda>c.
     Option.bind (de_opt as_bool (g ''routing_fallback_enabled'')) (\<lambda>f.
     Option.bind (de_opt de_i32 (g ''rate_limit_rpm'')) (\<lambda>r.
     Option.bind (de_opt (\<lambda>w. de_opt as_str (Some w)) (g ''preferred_model'')) (\<lambda>m.
     Some \<lparr>uq_pii_masking = p, uq_semantic_caching = c, uq_routing_fallback = f, uq_rate_limit_rpm = r,
       uq_preferred_model = m\<rparr>))))))"

definition backquoted :: "string \<Rightarrow> string" where
  "backquoted s = [CHR 0x60] @ s @ [CHR 0x60]"

definition validate_update :: "update_config_request \<Rightarrow> string + unit" where
  "validate_update r =
     res_bind (case uq_rate_limit_rpm r of
         None \<Rightarrow> Inr ()
       | Some rpm \<Rightarrow>
           if rpm \<le> 0
           then Inl (backquoted ''rate_limit_rpm'' @ '' must be a positive integer, received '' @ show_int rpm @ ''.'')
           else Inr ()) (\<lambda>_.
     (case uq_preferred_model r of
        Some (Some model) \<Rightarrow>
          let trimmed = trim_ws model in
          if trimmed = []
          then Inl (backquoted ''preferred_model'' @ '' must not be an empty string. Omit the field to preserve the current value, or send '' @
            backquoted ''null'' @ '' to clear it.'')
          else if 128 < length trimmed
          then Inl (backquoted ''preferred_model'' @ '' must not exceed 128 characters (received '' @
            show_nat (length trimmed) @ '' characters).'')
          else Inr ()
      | _ \<Rightarrow> Inr ()))"

definition apply_update :: "nat \<Rightarrow> update_config_request \<Rightarrow> client_config \<Rightarrow> client_config" where
  "apply_update now r base =
     \<lparr>cc_tenant = cc_tenant base,
      cc_pii_masking = (case uq_pii_masking r of None \<Rightarrow> cc_pii_masking base | Some b \<Rightarrow> b),
      cc_semantic_caching = (case uq_semantic_caching r of None \<Rightarrow> cc_semantic_caching base | Some b \<Rightarrow> b),
      cc_routing_fallback = (case uq_routing_fallback r of None \<Rightarrow> cc_routing_fallback base | Some b \<Rightarrow> b),
      cc_rate_limit_rpm = (case uq_rate_limit_rpm r of None \<Rightarrow> cc_rate_limit_rpm base | Some n \<Rightarrow> Some n),
      cc_preferred_model = (case uq_preferred_model r of None \<Rightarrow> cc_preferred_model base | Some m \<Rightarrow> m),
      cc_updated_at = now\<rparr>"

section \<open>JSON forms\<close>

definition json_i32 :: "int \<Rightarrow> json" where
  "json_i32 n = JNum (if 0 \<le> n then PosInt (of_int n) else NegInt (of_int n))"

definition opt_i32_json :: "int option \<Rightarrow> json" where
  "opt_i32_json x = (case x of None \<Rightarrow> JNull | Some n \<Rightarrow> json_i32 n)"

definition client_config_json :: "(nat \<Rightarrow> string) \<Rightarrow> client_config \<Rightarrow> json" where
  "client_config_json time c = jobject
     [(''tenant_id'', JStr (cc_tenant c)), (''pii_masking_enabled'', JBool (cc_pii_masking c)),
      (''semantic_caching_enabled'', JBool (cc_semantic_caching c)),
      (''routing_fallback_enabled'', JBool (cc_routing_fallback c)),
      (''rate_limit_rpm'', opt_i32_json (cc_rate_limit_rpm c)), (''preferred_model'', opt_json (cc_preferred_model c)),
      (''updated_at'', JStr (time (cc_updated_at c)))]"

definition config_update_event_json :: "(nat \<Rightarrow> string) \<Rightarrow> client_config \<Rightarrow> json" where
  "config_update_event_json time c =
     jobject [(''tenant_id'', JStr (cc_tenant c)), (''config'', client_config_json time c)]"

definition key_revocation_event_json :: "string \<Rightarrow> string \<Rightarrow> string \<Rightarrow> json" where
  "key_revocation_event_json tenant key_id hash =
     jobject [(''tenant_id'', JStr tenant), (''key_id'', JStr key_id), (''key_hash'', JStr hash)]"

definition api_key_response_json :: "(nat \<Rightarrow> string) \<Rightarrow> api_key \<Rightarrow> json" where
  "api_key_response_json time k = jobject
     [(''id'', JStr (ak_id k)), (''name'', JStr (ak_name k)), (''created_at'', JStr (time (ak_created_at k))),
      (''expires_at'', case ak_expires_at k of None \<Rightarrow> JNull | Some t \<Rightarrow> JStr (time t)),
      (''is_active'', JBool (ak_is_active k))]"

record llm_model =
  lm_id :: string
  lm_tenant :: string
  lm_model_name :: string
  lm_provider_name :: string
  lm_base_url :: string
  lm_schema_format :: string
  lm_created_at :: nat

definition llm_model_response_json :: "llm_model \<Rightarrow> json" where
  "llm_model_response_json m = jobject
     [(''id'', JStr (lm_id m)), (''model_name'', JStr (lm_model_name m)),
      (''provider_name'', JStr (lm_provider_name m)), (''base_url'', JStr (lm_base_url m))]"

definition key_config_json :: "key_config \<Rightarrow> json" where
  "key_config_json k = jobject
     [(''key_alias'', JStr (key_alias k)), (''api_key'', JStr (kc_api_key k)),
      (''priority'', json_i32 (kc_priority k)), (''weight'', json_i32 (kc_weight k))]"

definition model_config_json :: "model_config \<Rightarrow> json" where
  "model_config_json m = jobject
     [(''base_url'', JStr (mc_base_url m)), (''schema_format'', JStr (mc_schema_format m)),
      (''keys'', JArr (map key_config_json (mc_keys m)))]"

text \<open>A routing map is kept as a list with one entry for each model.\<close>

definition routing_map_json :: "(string \<times> model_config) list \<Rightarrow> json" where
  "routing_map_json m = jobject (map (\<lambda>(name, mc). (name, model_config_json mc)) m)"

section \<open>Decryption\<close>

definition decrypt_provider_key :: "auth_cfg \<Rightarrow> string \<Rightarrow> config_error + string" where
  "decrypt_provider_key ac enc =
     (case ac_env ac ''AES_MASTER_KEY'' of
        None \<Rightarrow> Inl (CeInternal ''AES_MASTER_KEY env var is missing'')
      | Some k \<Rightarrow>
          if length k \<noteq> 32 then Inl (CeInternal ''AES_MASTER_KEY must be exactly 32 bytes long'')
          else if length enc < 12 then Inl (CeInternal ''Encrypted data is too short to contain a valid nonce'')
          else res_bind (ok_or (ac_aes_dec ac k (take 12 enc) (drop 12 enc)) (CeInternal ''API key decryption failed'')) (\<lambda>p.
            if ac_utf8 ac p then Inr p else Inl (CeInternal ''Decrypted API key is not valid UTF-8'')))"

section \<open>Laws\<close>

lemma apply_update_simps [simp]:
  "cc_tenant (apply_update now r base) = cc_tenant base"
  "cc_updated_at (apply_update now r base) = now"
  by (simp_all add: apply_update_def)

text \<open>No JSON value is read as a request to clear the preferred model.\<close>

lemma de_opt_value: "de_opt f v = Some (Some x) \<Longrightarrow> \<exists>w. w \<noteq> JNull \<and> f w = Some x"
  unfolding de_opt_def by (cases v; cases "the v") auto

lemma never_cleared:
  assumes "de_update_config_request v = Some r"
  shows "uq_preferred_model r \<noteq> Some None"
proof
  assume "uq_preferred_model r = Some None"
  with assms obtain u where "de_opt (\<lambda>w. de_opt as_str (Some w)) u = Some (Some None)"
    unfolding de_update_config_request_def by (auto simp: bind_eq_Some_conv)
  from de_opt_value [OF this] show False by auto
qed

lemma null_is_absent:
  assumes "de_update_config_request v = Some r" and "jget v ''preferred_model'' = Some JNull"
  shows "uq_preferred_model r = None"
proof -
  obtain ms where v: "v = JObj ms" using assms(2) by (cases v) auto
  then have "map_of ms ''preferred_model'' = Some JNull" using assms(2) by simp
  with assms(1) v show ?thesis
    by (auto simp: de_update_config_request_def bind_eq_Some_conv struct_view_def de_opt_def)
qed

lemma de_i32_json: "- (2 ^ 31) \<le> n \<Longrightarrow> n < 2 ^ 31 \<Longrightarrow> de_i32 (json_i32 n) = Some n"
proof -
  assume n: "- (2 ^ 31) \<le> n" "n < 2 ^ 31"
  have "uint (of_int n :: u64) = n" if "0 \<le> n" using that n by (simp add: unsigned_of_int take_bit_int_eq_self)
  moreover have "sint (of_int n :: i64) = n" using n by (simp add: signed_of_int signed_take_bit_int_eq_self)
  ultimately show ?thesis using n by (simp add: de_i32_def json_i32_def)
qed

lemma config_error_class: "400 \<le> config_status e \<and> config_status e \<le> 500"
  by (cases e) auto

text \<open>The configuration service reads what the auth service encrypted.\<close>

lemma decrypt_encrypted:
  assumes "aes_inverse ac" and "length nonce = 12" and "ac_utf8 ac p" and "encrypt_api_key ac nonce p = Inr enc"
  shows "decrypt_provider_key ac enc = Inr p"
  using assms
  by (auto simp: encrypt_api_key_def decrypt_provider_key_def master_key_def res_bind_eq_Inr ok_or_eq_Inr aes_inverse_def
      split: option.splits if_splits)

end
