(* ===== verification/Config_Db.thy ===== *)
theory Config_Db
  imports Config_Models Auth_Db
begin

text \<open>
  The SQL statements of the configuration service (\<open>redeye_config/src/infrastructure/db.rs\<close>) on
  its own tables, as its migrations declare them, and on the tables of the auth service it
  shares. \<open>ORDER BY\<close> on text follows the collation of the database: \<open>collate\<close> gives the sort key
  of a text. Rows that the order does not separate come in the order of the table.
\<close>

record config_db =
  cd_configs :: "client_config list"
  cd_models :: "llm_model list"
  cd_auth :: auth_db

type_synonym 'a cstmt = "config_db \<Rightarrow> config_sqlx + 'a \<times> config_db"

section \<open>Constraints\<close>

text \<open>
  The first \<open>n\<close> characters of a text and the rest; \<open>VARCHAR(n)\<close> cuts blanks off a text that is
  too long and refuses any other.
\<close>

fun take_chars :: "nat \<Rightarrow> string \<Rightarrow> string" where
  "take_chars n [] = []"
| "take_chars n (c # cs) =
     (if (of_char c :: nat) div 64 = 2 then c # take_chars n cs
      else (case n of 0 \<Rightarrow> [] | Suc m \<Rightarrow> c # take_chars m cs))"

definition varchar :: "nat \<Rightarrow> string \<Rightarrow> string option" where
  "varchar n s =
     (let t = take_chars n s in if list_all (\<lambda>c. c = CHR 0x20) (drop (length t) s) then Some t else None)"

section \<open>Settings\<close>

definition q_get_config :: "string \<Rightarrow> client_config cstmt" where
  "q_get_config tenant db =
     (case find (\<lambda>c. cc_tenant c = tenant) (cd_configs db) of
        None \<Rightarrow> Inl CsRowNotFound
      | Some c \<Rightarrow> Inr (c, db))"

text \<open>The row to write, when the checks of its columns hold.\<close>

definition config_row :: "nat \<Rightarrow> client_config \<Rightarrow> client_config option" where
  "config_row now c =
     (if (case cc_rate_limit_rpm c of None \<Rightarrow> False | Some n \<Rightarrow> n \<le> 0) then None
      else (case cc_preferred_model c of
          None \<Rightarrow> Some (c\<lparr>cc_updated_at := now\<rparr>)
        | Some m \<Rightarrow> map_option (\<lambda>m'. c\<lparr>cc_preferred_model := Some m', cc_updated_at := now\<rparr>) (varchar 128 m)))"

definition q_upsert_config :: "nat \<Rightarrow> client_config \<Rightarrow> client_config cstmt" where
  "q_upsert_config now c db =
     (case config_row now c of
        None \<Rightarrow> Inl CsOther
      | Some row \<Rightarrow> Inr (row, db\<lparr>cd_configs :=
          (if list_ex (\<lambda>x. cc_tenant x = cc_tenant c) (cd_configs db)
           then map (\<lambda>x. if cc_tenant x = cc_tenant c then row else x) (cd_configs db)
           else cd_configs db @ [row])\<rparr>))"

section \<open>Keys\<close>

definition q_list_api_keys :: "string \<Rightarrow> api_key list cstmt" where
  "q_list_api_keys tenant db =
     Inr (rev (sort_key ak_created_at (filter (\<lambda>k. ak_tenant_id k = tenant) (db_api_keys (cd_auth db)))), db)"

definition q_api_key_by_id :: "string \<Rightarrow> string \<Rightarrow> api_key cstmt" where
  "q_api_key_by_id key_id tenant db =
     (case find (\<lambda>k. ak_id k = key_id \<and> ak_tenant_id k = tenant) (db_api_keys (cd_auth db)) of
        None \<Rightarrow> Inl CsRowNotFound
      | Some k \<Rightarrow> Inr (k, db))"

definition q_revoke_api_key :: "string \<Rightarrow> string \<Rightarrow> api_key cstmt" where
  "q_revoke_api_key key_id tenant db =
     (let hit = (\<lambda>k. ak_id k = key_id \<and> ak_tenant_id k = tenant) in
      case find hit (db_api_keys (cd_auth db)) of
        None \<Rightarrow> Inl CsRowNotFound
      | Some k \<Rightarrow> Inr (k, db\<lparr>cd_auth := (cd_auth db)
          \<lparr>db_api_keys := filter (\<lambda>k. \<not> hit k) (db_api_keys (cd_auth db))\<rparr>\<rparr>))"

section \<open>Models and routing\<close>

text \<open>The provider name of a model is its schema format.\<close>

definition q_upsert_llm_model :: "nat \<Rightarrow> string \<Rightarrow> string \<Rightarrow> string \<Rightarrow> string \<Rightarrow> string \<Rightarrow> unit cstmt" where
  "q_upsert_llm_model now tenant name url fmt i db =
     (let same = (\<lambda>m. lm_tenant m = tenant \<and> lm_model_name m = name) in
      if list_ex same (cd_models db)
      then Inr ((), db\<lparr>cd_models := map (\<lambda>m. if same m
        then m\<lparr>lm_base_url := url, lm_schema_format := fmt, lm_provider_name := fmt\<rparr> else m) (cd_models db)\<rparr>)
      else if list_ex (\<lambda>m. lm_id m = i) (cd_models db) then Inl CsUniqueViolation
      else Inr ((), db\<lparr>cd_models := cd_models db @
        [\<lparr>lm_id = i, lm_tenant = tenant, lm_model_name = name, lm_provider_name = fmt, lm_base_url = url,
          lm_schema_format = fmt, lm_created_at = now\<rparr>]\<rparr>))"

definition models_of :: "(string \<Rightarrow> string) \<Rightarrow> string \<Rightarrow> config_db \<Rightarrow> llm_model list" where
  "models_of collate tenant db =
     sort_key (\<lambda>m. collate (lm_model_name m)) (filter (\<lambda>m. lm_tenant m = tenant) (cd_models db))"

definition q_list_models :: "(string \<Rightarrow> string) \<Rightarrow> string \<Rightarrow> llm_model list cstmt" where
  "q_list_models collate tenant db = Inr (models_of collate tenant db, db)"

text \<open>The keys a model is joined with, by priority.\<close>

definition keys_of :: "llm_model \<Rightarrow> config_db \<Rightarrow> provider_key list" where
  "keys_of m db = sort_key pk_priority (filter (\<lambda>k. pk_tenant_id k = lm_tenant m \<and>
     pk_provider_name k = lm_provider_name m \<and> pk_is_active k) (db_provider_keys (cd_auth db)))"

definition routing_rows :: "(string \<Rightarrow> string) \<Rightarrow> string \<Rightarrow> config_db \<Rightarrow> (llm_model \<times> provider_key) list" where
  "routing_rows collate tenant db = concat (map (\<lambda>m. map (Pair m) (keys_of m db)) (models_of collate tenant db))"

definition q_routing_rows :: "(string \<Rightarrow> string) \<Rightarrow> string \<Rightarrow> (llm_model \<times> provider_key) list cstmt" where
  "q_routing_rows collate tenant db = Inr (routing_rows collate tenant db, db)"

section \<open>The integrity of the tables\<close>

definition config_ok :: "client_config \<Rightarrow> bool" where
  "config_ok c \<longleftrightarrow> (\<forall>n. cc_rate_limit_rpm c = Some n \<longrightarrow> 0 < n) \<and>
     (\<forall>m. cc_preferred_model c = Some m \<longrightarrow> char_count m \<le> 128)"

definition config_db_ok :: "config_db \<Rightarrow> bool" where
  "config_db_ok db \<longleftrightarrow>
     distinct (map cc_tenant (cd_configs db)) \<and> (\<forall>c \<in> set (cd_configs db). config_ok c) \<and>
     distinct (map (\<lambda>m. (lm_tenant m, lm_model_name m)) (cd_models db)) \<and> db_ok (cd_auth db)"

lemma take_chars_count: "char_count (take_chars n s) \<le> n"
  by (induction n s rule: take_chars.induct) (auto simp: char_count_def split: nat.splits)

lemma take_chars_prefix: "take (length (take_chars n s)) s = take_chars n s"
  by (induction n s rule: take_chars.induct) (auto split: nat.splits)

lemma take_chars_all: "char_count s \<le> n \<Longrightarrow> take_chars n s = s"
  by (induction n s rule: take_chars.induct) (auto simp: char_count_def split: nat.splits if_splits)

lemma varchar_short: "char_count s \<le> n \<Longrightarrow> varchar n s = Some s"
  by (simp add: varchar_def take_chars_all)

lemma varchar_count: "varchar n s = Some t \<Longrightarrow> char_count t \<le> n"
  by (auto simp: varchar_def Let_def take_chars_count split: if_splits)

lemma config_row_ok: "config_row now c = Some row \<Longrightarrow> config_ok row \<and> cc_tenant row = cc_tenant c"
  by (auto simp: config_row_def config_ok_def varchar_count split: if_splits option.splits)

lemma map_replace_id:
  "(\<And>x. x \<in> set xs \<Longrightarrow> P x \<Longrightarrow> f (g x) = f x) \<Longrightarrow> map f (map (\<lambda>x. if P x then g x else x) xs) = map f xs"
  by (induction xs) auto

lemma upsert_config_ok:
  assumes "config_db_ok db" and "q_upsert_config now c db = Inr (x, db')"
  shows "config_db_ok db'"
proof -
  obtain row where row: "config_row now c = Some row" using assms(2) by (cases "config_row now c") (auto simp: q_upsert_config_def)
  note r = config_row_ok [OF row]
  show ?thesis
  proof (cases "list_ex (\<lambda>x. cc_tenant x = cc_tenant c) (cd_configs db)")
    case True
    have "map cc_tenant (map (\<lambda>x. if cc_tenant x = cc_tenant c then row else x) (cd_configs db)) = map cc_tenant (cd_configs db)"
      using r by (intro map_replace_id) simp
    with True assms r show ?thesis by (auto simp: q_upsert_config_def row config_db_ok_def simp del: map_map)
  next
    case False
    then have "cc_tenant row \<notin> cc_tenant ` set (cd_configs db)" using r by (auto simp: list_ex_iff)
    with False assms r show ?thesis by (auto simp: q_upsert_config_def row config_db_ok_def)
  qed
qed

lemma upsert_model_ok:
  assumes "config_db_ok db" and "q_upsert_llm_model now tenant name url fmt i db = Inr (x, db')"
  shows "config_db_ok db'"
proof (cases "list_ex (\<lambda>m. lm_tenant m = tenant \<and> lm_model_name m = name) (cd_models db)")
  case True
  let ?g = "\<lambda>m. m\<lparr>lm_base_url := url, lm_schema_format := fmt, lm_provider_name := fmt\<rparr>"
  have "map (\<lambda>m. (lm_tenant m, lm_model_name m)) (map (\<lambda>m. if lm_tenant m = tenant \<and> lm_model_name m = name then ?g m else m) (cd_models db)) =
      map (\<lambda>m. (lm_tenant m, lm_model_name m)) (cd_models db)"
    by (intro map_replace_id) simp
  with True assms show ?thesis by (auto simp: q_upsert_llm_model_def Let_def config_db_ok_def simp del: map_map)
next
  case False
  with assms show ?thesis
    by (auto simp: q_upsert_llm_model_def Let_def config_db_ok_def list_ex_iff split: if_splits)
qed

lemma revoke_ok:
  assumes "config_db_ok db" and "q_revoke_api_key key_id tenant db = Inr (x, db')"
  shows "config_db_ok db'"
proof -
  have "cd_configs db' = cd_configs db" "cd_models db' = cd_models db" "\<exists>P. cd_auth db' =
      (cd_auth db)\<lparr>db_api_keys := filter P (db_api_keys (cd_auth db))\<rparr>"
    using assms(2) by (auto simp: q_revoke_api_key_def Let_def split: option.splits)
  with assms(1) show ?thesis by (auto simp: config_db_ok_def db_ok_def has_tenant_def distinct_map_filter)
qed

end
