(* ===== verification/Config_Api.thy ===== *)
theory Config_Api
  imports Config_Db
begin

text \<open>
  The handlers of the configuration service (\<open>redeye_config/src/api/handlers.rs\<close>), its repository
  (\<open>infrastructure/db.rs\<close>) and its synchronisation with Redis (\<open>infrastructure/redis_sync.rs\<close>).
  A computation reads and writes the tables and the Redis server, publishes messages, and ends
  in a value or an error. A database call or a Redis call can be lost before it takes effect,
  or its reply after.
\<close>

section \<open>Effects\<close>

record config_env =
  ce_ac :: auth_cfg
  ce_collate :: "string \<Rightarrow> string"

record 's config_io =
  ci_now :: nat
  ci_fault :: "nat \<Rightarrow> fault"
  ci_id :: "nat \<Rightarrow> string"
  ci_exec :: "rcmd \<Rightarrow> 's \<Rightarrow> rval \<times> 's"
  ci_redis_fault :: "nat \<Rightarrow> fault"

record 's config_state =
  cs_db :: config_db
  cs_calls :: nat
  cs_redis :: 's
  cs_redis_calls :: nat
  cs_published :: "(string \<times> string) list"

type_synonym ('s, 'a) cf = "'s config_state \<Rightarrow> (config_error + 'a) \<times> 's config_state"

definition cf_ret :: "'a \<Rightarrow> ('s, 'a) cf" where
  "cf_ret x s = (Inr x, s)"

definition cf_fail :: "config_error \<Rightarrow> ('s, 'a) cf" where
  "cf_fail e s = (Inl e, s)"

definition cf_bind :: "('s, 'a) cf \<Rightarrow> ('a \<Rightarrow> ('s, 'b) cf) \<Rightarrow> ('s, 'b) cf" where
  "cf_bind m f s = (case m s of (Inl e, s') \<Rightarrow> (Inl e, s') | (Inr x, s') \<Rightarrow> f x s')"

definition cf_lift :: "config_error + 'a \<Rightarrow> ('s, 'a) cf" where
  "cf_lift r s = (r, s)"

text \<open>\<open>if let Err(e) = ... { log }\<close>.\<close>

definition cf_ignore :: "('s, 'a) cf \<Rightarrow> ('s, unit) cf" where
  "cf_ignore m s = (Inr (), snd (m s))"

definition cf_catch :: "('s, 'a) cf \<Rightarrow> (config_error \<Rightarrow> ('s, 'a) cf) \<Rightarrow> ('s, 'a) cf" where
  "cf_catch m h s = (case m s of (Inl e, s') \<Rightarrow> h e s' | (Inr x, s') \<Rightarrow> (Inr x, s'))"

definition cf_query :: "'s config_io \<Rightarrow> (string \<Rightarrow> 'a cstmt) \<Rightarrow> ('s, config_sqlx + 'a) cf" where
  "cf_query io q s =
     (let n = cs_calls s; s1 = s\<lparr>cs_calls := Suc n\<rparr> in
      if ci_fault io n = LostRequest then (Inr (Inl CsOther), s1)
      else (case q (ci_id io n) (cs_db s) of
          Inl e \<Rightarrow> (Inr (Inl (if ci_fault io n = LostReply then CsOther else e)), s1)
        | Inr (x, db) \<Rightarrow>
            (Inr (if ci_fault io n = LostReply then Inl CsOther else Inr x), s1\<lparr>cs_db := db\<rparr>)))"

text \<open>A query whose errors are converted.\<close>

definition cf_call :: "'s config_io \<Rightarrow> (string \<Rightarrow> 'a cstmt) \<Rightarrow> ('s, 'a) cf" where
  "cf_call io q = cf_bind (cf_query io q) (\<lambda>r.
     case r of Inl e \<Rightarrow> cf_fail (config_from_sqlx e) | Inr x \<Rightarrow> cf_ret x)"

definition cf_connect :: "'s config_io \<Rightarrow> ('s, unit) cf" where
  "cf_connect io s =
     (if ci_redis_fault io (cs_redis_calls s) = Delivered then Inr () else Inl config_from_redis,
      s\<lparr>cs_redis_calls := Suc (cs_redis_calls s)\<rparr>)"

definition cf_redis :: "'s config_io \<Rightarrow> rcmd \<Rightarrow> ('s, rval) cf" where
  "cf_redis io c s =
     (let r = redis_call (ci_redis_fault io (cs_redis_calls s)) (ci_exec io c) (cs_redis s) in
      (case fst r of None \<Rightarrow> Inl config_from_redis
       | Some v \<Rightarrow> if v = RErr then Inl config_from_redis else Inr v,
       s\<lparr>cs_redis := snd r, cs_redis_calls := Suc (cs_redis_calls s)\<rparr>))"

definition cf_publish :: "'s config_io \<Rightarrow> string \<Rightarrow> string \<Rightarrow> ('s, unit) cf" where
  "cf_publish io channel payload s =
     (let f = ci_redis_fault io (cs_redis_calls s) in
      (if f = Delivered then Inr () else Inl config_from_redis,
       s\<lparr>cs_redis_calls := Suc (cs_redis_calls s),
         cs_published := cs_published s @ (if f = LostRequest then [] else [(channel, payload)])\<rparr>))"

section \<open>Redis\<close>

definition config_key_ttl :: nat where "config_key_ttl = 3600"

definition push_config_update :: "config_env \<Rightarrow> 's config_io \<Rightarrow> client_config \<Rightarrow> ('s, unit) cf" where
  "push_config_update ce io c =
     (let time = ac_rfc3339 (ce_ac ce); print = print_value (ac_sd (ce_ac ce)) in
      cf_bind (cf_connect io) (\<lambda>_.
      cf_bind (cf_redis io (SETEX (''config:'' @ cc_tenant c) (Raw (print (client_config_json time c))) config_key_ttl)) (\<lambda>_.
      cf_publish io ''redeye:config_updates'' (print (config_update_event_json time c)))))"

definition invalidate_api_key :: "config_env \<Rightarrow> 's config_io \<Rightarrow> string \<Rightarrow> string \<Rightarrow> string \<Rightarrow> ('s, unit) cf" where
  "invalidate_api_key ce io hash tenant key_id =
     cf_bind (cf_connect io) (\<lambda>_.
     cf_bind (cf_redis io (DEL (''api_key:'' @ hash))) (\<lambda>_.
     cf_publish io ''redeye:key_revocations''
       (print_value (ac_sd (ce_ac ce)) (key_revocation_event_json tenant key_id hash))))"

definition publish_routing_mesh ::
  "config_env \<Rightarrow> 's config_io \<Rightarrow> (string \<times> model_config) list \<Rightarrow> ('s, unit) cf" where
  "publish_routing_mesh ce io mesh =
     cf_bind (cf_connect io) (\<lambda>_.
     cf_publish io ''redeye:routing_updates'' (print_value (ac_sd (ce_ac ce)) (routing_map_json mesh)))"

section \<open>Settings\<close>

definition get_config :: "config_env \<Rightarrow> 's config_io \<Rightarrow> string \<Rightarrow> ('s, response) cf" where
  "get_config ce io tenant =
     cf_bind (cf_call io (\<lambda>_. q_get_config tenant)) (\<lambda>c.
     cf_ret (json_response 200 (client_config_json (ac_rfc3339 (ce_ac ce)) c)))"

definition upsert_config ::
  "config_env \<Rightarrow> 's config_io \<Rightarrow> string \<Rightarrow> update_config_request \<Rightarrow> ('s, response) cf" where
  "upsert_config ce io tenant request =
     cf_bind (cf_lift (case validate_update request of Inl m \<Rightarrow> Inl (CeValidation m) | Inr x \<Rightarrow> Inr x)) (\<lambda>_.
     cf_bind (cf_catch (cf_call io (\<lambda>_. q_get_config tenant)) (\<lambda>e.
       case e of CeNotFound _ \<Rightarrow> cf_ret (default_for (ci_now io) tenant) | _ \<Rightarrow> cf_fail e)) (\<lambda>base.
     cf_bind (cf_call io (\<lambda>_. q_upsert_config (ci_now io) (apply_update (ci_now io) request base))) (\<lambda>saved.
     cf_bind (cf_ignore (push_config_update ce io saved)) (\<lambda>_.
     cf_ret (json_response 200 (client_config_json (ac_rfc3339 (ce_ac ce)) saved))))))"

section \<open>Keys\<close>

definition list_api_keys :: "config_env \<Rightarrow> 's config_io \<Rightarrow> string \<Rightarrow> ('s, response) cf" where
  "list_api_keys ce io tenant =
     cf_bind (cf_call io (\<lambda>_. q_list_api_keys tenant)) (\<lambda>ks.
     cf_ret (json_response 200 (JArr (map (api_key_response_json (ac_rfc3339 (ce_ac ce))) ks))))"

text \<open>The repository also offers a lookup of one key, which no handler calls.\<close>

definition get_api_key_by_id :: "'s config_io \<Rightarrow> string \<Rightarrow> string \<Rightarrow> ('s, api_key) cf" where
  "get_api_key_by_id io key_id tenant = cf_call io (\<lambda>_. q_api_key_by_id key_id tenant)"

definition delete_api_key :: "'s config_io \<Rightarrow> string \<Rightarrow> string \<Rightarrow> ('s, api_key) cf" where
  "delete_api_key io key_id tenant =
     cf_bind (cf_query io (\<lambda>_. q_revoke_api_key key_id tenant)) (\<lambda>r.
     case r of
       Inl CsRowNotFound \<Rightarrow>
         cf_fail (CeNotFound (''API key '' @ key_id @ '' not found for this tenant or already revoked.''))
     | Inl e \<Rightarrow> cf_fail (config_from_sqlx e)
     | Inr k \<Rightarrow> cf_ret k)"

definition revoke_api_key :: "config_env \<Rightarrow> 's config_io \<Rightarrow> string \<Rightarrow> string \<Rightarrow> ('s, response) cf" where
  "revoke_api_key ce io tenant key_id =
     cf_bind (delete_api_key io key_id tenant) (\<lambda>revoked.
     cf_bind (cf_ignore (invalidate_api_key ce io (ak_key_hash revoked) tenant key_id)) (\<lambda>_.
     cf_ret (status_response 204)))"

section \<open>The routing mesh\<close>

record routing_entry =
  re_model_name :: string
  re_base_url :: string
  re_schema_format :: string
  re_key :: key_config

text \<open>A row of the join, its key decrypted.\<close>

definition routing_entry_of :: "auth_cfg \<Rightarrow> llm_model \<times> provider_key \<Rightarrow> config_error + routing_entry" where
  "routing_entry_of ac row =
     (case decrypt_provider_key ac (pk_encrypted_key (snd row)) of
        Inl e \<Rightarrow> Inl (CeInternal ''Key decryption failed: '')
      | Inr k \<Rightarrow> Inr \<lparr>re_model_name = lm_model_name (fst row), re_base_url = lm_base_url (fst row),
          re_schema_format = lm_schema_format (fst row),
          re_key = \<lparr>key_alias = pk_key_alias (snd row), kc_api_key = k, kc_priority = pk_priority (snd row),
            kc_weight = pk_weight (snd row)\<rparr>\<rparr>)"

definition get_routing_entries :: "config_env \<Rightarrow> 's config_io \<Rightarrow> string \<Rightarrow> ('s, routing_entry list) cf" where
  "get_routing_entries ce io tenant =
     cf_bind (cf_call io (\<lambda>_. q_routing_rows (ce_collate ce) tenant)) (\<lambda>rows.
     cf_lift (res_map (routing_entry_of (ce_ac ce)) rows))"

record upsert_routing_mesh_request =
  mr_model_name :: string
  mr_base_url :: string
  mr_schema_format :: string
  mr_key_alias :: string
  mr_priority :: "int option"
  mr_weight :: "int option"

text \<open>\<open>entry(name).or_insert(slot)\<close> followed by an update of the slot.\<close>

definition mesh_entry ::
  "string \<Rightarrow> model_config \<Rightarrow> (model_config \<Rightarrow> model_config) \<Rightarrow> (string \<times> model_config) list \<Rightarrow> (string \<times> model_config) list" where
  "mesh_entry name new f mesh =
     (if list_ex (\<lambda>e. fst e = name) mesh then map (\<lambda>e. if fst e = name then (name, f (snd e)) else e) mesh
      else mesh @ [(name, f new)])"

definition push_key :: "key_config \<Rightarrow> model_config \<Rightarrow> model_config" where
  "push_key k m = m\<lparr>mc_keys := mc_keys m @ [k]\<rparr>"

definition mesh_of_entries :: "routing_entry list \<Rightarrow> (string \<times> model_config) list" where
  "mesh_of_entries es = fold (\<lambda>e. mesh_entry (re_model_name e)
     \<lparr>mc_base_url = re_base_url e, mc_schema_format = re_schema_format e, mc_keys = []\<rparr> (push_key (re_key e))) es []"

text \<open>The slot of the model just registered, with a key of empty text where its alias is missing.\<close>

definition register_model ::
  "string \<Rightarrow> string \<Rightarrow> string \<Rightarrow> string \<Rightarrow> int \<Rightarrow> int \<Rightarrow> (string \<times> model_config) list \<Rightarrow> (string \<times> model_config) list" where
  "register_model name url fmt al priority weight =
     mesh_entry name \<lparr>mc_base_url = url, mc_schema_format = fmt, mc_keys = []\<rparr>
       (\<lambda>m. let m' = m\<lparr>mc_base_url := url, mc_schema_format := fmt\<rparr> in
         if list_ex (\<lambda>k. key_alias k = al) (mc_keys m') then m'
         else push_key \<lparr>key_alias = al, kc_api_key = [], kc_priority = priority, kc_weight = weight\<rparr> m')"

definition sort_keys :: "model_config \<Rightarrow> model_config" where
  "sort_keys m = m\<lparr>mc_keys := sort_key kc_priority (mc_keys m)\<rparr>"

definition build_mesh ::
  "string \<Rightarrow> string \<Rightarrow> string \<Rightarrow> string \<Rightarrow> int \<Rightarrow> int \<Rightarrow> routing_entry list \<Rightarrow> (string \<times> model_config) list" where
  "build_mesh name url fmt al priority weight es =
     map (\<lambda>(n, m). (n, sort_keys m)) (register_model name url fmt al priority weight (mesh_of_entries es))"

definition or_default :: "'a \<Rightarrow> 'a option \<Rightarrow> 'a" where
  "or_default d x = (case x of None \<Rightarrow> d | Some y \<Rightarrow> y)"

definition mesh_reply :: "string \<Rightarrow> response" where
  "mesh_reply name = json_response 200 (jobject
     [(''model_name'', JStr name), (''message'', JStr ''Routing mesh updated and published'')])"

definition upsert_routing_mesh ::
  "config_env \<Rightarrow> 's config_io \<Rightarrow> string \<Rightarrow> upsert_routing_mesh_request \<Rightarrow> ('s, response) cf" where
  "upsert_routing_mesh ce io tenant request =
     (if trim_ws (mr_model_name request) = [] then cf_fail (CeValidation (backquoted ''model_name'' @ '' must not be blank''))
      else if trim_ws (mr_key_alias request) = [] then cf_fail (CeValidation (backquoted ''key_alias'' @ '' must not be blank''))
      else
        let priority = or_default 1 (mr_priority request);
            weight = or_default 100 (mr_weight request);
            name = trim_ws (mr_model_name request);
            url = trim_ws (mr_base_url request);
            fmt = ac_lc (ce_ac ce) (trim_ws (mr_schema_format request));
            al = trim_ws (mr_key_alias request) in
        cf_bind (if url \<noteq> [] then cf_call io (q_upsert_llm_model (ci_now io) tenant name url fmt) else cf_ret ()) (\<lambda>_.
        cf_bind (get_routing_entries ce io tenant) (\<lambda>entries.
        cf_bind (cf_ignore (publish_routing_mesh ce io (build_mesh name url fmt al priority weight entries))) (\<lambda>_.
        cf_ret (mesh_reply name)))))"

definition list_models :: "config_env \<Rightarrow> 's config_io \<Rightarrow> string \<Rightarrow> ('s, response) cf" where
  "list_models ce io tenant =
     cf_bind (cf_call io (\<lambda>_. q_list_models (ce_collate ce) tenant)) (\<lambda>ms.
     cf_ret (json_response 200 (JArr (map llm_model_response_json ms))))"

section \<open>Routes\<close>

text \<open>The route table; no layer in front of it looks at a credential.\<close>

datatype config_event =
    CfgGet string
  | CfgPut string update_config_request
  | CfgModels string
  | CfgMesh string upsert_routing_mesh_request
  | CfgKeys string
  | CfgRevoke string string

fun config_handler :: "config_env \<Rightarrow> 's config_io \<Rightarrow> config_event \<Rightarrow> ('s, response) cf" where
  "config_handler ce io (CfgGet t) = get_config ce io t"
| "config_handler ce io (CfgPut t r) = upsert_config ce io t r"
| "config_handler ce io (CfgModels t) = list_models ce io t"
| "config_handler ce io (CfgMesh t r) = upsert_routing_mesh ce io t r"
| "config_handler ce io (CfgKeys t) = list_api_keys ce io t"
| "config_handler ce io (CfgRevoke t k) = revoke_api_key ce io t k"

definition config_route :: "config_env \<Rightarrow> 's config_io \<Rightarrow> config_event \<Rightarrow> 's config_state \<Rightarrow> response \<times> 's config_state" where
  "config_route ce io ev s =
     (case config_handler ce io ev s of (Inl e, s') \<Rightarrow> (config_error_response e, s') | (Inr r, s') \<Rightarrow> (r, s'))"

fun config_run :: "config_env \<Rightarrow> ('s config_io \<times> config_event) list \<Rightarrow> 's config_state \<Rightarrow> 's config_state" where
  "config_run ce [] s = s"
| "config_run ce ((io, ev) # evs) s = config_run ce evs (snd (config_route ce io ev s))"

end
