(* ===== verification/Config_Laws.thy ===== *)
theory Config_Laws
  imports Config_Api Auth_Laws
begin

text \<open>
  Laws of the configuration service: what every history keeps of the tables, as a locale over
  the three statements that write; the independence of answers and tables from Redis; and the
  routing mesh against a specification by grouping.
\<close>

section \<open>Effects\<close>

lemma cf_bind_cases:
  "cf_bind m f s = (case fst (m s) of Inl e \<Rightarrow> (Inl e, snd (m s)) | Inr x \<Rightarrow> f x (snd (m s)))"
  by (cases "m s"; cases "fst (m s)") (simp_all add: cf_bind_def)

lemma cf_bind_Inr: "fst (cf_bind m f s) = Inr y \<longleftrightarrow> (\<exists>x. fst (m s) = Inr x \<and> fst (f x (snd (m s))) = Inr y)"
  by (simp add: cf_bind_cases split: sum.split)

lemma cf_bind_InrE:
  assumes "fst (cf_bind m f s) = Inr y"
  obtains x where "fst (m s) = Inr x" "fst (f x (snd (m s))) = Inr y" "snd (cf_bind m f s) = snd (f x (snd (m s)))"
  using assms by (auto simp: cf_bind_cases split: sum.splits)

lemma cf_simps [simp]:
  "cf_ret x s = (Inr x, s)" "cf_fail e s = (Inl e, s)" "cf_lift r s = (r, s)"
  "cf_ignore m s = (Inr (), snd (m s))"
  by (simp_all add: cf_ret_def cf_fail_def cf_lift_def cf_ignore_def)

text \<open>Redis calls leave the tables alone.\<close>

lemma redis_tables [simp]:
  "cs_db (snd (cf_connect io s)) = cs_db s" "cs_db (snd (cf_redis io c s)) = cs_db s"
  "cs_db (snd (cf_publish io ch p s)) = cs_db s"
  "cs_calls (snd (cf_connect io s)) = cs_calls s" "cs_calls (snd (cf_redis io c s)) = cs_calls s"
  "cs_calls (snd (cf_publish io ch p s)) = cs_calls s"
  by (simp_all add: cf_connect_def cf_redis_def cf_publish_def Let_def)

lemma push_tables [simp]:
  "cs_db (snd (push_config_update ce io c s)) = cs_db s"
  "cs_db (snd (invalidate_api_key ce io h t k s)) = cs_db s"
  "cs_db (snd (publish_routing_mesh ce io m s)) = cs_db s"
  "cs_calls (snd (push_config_update ce io c s)) = cs_calls s"
  "cs_calls (snd (invalidate_api_key ce io h t k s)) = cs_calls s"
  "cs_calls (snd (publish_routing_mesh ce io m s)) = cs_calls s"
  by (simp_all add: push_config_update_def invalidate_api_key_def publish_routing_mesh_def cf_bind_cases Let_def split: sum.split)

lemma cf_call_Inr:
  "fst (cf_call io q s) = Inr x \<longleftrightarrow> ci_fault io (cs_calls s) = Delivered \<and>
     (\<exists>db. q (ci_id io (cs_calls s)) (cs_db s) = Inr (x, db))"
  by (cases "ci_fault io (cs_calls s)")
    (auto simp: cf_call_def cf_query_def cf_bind_cases Let_def split: sum.split)

lemma cf_call_db:
  "fst (cf_call io q s) = Inr x \<Longrightarrow> q (ci_id io (cs_calls s)) (cs_db s) = Inr (x, cs_db (snd (cf_call io q s)))"
  by (cases "ci_fault io (cs_calls s)")
    (auto simp: cf_call_def cf_query_def cf_bind_cases Let_def split: sum.splits)

lemma cf_call_delivered:
  assumes "ci_fault io (cs_calls s) = Delivered" and "q (ci_id io (cs_calls s)) (cs_db s) = Inr (x, db)"
  shows "cf_call io q s = (Inr x, s\<lparr>cs_calls := Suc (cs_calls s), cs_db := db\<rparr>)"
  using assms by (simp add: cf_call_def cf_query_def cf_bind_cases Let_def)

lemma cf_call_published [simp]: "cs_published (snd (cf_call io q s)) = cs_published s"
  by (auto simp: cf_call_def cf_query_def cf_bind_cases Let_def split: sum.split)

section \<open>Invariants of the tables\<close>

definition cf_keeps :: "(config_db \<Rightarrow> bool) \<Rightarrow> ('s, 'a) cf \<Rightarrow> bool" where
  "cf_keeps P m \<longleftrightarrow> (\<forall>s. P (cs_db s) \<longrightarrow> P (cs_db (snd (m s))))"

definition cstmt_keeps :: "(config_db \<Rightarrow> bool) \<Rightarrow> 'a cstmt \<Rightarrow> bool" where
  "cstmt_keeps P q \<longleftrightarrow> (\<forall>db x db'. P db \<longrightarrow> q db = Inr (x, db') \<longrightarrow> P db')"

named_theorems cf_frames \<open>computations that keep an invariant of the tables\<close>

lemma cf_keeps_basic [cf_frames]:
  "cf_keeps P (cf_ret x)" "cf_keeps P (cf_fail e)" "cf_keeps P (cf_lift r)"
  "cf_keeps P (cf_ignore (push_config_update ce io c))" "cf_keeps P (cf_ignore (invalidate_api_key ce io h t k))"
  "cf_keeps P (cf_ignore (publish_routing_mesh ce io m))"
  by (simp_all add: cf_keeps_def)

lemma cf_keeps_bind [cf_frames]:
  "cf_keeps P m \<Longrightarrow> (\<And>x s. fst (m s) = Inr x \<Longrightarrow> cf_keeps P (f x)) \<Longrightarrow> cf_keeps P (cf_bind m f)"
  unfolding cf_keeps_def by (auto simp: cf_bind_cases split: sum.split)

lemma cf_keeps_query [cf_frames]: "(\<And>i. cstmt_keeps P (q i)) \<Longrightarrow> cf_keeps P (cf_query io q)"
  by (auto simp: cf_keeps_def cstmt_keeps_def cf_query_def Let_def split: sum.split)

lemma cf_keeps_call [cf_frames]: "(\<And>i. cstmt_keeps P (q i)) \<Longrightarrow> cf_keeps P (cf_call io q)"
  unfolding cf_call_def by (intro cf_frames) (auto intro: cf_frames split: sum.split)

lemma cf_keeps_catch [cf_frames]: "cf_keeps P m \<Longrightarrow> (\<And>e. cf_keeps P (h e)) \<Longrightarrow> cf_keeps P (cf_catch m h)"
  unfolding cf_keeps_def cf_catch_def by (auto split: prod.split sum.split)

lemma creads_keep [cf_frames]:
  "cstmt_keeps P (q_get_config t)" "cstmt_keeps P (q_list_api_keys t)" "cstmt_keeps P (q_list_models col t)"
  "cstmt_keeps P (q_routing_rows col t)" "cstmt_keeps P (q_api_key_by_id k t)"
  by (auto simp: cstmt_keeps_def q_get_config_def q_list_api_keys_def q_list_models_def q_routing_rows_def
      q_api_key_by_id_def split: option.splits)

fun event_tenant :: "config_event \<Rightarrow> string" where
  "event_tenant (CfgGet t) = t" | "event_tenant (CfgPut t _) = t" | "event_tenant (CfgModels t) = t"
| "event_tenant (CfgMesh t _) = t" | "event_tenant (CfgKeys t) = t" | "event_tenant (CfgRevoke t _) = t"

text \<open>The settings an update starts from are the tenant's.\<close>

lemma base_tenant:
  assumes "fst (cf_catch (cf_call io (\<lambda>_. q_get_config tenant)) (\<lambda>e.
       case e of CeNotFound _ \<Rightarrow> cf_ret (default_for now tenant) | _ \<Rightarrow> cf_fail e) s) = Inr base"
  shows "cc_tenant base = tenant"
proof (cases "fst (cf_call io (\<lambda>_. q_get_config tenant) s)")
  case (Inl e)
  with assms show ?thesis
    by (cases "cf_call io (\<lambda>_. q_get_config tenant) s"; cases e) (auto simp: cf_catch_def default_for_def)
next
  case (Inr c)
  with assms have "c = base" by (cases "cf_call io (\<lambda>_. q_get_config tenant) s") (auto simp: cf_catch_def)
  with Inr show ?thesis
    by (auto simp: cf_call_Inr q_get_config_def split: option.splits dest: find_Some_in)
qed

text \<open>The settings an update starts from, and what a successful one wrote.\<close>

definition base_config :: "nat \<Rightarrow> string \<Rightarrow> config_db \<Rightarrow> client_config" where
  "base_config now t db =
     (case find (\<lambda>c. cc_tenant c = t) (cd_configs db) of None \<Rightarrow> default_for now t | Some c \<Rightarrow> c)"

lemma base_read:
  fixes io :: "'s config_io"
  assumes "fst (cf_catch (cf_call io (\<lambda>_. q_get_config t)) (\<lambda>e.
       case e of CeNotFound _ \<Rightarrow> cf_ret (default_for now t) | _ \<Rightarrow> cf_fail e) s) = Inr base"
  defines "s' \<equiv> snd (cf_catch (cf_call io (\<lambda>_. q_get_config t)) (\<lambda>e.
       case e of CeNotFound _ \<Rightarrow> cf_ret (default_for now t) | _ \<Rightarrow> cf_fail e) s)"
  shows "base = base_config now t (cs_db s)" and "cs_db s' = cs_db s"
proof -
  have "base = base_config now t (cs_db s) \<and> cs_db s' = cs_db s"
    using assms(1) unfolding s'_def
    by (cases "ci_fault io (cs_calls s)")
      (auto simp: cf_catch_def cf_call_def cf_query_def cf_bind_def Let_def q_get_config_def base_config_def
        split: option.splits)
  then show "base = base_config now t (cs_db s)" and "cs_db s' = cs_db s" by simp_all
qed

lemma put_success:
  assumes "fst (upsert_config ce io t rq s) = Inr r"
  shows "\<exists>saved. config_row (ci_now io) (apply_update (ci_now io) rq (base_config (ci_now io) t (cs_db s))) = Some saved \<and>
    validate_update rq = Inr () \<and> r = json_response 200 (client_config_json (ac_rfc3339 (ce_ac ce)) saved) \<and>
    q_upsert_config (ci_now io) (apply_update (ci_now io) rq (base_config (ci_now io) t (cs_db s))) (cs_db s) =
      Inr (saved, cs_db (snd (upsert_config ce io t rq s)))"
proof -
  let ?catch = "cf_catch (cf_call io (\<lambda>_. q_get_config t)) (\<lambda>e.
       case e of CeNotFound _ \<Rightarrow> cf_ret (default_for (ci_now io) t) | _ \<Rightarrow> cf_fail e)"
  let ?put = "\<lambda>base. cf_call io (\<lambda>_. q_upsert_config (ci_now io) (apply_update (ci_now io) rq base))"
  have v: "validate_update rq = Inr ()"
    using assms by (cases "validate_update rq") (auto simp: upsert_config_def cf_bind_cases)
  have eq: "upsert_config ce io t rq = cf_bind ?catch (\<lambda>base. cf_bind (?put base) (\<lambda>saved.
      cf_bind (cf_ignore (push_config_update ce io saved)) (\<lambda>_.
      cf_ret (json_response 200 (client_config_json (ac_rfc3339 (ce_ac ce)) saved)))))"
    by (simp add: upsert_config_def v cf_bind_cases fun_eq_iff)
  obtain base saved where base: "fst (?catch s) = Inr base" and saved: "fst (?put base (snd (?catch s))) = Inr saved"
    and r: "r = json_response 200 (client_config_json (ac_rfc3339 (ce_ac ce)) saved)"
    and db: "cs_db (snd (upsert_config ce io t rq s)) = cs_db (snd (?put base (snd (?catch s))))"
    using assms unfolding eq by (elim cf_bind_InrE) simp
  note read = base_read [OF base]
  have q: "q_upsert_config (ci_now io) (apply_update (ci_now io) rq base) (cs_db s) =
      Inr (saved, cs_db (snd (upsert_config ce io t rq s)))"
    using cf_call_db [OF saved] unfolding db read(2) .
  then have "config_row (ci_now io) (apply_update (ci_now io) rq base) = Some saved"
    by (auto simp: q_upsert_config_def split: option.splits)
  with q v r read(1) show ?thesis by blast
qed

locale config_invariant =
  fixes P :: "config_db \<Rightarrow> bool" and serves :: "string \<Rightarrow> bool"
  assumes settings_in: "serves (cc_tenant c) \<Longrightarrow> cstmt_keeps P (q_upsert_config now c)"
    and model_in: "serves t \<Longrightarrow> cstmt_keeps P (q_upsert_llm_model now t name url fmt i)"
    and key_out: "serves t \<Longrightarrow> cstmt_keeps P (q_revoke_api_key k t)"
begin

lemma put: "serves t \<Longrightarrow> cf_keeps P (upsert_config ce io t r)"
  unfolding upsert_config_def
  by (intro cf_frames settings_in) (auto intro: cf_frames dest!: base_tenant split: config_error.split)

lemma mesh: "serves t \<Longrightarrow> cf_keeps P (upsert_routing_mesh ce io t r)"
  unfolding upsert_routing_mesh_def get_routing_entries_def Let_def
  by (auto intro!: cf_frames model_in)

lemma revoke: "serves t \<Longrightarrow> cf_keeps P (revoke_api_key ce io t k)"
  unfolding revoke_api_key_def delete_api_key_def
  by (intro cf_frames key_out) (auto intro: cf_frames split: sum.split config_sqlx.split)

lemma step: "serves (event_tenant ev) \<Longrightarrow> cf_keeps P (config_handler ce io ev)"
  by (cases ev) (auto simp: get_config_def list_models_def list_api_keys_def intro!: put mesh revoke cf_frames)

lemma route: "serves (event_tenant ev) \<Longrightarrow> P (cs_db s) \<Longrightarrow> P (cs_db (snd (config_route ce io ev s)))"
  using step [of ev ce io] unfolding cf_keeps_def config_route_def by (auto split: prod.split sum.split)

lemma run:
  "(\<And>io ev. (io, ev) \<in> set evs \<Longrightarrow> serves (event_tenant ev)) \<Longrightarrow> P (cs_db s) \<Longrightarrow> P (cs_db (config_run ce evs s))"
proof (induction ce evs s rule: config_run.induct)
  case (2 ce io ev evs s)
  have "P (cs_db (snd (config_route ce io ev s)))" using "2.prems"(1) [of io ev] "2.prems"(2) by (intro route) auto
  with 2 show ?case by auto
qed simp

end

interpretation config_integrity: config_invariant config_db_ok "\<lambda>_. True"
  by unfold_locales (auto simp: cstmt_keeps_def intro: upsert_config_ok upsert_model_ok revoke_ok)

text \<open>What the tables hold of one tenant, and the tables of the auth service without the keys.\<close>

definition tenant_rows :: "string \<Rightarrow> config_db \<Rightarrow> client_config list \<times> llm_model list \<times> api_key list \<times> auth_db" where
  "tenant_rows t db =
     (filter (\<lambda>c. cc_tenant c = t) (cd_configs db), filter (\<lambda>m. lm_tenant m = t) (cd_models db),
      filter (\<lambda>k. ak_tenant_id k = t) (db_api_keys (cd_auth db)), (cd_auth db)\<lparr>db_api_keys := []\<rparr>)"

lemma filter_replace:
  "(\<And>x. Q x \<Longrightarrow> \<not> P x \<and> \<not> P (g x)) \<Longrightarrow> filter P (map (\<lambda>x. if Q x then g x else x) xs) = filter P xs"
  by (induction xs) auto

interpretation other_tenant: config_invariant "\<lambda>db. tenant_rows t db = v" "\<lambda>t'. t' \<noteq> t" for t v
proof unfold_locales
  show "cstmt_keeps (\<lambda>db. tenant_rows t db = v) (q_upsert_config now c)" if "cc_tenant c \<noteq> t" for c now
  proof (unfold cstmt_keeps_def, intro allI impI)
    fix db x db' assume v: "tenant_rows t db = v" and q: "q_upsert_config now c db = Inr (x, db')"
    then obtain row where row: "config_row now c = Some row" by (cases "config_row now c") (auto simp: q_upsert_config_def)
    have "cc_tenant row \<noteq> t" using config_row_ok [OF row] that by simp
    with that v q show "tenant_rows t db' = v"
      by (auto simp: q_upsert_config_def row tenant_rows_def filter_replace simp del: filter_map)
  qed
  show "cstmt_keeps (\<lambda>db. tenant_rows t db = v) (q_upsert_llm_model now t' name url fmt i)" if "t' \<noteq> t" for now t' name url fmt i
    using that
    by (auto simp: cstmt_keeps_def q_upsert_llm_model_def tenant_rows_def Let_def
        simp del: filter_map intro!: filter_replace split: if_splits)
  show "cstmt_keeps (\<lambda>db. tenant_rows t db = v) (q_revoke_api_key k t')" if "t' \<noteq> t" for k t'
    using that
    by (auto simp: cstmt_keeps_def q_revoke_api_key_def tenant_rows_def Let_def filter_empty_conv
        intro!: filter_cong split: option.splits)
qed

text \<open>A revoked digest does not come back.\<close>

definition no_key :: "string \<Rightarrow> auth_db \<Rightarrow> bool" where
  "no_key h db \<longleftrightarrow> (\<forall>k \<in> set (db_api_keys db). ak_key_hash k \<noteq> h)"

interpretation revoked: config_invariant "\<lambda>db. no_key h (cd_auth db)" "\<lambda>_. True" for h
  by unfold_locales
    (auto simp: cstmt_keeps_def no_key_def q_upsert_config_def q_upsert_llm_model_def q_revoke_api_key_def Let_def
      split: option.splits if_splits)

text \<open>What an upsert of settings leaves in the table.\<close>

lemma base_config_tenant: "cc_tenant (base_config now t db) = t"
  by (auto simp: base_config_def default_for_def split: option.split dest: find_Some_in)

lemma base_config_short:
  "config_db_ok db \<Longrightarrow> cc_preferred_model (base_config now t db) = Some m \<Longrightarrow> char_count m \<le> 128"
  by (auto simp: base_config_def default_for_def config_db_ok_def config_ok_def split: option.splits dest!: find_Some_in)

lemma config_row_fields:
  assumes "config_row now c = Some row"
  shows "cc_pii_masking row = cc_pii_masking c" "cc_semantic_caching row = cc_semantic_caching c"
    "cc_routing_fallback row = cc_routing_fallback c" "cc_rate_limit_rpm row = cc_rate_limit_rpm c"
  using assms by (auto simp: config_row_def split: if_splits option.splits)

lemma row_preferred:
  assumes "config_row now c = Some row" and "\<And>m. cc_preferred_model c = Some m \<Longrightarrow> char_count m \<le> 128"
  shows "cc_preferred_model row = cc_preferred_model c"
  using assms by (auto simp: config_row_def varchar_short split: if_splits option.splits)

lemma find_replace:
  assumes "list_ex P xs" and "\<And>x. P x \<Longrightarrow> P y"
  shows "find P (map (\<lambda>x. if P x then y else x) xs) = Some y"
  using assms by (induction xs) auto

lemma find_snoc: "find P xs = None \<Longrightarrow> P y \<Longrightarrow> find P (xs @ [y]) = Some y"
  by (induction xs) (auto split: if_splits)

lemma upsert_config_find:
  assumes "q_upsert_config now c db = Inr (x, db')"
  shows "find (\<lambda>x. cc_tenant x = cc_tenant c) (cd_configs db') = Some x"
proof -
  have row: "config_row now c = Some x" using assms by (auto simp: q_upsert_config_def split: option.splits)
  have t: "cc_tenant x = cc_tenant c" using config_row_ok [OF row] by simp
  show ?thesis
  proof (cases "list_ex (\<lambda>x. cc_tenant x = cc_tenant c) (cd_configs db)")
    case True
    with assms t show ?thesis by (auto simp: q_upsert_config_def row find_replace)
  next
    case False
    then have "find (\<lambda>x. cc_tenant x = cc_tenant c) (cd_configs db) = None" by (auto simp: find_None_iff list_ex_iff)
    with False assms t show ?thesis by (auto simp: q_upsert_config_def row find_snoc)
  qed
qed

lemma upsert_config_others:
  assumes "q_upsert_config now c db = Inr (x, db')"
  shows "filter (\<lambda>x. cc_tenant x \<noteq> cc_tenant c) (cd_configs db') = filter (\<lambda>x. cc_tenant x \<noteq> cc_tenant c) (cd_configs db)"
proof -
  have row: "config_row now c = Some x" using assms by (auto simp: q_upsert_config_def split: option.splits)
  have "cc_tenant x = cc_tenant c" using config_row_ok [OF row] by simp
  with assms show ?thesis by (auto simp: q_upsert_config_def row filter_replace simp del: filter_map)
qed

lemma base_config_unique:
  assumes "config_db_ok db" and "c \<in> set (cd_configs db)" and "cc_tenant c = t"
  shows "base_config now t db = c"
proof (cases "find (\<lambda>c. cc_tenant c = t) (cd_configs db)")
  case None
  with assms(2,3) show ?thesis by (auto simp: find_None_iff)
next
  case (Some c')
  from find_Some_in [OF this] assms have "c' = c" by (auto simp: config_db_ok_def distinct_map dest: inj_onD)
  with Some show ?thesis by (simp add: base_config_def)
qed

text \<open>The readers answer from the rows of their tenant.\<close>

lemma find_filter: "find P xs = (case filter P xs of [] \<Rightarrow> None | x # _ \<Rightarrow> Some x)"
  by (induction xs) auto

lemma read_own_rows:
  fixes s s' :: "'s config_state"
  assumes rows: "tenant_rows t (cs_db s') = tenant_rows t (cs_db s)" and io: "\<And>n. ci_fault io n = Delivered"
  shows "fst (config_route ce io (CfgGet t) s') = fst (config_route ce io (CfgGet t) s)"
    "fst (config_route ce io (CfgModels t) s') = fst (config_route ce io (CfgModels t) s)"
    "fst (config_route ce io (CfgKeys t) s') = fst (config_route ce io (CfgKeys t) s)"
proof -
  have r: "filter (\<lambda>c. cc_tenant c = t) (cd_configs (cs_db s')) = filter (\<lambda>c. cc_tenant c = t) (cd_configs (cs_db s))"
    "filter (\<lambda>m. lm_tenant m = t) (cd_models (cs_db s')) = filter (\<lambda>m. lm_tenant m = t) (cd_models (cs_db s))"
    "filter (\<lambda>k. ak_tenant_id k = t) (db_api_keys (cd_auth (cs_db s'))) = filter (\<lambda>k. ak_tenant_id k = t) (db_api_keys (cd_auth (cs_db s)))"
    using rows by (simp_all add: tenant_rows_def)
  have bind: "fst (cf_bind (cf_call io q) (\<lambda>x. cf_ret (f x)) s1) =
      map_sum config_from_sqlx (f \<circ> fst) (q (ci_id io (cs_calls s1)) (cs_db s1))"
    for q :: "string \<Rightarrow> 'b cstmt" and f :: "'b \<Rightarrow> response" and s1 :: "'s config_state"
    using io by (auto simp: cf_call_def cf_query_def cf_bind_cases Let_def split: sum.split)
  have route: "fst (config_route ce io ev s1) = (case fst (config_handler ce io ev s1) of Inl e \<Rightarrow> config_error_response e | Inr r \<Rightarrow> r)"
    for ev and s1 :: "'s config_state"
    by (cases "config_handler ce io ev s1") (auto simp: config_route_def split: sum.split)
  show "fst (config_route ce io (CfgGet t) s') = fst (config_route ce io (CfgGet t) s)"
    by (simp add: route get_config_def bind q_get_config_def find_filter r split: list.split)
  show "fst (config_route ce io (CfgModels t) s') = fst (config_route ce io (CfgModels t) s)"
    by (simp add: route list_models_def bind q_list_models_def models_of_def r)
  show "fst (config_route ce io (CfgKeys t) s') = fst (config_route ce io (CfgKeys t) s)"
    by (simp add: route list_api_keys_def bind q_list_api_keys_def r)
qed

text \<open>A revocation removes the key of the digest.\<close>

lemma revoke_filters:
  "q_revoke_api_key key_id t db = Inr (x, db') \<Longrightarrow>
     db_api_keys (cd_auth db') = filter (\<lambda>k. \<not> (ak_id k = key_id \<and> ak_tenant_id k = t)) (db_api_keys (cd_auth db))"
  by (auto simp: q_revoke_api_key_def Let_def split: option.splits)

lemma revoke_removes:
  fixes s :: "'s config_state"
  assumes "fst (revoke_api_key ce io t key_id s) = Inr r" and "config_db_ok (cs_db s)"
    and "k \<in> set (db_api_keys (cd_auth (cs_db s)))" and "ak_id k = key_id" and "ak_tenant_id k = t"
  shows "no_key (ak_key_hash k) (cd_auth (cs_db (snd (revoke_api_key ce io t key_id s))))"
proof -
  let ?s = "snd (revoke_api_key ce io t key_id s)"
  let ?hit = "\<lambda>k. ak_id k = key_id \<and> ak_tenant_id k = t"
  obtain k' where del: "fst (delete_api_key io key_id t s) = Inr k'" and db: "cs_db ?s = cs_db (snd (delete_api_key io key_id t s))"
    using assms(1) unfolding revoke_api_key_def by (elim cf_bind_InrE) simp
  from del have "\<exists>x. q_revoke_api_key key_id t (cs_db s) = Inr (x, cs_db (snd (delete_api_key io key_id t s)))"
    by (cases "ci_fault io (cs_calls s)")
      (auto simp: delete_api_key_def cf_query_def cf_bind_cases Let_def split: sum.splits config_sqlx.splits)
  then have keys: "db_api_keys (cd_auth (cs_db ?s)) = filter (\<lambda>k. \<not> ?hit k) (db_api_keys (cd_auth (cs_db s)))"
    unfolding db by (auto dest!: revoke_filters)
  have "distinct (map ak_key_hash (db_api_keys (cd_auth (cs_db s))))" using assms(2) by (simp add: config_db_ok_def db_ok_def)
  then have "?hit k'" if "k' \<in> set (db_api_keys (cd_auth (cs_db s)))" "ak_key_hash k' = ak_key_hash k" for k'
    using that assms(3-5) by (auto simp: distinct_map dest: inj_onD)
  then show ?thesis by (auto simp: no_key_def keys)
qed

section \<open>Independence from Redis\<close>

text \<open>Two computations, perhaps over different Redis servers, that give equal results on equal tables.\<close>

definition cf_same :: "('s, 'a) cf \<Rightarrow> ('t, 'a) cf \<Rightarrow> bool" where
  "cf_same m m' \<longleftrightarrow> (\<forall>s s'. cs_db s = cs_db s' \<longrightarrow> cs_calls s = cs_calls s' \<longrightarrow>
     fst (m s) = fst (m' s') \<and> cs_db (snd (m s)) = cs_db (snd (m' s')) \<and> cs_calls (snd (m s)) = cs_calls (snd (m' s')))"

named_theorems cf_sames \<open>computations that do not depend on Redis\<close>

lemma cf_same_basic [cf_sames]:
  "cf_same (cf_ret x) (cf_ret x)" "cf_same (cf_fail e) (cf_fail e)" "cf_same (cf_lift r) (cf_lift r)"
  "cf_same (cf_ignore (push_config_update ce io c)) (cf_ignore (push_config_update ce io' c))"
  "cf_same (cf_ignore (invalidate_api_key ce io h t k)) (cf_ignore (invalidate_api_key ce io' h t k))"
  "cf_same (cf_ignore (publish_routing_mesh ce io m)) (cf_ignore (publish_routing_mesh ce io' m))"
  by (simp_all add: cf_same_def)

lemma cf_same_bind [cf_sames]:
  "cf_same m m' \<Longrightarrow> (\<And>x. cf_same (f x) (f' x)) \<Longrightarrow> cf_same (cf_bind m f) (cf_bind m' f')"
  unfolding cf_same_def by (auto simp: cf_bind_cases split: sum.split)

lemma cf_same_catch [cf_sames]:
  "cf_same m m' \<Longrightarrow> (\<And>e. cf_same (h e) (h' e)) \<Longrightarrow> cf_same (cf_catch m h) (cf_catch m' h')"
  unfolding cf_same_def cf_catch_def by (simp add: split_beta split: sum.split)

lemma cf_same_query:
  "ci_fault io = ci_fault io' \<Longrightarrow> ci_id io = ci_id io' \<Longrightarrow> cf_same (cf_query io q) (cf_query io' q)"
  by (auto simp: cf_same_def cf_query_def Let_def split: sum.split)

lemma cf_same_call:
  "ci_fault io = ci_fault io' \<Longrightarrow> ci_id io = ci_id io' \<Longrightarrow> cf_same (cf_call io q) (cf_call io' q)"
  unfolding cf_call_def by (intro cf_sames cf_same_query) (auto intro: cf_sames split: sum.split)

lemma handler_same:
  assumes "ci_now io = ci_now io'" "ci_fault io = ci_fault io'" "ci_id io = ci_id io'"
  shows "cf_same (config_handler ce io ev) (config_handler ce io' ev)"
proof (cases ev)
  case (CfgPut t r)
  show ?thesis unfolding CfgPut config_handler.simps upsert_config_def assms(1)
    by (auto intro!: cf_sames cf_same_call assms split: config_error.split)
next
  case (CfgMesh t r)
  show ?thesis unfolding CfgMesh config_handler.simps upsert_routing_mesh_def get_routing_entries_def Let_def assms(1)
    by (auto intro!: cf_sames cf_same_call assms)
next
  case (CfgRevoke t k)
  show ?thesis unfolding CfgRevoke config_handler.simps revoke_api_key_def delete_api_key_def
    by (auto intro!: cf_sames cf_same_query assms split: sum.split config_sqlx.split)
qed (auto simp: get_config_def list_models_def list_api_keys_def intro!: cf_sames cf_same_call assms)

end
