(* ===== verification/Config_Mesh.thy ===== *)
theory Config_Mesh
  imports Config_Laws
begin

text \<open>
  The routing mesh the configuration service publishes, as a map from models to their
  configuration, and its way to the gateway.
\<close>

section \<open>Grouping\<close>

definition entry_config :: "routing_entry \<Rightarrow> model_config" where
  "entry_config e = \<lparr>mc_base_url = re_base_url e, mc_schema_format = re_schema_format e, mc_keys = []\<rparr>"

text \<open>The specification: address and format of the first row of a model, the keys of all its rows.\<close>

definition mesh_spec :: "routing_entry list \<Rightarrow> string \<Rightarrow> model_config option" where
  "mesh_spec es name =
     (case filter (\<lambda>e. re_model_name e = name) es of
        [] \<Rightarrow> None
      | e # r \<Rightarrow> Some (entry_config e\<lparr>mc_keys := map re_key (e # r)\<rparr>))"

lemma mesh_entry_lookup:
  "map_of (mesh_entry name new f mesh) x =
     (if x = name then Some (f (case map_of mesh name of None \<Rightarrow> new | Some m \<Rightarrow> m)) else map_of mesh x)"
proof -
  have "map_of (map (\<lambda>e. if fst e = name then (name, f (snd e)) else e) mesh) x =
      (if x = name then map_option f (map_of mesh name) else map_of mesh x)"
    by (induction mesh) auto
  moreover have "list_ex (\<lambda>e. fst e = name) mesh \<longleftrightarrow> map_of mesh name \<noteq> None"
    by (induction mesh) auto
  ultimately show ?thesis by (auto simp: mesh_entry_def map_add_def split: option.splits)
qed

lemma mesh_entry_distinct:
  "distinct (map fst mesh) \<Longrightarrow> distinct (map fst (mesh_entry name new f mesh))"
proof -
  have "map fst (map (\<lambda>e. if fst e = name then (name, f (snd e)) else e) mesh) = map fst mesh"
    by (induction mesh) auto
  then show "distinct (map fst mesh) \<Longrightarrow> distinct (map fst (mesh_entry name new f mesh))"
    by (auto simp: mesh_entry_def list_ex_iff simp del: map_map)
qed

definition mesh_step :: "routing_entry \<Rightarrow> (string \<times> model_config) list \<Rightarrow> (string \<times> model_config) list" where
  "mesh_step e = mesh_entry (re_model_name e) (entry_config e) (push_key (re_key e))"

lemma mesh_of_entries_step: "mesh_of_entries es = fold mesh_step es []"
  by (simp add: mesh_of_entries_def mesh_step_def [abs_def] entry_config_def)

lemma mesh_of_entries_snoc: "mesh_of_entries (es @ [e]) = mesh_step e (mesh_of_entries es)"
  by (simp add: mesh_of_entries_step)

lemma mesh_of_entries_spec: "map_of (mesh_of_entries es) name = mesh_spec es name"
proof (induction es rule: rev_induct)
  case (snoc e es)
  show ?case
  proof (cases "re_model_name e = name")
    case True
    with snoc show ?thesis
      by (cases "filter (\<lambda>e. re_model_name e = name) es")
        (auto simp: mesh_of_entries_snoc mesh_step_def mesh_entry_lookup mesh_spec_def push_key_def entry_config_def)
  next
    case False
    with snoc show ?thesis by (simp add: mesh_of_entries_snoc mesh_step_def mesh_entry_lookup mesh_spec_def)
  qed
qed (simp add: mesh_of_entries_def mesh_spec_def)

lemma mesh_of_entries_distinct: "distinct (map fst (mesh_of_entries es))"
  by (induction es rule: rev_induct)
    (simp_all add: mesh_of_entries_snoc mesh_step_def mesh_entry_distinct, simp add: mesh_of_entries_def)

text \<open>What is published, model by model.\<close>

definition registered_config :: "string \<Rightarrow> string \<Rightarrow> string \<Rightarrow> int \<Rightarrow> int \<Rightarrow> key_config list \<Rightarrow> model_config" where
  "registered_config url fmt al priority weight ks =
     \<lparr>mc_base_url = url, mc_schema_format = fmt,
      mc_keys = sort_key kc_priority (if list_ex (\<lambda>k. key_alias k = al) ks then ks
        else ks @ [\<lparr>key_alias = al, kc_api_key = [], kc_priority = priority, kc_weight = weight\<rparr>])\<rparr>"

lemma map_of_sorted: "map_of (map (\<lambda>(n, m). (n, sort_keys m)) mesh) x = map_option sort_keys (map_of mesh x)"
  by (induction mesh) auto

lemma build_mesh_spec:
  "map_of (build_mesh name url fmt al priority weight es) x =
     (if x = name then Some (registered_config url fmt al priority weight
        (case mesh_spec es name of None \<Rightarrow> [] | Some m \<Rightarrow> mc_keys m))
      else map_option sort_keys (mesh_spec es x))"
proof -
  have "map_of (build_mesh name url fmt al priority weight es) x =
      map_option sort_keys (map_of (register_model name url fmt al priority weight (mesh_of_entries es)) x)"
    by (simp add: build_mesh_def map_of_sorted)
  then show ?thesis
    by (auto simp: register_model_def mesh_entry_lookup mesh_of_entries_spec Let_def registered_config_def
        sort_keys_def push_key_def split: option.split)
qed

lemma build_mesh_distinct: "distinct (map fst (build_mesh name url fmt al priority weight es))"
proof -
  have "map fst (map (\<lambda>(n, m). (n, sort_keys m)) mesh) = map fst mesh" for mesh :: "(string \<times> model_config) list"
    by (induction mesh) auto
  then show ?thesis
    by (simp add: build_mesh_def register_model_def mesh_entry_distinct mesh_of_entries_distinct del: map_map)
qed

text \<open>Its keys are those of the rows and the placeholder.\<close>

lemma build_mesh_keys:
  assumes "map_of (build_mesh name url fmt al priority weight es) x = Some m" and "k \<in> set (mc_keys m)"
  shows "(\<exists>e \<in> set es. re_model_name e = x \<and> k = re_key e) \<or>
    x = name \<and> k = \<lparr>key_alias = al, kc_api_key = [], kc_priority = priority, kc_weight = weight\<rparr>"
proof -
  have spec: "\<exists>e \<in> set es. re_model_name e = y \<and> k' = re_key e" if "mesh_spec es y = Some c" "k' \<in> set (mc_keys c)" for y c k'
  proof -
    have "mc_keys c = map re_key (filter (\<lambda>e. re_model_name e = y) es)"
      using that(1) by (auto simp: mesh_spec_def split: list.splits)
    then show ?thesis using that(2) by auto
  qed
  show ?thesis
  proof (cases "x = name")
    case True
    with assms have "k \<in> set (mc_keys (registered_config url fmt al priority weight
        (case mesh_spec es name of None \<Rightarrow> [] | Some m \<Rightarrow> mc_keys m)))" by (simp add: build_mesh_spec)
    with True spec [of name _ k] show ?thesis
      by (cases "mesh_spec es name") (auto simp: registered_config_def split: if_splits)
  next
    case False
    with assms obtain c where "mesh_spec es x = Some c" "k \<in> set (mc_keys c)"
      by (auto simp: build_mesh_spec sort_keys_def)
    with spec show ?thesis by blast
  qed
qed

section \<open>The way to the gateway\<close>

definition i32_range :: "int \<Rightarrow> bool" where
  "i32_range n \<longleftrightarrow> - (2 ^ 31) \<le> n \<and> n < 2 ^ 31"

definition mesh_in_range :: "(string \<times> model_config) list \<Rightarrow> bool" where
  "mesh_in_range mesh \<longleftrightarrow>
     list_all (\<lambda>e. list_all (\<lambda>k. i32_range (kc_priority k) \<and> i32_range (kc_weight k)) (mc_keys (snd e))) mesh"

lemma de_key_config_json:
  "i32_range (kc_priority k) \<Longrightarrow> i32_range (kc_weight k) \<Longrightarrow> de_key_config (key_config_json k) = Some k"
  by (simp add: de_key_config_def key_config_json_def struct_view_jobject de_req_def de_i32_json i32_range_def)

lemma de_model_config_json:
  assumes "list_all (\<lambda>k. i32_range (kc_priority k) \<and> i32_range (kc_weight k)) (mc_keys m)"
  shows "de_model_config (model_config_json m) = Some m"
proof -
  have "opt_all (map de_key_config (map key_config_json (mc_keys m))) = Some (mc_keys m)"
    using assms by (induction "mc_keys m" arbitrary: m) (auto simp: de_key_config_json opt_all_map_Some [where g = id, simplified] comp_def list_all_iff)
  then show ?thesis
    by (simp add: de_model_config_def model_config_json_def struct_view_jobject de_req_def de_vec_def)
qed

lemma map_of_rev_distinct: "distinct (map fst xs) \<Longrightarrow> map_of (rev xs) = map_of xs"
proof (induction xs)
  case (Cons e xs)
  then have "map_of xs (fst e) = None" by (simp add: map_of_eq_None_iff)
  with Cons show ?case by (cases e) (auto simp: fun_eq_iff map_add_def split: option.split)
qed simp

lemma set_fold_insert: "set (fold (\<lambda>(k, v). bt_insert k v) kvs m) \<subseteq> set kvs \<union> set m"
proof (induction kvs arbitrary: m)
  case (Cons e kvs)
  then show ?case using set_bt_insert [of "fst e" "snd e" m] by (cases e) fastforce
qed simp

lemma de_routing_map_json:
  assumes "distinct (map fst mesh)" and "mesh_in_range mesh"
  shows "de_routing_map (routing_map_json mesh) = Some (map_of mesh)"
proof -
  let ?kvs = "map (\<lambda>(n, m). (n, model_config_json m)) mesh"
  let ?ob = "fold (\<lambda>(k, v). bt_insert k v) ?kvs []"
  let ?h = "\<lambda>v. the (de_model_config v)"
  have read: "de_model_config (model_config_json m) = Some m" if "(n, m) \<in> set mesh" for n m
    using assms(2) that by (intro de_model_config_json) (auto simp: mesh_in_range_def list_all_iff)
  have of_ob: "map_of ?ob x = map_option model_config_json (map_of mesh x)" for x
  proof -
    have "distinct (map fst ?kvs)" using assms(1) by (simp add: comp_def split_beta)
    then have "map_of (rev ?kvs) x = map_of ?kvs x" by (simp add: map_of_rev_distinct)
    also have "\<dots> = map_option model_config_json (map_of mesh x)" by (induction mesh) auto
    finally show ?thesis by (simp add: fold_insert_map_of split: option.split)
  qed
  have "de_model_config (snd e) = Some (?h (snd e))" if "e \<in> set ?ob" for e
  proof -
    have "set ?ob \<subseteq> set ?kvs" using set_fold_insert [of ?kvs "[]"] by simp
    with that obtain n m where "(n, m) \<in> set mesh" "snd e = model_config_json m" by auto
    with read show ?thesis by simp
  qed
  then have "opt_all (map (de_model_config \<circ> snd) ?ob) = Some (map (\<lambda>e. ?h (snd e)) ?ob)"
    by (intro opt_all_map_Some) simp
  then have "de_routing_map (routing_map_json mesh) = Some (map_of (zip (map fst ?ob) (map (\<lambda>e. ?h (snd e)) ?ob)))"
    by (simp add: de_routing_map_def routing_map_json_def jobject_def)
  moreover have "map_of (zip (map fst ?ob) (map (\<lambda>e. ?h (snd e)) ?ob)) x = map_of mesh x" for x
  proof -
    have "map_of (zip (map fst ob) (map (\<lambda>e. ?h (snd e)) ob)) x = map_option ?h (map_of ob x)" for ob
      by (induction ob) auto
    then show ?thesis using read by (auto simp: of_ob dest!: map_of_SomeD split: option.split) (cases "map_of mesh x"; force dest: map_of_SomeD)
  qed
  ultimately show ?thesis by (simp add: fun_eq_iff)
qed

text \<open>The messages of the routing channel, and the gateway's map after it received them all.\<close>

definition routing_messages :: "'s config_state \<Rightarrow> string list" where
  "routing_messages s = map snd (filter (\<lambda>m. fst m = ''redeye:routing_updates'') (cs_published s))"

definition gateway_map :: "serde \<Rightarrow> 's config_state \<Rightarrow> routing_map \<Rightarrow> routing_map" where
  "gateway_map sd s rs = config_subscriber sd True True (map Some (routing_messages s)) rs"

text \<open>The entries of a tenant, from the tables.\<close>

definition tenant_entries :: "config_env \<Rightarrow> string \<Rightarrow> config_db \<Rightarrow> config_error + routing_entry list" where
  "tenant_entries ce tenant db = res_map (routing_entry_of (ce_ac ce)) (routing_rows (ce_collate ce) tenant db)"

definition request_mesh :: "config_env \<Rightarrow> upsert_routing_mesh_request \<Rightarrow> routing_entry list \<Rightarrow> (string \<times> model_config) list" where
  "request_mesh ce rq = build_mesh (trim_ws (mr_model_name rq)) (trim_ws (mr_base_url rq))
     (ac_lc (ce_ac ce) (trim_ws (mr_schema_format rq))) (trim_ws (mr_key_alias rq))
     (or_default 1 (mr_priority rq)) (or_default 100 (mr_weight rq))"

lemma routing_entries_Inr:
  assumes "fst (get_routing_entries ce io t s) = Inr es"
  shows "tenant_entries ce t (cs_db s) = Inr es" "cs_db (snd (get_routing_entries ce io t s)) = cs_db s"
    "cs_published (snd (get_routing_entries ce io t s)) = cs_published s"
proof -
  let ?q = "cf_call io (\<lambda>_. q_routing_rows (ce_collate ce) t)"
  obtain rows where rows: "fst (?q s) = Inr rows" and es: "res_map (routing_entry_of (ce_ac ce)) rows = Inr es"
    and s': "snd (get_routing_entries ce io t s) = snd (?q s)"
    using assms unfolding get_routing_entries_def by (elim cf_bind_InrE) simp
  have "rows = routing_rows (ce_collate ce) t (cs_db s)" "cs_db (snd (?q s)) = cs_db s"
    using cf_call_db [OF rows] by (auto simp: q_routing_rows_def)
  with es s' show "tenant_entries ce t (cs_db s) = Inr es" "cs_db (snd (get_routing_entries ce io t s)) = cs_db s"
    "cs_published (snd (get_routing_entries ce io t s)) = cs_published s"
    by (simp_all add: tenant_entries_def)
qed

lemma mesh_handler:
  assumes "fst (upsert_routing_mesh ce io t rq s) = Inr r"
  shows "upsert_routing_mesh ce io t rq =
    cf_bind (if trim_ws (mr_base_url rq) \<noteq> []
       then cf_call io (q_upsert_llm_model (ci_now io) t (trim_ws (mr_model_name rq)) (trim_ws (mr_base_url rq))
         (ac_lc (ce_ac ce) (trim_ws (mr_schema_format rq)))) else cf_ret ()) (\<lambda>_.
    cf_bind (get_routing_entries ce io t) (\<lambda>es.
    cf_bind (cf_ignore (publish_routing_mesh ce io (request_mesh ce rq es))) (\<lambda>_.
    cf_ret (mesh_reply (trim_ws (mr_model_name rq))))))"
proof -
  have "trim_ws (mr_model_name rq) \<noteq> []" "trim_ws (mr_key_alias rq) \<noteq> []"
    using assms unfolding upsert_routing_mesh_def by (auto split: if_splits)
  then show ?thesis by (simp add: upsert_routing_mesh_def request_mesh_def Let_def)
qed

lemma mesh_published:
  assumes "fst (upsert_routing_mesh ce io t rq s) = Inr r" and "\<And>n. ci_redis_fault io n = Delivered"
  defines "s' \<equiv> snd (upsert_routing_mesh ce io t rq s)"
  shows "\<exists>es. tenant_entries ce t (cs_db s') = Inr es \<and> cs_published s' = cs_published s @
    [(''redeye:routing_updates'', print_value (ac_sd (ce_ac ce)) (routing_map_json (request_mesh ce rq es)))]"
proof -
  let ?first = "if trim_ws (mr_base_url rq) \<noteq> []
     then cf_call io (q_upsert_llm_model (ci_now io) t (trim_ws (mr_model_name rq)) (trim_ws (mr_base_url rq))
       (ac_lc (ce_ac ce) (trim_ws (mr_schema_format rq)))) else cf_ret ()"
  let ?s1 = "snd (?first s)"
  have pub1: "cs_published ?s1 = cs_published s" by simp
  obtain es where es: "fst (get_routing_entries ce io t ?s1) = Inr es" and s': "s' =
      snd (cf_ignore (publish_routing_mesh ce io (request_mesh ce rq es)) (snd (get_routing_entries ce io t ?s1)))"
    using assms(1) unfolding s'_def mesh_handler [OF assms(1)] by (elim cf_bind_InrE) simp
  note entries = routing_entries_Inr [OF es]
  have "cs_db s' = cs_db ?s1" using entries(2) by (simp add: s')
  moreover have "cs_published s' = cs_published s @
    [(''redeye:routing_updates'', print_value (ac_sd (ce_ac ce)) (routing_map_json (request_mesh ce rq es)))]"
    using entries(3) pub1 assms(2)
    by (simp add: s' publish_routing_mesh_def cf_bind_cases cf_connect_def cf_publish_def Let_def)
  ultimately show ?thesis using entries(1) by metis
qed

text \<open>Every published key belongs to a row of the tenant or is the placeholder.\<close>

lemma res_map_elem: "res_map f xs = Inr ys \<Longrightarrow> y \<in> set ys \<Longrightarrow> \<exists>x \<in> set xs. f x = Inr y"
  by (induction xs arbitrary: ys) (auto simp: res_bind_eq_Inr)

lemma tenant_entries_elem:
  assumes "tenant_entries ce t db = Inr es" and "e \<in> set es"
  shows "\<exists>m k p. m \<in> set (cd_models db) \<and> lm_tenant m = t \<and> k \<in> set (db_provider_keys (cd_auth db)) \<and>
    pk_tenant_id k = t \<and> pk_provider_name k = lm_provider_name m \<and> pk_is_active k \<and>
    decrypt_provider_key (ce_ac ce) (pk_encrypted_key k) = Inr p \<and> re_model_name e = lm_model_name m \<and>
    re_key e = \<lparr>key_alias = pk_key_alias k, kc_api_key = p, kc_priority = pk_priority k, kc_weight = pk_weight k\<rparr>"
proof -
  obtain row where "row \<in> set (routing_rows (ce_collate ce) t db)" and e: "routing_entry_of (ce_ac ce) row = Inr e"
    using res_map_elem [OF assms(1) [unfolded tenant_entries_def] assms(2)] by blast
  then have "fst row \<in> set (cd_models db)" "lm_tenant (fst row) = t" "snd row \<in> set (db_provider_keys (cd_auth db))"
    "pk_tenant_id (snd row) = t" "pk_provider_name (snd row) = lm_provider_name (fst row)" "pk_is_active (snd row)"
    by (auto simp: routing_rows_def models_of_def keys_of_def)
  moreover obtain p where "decrypt_provider_key (ce_ac ce) (pk_encrypted_key (snd row)) = Inr p"
    using e by (auto simp: routing_entry_of_def split: sum.splits)
  moreover from this e have "re_model_name e = lm_model_name (fst row)" "re_key e = \<lparr>key_alias = pk_key_alias (snd row),
      kc_api_key = p, kc_priority = pk_priority (snd row), kc_weight = pk_weight (snd row)\<rparr>"
    by (auto simp: routing_entry_of_def)
  ultimately show ?thesis by blast
qed

definition keys_in_range :: "config_db \<Rightarrow> bool" where
  "keys_in_range db \<longleftrightarrow> (\<forall>k \<in> set (db_provider_keys (cd_auth db)). i32_range (pk_priority k) \<and> i32_range (pk_weight k))"

lemma request_mesh_in_range:
  assumes "tenant_entries ce t db = Inr es" and "keys_in_range db"
    and "i32_range (or_default 1 (mr_priority rq))" and "i32_range (or_default 100 (mr_weight rq))"
  shows "mesh_in_range (request_mesh ce rq es)"
proof -
  have "i32_range (kc_priority k) \<and> i32_range (kc_weight k)"
    if e: "e \<in> set (request_mesh ce rq es)" and k: "k \<in> set (mc_keys (snd e))" for e k
  proof -
    have "map_of (request_mesh ce rq es) (fst e) = Some (snd e)"
      using e build_mesh_distinct unfolding request_mesh_def by (intro map_of_is_SomeI) simp_all
    from build_mesh_keys [OF this [unfolded request_mesh_def] k]
    consider e' where "e' \<in> set es" "k = re_key e'"
      | "kc_priority k = or_default 1 (mr_priority rq)" "kc_weight k = or_default 100 (mr_weight rq)" by auto
    then show ?thesis
    proof cases
      case 1
      with tenant_entries_elem [OF assms(1) 1(1)] assms(2) show ?thesis by (auto simp: keys_in_range_def)
    qed (use assms(3,4) in simp)
  qed
  then show ?thesis by (auto simp: mesh_in_range_def list_all_iff)
qed

text \<open>The gateway routes by the last mesh published.\<close>

lemma gateway_last:
  assumes "cs_published s' = ps @ [(''redeye:routing_updates'',
      print_value (ac_sd (ce_ac ce)) (routing_map_json (request_mesh ce rq es)))]"
    and "tenant_entries ce t db = Inr es" and "serde_roundtrip (ac_sd (ce_ac ce))" and "keys_in_range db"
    and "i32_range (or_default 1 (mr_priority rq))" and "i32_range (or_default 100 (mr_weight rq))"
  shows "gateway_map (ac_sd (ce_ac ce)) s' rs = map_of (request_mesh ce rq es)"
proof -
  have "de_routing_map (routing_map_json (request_mesh ce rq es)) = Some (map_of (request_mesh ce rq es))"
    using request_mesh_in_range [OF assms(2,4-6)]
    by (intro de_routing_map_json) (simp_all add: request_mesh_def build_mesh_distinct)
  then show ?thesis
    using assms(3)
    by (simp add: gateway_map_def config_subscriber_def routing_messages_def assms(1) routing_update_def serde_roundtrip_def)
qed

lemma gateway_receives:
  assumes "fst (upsert_routing_mesh ce io t rq s) = Inr r" and "\<And>n. ci_redis_fault io n = Delivered"
    and "serde_roundtrip (ac_sd (ce_ac ce))"
  defines "s' \<equiv> snd (upsert_routing_mesh ce io t rq s)"
  assumes "keys_in_range (cs_db s')" and "i32_range (or_default 1 (mr_priority rq))"
    and "i32_range (or_default 100 (mr_weight rq))"
  shows "\<exists>es. tenant_entries ce t (cs_db s') = Inr es \<and>
    gateway_map (ac_sd (ce_ac ce)) s' rs = map_of (request_mesh ce rq es)"
proof -
  obtain es where es: "tenant_entries ce t (cs_db s') = Inr es" and pub: "cs_published s' = cs_published s @
    [(''redeye:routing_updates'', print_value (ac_sd (ce_ac ce)) (routing_map_json (request_mesh ce rq es)))]"
    using mesh_published [OF assms(1,2)] unfolding s'_def by blast
  have "gateway_map (ac_sd (ce_ac ce)) s' rs = map_of (request_mesh ce rq es)"
    using pub es assms(3,5-7) by (rule gateway_last)
  with es show ?thesis by blast
qed

text \<open>A registration without an address leaves the models alone.\<close>

lemma update_keeps_models:
  assumes "fst (upsert_routing_mesh ce io t rq s) = Inr r" and "trim_ws (mr_base_url rq) = []"
  shows "cd_models (cs_db (snd (upsert_routing_mesh ce io t rq s))) = cd_models (cs_db s)"
proof -
  have "cf_keeps (\<lambda>db. cd_models db = cd_models (cs_db s)) (upsert_routing_mesh ce io t rq)"
    unfolding mesh_handler [OF assms(1)] get_routing_entries_def using assms(2) by (auto intro!: cf_frames)
  then show ?thesis by (simp add: cf_keeps_def)
qed

end
