(* ===== verification/Config_Properties.thy ===== *)
theory Config_Properties
  imports Config_Mesh Auth_Properties Fixtures
begin

text \<open>The properties of the configuration service, each with a concrete instance.\<close>

section \<open>A concrete service\<close>

definition ce_sample :: config_env where
  "ce_sample = \<lparr>ce_ac = ac_sample, ce_collate = (\<lambda>s. s)\<rparr>"

definition cio_sample :: "keyspace config_io" where
  "cio_sample = \<lparr>ci_now = 5, ci_fault = (\<lambda>n. Delivered), ci_id = (\<lambda>n. ''m'' @ show_nat n),
     ci_exec = ref_exec F0 0, ci_redis_fault = (\<lambda>n. Delivered)\<rparr>"

definition cdb_sample :: config_db where
  "cdb_sample = \<lparr>cd_configs = [\<lparr>cc_tenant = ''t'', cc_pii_masking = True, cc_semantic_caching = True,
       cc_routing_fallback = True, cc_rate_limit_rpm = Some 7, cc_preferred_model = Some ''gpt'', cc_updated_at = 0\<rparr>],
     cd_models = [\<lparr>lm_id = ''m'', lm_tenant = ''t'', lm_model_name = ''gpt'', lm_provider_name = ''openai'',
       lm_base_url = ''http://o'', lm_schema_format = ''openai'', lm_created_at = 0\<rparr>],
     cd_auth = db_sample\<lparr>db_api_keys := [\<lparr>ak_id = ''k'', ak_tenant_id = ''t'', ak_key_hash = ''h'', ak_name = ''n'',
         ak_created_at = 0, ak_expires_at = None, ak_is_active = True\<rparr>],
       db_provider_keys := [\<lparr>pk_id = ''p'', pk_tenant_id = ''t'', pk_provider_name = ''openai'', pk_key_alias = ''default'',
         pk_priority = 1, pk_is_active = True, pk_weight = 100, pk_encrypted_key = replicate 12 (CHR ''n'') @ ''sk'',
         pk_created_at = 0\<rparr>]\<rparr>\<rparr>"

definition cs_sample :: "keyspace config_state" where
  "cs_sample = \<lparr>cs_db = cdb_sample, cs_calls = 0, cs_redis = (\<lambda>k. None), cs_redis_calls = 0, cs_published = []\<rparr>"

lemma ce_sample_simps [simp]: "ce_ac ce_sample = ac_sample" "ce_collate ce_sample s = s"
  by (simp_all add: ce_sample_def)

lemma cio_sample_simps [simp]:
  "ci_now cio_sample = 5" "ci_fault cio_sample n = Delivered" "ci_redis_fault cio_sample n = Delivered"
  by (simp_all add: cio_sample_def)

lemma cs_sample_simps [simp]: "cs_db cs_sample = cdb_sample" "cs_calls cs_sample = 0"
  by (simp_all add: cs_sample_def)

lemma cdb_sample_ok: "config_db_ok cdb_sample"
  using db_sample_ok
  by (simp add: config_db_ok_def config_ok_def cdb_sample_def db_ok_def has_tenant_def char_count_def db_sample_def)

definition put_sample :: update_config_request where
  "put_sample = \<lparr>uq_pii_masking = Some False, uq_semantic_caching = None, uq_routing_fallback = None,
     uq_rate_limit_rpm = Some 9, uq_preferred_model = None\<rparr>"

lemma put_sample_valid [simp]: "validate_update put_sample = Inr ()"
  by (simp add: validate_update_def put_sample_def)

lemma put_sample_apply [simp]: "apply_update now put_sample b =
    b\<lparr>cc_pii_masking := False, cc_rate_limit_rpm := Some 9, cc_updated_at := now\<rparr>"
  by (simp add: apply_update_def put_sample_def)

lemma put_sample_ok: "\<exists>r. fst (upsert_config ce_sample cio_sample ''t'' put_sample cs_sample) = Inr r"
  by (simp add: upsert_config_def cf_bind_cases cf_catch_def cf_call_delivered q_get_config_def q_upsert_config_def
      config_row_def cdb_sample_def varchar_short char_count_def)

definition mesh_sample :: "string \<Rightarrow> upsert_routing_mesh_request" where
  "mesh_sample url = \<lparr>mr_model_name = ''gpt'', mr_base_url = url, mr_schema_format = ''openai'',
     mr_key_alias = ''default'', mr_priority = None, mr_weight = None\<rparr>"

lemma trim_samples: "trim_ws ''gpt'' = ''gpt''" "trim_ws ''openai'' = ''openai''" "trim_ws ''default'' = ''default''"
  "trim_ws [] = []" "trim_ws ''http://o'' = ''http://o''" "ascii_lower ''openai'' = ''openai''"
  by code_simp+

lemma mesh_sample_simps:
  "mr_model_name (mesh_sample url) = ''gpt''" "mr_base_url (mesh_sample url) = url"
  "mr_schema_format (mesh_sample url) = ''openai''" "mr_key_alias (mesh_sample url) = ''default''"
  "mr_priority (mesh_sample url) = None" "mr_weight (mesh_sample url) = None"
  "trim_ws ''gpt'' = ''gpt''" "trim_ws ''default'' = ''default''" "trim_ws ''http://o'' = ''http://o''" "trim_ws [] = []"
  by (simp_all add: mesh_sample_def trim_samples)

lemma cdb_sample_range: "keys_in_range cdb_sample"
  by (simp add: keys_in_range_def cdb_sample_def i32_range_def)

lemma mesh_sample_rows:
  "\<exists>es. res_map (routing_entry_of ac_sample) (routing_rows (ce_collate ce_sample) ''t'' cdb_sample) = Inr es"
  by (simp add: routing_rows_def models_of_def keys_of_def cdb_sample_def routing_entry_of_def decrypt_provider_key_def)

lemma mesh_sample_ok:
  assumes "url \<in> {''http://o'', []}"
  shows "\<exists>r. fst (upsert_routing_mesh ce_sample cio_sample ''t'' (mesh_sample url) cs_sample) = Inr r \<and>
    cs_db (snd (upsert_routing_mesh ce_sample cio_sample ''t'' (mesh_sample url) cs_sample)) = cdb_sample"
proof -
  obtain es where es: "res_map (routing_entry_of ac_sample) (routing_rows (ce_collate ce_sample) ''t'' cdb_sample) = Inr es"
    using mesh_sample_rows by blast
  have put: "q_upsert_llm_model 5 ''t'' ''gpt'' ''http://o'' ''openai'' i cdb_sample = Inr ((), cdb_sample)" for i
    by (simp add: q_upsert_llm_model_def cdb_sample_def)
  show ?thesis
    using assms es
    by (auto simp: upsert_routing_mesh_def mesh_sample_def trim_samples get_routing_entries_def cf_bind_cases
        cf_call_delivered put q_routing_rows_def Let_def)
qed

lemma no_key_missing: "no_key h db \<Longrightarrow> gateway_key_lookup db h = KeyMissing"
  by (auto simp: no_key_def gateway_key_lookup_def find_None_iff split: option.split dest: find_Some_in)

section \<open>Settings\<close>



text \<open>A null does not clear the preferred model: of every body whose \<open>preferred_model\<close> is null,
  an update that succeeds leaves the stored model as it was, although the documentation of the
  request names null as the way to clear it.\<close>

theorem null_does_not_clear:
  assumes "de_update_config_request v = Some rq" and "jget v ''preferred_model'' = Some JNull"
    and "fst (upsert_config ce io t rq s) = Inr r" and "config_db_ok (cs_db s)"
    and "c \<in> set (cd_configs (cs_db s))" and "cc_tenant c = t"
  shows "\<exists>c'. find (\<lambda>c. cc_tenant c = t) (cd_configs (cs_db (snd (upsert_config ce io t rq s)))) = Some c' \<and>
    cc_preferred_model c' = cc_preferred_model c"
proof -
  let ?b = "base_config (ci_now io) t (cs_db s)"
  have keep: "uq_preferred_model rq = None" using assms(1,2) by (rule null_is_absent)
  obtain saved where row: "config_row (ci_now io) (apply_update (ci_now io) rq ?b) = Some saved"
    and q: "q_upsert_config (ci_now io) (apply_update (ci_now io) rq ?b) (cs_db s) =
      Inr (saved, cs_db (snd (upsert_config ce io t rq s)))"
    using put_success [OF assms(3)] by blast
  have "?b = c" using assms(4-6) by (intro base_config_unique) simp_all
  moreover have "cc_preferred_model saved = cc_preferred_model ?b"
    using row_preferred [OF row] base_config_short [OF assms(4)] keep by (simp add: apply_update_def)
  ultimately show ?thesis using upsert_config_find [OF q] assms(6) by auto
qed

lemma null_does_not_clear_witness:
  "\<exists>rq c'. de_update_config_request (JObj [(''preferred_model'', JNull)]) = Some rq \<and>
     find (\<lambda>c. cc_tenant c = ''t'') (cd_configs (cs_db (snd (upsert_config ce_sample cio_sample ''t'' rq cs_sample)))) = Some c' \<and>
     cc_preferred_model c' = Some ''gpt''"
proof -
  let ?rq = "\<lparr>uq_pii_masking = None, uq_semantic_caching = None, uq_routing_fallback = None,
    uq_rate_limit_rpm = None, uq_preferred_model = None\<rparr>"
  have read: "de_update_config_request (JObj [(''preferred_model'', JNull)]) = Some ?rq"
    by (simp add: de_update_config_request_def struct_view_def de_opt_def)
  have valid: "validate_update ?rq = Inr ()" by (simp add: validate_update_def)
  have same: "apply_update now ?rq b = b\<lparr>cc_updated_at := now\<rparr>" for now b by (simp add: apply_update_def)
  have ok: "\<exists>r. fst (upsert_config ce_sample cio_sample ''t'' ?rq cs_sample) = Inr r"
    by (simp add: upsert_config_def valid same cf_bind_cases cf_catch_def cf_call_delivered q_get_config_def
        q_upsert_config_def config_row_def cdb_sample_def varchar_short char_count_def)
  then obtain r where r: "fst (upsert_config ce_sample cio_sample ''t'' ?rq cs_sample) = Inr r" by blast
  have "hd (cd_configs cdb_sample) \<in> set (cd_configs (cs_db cs_sample))" "cc_tenant (hd (cd_configs cdb_sample)) = ''t''"
    "cc_preferred_model (hd (cd_configs cdb_sample)) = Some ''gpt''" by (simp_all add: cdb_sample_def)
  with null_does_not_clear [OF read _ r, of "hd (cd_configs cdb_sample)"] read show ?thesis
    by (auto simp: cdb_sample_ok)
qed

section \<open>Isolation and availability\<close>

text \<open>C37. Tenants do not see each other: whatever is asked of the service for other tenants, its answers
  about a tenant's settings, models and keys stay the same.\<close>

theorem config_tenant_isolation:
  assumes "\<And>io ev. (io, ev) \<in> set evs \<Longrightarrow> event_tenant ev \<noteq> t" and "\<And>n. ci_fault io n = Delivered"
    and "ev \<in> {CfgGet t, CfgModels t, CfgKeys t}"
  shows "fst (config_route ce io ev (config_run ce evs s)) = fst (config_route ce io ev s)"
proof -
  have rows: "tenant_rows t (cs_db (config_run ce evs s)) = tenant_rows t (cs_db s)"
    using assms(1) by (intro other_tenant.run) simp_all
  show ?thesis using assms(3) read_own_rows [OF rows assms(2)] by auto
qed

lemma config_tenant_isolation_witness:
  "fst (config_route ce_sample cio_sample (CfgGet ''t'') (config_run ce_sample [(cio_sample, CfgPut ''u'' put_sample)] cs_sample)) =
   fst (config_route ce_sample cio_sample (CfgGet ''t'') cs_sample)"
  by (rule config_tenant_isolation) auto

text \<open>C38. Redis cannot fail a request: the answer to a request and the tables after it are the same
  whatever Redis server there is, whatever it holds and whichever calls to it are lost.\<close>

theorem config_ignores_redis:
  assumes "ci_now io = ci_now io'" and "ci_fault io = ci_fault io'" and "ci_id io = ci_id io'"
    and "cs_db s = cs_db s'" and "cs_calls s = cs_calls s'"
  shows "fst (config_route ce io ev s) = fst (config_route ce io' ev s') \<and>
    cs_db (snd (config_route ce io ev s)) = cs_db (snd (config_route ce io' ev s'))"
proof -
  have "cf_same (config_handler ce io ev) (config_handler ce io' ev)" using assms(1-3) by (rule handler_same)
  then show ?thesis using assms(4,5) unfolding cf_same_def config_route_def
    by (auto simp: split_beta split: sum.split)
qed

lemma config_ignores_redis_witness:
  "fst (config_route ce_sample cio_sample (CfgPut ''t'' put_sample) cs_sample) =
   fst (config_route ce_sample (cio_sample\<lparr>ci_redis_fault := (\<lambda>n. LostRequest)\<rparr>) (CfgPut ''t'' put_sample) cs_sample)"
  using config_ignores_redis [of cio_sample "cio_sample\<lparr>ci_redis_fault := (\<lambda>n. LostRequest)\<rparr>" cs_sample cs_sample
      ce_sample "CfgPut ''t'' put_sample"]
  by simp

text \<open>C35. Revocation is final: after a revocation that succeeded, and after any later requests, the
  gateway finds no key for the revoked digest.\<close>

theorem revoked_key_refused:
  assumes "fst (revoke_api_key ce io t key_id s) = Inr r" and "config_db_ok (cs_db s)"
    and "k \<in> set (db_api_keys (cd_auth (cs_db s)))" and "ak_id k = key_id" and "ak_tenant_id k = t"
  shows "gateway_key_lookup (cd_auth (cs_db (config_run ce evs (snd (revoke_api_key ce io t key_id s))))) (ak_key_hash k) = KeyMissing"
proof -
  let ?s = "snd (revoke_api_key ce io t key_id s)"
  have "no_key (ak_key_hash k) (cd_auth (cs_db ?s))"
    using assms by (intro revoke_removes) simp_all
  then have "no_key (ak_key_hash k) (cd_auth (cs_db (config_run ce evs ?s)))"
    by (intro revoked.run) simp_all
  then show ?thesis by (rule no_key_missing)
qed

lemma revoked_key_refused_witness:
  "gateway_key_lookup (cd_auth (cs_db (snd (revoke_api_key ce_sample cio_sample ''t'' ''k'' cs_sample)))) ''h'' = KeyMissing"
proof -
  let ?k = "\<lparr>ak_id = ''k'', ak_tenant_id = ''t'', ak_key_hash = ''h'', ak_name = ''n'',
    ak_created_at = 0, ak_expires_at = None, ak_is_active = True\<rparr>"
  have "\<exists>r. fst (revoke_api_key ce_sample cio_sample ''t'' ''k'' cs_sample) = Inr r"
    by (simp add: revoke_api_key_def delete_api_key_def cf_bind_cases cf_query_def q_revoke_api_key_def cdb_sample_def Let_def)
  then obtain r where r: "fst (revoke_api_key ce_sample cio_sample ''t'' ''k'' cs_sample) = Inr r" by blast
  show ?thesis using revoked_key_refused [OF r, of ?k "[]"] cdb_sample_ok by (simp add: cdb_sample_def)
qed

section \<open>The routing mesh\<close>



text \<open>The last tenant to publish owns the routing of all: after a registration by one tenant the
  gateway, whose map is not divided by tenants, knows no model but that tenant's, whatever
  others had published, and every key with a text in it is one of that tenant's provider keys.\<close>

theorem mesh_serves_last_tenant:
  assumes "fst (upsert_routing_mesh ce io t rq s) = Inr r" and "\<And>n. ci_redis_fault io n = Delivered"
    and "serde_roundtrip (ac_sd (ce_ac ce))"
  defines "s' \<equiv> snd (upsert_routing_mesh ce io t rq s)"
  assumes "keys_in_range (cs_db s')" and "i32_range (or_default 1 (mr_priority rq))"
    and "i32_range (or_default 100 (mr_weight rq))"
    and "gateway_map (ac_sd (ce_ac ce)) s' rs name = Some mc"
  shows "(name = trim_ws (mr_model_name rq) \<or> (\<exists>m \<in> set (cd_models (cs_db s')). lm_tenant m = t \<and> lm_model_name m = name)) \<and>
    (\<forall>k \<in> set (mc_keys mc). kc_api_key k = [] \<or> (\<exists>pk \<in> set (db_provider_keys (cd_auth (cs_db s'))).
      pk_tenant_id pk = t \<and> decrypt_provider_key (ce_ac ce) (pk_encrypted_key pk) = Inr (kc_api_key k)))"
proof -
  obtain es where es: "tenant_entries ce t (cs_db s') = Inr es"
    and "gateway_map (ac_sd (ce_ac ce)) s' rs = map_of (request_mesh ce rq es)"
    using gateway_receives [OF assms(1-3) assms(5-7) [unfolded s'_def], of rs] unfolding s'_def by blast
  then have mc: "map_of (request_mesh ce rq es) name = Some mc" using assms(8) by simp
  note keys = build_mesh_keys [OF mc [unfolded request_mesh_def]]
  have name: "\<exists>e \<in> set es. re_model_name e = name" if "name \<noteq> trim_ws (mr_model_name rq)"
  proof -
    have "filter (\<lambda>e. re_model_name e = name) es \<noteq> []"
      using mc that by (auto simp: request_mesh_def build_mesh_spec mesh_spec_def)
    then show ?thesis by (simp add: filter_empty_conv)
  qed
  have "kc_api_key k = [] \<or> (\<exists>pk \<in> set (db_provider_keys (cd_auth (cs_db s'))).
      pk_tenant_id pk = t \<and> decrypt_provider_key (ce_ac ce) (pk_encrypted_key pk) = Inr (kc_api_key k))"
    if k: "k \<in> set (mc_keys mc)" for k
    using keys [OF k] tenant_entries_elem [OF es] by fastforce
  moreover have "name = trim_ws (mr_model_name rq) \<or> (\<exists>m \<in> set (cd_models (cs_db s')). lm_tenant m = t \<and> lm_model_name m = name)"
    using name tenant_entries_elem [OF es] by metis
  ultimately show ?thesis by blast
qed

lemma mesh_serves_last_tenant_witness:
  "\<exists>mc. gateway_map sd1 (snd (upsert_routing_mesh ce_sample cio_sample ''t'' (mesh_sample ''http://o'') cs_sample)) (\<lambda>n. None) ''gpt'' = Some mc \<and>
     (\<forall>k \<in> set (mc_keys mc). kc_api_key k = [] \<or> (\<exists>pk \<in> set (db_provider_keys (cd_auth cdb_sample)).
       decrypt_provider_key ac_sample (pk_encrypted_key pk) = Inr (kc_api_key k)))"
proof -
  obtain r where r: "fst (upsert_routing_mesh ce_sample cio_sample ''t'' (mesh_sample ''http://o'') cs_sample) = Inr r"
    and db: "cs_db (snd (upsert_routing_mesh ce_sample cio_sample ''t'' (mesh_sample ''http://o'') cs_sample)) = cdb_sample"
    using mesh_sample_ok by fastforce
  have "\<exists>mc. gateway_map sd1 (snd (upsert_routing_mesh ce_sample cio_sample ''t'' (mesh_sample ''http://o'') cs_sample)) (\<lambda>n. None) ''gpt'' = Some mc"
    using gateway_receives [OF r, of "\<lambda>n. None"]
    by (auto simp: db sd1_roundtrip cdb_sample_range mesh_sample_simps i32_range_def or_default_def request_mesh_def build_mesh_spec)
  then obtain mc where mc:
    "gateway_map sd1 (snd (upsert_routing_mesh ce_sample cio_sample ''t'' (mesh_sample ''http://o'') cs_sample)) (\<lambda>n. None) ''gpt'' = Some mc" by blast
  show ?thesis
    using mesh_serves_last_tenant [OF r, of "\<lambda>n. None" "''gpt''" mc] mc
    by (auto simp: db sd1_roundtrip cdb_sample_range mesh_sample_simps i32_range_def or_default_def)
qed

text \<open>An update of a priority blanks the address: a registration without a base URL, which the code
  allows for a model that exists, leaves the model's row as it was but publishes the model
  with an empty address.\<close>

theorem mesh_update_blanks_address:
  assumes "fst (upsert_routing_mesh ce io t rq s) = Inr r" and "\<And>n. ci_redis_fault io n = Delivered"
    and "serde_roundtrip (ac_sd (ce_ac ce))"
  defines "s' \<equiv> snd (upsert_routing_mesh ce io t rq s)"
  assumes "keys_in_range (cs_db s')" and "i32_range (or_default 1 (mr_priority rq))"
    and "i32_range (or_default 100 (mr_weight rq))" and "trim_ws (mr_base_url rq) = []"
  shows "cd_models (cs_db s') = cd_models (cs_db s) \<and>
    (\<exists>mc. gateway_map (ac_sd (ce_ac ce)) s' rs (trim_ws (mr_model_name rq)) = Some mc \<and> mc_base_url mc = [])"
proof -
  have "cd_models (cs_db s') = cd_models (cs_db s)"
    unfolding s'_def using assms(1,8) by (rule update_keeps_models)
  then show ?thesis
    using gateway_receives [OF assms(1-3) assms(5-7) [unfolded s'_def], of rs] unfolding s'_def [symmetric]
    by (auto simp: request_mesh_def build_mesh_spec registered_config_def assms(8))
qed

lemma mesh_update_blanks_address_witness:
  "\<exists>mc. gateway_map sd1 (snd (upsert_routing_mesh ce_sample cio_sample ''t'' (mesh_sample []) cs_sample)) (\<lambda>n. None) ''gpt'' = Some mc \<and>
     mc_base_url mc = []"
proof -
  obtain r where r: "fst (upsert_routing_mesh ce_sample cio_sample ''t'' (mesh_sample []) cs_sample) = Inr r"
    and db: "cs_db (snd (upsert_routing_mesh ce_sample cio_sample ''t'' (mesh_sample []) cs_sample)) = cdb_sample"
    using mesh_sample_ok by fastforce
  show ?thesis
    using mesh_update_blanks_address [OF r, of "\<lambda>n. None"]
    by (auto simp: db sd1_roundtrip cdb_sample_range mesh_sample_simps i32_range_def or_default_def)
qed

end
