(* ===== verification/Config_Concurrency.thy ===== *)
theory Config_Concurrency
  imports Config_Mesh Interleaving
begin

text \<open>
  Requests of the config service that run at the same time. An update of settings and a
  registration are cut at their calls of the database and of Redis; the other handlers make one
  call that matters and are one step. The counters that name the calls are shared.
\<close>

section \<open>Threads\<close>

type_synonym ('s, 'a) cth = "('s config_state, config_error + 'a) act"

definition cth_bind :: "('s, 'a) cth \<Rightarrow> ('a \<Rightarrow> ('s, 'b) cth) \<Rightarrow> ('s, 'b) cth" where
  "cth_bind t f = act_bind t (\<lambda>r. case r of Inl e \<Rightarrow> Done (Inl e) | Inr x \<Rightarrow> f x)"

definition cth_ignore :: "('s, 'a) cth \<Rightarrow> ('s, unit) cth" where
  "cth_ignore t = act_bind t (\<lambda>_. Done (Inr ()))"

definition push_update_thread :: "config_env \<Rightarrow> 's config_io \<Rightarrow> client_config \<Rightarrow> ('s, unit) cth" where
  "push_update_thread ce io c =
     (let time = ac_rfc3339 (ce_ac ce); print = print_value (ac_sd (ce_ac ce)) in
      cth_bind (atomically (cf_connect io)) (\<lambda>_.
      cth_bind (atomically (cf_redis io (SETEX (''config:'' @ cc_tenant c) (Raw (print (client_config_json time c))) config_key_ttl))) (\<lambda>_.
      atomically (cf_publish io ''redeye:config_updates'' (print (config_update_event_json time c))))))"

definition publish_mesh_thread ::
  "config_env \<Rightarrow> 's config_io \<Rightarrow> (string \<times> model_config) list \<Rightarrow> ('s, unit) cth" where
  "publish_mesh_thread ce io mesh =
     cth_bind (atomically (cf_connect io)) (\<lambda>_.
     atomically (cf_publish io ''redeye:routing_updates'' (print_value (ac_sd (ce_ac ce)) (routing_map_json mesh))))"

definition read_base :: "'s config_io \<Rightarrow> string \<Rightarrow> ('s, client_config) cf" where
  "read_base io tenant = cf_catch (cf_call io (\<lambda>_. q_get_config tenant)) (\<lambda>e.
     case e of CeNotFound _ \<Rightarrow> cf_ret (default_for (ci_now io) tenant) | _ \<Rightarrow> cf_fail e)"

definition upsert_config_thread ::
  "config_env \<Rightarrow> 's config_io \<Rightarrow> string \<Rightarrow> update_config_request \<Rightarrow> ('s, response) cth" where
  "upsert_config_thread ce io tenant request =
     cth_bind (Done (case validate_update request of Inl m \<Rightarrow> Inl (CeValidation m) | Inr x \<Rightarrow> Inr x)) (\<lambda>_.
     cth_bind (atomically (read_base io tenant)) (\<lambda>base.
     cth_bind (atomically (cf_call io (\<lambda>_. q_upsert_config (ci_now io) (apply_update (ci_now io) request base)))) (\<lambda>saved.
     cth_bind (cth_ignore (push_update_thread ce io saved)) (\<lambda>_.
     Done (Inr (json_response 200 (client_config_json (ac_rfc3339 (ce_ac ce)) saved)))))))"

definition upsert_mesh_thread ::
  "config_env \<Rightarrow> 's config_io \<Rightarrow> string \<Rightarrow> upsert_routing_mesh_request \<Rightarrow> ('s, response) cth" where
  "upsert_mesh_thread ce io tenant request =
     (if trim_ws (mr_model_name request) = [] then Done (Inl (CeValidation (backquoted ''model_name'' @ '' must not be blank'')))
      else if trim_ws (mr_key_alias request) = [] then Done (Inl (CeValidation (backquoted ''key_alias'' @ '' must not be blank'')))
      else
        let name = trim_ws (mr_model_name request);
            url = trim_ws (mr_base_url request);
            fmt = ac_lc (ce_ac ce) (trim_ws (mr_schema_format request)) in
        cth_bind (if url \<noteq> [] then atomically (cf_call io (q_upsert_llm_model (ci_now io) tenant name url fmt)) else Done (Inr ())) (\<lambda>_.
        cth_bind (atomically (get_routing_entries ce io tenant)) (\<lambda>entries.
        cth_bind (cth_ignore (publish_mesh_thread ce io (request_mesh ce request entries))) (\<lambda>_.
        Done (Inr (mesh_reply name))))))"

text \<open>A thread that runs alone is its handler.\<close>

lemma run_cth_bind: "run_act (cth_bind t f) = cf_bind (run_act t) (\<lambda>x. run_act (f x))"
  by (auto simp: fun_eq_iff cth_bind_def run_bind cf_bind_def split: prod.split sum.split)

lemma run_cth_ignore: "run_act (cth_ignore t) = cf_ignore (run_act t)"
  by (auto simp: fun_eq_iff cth_ignore_def run_bind split: prod.split)

lemma run_cth_done: "run_act (Done r) = cf_lift r" "cf_lift (Inr x) = cf_ret x" "cf_lift (Inl e) = cf_fail e"
  by (simp_all add: fun_eq_iff)

lemma push_alone:
  "run_act (push_update_thread ce io c) = push_config_update ce io c"
  "run_act (publish_mesh_thread ce io mesh) = publish_routing_mesh ce io mesh"
  by (simp_all add: push_update_thread_def publish_mesh_thread_def push_config_update_def publish_routing_mesh_def
      run_cth_bind Let_def)

lemma upsert_config_alone: "run_act (upsert_config_thread ce io t rq) = upsert_config ce io t rq"
  unfolding upsert_config_thread_def upsert_config_def read_base_def run_cth_bind run_cth_done run_cth_ignore push_alone
    run_atomically ..

lemma upsert_mesh_alone: "run_act (upsert_mesh_thread ce io t rq) = upsert_routing_mesh ce io t rq"
  by (simp add: upsert_mesh_thread_def upsert_routing_mesh_def request_mesh_def Let_def run_cth_bind run_cth_done
      run_cth_ignore push_alone del: run_act.simps(1))

text \<open>The requests considered to run at the same time.\<close>

fun config_start :: "config_env \<Rightarrow> 's config_io \<times> config_event \<Rightarrow> ('s, response) cth" where
  "config_start ce (io, CfgPut t r) = upsert_config_thread ce io t r"
| "config_start ce (io, CfgMesh t r) = upsert_mesh_thread ce io t r"
| "config_start ce (io, ev) = atomically (config_handler ce io ev)"

section \<open>What a request keeps of the tables\<close>

named_theorems cth_rules \<open>threads that keep an invariant of the tables\<close>

definition cth_keeps :: "(config_db \<Rightarrow> bool) \<Rightarrow> ('s, 'a) cth \<Rightarrow> ('a \<Rightarrow> bool) \<Rightarrow> bool" where
  "cth_keeps P t Q \<longleftrightarrow> assured (P \<circ> cs_db) t (\<lambda>r. \<forall>x. r = Inr x \<longrightarrow> Q x)"

lemma cth_keeps_bind: "cth_keeps P t Q \<Longrightarrow> (\<And>x. Q x \<Longrightarrow> cth_keeps P (f x) R) \<Longrightarrow> cth_keeps P (cth_bind t f) R"
  unfolding cth_keeps_def cth_bind_def by (erule assured_bind) (simp split: sum.split)

lemma cth_keeps_done [cth_rules]: "cth_keeps P (Done r) (\<lambda>_. True)"
  by (simp add: cth_keeps_def)

lemma cth_keeps_atomically: "cf_keeps P m \<Longrightarrow> (\<And>s x. fst (m s) = Inr x \<Longrightarrow> Q x) \<Longrightarrow> cth_keeps P (atomically m) Q"
  unfolding cth_keeps_def cf_keeps_def by (intro assured_atomically) (simp add: comp_def)

lemma cth_keeps_step [cth_rules]: "cf_keeps P m \<Longrightarrow> cth_keeps P (atomically m) (\<lambda>_. True)"
  by (rule cth_keeps_atomically) simp_all

lemma cth_keeps_next [cth_rules]:
  "cth_keeps P t (\<lambda>_. True) \<Longrightarrow> (\<And>x. cth_keeps P (f x) (\<lambda>_. True)) \<Longrightarrow> cth_keeps P (cth_bind t f) (\<lambda>_. True)"
  by (rule cth_keeps_bind)

lemma cth_keeps_ignore [cth_rules]: "cth_keeps P t (\<lambda>_. True) \<Longrightarrow> cth_keeps P (cth_ignore t) (\<lambda>_. True)"
  unfolding cth_keeps_def cth_ignore_def by (erule assured_bind) simp

lemma redis_keeps [cf_frames]:
  "cf_keeps P (cf_connect io)" "cf_keeps P (cf_redis io c)" "cf_keeps P (cf_publish io ch p)"
  by (simp_all add: cf_keeps_def)

lemma read_base_keeps [cf_frames]: "cf_keeps P (read_base io t)"
  unfolding read_base_def by (intro cf_frames) (auto intro: cf_frames split: config_error.split)

lemma read_base_tenant: "fst (read_base io t s) = Inr base \<Longrightarrow> cc_tenant base = t"
  unfolding read_base_def by (rule base_tenant)

lemma pushes_keep [cth_rules]:
  "cth_keeps P (push_update_thread ce io c) (\<lambda>_. True)" "cth_keeps P (publish_mesh_thread ce io mesh) (\<lambda>_. True)"
  unfolding push_update_thread_def publish_mesh_thread_def Let_def by (intro cth_rules cf_frames)+

lemma entries_keep [cf_frames]: "cf_keeps P (get_routing_entries ce io t)"
  unfolding get_routing_entries_def by (intro cf_frames)

context config_invariant
begin

lemma put_thread:
  assumes "serves t"
  shows "cth_keeps P (upsert_config_thread ce io t rq) (\<lambda>_. True)"
  unfolding upsert_config_thread_def
proof (rule cth_keeps_next)
  show "cth_keeps P (cth_bind (atomically (read_base io t)) (\<lambda>base.
      cth_bind (atomically (cf_call io (\<lambda>_. q_upsert_config (ci_now io) (apply_update (ci_now io) rq base)))) (\<lambda>saved.
      cth_bind (cth_ignore (push_update_thread ce io saved)) (\<lambda>_.
      Done (Inr (json_response 200 (client_config_json (ac_rfc3339 (ce_ac ce)) saved))))))) (\<lambda>_. True)"
  proof (rule cth_keeps_bind [where Q = "\<lambda>base. cc_tenant base = t"])
    show "cth_keeps P (atomically (read_base io t)) (\<lambda>base. cc_tenant base = t)"
      by (intro cth_keeps_atomically read_base_keeps) (rule read_base_tenant)
  qed (use assms in \<open>auto intro!: cth_rules cf_frames settings_in\<close>)
qed (rule cth_rules)

lemma mesh_thread: "serves t \<Longrightarrow> cth_keeps P (upsert_mesh_thread ce io t rq) (\<lambda>_. True)"
  unfolding upsert_mesh_thread_def Let_def by (auto intro!: cth_rules cf_frames model_in)

lemma started: "serves (event_tenant ev) \<Longrightarrow> cth_keeps P (config_start ce (io, ev)) (\<lambda>_. True)"
  using put_thread mesh_thread step [of ev ce io] by (cases ev) (auto intro: cth_keeps_step)

lemma interleaved:
  assumes "concs (s, map (config_start ce) evs) (s', ts')" and "P (cs_db s)"
    and "\<And>io ev. (io, ev) \<in> set evs \<Longrightarrow> serves (event_tenant ev)"
  shows "P (cs_db s')"
proof -
  have "assured (P \<circ> cs_db) (config_start ce p) (\<lambda>_. True)" if "p \<in> set evs" for p
    using started [of "snd p" ce "fst p"] assms(3) [of "fst p" "snd p"] that by (simp add: cth_keeps_def)
  then have "list_all2 (assured (P \<circ> cs_db)) (map (config_start ce) evs) (replicate (length evs) (\<lambda>_. True))"
    by (simp add: list_all2_conv_all_nth)
  from concs_assured [OF assms(1) _ this] assms(2) show ?thesis by simp
qed

end

end
