(* ===== verification/Config_Concurrency_Properties.thy ===== *)
theory Config_Concurrency_Properties
  imports Config_Concurrency Config_Properties
begin

text \<open>What requests of the configuration service do to each other when they run at the same time.\<close>

section \<open>Any interleaving\<close>

text \<open>C32. The tables keep their integrity and their bounds however requests interleave: at every moment a
  tenant has at most one row of settings and a model one row, every stored rate limit is
  positive and every preferred model has at most 128 characters; the rows of a tenant no
  request is for are as they were, and a digest without a key stays without one.\<close>

theorem config_interleaving:
  assumes "concs (s, map (config_start ce) evs) (s', ts')" and "config_db_ok (cs_db s)"
  shows "config_db_ok (cs_db s') \<and>
    (\<forall>c \<in> set (cd_configs (cs_db s')). (\<forall>n. cc_rate_limit_rpm c = Some n \<longrightarrow> 1 \<le> n) \<and>
      (\<forall>m. cc_preferred_model c = Some m \<longrightarrow> char_count m \<le> 128)) \<and>
    (\<forall>t. (\<forall>(io, ev) \<in> set evs. event_tenant ev \<noteq> t) \<longrightarrow> tenant_rows t (cs_db s') = tenant_rows t (cs_db s)) \<and>
    (\<forall>h. no_key h (cd_auth (cs_db s)) \<longrightarrow> no_key h (cd_auth (cs_db s')))"
proof (intro conjI allI impI)
  show ok: "config_db_ok (cs_db s')" using assms by (rule config_integrity.interleaved) simp
  show "\<forall>c \<in> set (cd_configs (cs_db s')). (\<forall>n. cc_rate_limit_rpm c = Some n \<longrightarrow> 1 \<le> n) \<and>
      (\<forall>m. cc_preferred_model c = Some m \<longrightarrow> char_count m \<le> 128)"
    using ok by (auto simp: config_db_ok_def config_ok_def)
  show "tenant_rows t (cs_db s') = tenant_rows t (cs_db s)" if "\<forall>(io, ev) \<in> set evs. event_tenant ev \<noteq> t" for t
    using assms(1) refl by (rule other_tenant.interleaved) (use that in auto)
  show "no_key h (cd_auth (cs_db s'))" if "no_key h (cd_auth (cs_db s))" for h
    using assms(1) that by (rule revoked.interleaved) simp
qed

text \<open>An update runs to its end beside another that has not begun.\<close>

lemma config_interleaving_witness:
  "\<exists>s' ts'. concs (cs_sample, map (config_start ce_sample) [(cio_sample, CfgPut ''t'' put_sample), (cio_sample, CfgRevoke ''u'' ''k'')]) (s', ts') \<and>
     s' = snd (upsert_config ce_sample cio_sample ''t'' put_sample cs_sample) \<and> config_db_ok (cs_db s')"
proof -
  let ?evs = "[(cio_sample, CfgPut ''t'' put_sample), (cio_sample, CfgRevoke ''u'' ''k'')]"
  obtain r s' where run: "upsert_config ce_sample cio_sample ''t'' put_sample cs_sample = (r, s')" by fastforce
  have "concs (cs_sample, map (config_start ce_sample) ?evs) (s', (map (config_start ce_sample) ?evs)[0 := Done r])"
    by (rule concs_finish) (simp_all add: upsert_config_alone run)
  with config_interleaving [OF this] cdb_sample_ok run show ?thesis by (metis cs_sample_simps(1) snd_conv)
qed

section \<open>Two updates of settings\<close>

lemma base_delivered:
  assumes "ci_fault io (cs_calls s) = Delivered"
  shows "read_base io t s = (Inr (base_config (ci_now io) t (cs_db s)), s\<lparr>cs_calls := Suc (cs_calls s)\<rparr>)"
  using assms
  by (auto simp: read_base_def cf_catch_def cf_call_def cf_query_def cf_bind_def Let_def q_get_config_def base_config_def
      cf_fail_def cf_ret_def split: option.splits)

lemma cth_step:
  assumes "i < length ts" and "ts ! i = cth_bind (atomically m) f" and "m s = (Inr x, s')"
  shows "conc (s, ts) (s', ts[i := f x])"
  using conc_atomically [OF assms(1,2) [unfolded cth_bind_def], of s] assms(3) by simp

text \<open>The write of an update and what follows it.\<close>

definition write_settings :: "config_env \<Rightarrow> 's config_io \<Rightarrow> client_config \<Rightarrow> ('s, response) cth" where
  "write_settings ce io c =
     cth_bind (atomically (cf_call io (\<lambda>_. q_upsert_config (ci_now io) c))) (\<lambda>saved.
     cth_bind (cth_ignore (push_update_thread ce io saved)) (\<lambda>_.
     Done (Inr (json_response 200 (client_config_json (ac_rfc3339 (ce_ac ce)) saved)))))"

lemma upsert_thread_valid:
  assumes "validate_update rq = Inr ()"
  shows "upsert_config_thread ce io t rq = cth_bind (atomically (read_base io t)) (\<lambda>base.
    write_settings ce io (apply_update (ci_now io) rq base))"
  by (simp add: upsert_config_thread_def write_settings_def assms cth_bind_def)

lemma write_delivered:
  assumes "ci_fault io (cs_calls s) = Delivered" and "q_upsert_config (ci_now io) c (cs_db s) = Inr (saved, db)"
  shows "\<exists>s'. run_act (write_settings ce io c) s =
    (Inr (json_response 200 (client_config_json (ac_rfc3339 (ce_ac ce)) saved)), s') \<and> cs_db s' = db"
  using cf_call_delivered [of io s "\<lambda>_. q_upsert_config (ci_now io) c", OF assms]
  by (simp add: write_settings_def run_cth_bind run_cth_ignore run_cth_done push_alone cf_bind_cases del: run_act.simps(1))

text \<open>The second of two writes of a tenant's settings replaces the first.\<close>

lemma put_row_twice:
  assumes "f r1 = k" and "f r2 = k"
  defines "put \<equiv> \<lambda>r xs. if list_ex (\<lambda>x. f x = k) xs then map (\<lambda>x. if f x = k then r else x) xs else xs @ [r]"
  shows "put r2 (put r1 xs) = put r2 xs"
proof (cases "list_ex (\<lambda>x. f x = k) xs")
  case True
  then have "list_ex (\<lambda>x. f x = k) (map (\<lambda>x. if f x = k then r1 else x) xs)"
    using assms(1) by (induction xs) auto
  with True assms(1) show ?thesis by (simp add: put_def)
next
  case False
  then have "map (\<lambda>x. if f x = k then r2 else x) xs = xs" by (induction xs) auto
  with False assms(1) show ?thesis by (simp add: put_def)
qed

lemma last_write_wins:
  assumes "q_upsert_config n1 c1 db = Inr (row1, db1)" and "cc_tenant c1 = cc_tenant c2"
  shows "q_upsert_config n2 c2 db1 = q_upsert_config n2 c2 db"
proof (cases "config_row n2 c2")
  case (Some row2)
  have row1: "config_row n1 c1 = Some row1" using assms(1) by (auto simp: q_upsert_config_def split: option.splits)
  have tenants: "cc_tenant row1 = cc_tenant c2" "cc_tenant row2 = cc_tenant c2"
    using config_row_ok [OF row1] config_row_ok [OF Some] assms(2) by simp_all
  have db1: "db1 = db\<lparr>cd_configs :=
      (if list_ex (\<lambda>x. cc_tenant x = cc_tenant c2) (cd_configs db)
       then map (\<lambda>x. if cc_tenant x = cc_tenant c2 then row1 else x) (cd_configs db) else cd_configs db @ [row1])\<rparr>"
    (is "_ = db\<lparr>cd_configs := ?rows\<rparr>")
    using assms by (auto simp: q_upsert_config_def row1)
  have "cd_configs db1 = ?rows" "\<And>rows. db1\<lparr>cd_configs := rows\<rparr> = db\<lparr>cd_configs := rows\<rparr>"
    unfolding db1 by simp_all
  then show ?thesis
    by (simp only: q_upsert_config_def Some option.case put_row_twice [of cc_tenant, OF tenants] split del: if_split)
qed (simp add: q_upsert_config_def)

text \<open>C33. An update can be lost: an update reads the row, changes its fields and writes the whole row, and
  nothing holds the row in between. Two updates of one tenant that succeed can run so that both
  answer what they answer alone, and the tables are as if the first had never been made.\<close>

theorem lost_update:
  assumes "fst (upsert_config ce io1 t rq1 s) = Inr r1" and "fst (upsert_config ce io2 t rq2 s) = Inr r2"
    and "\<And>n. ci_fault io1 n = Delivered" and "\<And>n. ci_fault io2 n = Delivered"
  shows "\<exists>s'. concs (s, map (config_start ce) [(io1, CfgPut t rq1), (io2, CfgPut t rq2)]) (s', [Done (Inr r1), Done (Inr r2)]) \<and>
    cs_db s' = cs_db (snd (upsert_config ce io2 t rq2 s))"
proof -
  let ?c1 = "apply_update (ci_now io1) rq1 (base_config (ci_now io1) t (cs_db s))"
  let ?c2 = "apply_update (ci_now io2) rq2 (base_config (ci_now io2) t (cs_db s))"
  let ?s1 = "s\<lparr>cs_calls := Suc (cs_calls s)\<rparr>"
  let ?w = "write_settings ce io2 ?c2"
  obtain row1 db1 where 1: "validate_update rq1 = Inr ()" "q_upsert_config (ci_now io1) ?c1 (cs_db s) = Inr (row1, db1)"
    "r1 = json_response 200 (client_config_json (ac_rfc3339 (ce_ac ce)) row1)"
    using put_success [OF assms(1)] by blast
  obtain row2 where 2: "validate_update rq2 = Inr ()"
    "q_upsert_config (ci_now io2) ?c2 (cs_db s) = Inr (row2, cs_db (snd (upsert_config ce io2 t rq2 s)))"
    "r2 = json_response 200 (client_config_json (ac_rfc3339 (ce_ac ce)) row2)"
    using put_success [OF assms(2)] by blast
  have step1: "conc (s, [upsert_config_thread ce io1 t rq1, upsert_config_thread ce io2 t rq2])
      (?s1, [upsert_config_thread ce io1 t rq1, ?w])"
    using cth_step [of 1 "[upsert_config_thread ce io1 t rq1, upsert_config_thread ce io2 t rq2]" "read_base io2 t"
        "\<lambda>base. write_settings ce io2 (apply_update (ci_now io2) rq2 base)", OF _ _ base_delivered] assms(4)
    by (simp add: upsert_thread_valid [OF 2(1)])
  obtain sA where sA: "run_act (upsert_config_thread ce io1 t rq1) ?s1 = (Inr r1, sA)" "cs_db sA = db1"
    using write_delivered [of io1 "?s1\<lparr>cs_calls := Suc (cs_calls ?s1)\<rparr>" ?c1 row1 db1 ce] 1(2) assms(3)
    by (auto simp: upsert_thread_valid [OF 1(1)] run_cth_bind cf_bind_cases base_delivered 1(3))
  have step2: "concs (?s1, [upsert_config_thread ce io1 t rq1, ?w]) (sA, [Done (Inr r1), ?w])"
    using concs_finish [of 0 "[upsert_config_thread ce io1 t rq1, ?w]" ?s1 "Inr r1" sA] sA(1) by simp
  have "q_upsert_config (ci_now io2) ?c2 (cs_db sA) = Inr (row2, cs_db (snd (upsert_config ce io2 t rq2 s)))"
    using last_write_wins [OF 1(2), of ?c2] 2(2) sA(2) by (simp add: apply_update_def base_config_tenant)
  from write_delivered [OF assms(4) this] obtain s'
    where s': "run_act ?w sA = (Inr r2, s')" "cs_db s' = cs_db (snd (upsert_config ce io2 t rq2 s))"
    unfolding 2(3) by blast
  have step3: "concs (sA, [Done (Inr r1), ?w]) (s', [Done (Inr r1), Done (Inr r2)])"
    using concs_finish [of 1 "[Done (Inr r1), ?w]" sA "Inr r2" s'] s'(1) by simp
  show ?thesis
    using converse_rtranclp_into_rtranclp [OF step1 rtranclp_trans [OF step2 step3]] s'(2) by auto
qed

definition caching_sample :: update_config_request where
  "caching_sample = \<lparr>uq_pii_masking = None, uq_semantic_caching = Some False, uq_routing_fallback = None,
     uq_rate_limit_rpm = None, uq_preferred_model = None\<rparr>"

lemma caching_sample_ok:
  "\<exists>r c. fst (upsert_config ce_sample cio_sample ''t'' caching_sample cs_sample) = Inr r \<and>
     find (\<lambda>c. cc_tenant c = ''t'') (cd_configs (cs_db (snd (upsert_config ce_sample cio_sample ''t'' caching_sample cs_sample)))) = Some c \<and>
     cc_pii_masking c \<and> \<not> cc_semantic_caching c"
  by (simp add: upsert_config_def validate_update_def apply_update_def caching_sample_def cf_bind_cases cf_catch_def
      cf_call_delivered q_get_config_def q_upsert_config_def config_row_def cdb_sample_def varchar_short char_count_def)

text \<open>Masking was switched off and the switch confirmed, and the row has it on.\<close>

lemma lost_update_witness:
  "\<exists>s' r1 r2 c. concs (cs_sample, map (config_start ce_sample) [(cio_sample, CfgPut ''t'' put_sample), (cio_sample, CfgPut ''t'' caching_sample)])
       (s', [Done (Inr r1), Done (Inr r2)]) \<and>
     find (\<lambda>c. cc_tenant c = ''t'') (cd_configs (cs_db s')) = Some c \<and> cc_pii_masking c \<and> \<not> cc_semantic_caching c"
proof -
  obtain r1 where r1: "fst (upsert_config ce_sample cio_sample ''t'' put_sample cs_sample) = Inr r1"
    using put_sample_ok by blast
  obtain r2 c where r2: "fst (upsert_config ce_sample cio_sample ''t'' caching_sample cs_sample) = Inr r2"
    and c: "find (\<lambda>c. cc_tenant c = ''t'') (cd_configs (cs_db (snd (upsert_config ce_sample cio_sample ''t'' caching_sample cs_sample)))) = Some c"
      "cc_pii_masking c" "\<not> cc_semantic_caching c"
    using caching_sample_ok by blast
  show ?thesis using lost_update [OF r1 r2] c by fastforce
qed

section \<open>Two registrations\<close>

interpretation keys_ranged: config_invariant keys_in_range "\<lambda>_. True"
  by unfold_locales
    (auto simp: cstmt_keeps_def keys_in_range_def q_upsert_config_def q_upsert_llm_model_def q_revoke_api_key_def Let_def
      split: option.splits if_splits)

text \<open>The publication of a registration and what follows it.\<close>

definition publish_entries :: "config_env \<Rightarrow> 's config_io \<Rightarrow> upsert_routing_mesh_request \<Rightarrow> routing_entry list \<Rightarrow> ('s, response) cth" where
  "publish_entries ce io rq es =
     cth_bind (cth_ignore (publish_mesh_thread ce io (request_mesh ce rq es))) (\<lambda>_.
     Done (Inr (mesh_reply (trim_ws (mr_model_name rq)))))"

lemma publish_entries_run:
  assumes "\<And>n. ci_redis_fault io n = Delivered"
  shows "\<exists>s'. run_act (publish_entries ce io rq es) s = (Inr (mesh_reply (trim_ws (mr_model_name rq))), s') \<and>
    cs_db s' = cs_db s \<and> cs_published s' = cs_published s @
      [(''redeye:routing_updates'', print_value (ac_sd (ce_ac ce)) (routing_map_json (request_mesh ce rq es)))]"
  by (simp add: publish_entries_def run_cth_bind run_cth_ignore run_cth_done push_alone cf_bind_cases
      publish_routing_mesh_def cf_connect_def cf_publish_def assms Let_def del: run_act.simps(1))

text \<open>The statement of a registration, and the moment when it has read its mesh.\<close>

definition put_model :: "config_env \<Rightarrow> 's config_io \<Rightarrow> string \<Rightarrow> upsert_routing_mesh_request \<Rightarrow> ('s, unit) cf" where
  "put_model ce io t rq = cf_call io (q_upsert_llm_model (ci_now io) t (trim_ws (mr_model_name rq)) (trim_ws (mr_base_url rq))
     (ac_lc (ce_ac ce) (trim_ws (mr_schema_format rq))))"

lemma mesh_thread_valid:
  assumes "fst (upsert_routing_mesh ce io t rq s) = Inr r"
  shows "upsert_mesh_thread ce io t rq = cth_bind
    (if trim_ws (mr_base_url rq) \<noteq> [] then atomically (put_model ce io t rq) else Done (Inr ())) (\<lambda>_.
    cth_bind (atomically (get_routing_entries ce io t)) (publish_entries ce io rq))"
proof -
  have "trim_ws (mr_model_name rq) \<noteq> []" "trim_ws (mr_key_alias rq) \<noteq> []"
    using assms unfolding upsert_routing_mesh_def by (auto split: if_splits)
  then show ?thesis by (simp add: upsert_mesh_thread_def publish_entries_def [abs_def] put_model_def Let_def)
qed

lemma mesh_read:
  assumes "fst (upsert_routing_mesh ce io t rq s) = Inr r" and "ts ! i = upsert_mesh_thread ce io t rq" and "i < length ts"
  shows "\<exists>s1 es. concs (s, ts) (s1, ts[i := publish_entries ce io rq es]) \<and> tenant_entries ce t (cs_db s1) = Inr es \<and>
    r = mesh_reply (trim_ws (mr_model_name rq)) \<and> cs_published s1 = cs_published s \<and>
    cs_db s1 = cs_db (snd (upsert_routing_mesh ce io t rq s)) \<and> cs_calls s1 = cs_calls (snd (upsert_routing_mesh ce io t rq s))"
proof -
  let ?first = "if trim_ws (mr_base_url rq) \<noteq> [] then put_model ce io t rq else cf_ret ()"
  let ?rest = "cth_bind (atomically (get_routing_entries ce io t)) (publish_entries ce io rq)"
  let ?s0 = "snd (?first s)"
  obtain es where first: "fst (?first s) = Inr ()" and es: "fst (get_routing_entries ce io t ?s0) = Inr es"
    and r: "r = mesh_reply (trim_ws (mr_model_name rq))" and s': "snd (upsert_routing_mesh ce io t rq s) =
      snd (publish_routing_mesh ce io (request_mesh ce rq es) (snd (get_routing_entries ce io t ?s0)))"
    using assms(1) unfolding mesh_handler [OF assms(1)] put_model_def [symmetric] by (elim cf_bind_InrE) simp
  let ?s1 = "snd (get_routing_entries ce io t ?s0)"
  have run: "get_routing_entries ce io t ?s0 = (Inr es, ?s1)" using es by (simp add: prod_eq_iff)
  have "concs (s, ts) (?s0, ts[i := ?rest])"
  proof (cases "trim_ws (mr_base_url rq) = []")
    case True
    then have "ts ! i = ?rest" using assms(2) by (simp add: mesh_thread_valid [OF assms(1)] cth_bind_def)
    then have "ts[i := ?rest] = ts" by (metis list_update_id)
    with True show ?thesis by simp
  next
    case False
    then have "put_model ce io t rq s = (Inr (), ?s0)" using first by (simp add: prod_eq_iff)
    moreover have "ts ! i = cth_bind (atomically (put_model ce io t rq)) (\<lambda>_. ?rest)"
      using False assms(2) by (simp add: mesh_thread_valid [OF assms(1)])
    ultimately have "conc (s, ts) (?s0, ts[i := ?rest])"
      using cth_step [of i ts "put_model ce io t rq" "\<lambda>_. ?rest"] assms(3) by blast
    then show ?thesis by blast
  qed
  moreover have "conc (?s0, ts[i := ?rest]) (?s1, (ts[i := ?rest])[i := publish_entries ce io rq es])"
    using cth_step [of i "ts[i := ?rest]" "get_routing_entries ce io t" "publish_entries ce io rq"] assms(3) run by simp
  ultimately have "concs (s, ts) (?s1, ts[i := publish_entries ce io rq es])"
    by (simp add: rtranclp.rtrancl_into_rtrancl)
  moreover have "cs_published ?s0 = cs_published s" by (simp add: put_model_def)
  ultimately show ?thesis
    using routing_entries_Inr [OF es] r s' by (intro exI [of _ ?s1] exI [of _ es]) (simp split del: if_split)
qed

text \<open>C34. A gateway can be left with a mesh that is out of date: a registration reads its mesh and
  publishes it later, and nothing orders the publications. Two registrations of one tenant that
  succeed one after the other, the second of a new model, can run so that the answers and the
  tables are the same, but the gateway, which after the one order routes the new model, does
  not know it after the other.\<close>

theorem stale_mesh:
  assumes "fst (upsert_routing_mesh ce io1 t rq1 s) = Inr r1"
  defines "s1 \<equiv> snd (upsert_routing_mesh ce io1 t rq1 s)"
  assumes "fst (upsert_routing_mesh ce io2 t rq2 s1) = Inr r2"
  defines "s2 \<equiv> snd (upsert_routing_mesh ce io2 t rq2 s1)" and "name \<equiv> trim_ws (mr_model_name rq2)"
  assumes "name \<noteq> trim_ws (mr_model_name rq1)"
    and "\<And>m. m \<in> set (cd_models (cs_db s1)) \<Longrightarrow> lm_tenant m = t \<Longrightarrow> lm_model_name m \<noteq> name"
    and "\<And>n. ci_redis_fault io1 n = Delivered" and "\<And>n. ci_redis_fault io2 n = Delivered"
    and "serde_roundtrip (ac_sd (ce_ac ce))" and "keys_in_range (cs_db s)"
    and "\<And>rq. rq \<in> {rq1, rq2} \<Longrightarrow> i32_range (or_default 1 (mr_priority rq)) \<and> i32_range (or_default 100 (mr_weight rq))"
  shows "gateway_map (ac_sd (ce_ac ce)) s2 rs name \<noteq> None \<and>
    (\<exists>s'. concs (s, map (config_start ce) [(io1, CfgMesh t rq1), (io2, CfgMesh t rq2)]) (s', [Done (Inr r1), Done (Inr r2)]) \<and>
      cs_db s' = cs_db s2 \<and> gateway_map (ac_sd (ce_ac ce)) s' rs name = None)"
proof
  have ranges: "keys_in_range (cs_db s1)" "keys_in_range (cs_db s2)"
    using keys_ranged.mesh [of ce io1 t rq1] keys_ranged.mesh [of ce io2 t rq2] assms(11)
    by (simp_all add: cf_keeps_def s1_def s2_def)
  show "gateway_map (ac_sd (ce_ac ce)) s2 rs name \<noteq> None"
    using gateway_receives [OF assms(3,9,10), of rs] ranges(2) assms(12)
    by (auto simp: request_mesh_def build_mesh_spec name_def s2_def)
  let ?A = "upsert_mesh_thread ce io1 t rq1" and ?B = "upsert_mesh_thread ce io2 t rq2"
  obtain sr es where read: "concs (s, [?A, ?B]) (sr, [publish_entries ce io1 rq1 es, ?B])"
    and es: "tenant_entries ce t (cs_db sr) = Inr es" and sr: "cs_db sr = cs_db s1" "cs_calls sr = cs_calls s1"
    and r1: "r1 = mesh_reply (trim_ws (mr_model_name rq1))"
    using mesh_read [OF assms(1), of "[?A, ?B]" 0] unfolding s1_def by auto
  obtain sB where sB: "upsert_routing_mesh ce io2 t rq2 sr = (Inr r2, sB)" and db: "cs_db sB = cs_db s2"
    using handler_same [OF refl refl refl, of ce io2 "CfgMesh t rq2"] sr assms(3) that
    unfolding cf_same_def s2_def config_handler.simps by (metis prod.collapse)
  obtain s' where s': "run_act (publish_entries ce io1 rq1 es) sB = (Inr r1, s')" "cs_db s' = cs_db sB"
    "cs_published s' = cs_published sB @
      [(''redeye:routing_updates'', print_value (ac_sd (ce_ac ce)) (routing_map_json (request_mesh ce rq1 es)))]"
    using publish_entries_run [OF assms(8), of ce rq1 es sB] unfolding r1 by blast
  have "concs (sr, [publish_entries ce io1 rq1 es, ?B]) (sB, [publish_entries ce io1 rq1 es, Done (Inr r2)])"
    using concs_finish [of 1 "[publish_entries ce io1 rq1 es, ?B]" sr "Inr r2" sB] sB by (simp add: upsert_mesh_alone)
  moreover have "concs (sB, [publish_entries ce io1 rq1 es, Done (Inr r2)]) (s', [Done (Inr r1), Done (Inr r2)])"
    using concs_finish [of 0 "[publish_entries ce io1 rq1 es, Done (Inr r2)]" sB "Inr r1" s'] s'(1) by simp
  ultimately have "concs (s, [?A, ?B]) (s', [Done (Inr r1), Done (Inr r2)])"
    using read by (meson rtranclp_trans)
  moreover have "gateway_map (ac_sd (ce_ac ce)) s' rs name = None"
  proof -
    have "filter (\<lambda>e. re_model_name e = name) es = []"
      using tenant_entries_elem [OF es] assms(7) sr(1) by (fastforce simp: filter_empty_conv)
    then show ?thesis
      using gateway_last [OF s'(3) es assms(10), of rs] ranges(1) sr(1) assms(6,12)
      by (simp add: request_mesh_def build_mesh_spec mesh_spec_def)
  qed
  ultimately show "\<exists>s'. concs (s, map (config_start ce) [(io1, CfgMesh t rq1), (io2, CfgMesh t rq2)])
      (s', [Done (Inr r1), Done (Inr r2)]) \<and> cs_db s' = cs_db s2 \<and> gateway_map (ac_sd (ce_ac ce)) s' rs name = None"
    using s'(2) db by auto
qed

definition other_mesh_sample :: upsert_routing_mesh_request where
  "other_mesh_sample = (mesh_sample ''http://o'')\<lparr>mr_model_name := ''o1''\<rparr>"

definition other_io_sample :: "keyspace config_io" where
  "other_io_sample = cio_sample\<lparr>ci_id := (\<lambda>n. ''q'')\<rparr>"

lemma other_sample_simps:
  "ci_now other_io_sample = 5" "ci_fault other_io_sample n = Delivered" "ci_redis_fault other_io_sample n = Delivered"
  "ci_id other_io_sample n = ''q''"
  by (simp_all add: other_io_sample_def)

lemma other_name: "trim_ws ''o1'' = ''o1''"
  by code_simp

lemma other_mesh_ok:
  assumes "cs_db s = cdb_sample"
  shows "\<exists>r. fst (upsert_routing_mesh ce_sample other_io_sample ''t'' other_mesh_sample s) = Inr r"
proof -
  let ?new = "\<lparr>lm_id = ''q'', lm_tenant = ''t'', lm_model_name = ''o1'', lm_provider_name = ''openai'',
    lm_base_url = ''http://o'', lm_schema_format = ''openai'', lm_created_at = 5\<rparr>"
  let ?db = "cdb_sample\<lparr>cd_models := cd_models cdb_sample @ [?new]\<rparr>"
  have put: "q_upsert_llm_model 5 ''t'' ''o1'' ''http://o'' ''openai'' ''q'' cdb_sample = Inr ((), ?db)"
    by (simp add: q_upsert_llm_model_def cdb_sample_def)
  have "\<exists>es. res_map (routing_entry_of ac_sample) (routing_rows (ce_collate ce_sample) ''t'' ?db) = Inr es"
    by (simp add: routing_rows_def models_of_def keys_of_def cdb_sample_def routing_entry_of_def decrypt_provider_key_def)
  then obtain es where "res_map (routing_entry_of ac_sample) (routing_rows (ce_collate ce_sample) ''t'' ?db) = Inr es" by blast
  then show ?thesis
    by (simp add: upsert_routing_mesh_def other_mesh_sample_def mesh_sample_def trim_samples other_name get_routing_entries_def
        cf_bind_cases cf_call_delivered put q_routing_rows_def Let_def assms other_sample_simps)
qed

lemma stale_mesh_witness:
  "\<exists>s' r1 r2. concs (cs_sample, map (config_start ce_sample) [(cio_sample, CfgMesh ''t'' (mesh_sample [])), (other_io_sample, CfgMesh ''t'' other_mesh_sample)])
       (s', [Done (Inr r1), Done (Inr r2)]) \<and> gateway_map sd1 s' (\<lambda>n. None) ''o1'' = None"
proof -
  obtain r1 where r1: "fst (upsert_routing_mesh ce_sample cio_sample ''t'' (mesh_sample []) cs_sample) = Inr r1"
    and db: "cs_db (snd (upsert_routing_mesh ce_sample cio_sample ''t'' (mesh_sample []) cs_sample)) = cdb_sample"
    using mesh_sample_ok by fastforce
  obtain r2 where r2: "fst (upsert_routing_mesh ce_sample other_io_sample ''t'' other_mesh_sample
      (snd (upsert_routing_mesh ce_sample cio_sample ''t'' (mesh_sample []) cs_sample))) = Inr r2"
    using other_mesh_ok [OF db] by blast
  have name: "trim_ws (mr_model_name other_mesh_sample) = ''o1''"
    by (simp add: other_mesh_sample_def other_name)
  have range: "i32_range (or_default 1 (mr_priority rq)) \<and> i32_range (or_default 100 (mr_weight rq))"
    if "rq \<in> {mesh_sample [], other_mesh_sample}" for rq
    using that by (auto simp: other_mesh_sample_def mesh_sample_simps i32_range_def or_default_def)
  have models: "lm_model_name m \<noteq> ''o1''" if "m \<in> set (cd_models cdb_sample)" for m
    using that by (simp add: cdb_sample_def)
  show ?thesis
    using stale_mesh [OF r1 r2, of "\<lambda>n. None"] range
    by (auto simp: name db mesh_sample_simps other_sample_simps sd1_roundtrip cdb_sample_range models)
qed

end
