(* ===== verification/Admin.thy ===== *)
theory Admin
  imports Gateway_Api
begin

text \<open>
  The gateway's admin pages (\<open>redeye_gateway/src/api/handlers.rs\<close>): dashboards that put fixed
  queries, scoped to the tenant of the credential, to the analytics store and reshape its rows,
  and their place behind authentication (\<open>api/routes.rs\<close>). The store is a parameter: \<open>ask n q\<close> is
  the outcome of the \<open>n\<close>-th query. A handler that panics sets a flag; its connection is dropped.
\<close>

section \<open>The queries\<close>

fun text_lines :: "string list \<Rightarrow> string" where
  "text_lines [] = []"
| "text_lines [l] = l"
| "text_lines (l # ls) = l @ CHR 0x0A # text_lines ls"

definition where_tenant :: "string \<Rightarrow> string" where
  "where_tenant tid = ''WHERE tenant_id = '' @ squote @ tid @ squote"

definition stats_query :: "string \<Rightarrow> string" where
  "stats_query tid = text_lines
     [[],
      ''        SELECT '',
      ''            count() as total_requests,'',
      ''            avg(latency_ms) as avg_latency_ms,'',
      ''            sum(tokens) as total_tokens,'',
      ''            countIf(status = 429) as rate_limited_requests'',
      ''        FROM RedEye_telemetry.request_logs'',
      ''        '' @ where_tenant tid,
      ''        FORMAT JSON'',
      ''    '']"

definition traffic_query :: "string \<Rightarrow> string" where
  "traffic_query tid = text_lines
     [[],
      ''        SELECT '',
      ''            formatDateTime(toStartOfHour(created_at), '%Y-%m-%dT%H:%M:%S') as timestamp,'',
      ''            count() as requests'',
      ''        FROM RedEye_telemetry.request_logs'',
      ''        '' @ where_tenant tid @ '' AND created_at > now() - INTERVAL 24 HOUR'',
      ''        GROUP BY timestamp'',
      ''        ORDER BY timestamp'',
      ''        FORMAT JSON'',
      ''    '']"

definition model_query :: "string \<Rightarrow> string" where
  "model_query tid = text_lines
     [[],
      ''        SELECT '',
      ''            model as name,'',
      ''            count() as value'',
      ''        FROM RedEye_telemetry.request_logs'',
      ''        '' @ where_tenant tid,
      ''        GROUP BY name'',
      ''        FORMAT JSON'',
      ''    '']"

definition latency_query :: "string \<Rightarrow> string" where
  "latency_query tid = text_lines
     [[],
      ''        SELECT '',
      ''            case '',
      ''                when latency_ms < 100 then '0-100ms'' @ squote,
      ''                when latency_ms < 500 then '100-500ms'' @ squote,
      ''                when latency_ms < 1000 then '500-1s'' @ squote,
      ''                else '1s+'' @ squote,
      ''            end as bucket,'',
      ''            count() as count'',
      ''        FROM RedEye_telemetry.request_logs'',
      ''        '' @ where_tenant tid,
      ''        GROUP BY bucket'',
      ''        ORDER BY count DESC'',
      ''        FORMAT JSON'',
      ''    '']"

definition usage_query :: "string \<Rightarrow> string" where
  "usage_query tid =
     ''SELECT sum(tokens) as total_tokens '' @
     ''FROM RedEye_telemetry.request_logs '' @
     where_tenant tid @ '' '' @
     ''FORMAT JSON''"

definition cache_query :: "string \<Rightarrow> string" where
  "cache_query tid =
     ''SELECT count() as redacted_count '' @
     ''FROM RedEye_telemetry.compliance_audit_log '' @
     where_tenant tid @ '' AND flagged = true AND created_at >= now() - INTERVAL 24 HOUR '' @
     ''FORMAT JSON''"

definition compliance_query :: "string \<Rightarrow> string" where
  "compliance_query tid =
     ''SELECT coalesce(sum(redacted_entity_count), 0) AS redacted_count '' @
     ''FROM RedEye_telemetry.compliance_engine_audit '' @
     where_tenant tid @ '' '' @
     ''AND timestamp >= now() - INTERVAL 24 HOUR '' @
     ''FORMAT JSON''"

definition hot_swap_query :: "string \<Rightarrow> string" where
  "hot_swap_query tid =
     ''SELECT '' @
     ''formatDateTime(toStartOfMinute(created_at), '%H:%M') as time, '' @
     ''countIf(requested_provider = 'openai' AND is_hot_swapped = 0 AND status = 200) as openai_success, '' @
     ''countIf(requested_provider = 'openai' AND is_hot_swapped = 0 AND status != 200) as openai_error, '' @
     ''countIf(is_hot_swapped = 1) as anthropic_fallback '' @
     ''FROM RedEye_telemetry.request_logs '' @
     where_tenant tid @ '' AND created_at >= NOW() - INTERVAL 1 HOUR '' @
     ''GROUP BY toStartOfMinute(created_at) '' @
     ''ORDER BY toStartOfMinute(created_at) ASC '' @
     ''FORMAT JSON''"

definition billing_query :: "string \<Rightarrow> string" where
  "billing_query tid =
     ''SELECT '' @
     ''formatDateTime(toStartOfDay(created_at), '%Y-%m-%d') as date, '' @
     ''model, '' @
     ''sum(tokens) as total_tokens '' @
     ''FROM RedEye_telemetry.request_logs '' @
     where_tenant tid @ '' '' @
     ''GROUP BY date, model '' @
     ''ORDER BY date DESC, model ASC '' @
     ''FORMAT JSON''"

definition traces_query :: "string \<Rightarrow> string" where
  "traces_query tid = text_lines
     [[],
      ''        SELECT '',
      ''            toString(id) as traceId,'',
      ''            tenant_id as tenantId,'',
      ''            model,'',
      ''            tokens,'',
      ''            concat(toString(latency_ms), ' ms') as latency,'',
      ''            if(status = 200, 'Allowed', 'Blocked') as policy'',
      ''        FROM RedEye_telemetry.request_logs'',
      ''        '' @ where_tenant tid,
      ''        ORDER BY created_at DESC'',
      ''        LIMIT 50'',
      ''        FORMAT JSON'',
      ''    '']"

definition alert_stats_query :: "string \<Rightarrow> string" where
  "alert_stats_query tid =
     ''SELECT '' @
     ''countIf(model = '__loop_blocked') as total_loops, '' @
     ''countIf(model = '__burn_rate_blocked') as total_burns '' @
     ''FROM RedEye_telemetry.agent_traces '' @
     where_tenant tid @ '' AND status = 429 '' @
     ''AND model IN ('__loop_blocked', '__burn_rate_blocked') '' @
     ''FORMAT JSON''"

definition alert_daily_query :: "string \<Rightarrow> string" where
  "alert_daily_query tid =
     ''SELECT '' @
     ''formatDateTime(toStartOfDay(created_at), '%b %d') as date, '' @
     ''countIf(model = '__loop_blocked') as loops, '' @
     ''countIf(model = '__burn_rate_blocked') as burn_rate '' @
     ''FROM RedEye_telemetry.agent_traces '' @
     where_tenant tid @ '' AND status = 429 '' @
     ''AND model IN ('__loop_blocked', '__burn_rate_blocked') '' @
     ''AND created_at >= now() - INTERVAL 7 DAY '' @
     ''GROUP BY toStartOfDay(created_at) '' @
     ''ORDER BY toStartOfDay(created_at) '' @
     ''FORMAT JSON''"

definition alert_recent_query :: "string \<Rightarrow> string" where
  "alert_recent_query tid =
     ''SELECT '' @
     ''formatDateTime(created_at, '%Y-%m-%dT%H:%i:%sZ') as timestamp, '' @
     ''toString(session_id) as session_id, '' @
     ''model '' @
     ''FROM RedEye_telemetry.agent_traces '' @
     where_tenant tid @ '' AND status = 429 '' @
     ''AND model IN ('__loop_blocked', '__burn_rate_blocked') '' @
     ''ORDER BY created_at DESC '' @
     ''LIMIT 10 '' @
     ''FORMAT JSON''"

section \<open>The store\<close>

record admin_env =
  an_sd :: serde
  an_F :: f64_ops
  an_parse_f64 :: "string \<Rightarrow> f64 option"
  an_to_u64 :: "f64 \<Rightarrow> u64"
  an_uuid :: "string \<Rightarrow> string option"

record admin_state =
  ad_sent :: "string list"
  ad_panicked :: bool

type_synonym store = "nat \<Rightarrow> string \<Rightarrow> http_result"

type_synonym admin_page = "(gateway_error + json) \<times> admin_state"

definition send_query :: "store \<Rightarrow> string \<Rightarrow> admin_state \<Rightarrow> http_result \<times> admin_state" where
  "send_query ask q st = (ask (length (ad_sent st)) q, st\<lparr>ad_sent := ad_sent st @ [q]\<rparr>)"

definition no_rows :: json where "no_rows = jobject [(''data'', JArr [])]"

definition data_rows :: "json \<Rightarrow> json list" where
  "data_rows v = (case as_arr (jindex v ''data'') of None \<Rightarrow> [] | Some rows \<Rightarrow> rows)"

text \<open>A count, which the store sends as a string or a number.\<close>

fun u64_cell :: "json \<Rightarrow> u64" where
  "u64_cell (JStr s) = or_zero (parse_u64 s)"
| "u64_cell (JNum n) = or_zero (as_u64 (JNum n))"
| "u64_cell _ = 0"

definition str_cell :: "string \<Rightarrow> json \<Rightarrow> string" where
  "str_cell d v = (case as_str v of None \<Rightarrow> d | Some s \<Rightarrow> s)"

text \<open>One query whose reply must be a success with a JSON body.\<close>

definition checked_query ::
  "admin_env \<Rightarrow> store \<Rightarrow> string \<Rightarrow> string \<Rightarrow> admin_state \<Rightarrow> (gateway_error + json) \<times> admin_state" where
  "checked_query an ask q failed st =
     (case send_query ask q st of
        (HErr e, st1) \<Rightarrow> (Inl (ProxyError e), st1)
      | (HOk r, st1) \<Rightarrow>
          (if \<not> is_success (hr_status r) then Inl (ResponseBuild failed)
           else ok_or (reply_json (an_sd an) r) (ResponseBuild []), st1))"

definition tenant_claim :: "admin_env \<Rightarrow> claims \<Rightarrow> gateway_error + string" where
  "tenant_claim an c = ok_or (an_uuid an (cl_tenant_id c)) (ResponseBuild ''Invalid tenant ID format'')"

definition with_tenant ::
  "admin_env \<Rightarrow> claims \<Rightarrow> (string \<Rightarrow> admin_state \<Rightarrow> admin_page) \<Rightarrow> admin_state \<Rightarrow> admin_page" where
  "with_tenant an c f st = (case tenant_claim an c of Inl e \<Rightarrow> (Inl e, st) | Inr tid \<Rightarrow> f tid st)"

section \<open>Pages of one query\<close>

definition hot_swap_row :: "json \<Rightarrow> json" where
  "hot_swap_row row = jobject
     [(''time'', JStr (str_cell ''00:00'' (jindex row ''time''))),
      (''openai_success'', jnat (u64_cell (jindex row ''openai_success''))),
      (''openai_error'', jnat (u64_cell (jindex row ''openai_error''))),
      (''anthropic_fallback'', jnat (u64_cell (jindex row ''anthropic_fallback'')))]"

definition get_hot_swaps :: "admin_env \<Rightarrow> store \<Rightarrow> claims \<Rightarrow> admin_state \<Rightarrow> admin_page" where
  "get_hot_swaps an ask c = with_tenant an c (\<lambda>tid st.
     (case checked_query an ask (hot_swap_query tid) ''ClickHouse hot-swaps query failed'' st of
        (Inl e, st1) \<Rightarrow> (Inl e, st1)
      | (Inr v, st1) \<Rightarrow> (Inr (JArr (map hot_swap_row (data_rows v))), st1)))"

definition first_row :: "json \<Rightarrow> json option" where
  "first_row v = first_of (data_rows v)"

text \<open>The cost of tokens, to four places.\<close>

definition cost_of :: "f64_ops \<Rightarrow> f64 \<Rightarrow> f64" where
  "cost_of F tokens = f_mul F (f_div F tokens (f_dec F 1000 0)) (f_dec F 2 3)"

definition round_to :: "f64_ops \<Rightarrow> int \<Rightarrow> f64 \<Rightarrow> f64" where
  "round_to F n x = f_div F (f_round F (f_mul F x (f_dec F n 0))) (f_dec F n 0)"

definition get_usage_metrics :: "admin_env \<Rightarrow> store \<Rightarrow> claims \<Rightarrow> admin_state \<Rightarrow> admin_page" where
  "get_usage_metrics an ask c = with_tenant an c (\<lambda>tid st.
     (case checked_query an ask (usage_query tid) ''ClickHouse usage query failed'' st of
        (Inl e, st1) \<Rightarrow> (Inl e, st1)
      | (Inr v, st1) \<Rightarrow>
          (let tokens = or_zero (Option.bind (Option.bind (first_row v)
                 (\<lambda>row. as_str (jindex row ''total_tokens''))) parse_u64)
           in (Inr (jobject [(''total_tokens'', jnat tokens),
                 (''estimated_cost'', json_f64 (round_to (an_F an) 10000 (cost_of (an_F an) (f_of_u64 (an_F an) tokens))))]),
               st1))))"

definition f64_cell :: "admin_env \<Rightarrow> json \<Rightarrow> f64" where
  "f64_cell an v =
     (case v of
        JStr s \<Rightarrow> (case an_parse_f64 an s of None \<Rightarrow> f_dec (an_F an) 0 0 | Some x \<Rightarrow> x)
      | JNum n \<Rightarrow> (case de_f64 (an_F an) (JNum n) of None \<Rightarrow> f_dec (an_F an) 0 0 | Some x \<Rightarrow> x)
      | _ \<Rightarrow> f_dec (an_F an) 0 0)"

definition billing_row :: "admin_env \<Rightarrow> json \<Rightarrow> json" where
  "billing_row an row =
     (let tokens = f64_cell an (jindex row ''total_tokens'')
      in jobject [(''date'', JStr (str_cell ''1970-01-01'' (jindex row ''date''))),
           (''model'', JStr (str_cell ''unknown'' (jindex row ''model''))),
           (''total_tokens'', jnat (an_to_u64 an tokens)),
           (''estimated_cost'', json_f64 (round_to (an_F an) 10000 (cost_of (an_F an) tokens)))])"

definition get_billing_breakdown :: "admin_env \<Rightarrow> store \<Rightarrow> claims \<Rightarrow> admin_state \<Rightarrow> admin_page" where
  "get_billing_breakdown an ask c = with_tenant an c (\<lambda>tid st.
     (case checked_query an ask (billing_query tid) ''ClickHouse billing query failed'' st of
        (Inl e, st1) \<Rightarrow> (Inl e, st1)
      | (Inr v, st1) \<Rightarrow> (Inr (JArr (map (billing_row an) (data_rows v))), st1)))"

definition get_traces :: "admin_env \<Rightarrow> store \<Rightarrow> claims \<Rightarrow> admin_state \<Rightarrow> admin_page" where
  "get_traces an ask c = with_tenant an c (\<lambda>tid st.
     (case checked_query an ask (traces_query tid) ''Traces query failed'' st of
        (Inl e, st1) \<Rightarrow> (Inl e, st1)
      | (Inr v, st1) \<Rightarrow> (Inr (jindex v ''data''), st1)))"

text \<open>The cache page asks for the count of redactions and reads the columns of lookups.\<close>

definition cache_reply :: "f64_ops \<Rightarrow> u64 \<Rightarrow> u64 \<Rightarrow> u64 \<Rightarrow> json" where
  "cache_reply F lookups hits misses =
     (let ratio = (\<lambda>n. if 0 < lookups then f_div F (f_of_u64 F n) (f_of_u64 F lookups) else f_dec F 0 0)
      in jobject [(''hit_ratio'', json_f64 (ratio hits)), (''miss_ratio'', json_f64 (ratio misses)),
           (''total_lookups'', jnat lookups)])"

definition get_cache_metrics :: "admin_env \<Rightarrow> store \<Rightarrow> claims \<Rightarrow> admin_state \<Rightarrow> admin_page" where
  "get_cache_metrics an ask c = with_tenant an c (\<lambda>tid st.
     (case send_query ask (cache_query tid) st of
        (HErr e, st1) \<Rightarrow> (Inl (ProxyError e), st1)
      | (HOk r, st1) \<Rightarrow>
          (if \<not> is_success (hr_status r) then (Inr (cache_reply (an_F an) 0 0 0), st1)
           else (case reply_json (an_sd an) r of
               None \<Rightarrow> (Inl (ResponseBuild []), st1)
             | Some v \<Rightarrow>
                 (let row = (case first_row v of
                        None \<Rightarrow> jobject [(''total_lookups'', JStr ''0''), (''hits'', JStr ''0''), (''misses'', JStr ''0'')]
                      | Some row \<Rightarrow> row)
                  in (Inr (cache_reply (an_F an) (u64_cell (jindex row ''total_lookups''))
                       (u64_cell (jindex row ''hits'')) (u64_cell (jindex row ''misses''))), st1))))))"

definition residency_routes :: json where
  "residency_routes = JArr
     [jobject [(''region'', JStr ''EU (Frankfurt)''), (''endpoint'', JStr ''api.eu.redeye.ai''), (''isolation'', JStr ''Strict'')],
      jobject [(''region'', JStr ''US East''), (''endpoint'', JStr ''api.us.redeye.ai''), (''isolation'', JStr ''Relaxed'')]]"

definition compliance_reply :: "u64 \<Rightarrow> json" where
  "compliance_reply n = jobject [(''redacted_count'', jnat n), (''residency_routes'', residency_routes)]"

definition get_compliance_metrics :: "admin_env \<Rightarrow> store \<Rightarrow> claims \<Rightarrow> admin_state \<Rightarrow> admin_page" where
  "get_compliance_metrics an ask c = with_tenant an c (\<lambda>tid st.
     (case send_query ask (compliance_query tid) st of
        (HErr e, st1) \<Rightarrow> (Inl (ProxyError e), st1)
      | (HOk r, st1) \<Rightarrow>
          (if \<not> is_success (hr_status r) then (Inr (compliance_reply 0), st1)
           else (case reply_json (an_sd an) r of
               None \<Rightarrow> (Inl (ResponseBuild []), st1)
             | Some v \<Rightarrow> (Inr (compliance_reply (or_zero (Option.bind (first_row v)
                   (\<lambda>row. as_u64 (jindex row ''redacted_count''))))), st1)))))"

section \<open>The overview\<close>

text \<open>Queries one after another, up to the first that is not answered.\<close>

fun send_all :: "store \<Rightarrow> string list \<Rightarrow> admin_state \<Rightarrow> (gateway_error + http_response list) \<times> admin_state" where
  "send_all ask [] st = (Inr [], st)"
| "send_all ask (q # qs) st =
     (case send_query ask q st of
        (HErr e, st1) \<Rightarrow> (Inl (ProxyError e), st1)
      | (HOk r, st1) \<Rightarrow>
          (case send_all ask qs st1 of
             (Inl e, st2) \<Rightarrow> (Inl e, st2)
           | (Inr rs, st2) \<Rightarrow> (Inr (r # rs), st2)))"

text \<open>\<open>result["k"] = v\<close>: a null becomes an object, anything else than an object panics.\<close>

fun index_set :: "string \<Rightarrow> json \<Rightarrow> json \<Rightarrow> json option" where
  "index_set k w (JObj ob) = Some (jset k w (JObj ob))"
| "index_set k w JNull = Some (JObj [(k, w)])"
| "index_set k w _ = None"

definition rows_or_none :: "serde \<Rightarrow> http_response \<Rightarrow> json" where
  "rows_or_none sd r = (case reply_json sd r of None \<Rightarrow> no_rows | Some v \<Rightarrow> v)"

definition empty_summary :: "f64_ops \<Rightarrow> json" where
  "empty_summary F = jobject [(''total_requests'', JStr ''0''), (''avg_latency_ms'', json_f64 (f_dec F 0 0)),
     (''total_tokens'', JStr ''0''), (''rate_limited_requests'', JStr ''0'')]"

definition overview :: "admin_env \<Rightarrow> http_response list \<Rightarrow> json option" where
  "overview an rs =
     (case map (rows_or_none (an_sd an)) rs of
        [stats, traffic, models, latency] \<Rightarrow>
          Option.bind (index_set ''traffic_series'' (jindex traffic ''data'')
            (case first_row stats of None \<Rightarrow> empty_summary (an_F an) | Some row \<Rightarrow> row)) (\<lambda>v.
          Option.bind (index_set ''model_distribution'' (jindex models ''data'') v) (\<lambda>v.
          index_set ''latency_buckets'' (jindex latency ''data'') v))
      | _ \<Rightarrow> None)"

definition admin_metrics :: "admin_env \<Rightarrow> store \<Rightarrow> claims \<Rightarrow> admin_state \<Rightarrow> admin_page" where
  "admin_metrics an ask c = with_tenant an c (\<lambda>tid st.
     (case send_all ask [stats_query tid, traffic_query tid, model_query tid, latency_query tid] st of
        (Inl e, st1) \<Rightarrow> (Inl e, st1)
      | (Inr rs, st1) \<Rightarrow>
          (case overview an rs of
             None \<Rightarrow> (Inr JNull, st1\<lparr>ad_panicked := True\<rparr>)
           | Some v \<Rightarrow> (Inr v, st1))))"

section \<open>Security alerts\<close>

definition alert_rows :: "serde \<Rightarrow> http_result \<Rightarrow> json" where
  "alert_rows sd r =
     (case r of HOk h \<Rightarrow> if is_success (hr_status h) then rows_or_none sd h else no_rows | HErr _ \<Rightarrow> no_rows)"

definition alert_count :: "json \<Rightarrow> u64" where
  "alert_count v =
     (case Option.bind (as_str v) parse_u64 of Some n \<Rightarrow> n | None \<Rightarrow> or_zero (as_u64 v))"

definition counted :: "string \<Rightarrow> json \<Rightarrow> json" where
  "counted k row =
     (case as_str (jindex row k) of None \<Rightarrow> row | Some s \<Rightarrow> jset k (jnat (or_zero (parse_u64 s))) row)"

definition daily_row :: "json \<Rightarrow> json" where
  "daily_row row = counted ''burn_rate'' (counted ''loops'' row)"

definition alert_reason :: "string \<Rightarrow> string \<times> string" where
  "alert_reason model =
     (if model = ''__loop_blocked'' then (''Loop Detected'', ''High'')
      else if model = ''__burn_rate_blocked'' then (''Burn Rate Exceeded'', ''Critical'')
      else (''Unknown Block'', ''Medium''))"

definition recent_row :: "json \<Rightarrow> json" where
  "recent_row row =
     (let r = alert_reason (str_cell [] (jindex row ''model''))
      in jobject [(''timestamp'', jindex row ''timestamp''), (''session_id'', jindex row ''session_id''),
           (''reason'', JStr (fst r)), (''severity'', JStr (snd r))])"

text \<open>The sum of the two counts wraps.\<close>

definition savings :: "f64_ops \<Rightarrow> u64 \<Rightarrow> u64 \<Rightarrow> f64" where
  "savings F loops burns =
     round_to F 100 (f_mul F (f_div F (f_mul F (f_of_u64 F (loops + burns)) (f_dec F 250 0)) (f_dec F 1000 0)) (f_dec F 2 3))"

definition security_alerts :: "admin_env \<Rightarrow> store \<Rightarrow> claims \<Rightarrow> admin_state \<Rightarrow> admin_page" where
  "security_alerts an ask c = with_tenant an c (\<lambda>tid st.
     (let a = send_query ask (alert_stats_query tid) st;
          b = send_query ask (alert_daily_query tid) (snd a);
          d = send_query ask (alert_recent_query tid) (snd b);
          row = (case first_row (alert_rows (an_sd an) (fst a)) of
              None \<Rightarrow> jobject [(''total_loops'', JStr ''0''), (''total_burns'', JStr ''0'')] | Some row \<Rightarrow> row);
          loops = alert_count (jindex row ''total_loops'');
          burns = alert_count (jindex row ''total_burns'')
      in (Inr (jobject
           [(''total_blocked_loops'', jnat loops), (''total_burn_rate_blocks'', jnat burns),
            (''estimated_savings_usd'', json_f64 (savings (an_F an) loops burns)),
            (''daily_blocks'', JArr (map daily_row (data_rows (alert_rows (an_sd an) (fst b))))),
            (''recent_alerts'', JArr (map recent_row (data_rows (alert_rows (an_sd an) (fst d)))))]), snd d)))"

section \<open>Routes\<close>

text \<open>The paths under \<open>/v1/admin\<close>.\<close>

definition admin_pages :: "(string \<times> (admin_env \<Rightarrow> store \<Rightarrow> claims \<Rightarrow> admin_state \<Rightarrow> admin_page)) list" where
  "admin_pages =
     [(''/metrics'', admin_metrics), (''/metrics/usage'', get_usage_metrics), (''/metrics/cache'', get_cache_metrics),
      (''/metrics/compliance'', get_compliance_metrics), (''/metrics/hot-swaps'', get_hot_swaps),
      (''/billing/breakdown'', get_billing_breakdown), (''/traces'', get_traces),
      (''/security/alerts'', security_alerts), (''/analytics'', admin_metrics)]"

definition admin_handler ::
  "(admin_env \<Rightarrow> store \<Rightarrow> claims \<Rightarrow> admin_state \<Rightarrow> admin_page) \<Rightarrow> admin_env \<Rightarrow> store \<Rightarrow>
   http_request \<Rightarrow> admin_state \<Rightarrow> response \<times> admin_state" where
  "admin_handler page an ask rq st =
     (case hq_claims rq of
        None \<Rightarrow> (status_response 500, st)
      | Some c \<Rightarrow>
          (case page an ask c st of
             (Inl e, st1) \<Rightarrow> (error_response e, st1)
           | (Inr v, st1) \<Rightarrow> (json_response 200 v, st1)))"

text \<open>\<open>GET /v1/admin/...\<close>: trace context, then authentication, then the page.\<close>

definition admin_route ::
  "admin_env \<Rightarrow> auth_env \<Rightarrow> route_env \<Rightarrow> store \<Rightarrow> string \<Rightarrow> http_request \<Rightarrow> admin_state \<Rightarrow> response \<times> admin_state" where
  "admin_route an ae ro ask path rq0 st =
     trace_context_middleware (ro_trace_uuid ro) (ro_session_uuid ro)
       (\<lambda>rq. case map_of admin_pages path of
            None \<Rightarrow> (\<lambda>st. (status_response 404, st))
          | Some page \<Rightarrow> auth_middleware ae (admin_handler page an ask) rq)
       (rq0\<lparr>hq_method := ''GET'', hq_path := path\<rparr>) st"

end
