(* ===== verification/Admin_Properties.thy ===== *)
theory Admin_Properties
  imports Admin Fixtures Gateway_Properties
begin

text \<open>
  Properties of the admin pages: every query is scoped to the tenant of a verified credential,
  and what the pages make of the rows that come back.
\<close>

section \<open>Queries\<close>

definition scoped :: "(string \<Rightarrow> string) \<Rightarrow> bool" where
  "scoped q \<longleftrightarrow> (\<exists>pre post. \<forall>tid. q tid = pre @ where_tenant tid @ post)"

lemma scoped_where: "scoped where_tenant"
  unfolding scoped_def by (intro exI [of _ "[]"]) simp

lemma scoped_append: "scoped q \<Longrightarrow> scoped (\<lambda>tid. q tid @ p)"
  unfolding scoped_def by (metis append.assoc)

lemma scoped_prepend: "scoped q \<Longrightarrow> scoped (\<lambda>tid. p @ q tid)"
  unfolding scoped_def by (metis append.assoc)

lemma scoped_Cons: "scoped q \<Longrightarrow> scoped (\<lambda>tid. c # q tid)"
  using scoped_prepend [of q "[c]"] by simp

lemma scoped_lines: "scoped q \<Longrightarrow> scoped (\<lambda>tid. text_lines (q tid # ls))"
  by (cases ls) (auto intro: scoped_append)

lemma scoped_lines_Cons: "scoped (\<lambda>tid. text_lines (f tid # ls tid)) \<Longrightarrow> scoped (\<lambda>tid. text_lines (l # f tid # ls tid))"
  by (auto intro: scoped_prepend scoped_Cons)

lemmas scoped_intros = scoped_where scoped_append scoped_prepend scoped_lines scoped_lines_Cons

definition admin_queries :: "(string \<Rightarrow> string) set" where
  "admin_queries = {stats_query, traffic_query, model_query, latency_query, usage_query, cache_query, compliance_query,
     hot_swap_query, billing_query, traces_query, alert_stats_query, alert_daily_query, alert_recent_query}"

lemmas query_defs = stats_query_def traffic_query_def model_query_def latency_query_def usage_query_def cache_query_def
  compliance_query_def hot_swap_query_def billing_query_def traces_query_def alert_stats_query_def
  alert_daily_query_def alert_recent_query_def

lemma admin_queries_scoped: "q \<in> admin_queries \<Longrightarrow> scoped q"
proof -
  have "scoped stats_query" unfolding stats_query_def [abs_def] by (intro scoped_intros)
  moreover have "scoped traffic_query" unfolding traffic_query_def [abs_def] by (intro scoped_intros)
  moreover have "scoped model_query" unfolding model_query_def [abs_def] by (intro scoped_intros)
  moreover have "scoped latency_query" unfolding latency_query_def [abs_def] by (intro scoped_intros)
  moreover have "scoped usage_query" unfolding usage_query_def [abs_def] by (intro scoped_intros)
  moreover have "scoped cache_query" unfolding cache_query_def [abs_def] by (intro scoped_intros)
  moreover have "scoped compliance_query" unfolding compliance_query_def [abs_def] by (intro scoped_intros)
  moreover have "scoped hot_swap_query" unfolding hot_swap_query_def [abs_def] by (intro scoped_intros)
  moreover have "scoped billing_query" unfolding billing_query_def [abs_def] by (intro scoped_intros)
  moreover have "scoped traces_query" unfolding traces_query_def [abs_def] by (intro scoped_intros)
  moreover have "scoped alert_stats_query" unfolding alert_stats_query_def [abs_def] by (intro scoped_intros)
  moreover have "scoped alert_daily_query" unfolding alert_daily_query_def [abs_def] by (intro scoped_intros)
  moreover have "scoped alert_recent_query" unfolding alert_recent_query_def [abs_def] by (intro scoped_intros)
  ultimately show "q \<in> admin_queries \<Longrightarrow> scoped q" by (auto simp: admin_queries_def)
qed

text \<open>What a page asks of the store.\<close>

definition asks :: "string \<Rightarrow> admin_state \<Rightarrow> admin_state \<Rightarrow> bool" where
  "asks tid st st' \<longleftrightarrow> (\<exists>qs. set qs \<subseteq> admin_queries \<and> ad_sent st' = ad_sent st @ map (\<lambda>q. q tid) qs)"

lemma asks_refl [simp]: "asks tid st st"
  unfolding asks_def by (rule exI [of _ "[]"]) simp

lemma asks_send: "q \<in> admin_queries \<Longrightarrow> asks tid st st1 \<Longrightarrow> asks tid st (snd (send_query ask (q tid) st1))"
proof -
  assume "q \<in> admin_queries" and "asks tid st st1"
  then obtain qs where "set (qs @ [q]) \<subseteq> admin_queries" "ad_sent st1 = ad_sent st @ map (\<lambda>q. q tid) qs"
    by (auto simp: asks_def)
  then show ?thesis unfolding asks_def by (intro exI [of _ "qs @ [q]"]) (simp add: send_query_def)
qed

lemma asks_panic [simp]: "asks tid st (st1\<lparr>ad_panicked := b\<rparr>) = asks tid st st1"
  by (simp add: asks_def)

lemma asks_checked: "q \<in> admin_queries \<Longrightarrow> asks tid st (snd (checked_query an ask (q tid) m st))"
  using asks_send [of q tid st st ask] by (auto simp: checked_query_def split: prod.split http_result.split)

lemma asks_all: "set qs \<subseteq> admin_queries \<Longrightarrow> asks tid st st1 \<Longrightarrow> asks tid st (snd (send_all ask (map (\<lambda>q. q tid) qs) st1))"
proof (induction qs arbitrary: st1)
  case (Cons q qs)
  obtain r st2 where send: "send_query ask (q tid) st1 = (r, st2)" by (cases "send_query ask (q tid) st1")
  have q: "asks tid st st2" using Cons.prems asks_send [of q tid st st1 ask] by (simp add: send)
  from Cons.IH [OF _ this] Cons.prems(1) have "asks tid st (snd (send_all ask (map (\<lambda>q. q tid) qs) st2))" by simp
  with q show ?case by (auto simp: send split: http_result.split sum.split prod.split)
qed simp

lemma with_tenant_None: "an_uuid an (cl_tenant_id c) = None \<Longrightarrow> snd (with_tenant an c f st) = st"
  by (simp add: with_tenant_def tenant_claim_def)

lemma with_tenant_Some: "an_uuid an (cl_tenant_id c) = Some tid \<Longrightarrow> with_tenant an c f st = f tid st"
  by (simp add: with_tenant_def tenant_claim_def)

lemma page_asks:
  assumes "(path, page) \<in> set admin_pages"
  shows "(an_uuid an (cl_tenant_id c) = None \<longrightarrow> snd (page an ask c st) = st) \<and>
    (\<forall>tid. an_uuid an (cl_tenant_id c) = Some tid \<longrightarrow> asks tid st (snd (page an ask c st)))"
proof -
  note inq = admin_queries_def
  have "asks tid st (snd (admin_metrics an ask c st))" if t: "an_uuid an (cl_tenant_id c) = Some tid" for tid
    using asks_all [of "[stats_query, traffic_query, model_query, latency_query]" tid st st ask]
    by (auto simp: admin_metrics_def with_tenant_Some [OF t] inq simp del: send_all.simps split: prod.split sum.split option.split)
  moreover have "asks tid st (snd (get_usage_metrics an ask c st))" if t: "an_uuid an (cl_tenant_id c) = Some tid" for tid
    using asks_checked [of usage_query tid st an ask "''ClickHouse usage query failed''"]
    by (auto simp: get_usage_metrics_def with_tenant_Some [OF t] inq Let_def split: prod.split sum.split)
  moreover have "asks tid st (snd (get_hot_swaps an ask c st))" if t: "an_uuid an (cl_tenant_id c) = Some tid" for tid
    using asks_checked [of hot_swap_query tid st an ask "''ClickHouse hot-swaps query failed''"]
    by (auto simp: get_hot_swaps_def with_tenant_Some [OF t] inq Let_def split: prod.split sum.split)
  moreover have "asks tid st (snd (get_billing_breakdown an ask c st))" if t: "an_uuid an (cl_tenant_id c) = Some tid" for tid
    using asks_checked [of billing_query tid st an ask "''ClickHouse billing query failed''"]
    by (auto simp: get_billing_breakdown_def with_tenant_Some [OF t] inq Let_def split: prod.split sum.split)
  moreover have "asks tid st (snd (get_traces an ask c st))" if t: "an_uuid an (cl_tenant_id c) = Some tid" for tid
    using asks_checked [of traces_query tid st an ask "''Traces query failed''"]
    by (auto simp: get_traces_def with_tenant_Some [OF t] inq Let_def split: prod.split sum.split)
  moreover have "asks tid st (snd (get_cache_metrics an ask c st))" if t: "an_uuid an (cl_tenant_id c) = Some tid" for tid
    using asks_send [of cache_query tid st st ask]
    by (auto simp: get_cache_metrics_def with_tenant_Some [OF t] inq Let_def split: prod.split http_result.split option.split)
  moreover have "asks tid st (snd (get_compliance_metrics an ask c st))" if t: "an_uuid an (cl_tenant_id c) = Some tid" for tid
    using asks_send [of compliance_query tid st st ask]
    by (auto simp: get_compliance_metrics_def with_tenant_Some [OF t] inq split: prod.split http_result.split option.split)
  moreover have "asks tid st (snd (security_alerts an ask c st))" if t: "an_uuid an (cl_tenant_id c) = Some tid" for tid
    unfolding security_alerts_def with_tenant_Some [OF t] Let_def snd_conv by (intro asks_send asks_refl) (simp_all add: inq)
  moreover have "snd (page an ask c st) = st" if "an_uuid an (cl_tenant_id c) = None"
    using assms that by (auto simp: admin_pages_def admin_metrics_def get_usage_metrics_def get_cache_metrics_def
        get_compliance_metrics_def get_hot_swaps_def get_billing_breakdown_def get_traces_def security_alerts_def with_tenant_None)
  ultimately show ?thesis using assms unfolding admin_pages_def by auto
qed

section \<open>A concrete gateway\<close>

definition an_sample :: admin_env where
  "an_sample = \<lparr>an_sd = sd1, an_F = F0, an_parse_f64 = (\<lambda>s. None), an_to_u64 = id,
     an_uuid = (\<lambda>s. if s = ''t1'' then Some ''t1'' else None)\<rparr>"

definition aa_sample :: auth_env where
  "aa_sample = ae_sample\<lparr>ae_uuid := (\<lambda>s. if s = ''t1'' then Some ''t1'' else None)\<rparr>"

definition ad_sample :: admin_state where
  "ad_sample = \<lparr>ad_sent = [], ad_panicked = False\<rparr>"

definition store_sample :: "json \<Rightarrow> store" where
  "store_sample row = (\<lambda>n q. HOk \<lparr>hr_status = 200, hr_headers = [],
     hr_body = [Chunk (enc_json (jobject [(''data'', JArr [row])]))]\<rparr>)"

definition claims_sample :: claims where
  "claims_sample = \<lparr>cl_sub = ''u'', cl_tenant_id = ''t1'', cl_exp = 0\<rparr>"

lemma store_sample_json:
  "reply_json sd1 \<lparr>hr_status = 200, hr_headers = [], hr_body = [Chunk (enc_json v)]\<rparr> = Some v"
  by (simp add: reply_json_def)

lemma data_rows_sample: "data_rows (jobject [(''data'', JArr [row])]) = [row]"
  by (simp add: data_rows_def jindex_def jget_jobject)

section \<open>Scope\<close>

text \<open>What the UUID library promises: the form it prints parses to itself and has no quote.\<close>

definition uuid_lib :: "(string \<Rightarrow> string option) \<Rightarrow> bool" where
  "uuid_lib u \<longleftrightarrow> (\<forall>x y. u x = Some y \<longrightarrow> u y = Some y \<and> CHR 0x27 \<notin> set y)"

lemma admin_handler_asks:
  assumes page: "(path, page) \<in> set admin_pages" and c: "hq_claims rq = Some c"
  shows "(an_uuid an (cl_tenant_id c) = None \<longrightarrow> snd (admin_handler page an ask rq st) = st) \<and>
    (\<forall>tid. an_uuid an (cl_tenant_id c) = Some tid \<longrightarrow> asks tid st (snd (admin_handler page an ask rq st)))"
  using page_asks [OF page, of an c ask st] by (auto simp: admin_handler_def c split: prod.split sum.split)

lemma admin_path: "(path, page) \<in> set admin_pages \<Longrightarrow> path \<noteq> ''/health'' \<and> path \<noteq> ''/v1/health''"
  by (auto simp: admin_pages_def)

lemma authenticated_asks:
  fixes ask :: store and st :: admin_state
  assumes uuid: "uuid_lib (ae_uuid ae)" and an: "an_uuid an = ae_uuid ae"
    and keys: "\<And>h t. ae_keys ae h = KeyTenant t \<Longrightarrow> ae_uuid ae t = Some t"
    and page: "(path, page) \<in> set admin_pages" and rq: "hq_method rq = ''GET''" "hq_path rq = path"
  defines "st' \<equiv> snd (auth_middleware ae (admin_handler page an ask) rq st)"
  shows "st' = st \<or> (\<exists>tenant. verified_tenant ae (hq_headers rq) tenant \<and> ae_uuid ae tenant = Some tenant \<and> asks tenant st st')"
proof (cases "request_token (hq_headers rq)")
  case None
  then show ?thesis using rq admin_path [OF page] by (simp add: st'_def auth_middleware_def)
next
  case (Some ta)
  obtain token api where ta: "ta = (token, api)" by (cases ta)
  let ?rq = "\<lambda>tenant c. rq\<lparr>hq_headers := hdr_insert ''x-tenant-id'' tenant (hq_headers rq), hq_claims := Some c\<rparr>"
  show ?thesis
  proof (cases api)
    case True
    show ?thesis
    proof (cases "ae_keys ae (ae_sha ae token)")
      case (KeyTenant tenant)
      let ?c = "\<lparr>cl_sub = ''api_key'', cl_tenant_id = tenant, cl_exp = 0\<rparr>"
      have "st' = snd (admin_handler page an ask (?rq tenant ?c) st)"
        using Some ta True KeyTenant rq admin_path [OF page] by (simp add: st'_def auth_middleware_def handle_api_key_def)
      moreover have "asks tenant st (snd (admin_handler page an ask (?rq tenant ?c) st))"
        using admin_handler_asks [OF page, of "?rq tenant ?c" ?c an ask st] keys [OF KeyTenant] an by simp
      moreover have "verified_tenant ae (hq_headers rq) tenant"
        using Some ta True KeyTenant by (auto simp: verified_tenant_def)
      ultimately show ?thesis using keys [OF KeyTenant] by auto
    qed (use Some ta True rq admin_path [OF page] in \<open>simp_all add: st'_def auth_middleware_def handle_api_key_def\<close>)
  next
    case False
    show ?thesis
    proof (cases "\<exists>secret c tenant. ae_secret ae = Some secret \<and> ae_jwt ae secret token = Some c \<and> ae_uuid ae (cl_tenant_id c) = Some tenant")
      case True
      then obtain secret c tenant where c: "ae_secret ae = Some secret" "ae_jwt ae secret token = Some c"
        "ae_uuid ae (cl_tenant_id c) = Some tenant" by blast
      have "st' = snd (admin_handler page an ask (?rq tenant c) st)"
        using Some ta False c rq admin_path [OF page] by (simp add: st'_def auth_middleware_def handle_jwt_def verify_jwt_def)
      moreover have "asks tenant st (snd (admin_handler page an ask (?rq tenant c) st))"
        using admin_handler_asks [OF page, of "?rq tenant c" c an ask st] c(3) an by simp
      moreover have "verified_tenant ae (hq_headers rq) tenant"
        using Some ta False c by (auto simp: verified_tenant_def)
      ultimately show ?thesis using c(3) uuid by (auto simp: uuid_lib_def)
    next
      case no: False
      then show ?thesis
        using Some ta False rq admin_path [OF page]
        by (auto simp: st'_def auth_middleware_def handle_jwt_def verify_jwt_def split: option.split)
    qed
  qed
qed



section \<open>What the pages show\<close>

text \<open>The cache page is blind: its query counts redactions, and from a row without a column of lookups,
  as every answer to that query is, it reports no lookups and no hits.\<close>

theorem cache_page_blind:
  assumes "an_uuid an (cl_tenant_id c) = Some tid"
    and "ask (length (ad_sent st)) (cache_query tid) = HOk r" and "reply_json (an_sd an) r = Some v"
    and "\<And>row. row \<in> set (data_rows v) \<Longrightarrow> jget row ''total_lookups'' = None"
  shows "fst (get_cache_metrics an ask c st) = Inr (jobject
    [(''hit_ratio'', json_f64 (f_dec (an_F an) 0 0)), (''miss_ratio'', json_f64 (f_dec (an_F an) 0 0)), (''total_lookups'', jnat 0)])"
proof -
  have none: "u64_cell (jindex row ''total_lookups'') = 0" if "first_row v = Some row" for row
    using that assms(4) [of row] by (auto simp: first_row_def first_of_def jindex_def split: list.splits)
  have zero: "u64_cell (jindex (jobject [(''total_lookups'', JStr ''0''), (''hits'', JStr ''0''), (''misses'', JStr ''0'')]) ''total_lookups'') = 0"
    by (simp add: jindex_def jget_jobject parse_u64_def is_digit_def or_zero_def Let_def strip_prefix_def starts_with_def)
  show ?thesis
    using none zero
    by (auto simp: get_cache_metrics_def with_tenant_Some [OF assms(1)] send_query_def assms(2,3) cache_reply_def Let_def
        split: option.split)
qed

lemma cache_page_blind_witness:
  "fst (get_cache_metrics an_sample (store_sample (jobject [(''redacted_count'', JStr ''5'')])) claims_sample ad_sample) =
   Inr (jobject [(''hit_ratio'', json_f64 0), (''miss_ratio'', json_f64 0), (''total_lookups'', jnat 0)])"
  using cache_page_blind [of an_sample claims_sample "''t1''" "store_sample (jobject [(''redacted_count'', JStr ''5'')])" ad_sample
      _ "jobject [(''data'', JArr [jobject [(''redacted_count'', JStr ''5'')]])]"]
  by (simp add: an_sample_def claims_sample_def store_sample_def store_sample_json data_rows_sample jget_jobject F0_def)

text \<open>The usage page shows the sum the store computed: from an answer whose first row has the sum in
  decimal digits, as the store sends it, the page shows exactly that number.\<close>

theorem usage_page_exact:
  assumes "an_uuid an (cl_tenant_id c) = Some tid"
    and "ask (length (ad_sent st)) (usage_query tid) = HOk r" and "is_success (hr_status r)" and "reply_json (an_sd an) r = Some v"
    and "first_row v = Some row" and "jget row ''total_tokens'' = Some (JStr (show_nat n))" and "n < 2 ^ 64"
  shows "\<exists>w. fst (get_usage_metrics an ask c st) = Inr w \<and> jget w ''total_tokens'' = Some (jnat (of_nat n))"
  by (simp add: get_usage_metrics_def with_tenant_Some [OF assms(1)] checked_query_def send_query_def assms(2-6) jindex_def
      parse_show [OF assms(7)] or_zero_def jget_jobject Let_def)

lemma usage_page_exact_witness:
  "\<exists>w. fst (get_usage_metrics an_sample (store_sample (jobject [(''total_tokens'', JStr (show_nat 1234))])) claims_sample ad_sample) = Inr w \<and>
     jget w ''total_tokens'' = Some (jnat 1234)"
  using usage_page_exact [of an_sample claims_sample "''t1''" "store_sample (jobject [(''total_tokens'', JStr (show_nat 1234))])" ad_sample
      _ "jobject [(''data'', JArr [jobject [(''total_tokens'', JStr (show_nat 1234))]])]" "jobject [(''total_tokens'', JStr (show_nat 1234))]" 1234]
  by (simp add: an_sample_def claims_sample_def store_sample_def store_sample_json first_row_def data_rows_sample first_of_def jget_jobject is_success_def)

text \<open>The overview fails only on a malformed row: with all four queries answered, the handler panics
  exactly when the first row of the statistics is neither an object nor null.\<close>

theorem overview_panics:
  assumes "an_uuid an (cl_tenant_id c) = Some tid" and "\<And>n q. \<exists>r. ask n q = HOk r" and "\<not> ad_panicked st"
  shows "ad_panicked (snd (admin_metrics an ask c st)) \<longleftrightarrow>
    (\<exists>r row. ask (length (ad_sent st)) (stats_query tid) = HOk r \<and> first_row (rows_or_none (an_sd an) r) = Some row \<and>
      row \<noteq> JNull \<and> as_obj row = None)"
proof -
  obtain r1 where r1: "ask (length (ad_sent st)) (stats_query tid) = HOk r1" using assms(2) by blast
  obtain r2 where r2: "ask (Suc (length (ad_sent st))) (traffic_query tid) = HOk r2" using assms(2) by blast
  obtain r3 where r3: "ask (Suc (Suc (length (ad_sent st)))) (model_query tid) = HOk r3" using assms(2) by blast
  obtain r4 where r4: "ask (Suc (Suc (Suc (length (ad_sent st))))) (latency_query tid) = HOk r4" using assms(2) by blast
  have set1: "index_set k w v \<noteq> None \<longleftrightarrow> v = JNull \<or> as_obj v \<noteq> None" for k w v by (cases v) auto
  have set2: "index_set k w v = Some v' \<Longrightarrow> as_obj v' \<noteq> None" for k w v v' by (cases v) auto
  have all: "send_all ask [stats_query tid, traffic_query tid, model_query tid, latency_query tid] st =
      (Inr [r1, r2, r3, r4], st\<lparr>ad_sent := ad_sent st @ [stats_query tid, traffic_query tid, model_query tid, latency_query tid]\<rparr>)"
    by (simp add: send_query_def r1 r2 r3 r4)
  let ?first = "case first_row (rows_or_none (an_sd an) r1) of None \<Rightarrow> empty_summary (an_F an) | Some row \<Rightarrow> row"
  have obj: "overview an [r1, r2, r3, r4] \<noteq> None \<longleftrightarrow> ?first = JNull \<or> as_obj ?first \<noteq> None"
  proof -
    have "overview an [r1, r2, r3, r4] \<noteq> None \<longleftrightarrow>
        index_set ''traffic_series'' (jindex (rows_or_none (an_sd an) r2) ''data'') ?first \<noteq> None"
    proof (cases "index_set ''traffic_series'' (jindex (rows_or_none (an_sd an) r2) ''data'') ?first")
      case (Some v)
      then obtain v' where v': "index_set ''model_distribution'' (jindex (rows_or_none (an_sd an) r3) ''data'') v = Some v'"
        using set1 [of _ _ v] set2 by blast
      then have "index_set ''latency_buckets'' (jindex (rows_or_none (an_sd an) r4) ''data'') v' \<noteq> None"
        using set1 [of _ _ v'] set2 by blast
      with Some v' show ?thesis by (simp add: overview_def)
    qed (simp add: overview_def)
    then show ?thesis by (simp only: set1)
  qed
  have "ad_panicked (snd (admin_metrics an ask c st)) \<longleftrightarrow> overview an [r1, r2, r3, r4] = None"
    using assms(3) by (auto simp: admin_metrics_def with_tenant_Some [OF assms(1)] all simp del: send_all.simps split: option.split)
  with obj show ?thesis using r1
    by (cases "first_row (rows_or_none (an_sd an) r1)") (auto simp: empty_summary_def jobject_def)
qed

lemma overview_panics_witness:
  "ad_panicked (snd (admin_metrics an_sample (store_sample (JStr ''x'')) claims_sample ad_sample)) \<and>
   \<not> ad_panicked (snd (admin_metrics an_sample (store_sample (JObj [])) claims_sample ad_sample))"
  using overview_panics [of an_sample claims_sample "''t1''" "store_sample (JStr ''x'')" ad_sample]
    overview_panics [of an_sample claims_sample "''t1''" "store_sample (JObj [])" ad_sample]
  by (simp add: an_sample_def claims_sample_def ad_sample_def store_sample_def rows_or_none_def store_sample_json first_row_def
      data_rows_sample first_of_def)

end
