(* ===== verification/Semantic_Cache.thy ===== *)
theory Semantic_Cache
  imports Proxy
begin

text \<open>
  The L2 cache service (\<open>redeye_cache/src\<close>): the structural hash of a prompt
  (\<open>usecases/semantic_search.rs\<close>), the embedder (\<open>infrastructure/local_embedder.rs\<close>), the table of
  answers with its vector search (\<open>infrastructure/postgres_repo.rs\<close>), and the RPC and HTTP handlers
  (\<open>api/grpc_server.rs\<close>, \<open>api/handlers.rs\<close>). The embedding model, XXH3, the distance and the search
  of pgvector are parameters; a database call can be lost before or after its effect.
\<close>

section \<open>Data\<close>

record cache_lookup_request =
  lr_tenant_id :: string
  lr_model :: string
  lr_prompt :: string

record cached_response =
  cr_content :: string
  cr_original_prompt :: string
  cr_similarity :: f32

record cache_store_request =
  sr_tenant_id :: string
  sr_model :: string
  sr_prompt :: string
  sr_response :: string

record cache_row =
  sc_tenant :: string
  sc_hash :: i64
  sc_prompt :: string
  sc_content :: string
  sc_embedding :: "f32 list"

text \<open>A run of the model on one text, in its own thread.\<close>

datatype embed_run = EmbedPanic | EmbedFail | EmbedOk "f32 list list"

datatype embed_error = InferenceFailed string | TaskPanic

record l2_env =
  le_run :: "string \<Rightarrow> embed_run"
  le_xxh :: "string \<Rightarrow> u64"
  le_alnum :: "string \<Rightarrow> bool"
  le_uuid :: "string \<Rightarrow> string option"
  le_tenants :: "string list"
  le_G :: f32_ops
  le_wide :: "f32 \<Rightarrow> f64"
  le_score :: "f64 \<Rightarrow> f32"
  le_lt :: "f64 \<Rightarrow> f64 \<Rightarrow> bool"
  le_dist :: "f32 list \<Rightarrow> f32 list \<Rightarrow> f64"
  le_search :: "f32 list \<Rightarrow> f64 \<Rightarrow> cache_row list \<Rightarrow> cache_row option"

section \<open>The structural hash\<close>

text \<open>The characters of a UTF-8 string, each as its bytes.\<close>

definition continuation :: "char \<Rightarrow> bool" where
  "continuation c \<longleftrightarrow> (of_char c :: nat) div 64 = 2"

function utf8_chars :: "string \<Rightarrow> string list" where
  "utf8_chars [] = []"
| "utf8_chars (c # cs) = (c # takeWhile continuation cs) # utf8_chars (dropWhile continuation cs)"
  by pat_completeness auto
termination by (relation "measure length") (auto simp: less_Suc_eq_le length_dropWhile_le)

definition is_whitespace :: "string \<Rightarrow> bool" where
  "is_whitespace c \<longleftrightarrow> c \<in> set ws_chars"

text \<open>\<open>split_whitespace().count()\<close>: how often a word begins.\<close>

fun word_count :: "bool \<Rightarrow> string list \<Rightarrow> nat" where
  "word_count inside [] = 0"
| "word_count inside (c # cs) =
     (if is_whitespace c then word_count False cs
      else (if inside then 0 else 1) + word_count True cs)"

definition skeleton :: "l2_env \<Rightarrow> string \<Rightarrow> string" where
  "skeleton le prompt = concat (filter (\<lambda>c. \<not> le_alnum le c \<and> \<not> is_whitespace c) (utf8_chars prompt))"

definition compute_ast_hash :: "l2_env \<Rightarrow> string \<Rightarrow> i64" where
  "compute_ast_hash le prompt =
     le_xxh le (skeleton le prompt @ ''_'' @ show_nat (word_count False (utf8_chars prompt)))"

section \<open>The embedder\<close>

definition embed_prompt :: "l2_env \<Rightarrow> string \<Rightarrow> embed_error + f32 list" where
  "embed_prompt le text =
     (case le_run le text of
        EmbedPanic \<Rightarrow> Inl TaskPanic
      | EmbedFail \<Rightarrow> Inl (InferenceFailed [])
      | EmbedOk vs \<Rightarrow> ok_or (first_of vs) (InferenceFailed ''Embedder returned empty output''))"

fun embed_error_text :: "embed_error \<Rightarrow> string" where
  "embed_error_text (InferenceFailed m) = ''Embedding inference failed: '' @ m"
| "embed_error_text TaskPanic = ''Embedder task panicked: ''"

section \<open>The table\<close>

text \<open>\<open>Uuid::parse_str(...).unwrap_or_default()\<close>.\<close>

definition nil_uuid :: string where "nil_uuid = ''00000000-0000-0000-0000-000000000000''"

definition tenant_uuid :: "l2_env \<Rightarrow> string \<Rightarrow> string" where
  "tenant_uuid le t = (case le_uuid le t of None \<Rightarrow> nil_uuid | Some u \<Rightarrow> u)"

definition embedding_size :: nat where "embedding_size = 384"

definition candidates :: "string \<Rightarrow> i64 \<Rightarrow> cache_row list \<Rightarrow> cache_row list" where
  "candidates tenant h rows = filter (\<lambda>r. sc_tenant r = tenant \<and> sc_hash r = h) rows"

definition find_similar ::
  "l2_env \<Rightarrow> fault \<Rightarrow> string \<Rightarrow> i64 \<Rightarrow> f32 list \<Rightarrow> f32 \<Rightarrow> cache_row list \<Rightarrow> unit + cached_response option" where
  "find_similar le f tenant_id h v threshold rows =
     (let G = le_G le; max_distance = le_wide le (g_sub G (g_dec G 1 0) threshold);
          rs = candidates (tenant_uuid le tenant_id) h rows in
      if f \<noteq> Delivered \<or> length v \<noteq> embedding_size \<and> rs \<noteq> [] then Inl ()
      else Inr (map_option (\<lambda>r. \<lparr>cr_content = sc_content r, cr_original_prompt = sc_prompt r,
          cr_similarity = le_score le (le_dist le (sc_embedding r) v)\<rparr>) (le_search le v max_distance rs)))"

text \<open>An insertion: the tenant exists, the vector has the size of the column, a text has no zero byte.\<close>

definition insertable :: "l2_env \<Rightarrow> cache_row \<Rightarrow> bool" where
  "insertable le r \<longleftrightarrow> sc_tenant r \<in> set (le_tenants le) \<and> length (sc_embedding r) = embedding_size \<and>
     CHR 0x00 \<notin> set (sc_prompt r) \<and> CHR 0x00 \<notin> set (sc_content r)"

definition store_row ::
  "l2_env \<Rightarrow> fault \<Rightarrow> string \<Rightarrow> i64 \<Rightarrow> string \<Rightarrow> string \<Rightarrow> f32 list \<Rightarrow> cache_row list \<Rightarrow> (unit + unit) \<times> cache_row list" where
  "store_row le f tenant_id h prompt content v rows =
     (let r = \<lparr>sc_tenant = tenant_uuid le tenant_id, sc_hash = h, sc_prompt = prompt, sc_content = content, sc_embedding = v\<rparr> in
      if f = LostRequest \<or> \<not> insertable le r then (Inl (), rows)
      else (if f = Delivered then Inr () else Inl (), rows @ [r]))"

section \<open>Use cases\<close>

definition check_cache :: "l2_env \<Rightarrow> fault \<Rightarrow> cache_lookup_request \<Rightarrow> cache_row list \<Rightarrow> string + cached_response option" where
  "check_cache le f rq rows =
     (let h = compute_ast_hash le (lr_prompt rq) in
      case embed_prompt le (lr_prompt rq) of
        Inl e \<Rightarrow> Inl (embed_error_text e)
      | Inr v \<Rightarrow> (case find_similar le f (lr_tenant_id rq) h v (g_dec (le_G le) 95 2) rows of
            Inl _ \<Rightarrow> Inl [] | Inr r \<Rightarrow> Inr r))"

definition store_response ::
  "l2_env \<Rightarrow> fault \<Rightarrow> cache_store_request \<Rightarrow> cache_row list \<Rightarrow> (string + unit) \<times> cache_row list" where
  "store_response le f rq rows =
     (let h = compute_ast_hash le (sr_prompt rq) in
      case embed_prompt le (sr_prompt rq) of
        Inl e \<Rightarrow> (Inl (embed_error_text e), rows)
      | Inr v \<Rightarrow> (case store_row le f (sr_tenant_id rq) h (sr_prompt rq) (sr_response rq) v rows of
            (Inl _, rows') \<Rightarrow> (Inl [], rows') | (Inr _, rows') \<Rightarrow> (Inr (), rows')))"

section \<open>RPC\<close>

text \<open>An error is a status with code \<open>Internal\<close> and a message.\<close>

definition lookup_rpc :: "l2_env \<Rightarrow> fault \<Rightarrow> cache_request \<Rightarrow> cache_row list \<Rightarrow> string + bool \<times> string" where
  "lookup_rpc le f q rows =
     (case check_cache le f \<lparr>lr_tenant_id = cq_tenant q, lr_model = cq_model q, lr_prompt = cq_prompt q\<rparr> rows of
        Inr (Some c) \<Rightarrow> Inr (True, cr_content c)
      | Inr None \<Rightarrow> Inr (False, [])
      | Inl e \<Rightarrow> Inl (''Cache lookup error: '' @ e))"

definition store_rpc ::
  "l2_env \<Rightarrow> fault \<Rightarrow> cache_request \<Rightarrow> string \<Rightarrow> cache_row list \<Rightarrow> (string + bool) \<times> cache_row list" where
  "store_rpc le f q content rows =
     (case store_response le f \<lparr>sr_tenant_id = cq_tenant q, sr_model = cq_model q, sr_prompt = cq_prompt q,
         sr_response = content\<rparr> rows of
        (Inr _, rows') \<Rightarrow> (Inr True, rows')
      | (Inl e, rows') \<Rightarrow> (Inl (''Cache store error: '' @ e), rows'))"

section \<open>HTTP\<close>

definition json_f32 :: "(f32 \<Rightarrow> f64) \<Rightarrow> f32 \<Rightarrow> json" where
  "json_f32 wide x = json_f64 (wide x)"

definition cached_response_json :: "(f32 \<Rightarrow> f64) \<Rightarrow> cached_response \<Rightarrow> json" where
  "cached_response_json wide c = jobject
     [(''content'', JStr (cr_content c)), (''original_prompt'', JStr (cr_original_prompt c)),
      (''similarity_score'', json_f32 wide (cr_similarity c))]"

definition lookup_handler :: "l2_env \<Rightarrow> fault \<Rightarrow> cache_lookup_request \<Rightarrow> cache_row list \<Rightarrow> response" where
  "lookup_handler le f rq rows =
     (case check_cache le f rq rows of
        Inr (Some c) \<Rightarrow> json_response 200 (jobject [(''hit'', JBool True), (''data'', cached_response_json (le_wide le) c)])
      | Inr None \<Rightarrow> json_response 200 (jobject [(''hit'', JBool False)])
      | Inl e \<Rightarrow> json_response 500 (jobject [(''error'', JStr e)]))"

definition store_handler ::
  "l2_env \<Rightarrow> fault \<Rightarrow> cache_store_request \<Rightarrow> cache_row list \<Rightarrow> response \<times> cache_row list" where
  "store_handler le f rq rows =
     (case store_response le f rq rows of
        (Inr _, rows') \<Rightarrow> (json_response 201 (jobject [(''stored'', JBool True)]), rows')
      | (Inl e, rows') \<Rightarrow> (json_response 500 (jobject [(''error'', JStr e)]), rows'))"

section \<open>Histories\<close>

datatype l2_event =
    RpcLookup cache_request
  | RpcStore cache_request string
  | HttpLookup cache_lookup_request
  | HttpStore cache_store_request

fun l2_step :: "l2_env \<Rightarrow> fault \<Rightarrow> l2_event \<Rightarrow> cache_row list \<Rightarrow> cache_row list" where
  "l2_step le f (RpcLookup q) rows = rows"
| "l2_step le f (RpcStore q c) rows = snd (store_rpc le f q c rows)"
| "l2_step le f (HttpLookup rq) rows = rows"
| "l2_step le f (HttpStore rq) rows = snd (store_handler le f rq rows)"

definition l2_run :: "l2_env \<Rightarrow> (fault \<times> l2_event) list \<Rightarrow> cache_row list \<Rightarrow> cache_row list" where
  "l2_run le evs rows = fold (\<lambda>(f, ev). l2_step le f ev) evs rows"

text \<open>The service as the client of the gateway sees it.\<close>

definition l2_answer :: "l2_env \<Rightarrow> fault \<Rightarrow> cache_row list \<Rightarrow> cache_request \<Rightarrow> l2_reply" where
  "l2_answer le f rows q = (case lookup_rpc le f q rows of Inl _ \<Rightarrow> L2Error | Inr (hit, c) \<Rightarrow> L2Reply hit c)"

end
