(* ===== verification/Semantic_Cache_Properties.thy ===== *)
theory Semantic_Cache_Properties
  imports Semantic_Cache Proxy_Properties
begin

text \<open>
  Laws and properties of the L2 cache: the contract of the vector search as a locale, where the
  rows of the table come from, and what a hit means to the gateway.
\<close>

section \<open>The search\<close>

text \<open>
  Any search, through the index or not, yields a row that satisfies the condition; a scan of
  the table also misses none and yields a nearest one.
\<close>

definition max_distance :: "l2_env \<Rightarrow> f64" where
  "max_distance le = le_wide le (g_sub (le_G le) (g_dec (le_G le) 1 0) (g_dec (le_G le) 95 2))"

definition row_distance :: "l2_env \<Rightarrow> f32 list \<Rightarrow> cache_row \<Rightarrow> f64" where
  "row_distance le v r = le_dist le (sc_embedding r) v"

locale l2_service =
  fixes le :: l2_env
  assumes search_sound: "le_search le v mx rs = Some r \<Longrightarrow> r \<in> set rs \<and> le_lt le (row_distance le v r) mx"
begin

lemma hit_row:
  assumes "check_cache le f rq rows = Inr (Some c)"
  shows "\<exists>r v. r \<in> set rows \<and> sc_tenant r = tenant_uuid le (lr_tenant_id rq) \<and> sc_hash r = compute_ast_hash le (lr_prompt rq) \<and>
    sc_content r = cr_content c \<and> embed_prompt le (lr_prompt rq) = Inr v \<and> le_lt le (row_distance le v r) (max_distance le)"
  using assms search_sound
  by (fastforce simp: check_cache_def find_similar_def candidates_def max_distance_def Let_def
      split: sum.splits if_splits)

end

locale exact_l2_service = l2_service +
  assumes search_complete: "r \<in> set rs \<Longrightarrow> le_lt le (row_distance le v r) mx \<Longrightarrow>
    \<exists>r'. le_search le v mx rs = Some r' \<and> \<not> le_lt le (row_distance le v r) (row_distance le v r')"
begin

lemma near_row_hits:
  assumes "r \<in> set rows" and "sc_tenant r = tenant_uuid le (lr_tenant_id rq)" and "sc_hash r = compute_ast_hash le (lr_prompt rq)"
    and "embed_prompt le (lr_prompt rq) = Inr v" and "length v = embedding_size" and "le_lt le (row_distance le v r) (max_distance le)"
  shows "\<exists>c. check_cache le Delivered rq rows = Inr (Some c)"
proof -
  let ?rs = "candidates (tenant_uuid le (lr_tenant_id rq)) (compute_ast_hash le (lr_prompt rq)) rows"
  have "r \<in> set ?rs" using assms(1-3) by (simp add: candidates_def)
  from search_complete [OF this assms(6)] obtain r' where "le_search le v (max_distance le) ?rs = Some r'" by blast
  then show ?thesis using assms(4,5) by (simp add: check_cache_def find_similar_def max_distance_def Let_def)
qed

end

text \<open>The scan, over distances that are not negative: their order is that of their bit patterns.\<close>

fun exact_search :: "(f32 list \<Rightarrow> f32 list \<Rightarrow> f64) \<Rightarrow> f32 list \<Rightarrow> f64 \<Rightarrow> cache_row list \<Rightarrow> cache_row option" where
  "exact_search dist v mx [] = None"
| "exact_search dist v mx (r # rs) =
     (let d = dist (sc_embedding r) v in
      case exact_search dist v mx rs of
        None \<Rightarrow> if d < mx then Some r else None
      | Some b \<Rightarrow> if d \<le> dist (sc_embedding b) v then Some r else Some b)"

definition exact_env :: "l2_env \<Rightarrow> l2_env" where
  "exact_env le = le\<lparr>le_lt := (<), le_search := exact_search (le_dist le)\<rparr>"

lemma exact_search_sound:
  "exact_search dist v mx rs = Some r \<Longrightarrow> r \<in> set rs \<and> dist (sc_embedding r) v < mx"
  by (induction rs arbitrary: r) (auto simp: Let_def split: option.splits if_splits)

lemma exact_search_complete:
  "r \<in> set rs \<Longrightarrow> dist (sc_embedding r) v < mx \<Longrightarrow>
    \<exists>r'. exact_search dist v mx rs = Some r' \<and> dist (sc_embedding r') v \<le> dist (sc_embedding r) v"
proof (induction rs)
  case (Cons x rs)
  show ?case
  proof (cases "exact_search dist v mx rs")
    case None
    with Cons have "r = x" by auto
    with None Cons.prems show ?thesis by (simp add: Let_def)
  next
    case (Some b)
    show ?thesis
    proof (cases "r = x")
      case True
      with Some show ?thesis by (auto simp: Let_def)
    next
      case False
      with Cons Some have "dist (sc_embedding b) v \<le> dist (sc_embedding r) v" by auto
      with Some show ?thesis by (auto simp: Let_def intro: order_trans)
    qed
  qed
qed simp

interpretation exact: exact_l2_service "exact_env le" for le
  by unfold_locales
    (auto simp: exact_env_def row_distance_def not_less dest: exact_search_sound exact_search_complete)

section \<open>The rows\<close>

fun stored_by :: "l2_event \<Rightarrow> (string \<times> string \<times> string) option" where
  "stored_by (RpcStore q c) = Some (cq_tenant q, cq_prompt q, c)"
| "stored_by (HttpStore rq) = Some (sr_tenant_id rq, sr_prompt rq, sr_response rq)"
| "stored_by _ = None"

definition row_of :: "l2_env \<Rightarrow> string \<times> string \<times> string \<Rightarrow> cache_row \<Rightarrow> bool" where
  "row_of le tpc r \<longleftrightarrow> (case tpc of (t, p, c) \<Rightarrow> sc_tenant r = tenant_uuid le t \<and> sc_prompt r = p \<and> sc_content r = c \<and>
     sc_hash r = compute_ast_hash le p \<and> embed_prompt le p = Inr (sc_embedding r) \<and> insertable le r)"

lemma store_response_rows:
  "snd (store_response le f rq rows) = rows \<or>
   (\<exists>r. snd (store_response le f rq rows) = rows @ [r] \<and> row_of le (sr_tenant_id rq, sr_prompt rq, sr_response rq) r)"
  by (auto simp: store_response_def store_row_def row_of_def Let_def split: sum.split prod.split)

lemma store_handlers_rows:
  "snd (store_rpc le f q c rows) = snd (store_response le f \<lparr>sr_tenant_id = cq_tenant q, sr_model = cq_model q,
     sr_prompt = cq_prompt q, sr_response = c\<rparr> rows)"
  "snd (store_handler le f rq rows) = snd (store_response le f rq rows)"
  by (auto simp: store_rpc_def store_handler_def split: prod.split sum.split)

lemma l2_step_rows:
  "l2_step le f ev rows = rows \<or>
   (\<exists>r tpc. l2_step le f ev rows = rows @ [r] \<and> stored_by ev = Some tpc \<and> row_of le tpc r)"
proof (cases ev)
  case (RpcStore q c)
  then show ?thesis
    using store_response_rows [of le f "\<lparr>sr_tenant_id = cq_tenant q, sr_model = cq_model q, sr_prompt = cq_prompt q, sr_response = c\<rparr>" rows]
    by (auto simp: store_handlers_rows)
next
  case (HttpStore rq)
  then show ?thesis using store_response_rows [of le f rq rows] by (auto simp: store_handlers_rows)
qed simp_all

lemma l2_run_keeps: "r \<in> set rows \<Longrightarrow> r \<in> set (l2_run le evs rows)"
proof (induction evs arbitrary: rows)
  case (Cons e evs)
  have "r \<in> set (l2_step le (fst e) (snd e) rows)" using Cons.prems l2_step_rows [of le "fst e" "snd e" rows] by auto
  from Cons.IH [OF this] show ?case by (simp add: l2_run_def split_beta)
qed (simp add: l2_run_def)

lemma l2_run_origin:
  "r \<in> set (l2_run le evs rows) \<Longrightarrow> r \<in> set rows \<or> (\<exists>f ev tpc. (f, ev) \<in> set evs \<and> stored_by ev = Some tpc \<and> row_of le tpc r)"
proof (induction evs arbitrary: rows)
  case (Cons e evs)
  from Cons.prems have "r \<in> set (l2_run le evs (l2_step le (fst e) (snd e) rows))" by (simp add: l2_run_def split_beta)
  from Cons.IH [OF this] show ?case
  proof
    assume "r \<in> set (l2_step le (fst e) (snd e) rows)"
    then have "r \<in> set rows \<or> (\<exists>tpc. stored_by (snd e) = Some tpc \<and> row_of le tpc r)"
      using l2_step_rows [of le "fst e" "snd e" rows] by auto
    moreover have "(fst e, snd e) \<in> set (e # evs)" by simp
    ultimately show ?thesis by blast
  next
    assume "\<exists>f ev tpc. (f, ev) \<in> set evs \<and> stored_by ev = Some tpc \<and> row_of le tpc r"
    then show ?thesis using set_subset_Cons [of evs e] by blast
  qed
qed (simp add: l2_run_def)

section \<open>Properties\<close>

text \<open>C12. The L2 cache never crosses tenants: behind this service, whatever was stored by whichever tenants
  and whichever calls were lost, an answer the gateway takes from L2 was stored under the same
  tenant, a valid one, for a prompt of the same structure.\<close>

theorem l2_hit_is_own:
  assumes "l2_service le" and "nil_uuid \<notin> set (le_tenants le)"
    and "\<And>rq. re_l2 re rq = l2_answer le f (l2_run le evs []) rq"
    and "fst (get_exact (ev_sha ev) (ev_eget ev) (re_time re) (pq_prompt q) (gs_l1 st)) = None"
    and "get_semantic (ev_G ev) (ev_fmax ev) (ev_emb ev) (pq_prompt q)
      (snd (get_exact (ev_sha ev) (ev_eget ev) (re_time re) (pq_prompt q) (gs_l1 st))) = None"
    and "fst (cache_stage ev re q st) = Some content"
  shows "\<exists>f' ev' t p u. (f', ev') \<in> set evs \<and> stored_by ev' = Some (t, p, content) \<and>
    le_uuid le t = Some u \<and> le_uuid le (pq_tenant q) = Some u \<and>
    compute_ast_hash le p = compute_ast_hash le (pq_prompt q)"
proof -
  let ?rows = "l2_run le evs []"
  let ?rq = "\<lparr>lr_tenant_id = pq_tenant q, lr_model = pq_model q, lr_prompt = pq_prompt q\<rparr>"
  obtain c where c: "check_cache le f ?rq ?rows = Inr (Some c)" and content: "cr_content c = content"
    using assms(4-6) by (auto simp: cache_stage_def assms(3) l2_answer_def lookup_rpc_def lookup_cache_def Let_def
        split: sum.splits option.splits)
  obtain r where r: "r \<in> set ?rows" "sc_tenant r = tenant_uuid le (pq_tenant q)"
    "sc_hash r = compute_ast_hash le (pq_prompt q)" "sc_content r = content"
    using l2_service.hit_row [OF assms(1) c] content by auto
  from l2_run_origin [OF r(1)] obtain f' ev' t p c' where
    ev': "(f', ev') \<in> set evs" "stored_by ev' = Some (t, p, c')" and row: "row_of le (t, p, c') r" by auto
  from row have "sc_tenant r \<in> set (le_tenants le)" "sc_tenant r = tenant_uuid le t" "c' = content"
    "sc_hash r = compute_ast_hash le p" using r(4) by (auto simp: row_of_def insertable_def)
  with assms(2) r(2,3) ev' show ?thesis by (auto simp: tenant_uuid_def split: option.splits)
qed

text \<open>A stored answer is found again: after a store that was acknowledged and any later requests, a
  lookup of the same prompt for the same tenant over a scan of the table is a hit, provided
  the prompt's own vector is within the threshold of itself.\<close>

theorem l2_stored_is_found:
  assumes "exact_l2_service le" and "fst (store_rpc le f q c rows) = Inr b"
    and "embed_prompt le (cq_prompt q) = Inr v" and "le_lt le (le_dist le v v) (max_distance le)"
  shows "\<exists>c'. l2_answer le Delivered (l2_run le evs (snd (store_rpc le f q c rows))) q = L2Reply True c'"
proof -
  let ?rq = "\<lparr>lr_tenant_id = cq_tenant q, lr_model = cq_model q, lr_prompt = cq_prompt q\<rparr>"
  have "\<exists>r \<in> set (snd (store_rpc le f q c rows)). sc_tenant r = tenant_uuid le (cq_tenant q) \<and>
      sc_hash r = compute_ast_hash le (cq_prompt q) \<and> sc_embedding r = v \<and> length v = embedding_size"
    using assms(2,3) by (auto simp: store_rpc_def store_response_def store_row_def insertable_def Let_def
        split: sum.splits prod.splits if_splits)
  then obtain r where r: "r \<in> set (l2_run le evs (snd (store_rpc le f q c rows)))"
    "sc_tenant r = tenant_uuid le (lr_tenant_id ?rq)" "sc_hash r = compute_ast_hash le (lr_prompt ?rq)"
    "sc_embedding r = v" "length v = embedding_size"
    using l2_run_keeps by fastforce
  have "\<exists>c'. check_cache le Delivered ?rq (l2_run le evs (snd (store_rpc le f q c rows))) = Inr (Some c')"
    using r assms(3,4)
    by (intro exact_l2_service.near_row_hits [OF assms(1) r(1,2,3)]) (simp_all add: row_distance_def)
  then show ?thesis by (auto simp: l2_answer_def lookup_rpc_def)
qed

lemma model_unused:
  assumes "lr_tenant_id a = lr_tenant_id b" "lr_prompt a = lr_prompt b"
  shows "check_cache le f a rows = check_cache le f b rows"
  unfolding check_cache_def assms ..

lemma model_not_stored:
  assumes "sr_tenant_id a = sr_tenant_id b" "sr_prompt a = sr_prompt b" "sr_response a = sr_response b"
  shows "store_response le f a rows = store_response le f b rows"
  unfolding store_response_def assms ..

text \<open>The model does not matter: the service neither stores nor looks at the model of a request, so the
  answer of one model is served to a request for another.\<close>

theorem l2_ignores_model:
  "l2_answer le f rows (q\<lparr>cq_model := m\<rparr>) = l2_answer le f rows q \<and>
   store_rpc le f (q\<lparr>cq_model := m\<rparr>) c rows = store_rpc le f q c rows"
proof -
  have "check_cache le f \<lparr>lr_tenant_id = cq_tenant q, lr_model = m, lr_prompt = cq_prompt q\<rparr> rows =
      check_cache le f \<lparr>lr_tenant_id = cq_tenant q, lr_model = cq_model q, lr_prompt = cq_prompt q\<rparr> rows"
    by (rule model_unused) simp_all
  moreover have "store_response le f \<lparr>sr_tenant_id = cq_tenant q, sr_model = m, sr_prompt = cq_prompt q, sr_response = c\<rparr> rows =
      store_response le f \<lparr>sr_tenant_id = cq_tenant q, sr_model = cq_model q, sr_prompt = cq_prompt q, sr_response = c\<rparr> rows"
    by (rule model_not_stored) simp_all
  ultimately show ?thesis by (simp add: l2_answer_def lookup_rpc_def store_rpc_def)
qed

section \<open>A concrete service\<close>

definition le_sample :: l2_env where
  "le_sample = exact_env \<lparr>le_run = (\<lambda>s. EmbedOk [replicate 384 (of_nat (length s))]), le_xxh = (\<lambda>s. of_nat (length s)),
     le_alnum = (\<lambda>c. c \<noteq> ''?''), le_uuid = (\<lambda>s. if s = ''t'' then Some ''t'' else None), le_tenants = [''t''],
     le_G = \<lparr>g_add = (+), g_mul = (*), g_div = (div), g_sub = (-), g_sqrt = id, g_ge = (\<ge>), g_gt = (>), g_dec = (\<lambda>m e. of_int m)\<rparr>,
     le_wide = ucast, le_score = ucast, le_lt = (<), le_dist = (\<lambda>a b. if a = b then 0 else 2), le_search = (\<lambda>v m rs. None)\<rparr>"

definition cq_sample :: cache_request where
  "cq_sample = \<lparr>cq_tenant = ''t'', cq_model = ''m'', cq_prompt = ''why?'', cq_trace = trace_sample\<rparr>"

lemma cq_sample_simps [simp]: "cq_tenant cq_sample = ''t''" "cq_model cq_sample = ''m''" "cq_prompt cq_sample = ''why?''"
  by (simp_all add: cq_sample_def)

lemma le_sample_services: "l2_service le_sample" "exact_l2_service le_sample"
  unfolding le_sample_def by (rule exact.l2_service_axioms, rule exact.exact_l2_service_axioms)

lemma store_sample_ok: "fst (store_rpc le_sample Delivered cq_sample ''answer'' rows) = Inr True"
  by (simp add: store_rpc_def store_response_def store_row_def insertable_def embed_prompt_def first_of_def le_sample_def cq_sample_def
      exact_env_def tenant_uuid_def embedding_size_def Let_def)

lemma embed_sample: "embed_prompt le_sample (cq_prompt cq_sample) = Inr (replicate 384 4)"
  by (simp add: embed_prompt_def first_of_def le_sample_def cq_sample_def exact_env_def)

lemma distance_sample: "le_lt le_sample (le_dist le_sample v v) (max_distance le_sample)"
  by (simp add: max_distance_def le_sample_def exact_env_def)

lemma l2_stored_is_found_witness:
  "\<exists>c'. l2_answer le_sample Delivered (snd (store_rpc le_sample Delivered cq_sample ''answer'' [])) cq_sample = L2Reply True c'"
  using l2_stored_is_found [OF le_sample_services(2) store_sample_ok embed_sample distance_sample, of "[]" "[]"]
  by (simp add: l2_run_def)

lemma sample_hit:
  "\<exists>c. check_cache le_sample Delivered \<lparr>lr_tenant_id = ''t'', lr_model = ''m'', lr_prompt = ''why?''\<rparr>
     (snd (store_rpc le_sample Delivered cq_sample ''answer'' [])) = Inr (Some c)"
proof -
  let ?r = "\<lparr>sc_tenant = ''t'', sc_hash = compute_ast_hash le_sample ''why?'', sc_prompt = ''why?'', sc_content = ''answer'',
    sc_embedding = replicate 384 4\<rparr>"
  have "snd (store_rpc le_sample Delivered cq_sample ''answer'' []) = [?r]"
    using embed_sample by (simp add: store_rpc_def store_response_def store_row_def cq_sample_def insertable_def tenant_uuid_def
        embedding_size_def le_sample_def exact_env_def Let_def)
  then show ?thesis
    using embed_sample distance_sample
    by (intro exact_l2_service.near_row_hits [OF le_sample_services(2), where r = ?r and v = "replicate 384 4"])
      (simp_all add: cq_sample_def row_distance_def embedding_size_def, simp add: tenant_uuid_def le_sample_def exact_env_def)
qed

lemma l2_hit_is_own_witness:
  "\<exists>content p u. fst (cache_stage ev_sample
      (re_sample\<lparr>re_l2 := l2_answer le_sample Delivered (l2_run le_sample [(Delivered, RpcStore cq_sample ''answer'')] [])\<rparr>)
      (pq_sample ''t'' ''why?'') st_sample) = Some content \<and>
    stored_by (RpcStore cq_sample ''answer'') = Some (''t'', p, content) \<and> le_uuid le_sample ''t'' = Some u"
proof -
  let ?evs = "[(Delivered, RpcStore cq_sample ''answer'')]" and ?q = "pq_sample ''t'' ''why?''"
  let ?re = "re_sample\<lparr>re_l2 := l2_answer le_sample Delivered (l2_run le_sample ?evs [])\<rparr>"
  have run: "l2_run le_sample ?evs [] = snd (store_rpc le_sample Delivered cq_sample ''answer'' [])"
    by (simp add: l2_run_def)
  have ans: "\<exists>c'. l2_answer le_sample Delivered (l2_run le_sample ?evs []) cq_sample = L2Reply True c'"
    using sample_hit by (auto simp: run l2_answer_def lookup_rpc_def)
  have l1: "fst (get_exact (ev_sha ev_sample) (ev_eget ev_sample) (re_time ?re) (pq_prompt ?q) (gs_l1 st_sample)) = None"
    "get_semantic (ev_G ev_sample) (ev_fmax ev_sample) (ev_emb ev_sample) (pq_prompt ?q)
      (snd (get_exact (ev_sha ev_sample) (ev_eget ev_sample) (re_time ?re) (pq_prompt ?q) (gs_l1 st_sample))) = None"
    by (simp_all add: sample_defs get_exact_def get_semantic_def idle_get_def idle_view_def)
  obtain content where hit: "fst (cache_stage ev_sample ?re ?q st_sample) = Some content"
    using ans l1 by (auto simp: cache_stage_def Let_def lookup_cache_def cq_sample_def pq_sample_def)
  from l2_hit_is_own [OF le_sample_services(1) _ _ l1 hit, of Delivered ?evs]
  have "\<exists>f' ev' t p u. (f', ev') \<in> set ?evs \<and> stored_by ev' = Some (t, p, content) \<and> le_uuid le_sample t = Some u \<and>
      le_uuid le_sample (pq_tenant ?q) = Some u"
    by (fastforce simp: le_sample_def exact_env_def nil_uuid_def)
  with hit show ?thesis by (auto simp: cq_sample_def pq_sample_def)
qed

end
