(* ===== verification/Tracer.thy ===== *)
theory Tracer
  imports Gateway_Api
begin

text \<open>
  The tracer service (\<open>redeye_tracer/src\<close>): its errors (\<open>error.rs\<close>), the ingestion of traces and
  audit records into the analytics store and the queries on them (\<open>domain/models.rs\<close>,
  \<open>usecases\<close>, \<open>infrastructure/clickhouse_repo.rs\<close>, \<open>api/handlers.rs\<close>), and the worker that keeps the
  latency ranking (\<open>infrastructure/latency_worker.rs\<close>). The store is a parameter that answers
  requests; the UUID library, the JSON library and float arithmetic are parameters too.
\<close>

section \<open>Errors\<close>

datatype tracer_error =
    TeInternal string
  | TeBadRequest string
  | TeUnauthorized string
  | TeConflict string
  | TeNotFound string
  | TeRateLimited string
  | TeUpstream string
  | TeUnavailable string

fun tracer_status :: "tracer_error \<Rightarrow> nat" where
  "tracer_status (TeInternal _) = 500"
| "tracer_status (TeBadRequest _) = 400"
| "tracer_status (TeUnauthorized _) = 401"
| "tracer_status (TeConflict _) = 409"
| "tracer_status (TeNotFound _) = 404"
| "tracer_status (TeRateLimited _) = 429"
| "tracer_status (TeUpstream _) = 502"
| "tracer_status (TeUnavailable _) = 503"

text \<open>\<open>error_code\<close> followed by \<open>as_str\<close>.\<close>

fun tracer_code :: "tracer_error \<Rightarrow> string" where
  "tracer_code (TeInternal _) = ''INTERNAL_ERROR''"
| "tracer_code (TeBadRequest _) = ''BAD_REQUEST''"
| "tracer_code (TeUnauthorized _) = ''UNAUTHORIZED''"
| "tracer_code (TeConflict _) = ''CONFLICT''"
| "tracer_code (TeNotFound _) = ''NOT_FOUND''"
| "tracer_code (TeRateLimited _) = ''RATE_LIMITED''"
| "tracer_code (TeUpstream _) = ''UPSTREAM_ERROR''"
| "tracer_code (TeUnavailable _) = ''SERVICE_UNAVAILABLE''"

fun tracer_message :: "tracer_error \<Rightarrow> string" where
  "tracer_message (TeInternal _) = ''An unexpected error occurred. Please try again later.''"
| "tracer_message (TeBadRequest m) = m"
| "tracer_message (TeUnauthorized m) = m"
| "tracer_message (TeConflict m) = m"
| "tracer_message (TeNotFound m) = m"
| "tracer_message (TeRateLimited m) = m"
| "tracer_message (TeUpstream m) = m"
| "tracer_message (TeUnavailable m) = m"

definition tracer_error_response :: "tracer_error \<Rightarrow> response" where
  "tracer_error_response e = json_response (tracer_status e) (jobject [(''error'', jobject
     [(''code'', JStr (tracer_code e)), (''message'', JStr (tracer_message e))])])"

definition tracer_error_text :: "tracer_error \<Rightarrow> string" where
  "tracer_error_text e = tracer_code e @ '': '' @ tracer_message e"

section \<open>Payloads\<close>

record trace_payload =
  tp_trace_id :: string
  tp_session_id :: string
  tp_parent :: "string option"
  tp_tenant :: string
  tp_model :: string
  tp_status :: u16
  tp_latency :: u32
  tp_tokens :: u32
  tp_cache_hit :: bool
  tp_prompt :: string
  tp_response :: string

fun de_u16 :: "json \<Rightarrow> u16 option" where
  "de_u16 (JNum (PosInt n)) = (if unat n < 2 ^ 16 then Some (ucast n) else None)"
| "de_u16 _ = None"

definition trace_fields :: "string list" where
  "trace_fields = [''trace_id'', ''session_id'', ''parent_trace_id'', ''tenant_id'', ''model'', ''status'',
     ''latency_ms'', ''total_tokens'', ''cache_hit'', ''prompt_content'', ''response_content'']"

definition de_trace_payload :: "json \<Rightarrow> trace_payload option" where
  "de_trace_payload v =
     Option.bind (struct_view trace_fields v) (\<lambda>g.
     Option.bind (de_req as_str (g ''trace_id'')) (\<lambda>trace.
     Option.bind (de_req as_str (g ''session_id'')) (\<lambda>session.
     Option.bind (de_opt as_str (g ''parent_trace_id'')) (\<lambda>parent.
     Option.bind (de_req as_str (g ''tenant_id'')) (\<lambda>tenant.
     Option.bind (de_req as_str (g ''model'')) (\<lambda>model.
     Option.bind (de_req de_u16 (g ''status'')) (\<lambda>status.
     Option.bind (de_req de_u32 (g ''latency_ms'')) (\<lambda>latency.
     Option.bind (de_req de_u32 (g ''total_tokens'')) (\<lambda>tokens.
     Option.bind (de_req as_bool (g ''cache_hit'')) (\<lambda>hit.
     Option.bind (de_req as_str (g ''prompt_content'')) (\<lambda>prompt.
     Option.bind (de_req as_str (g ''response_content'')) (\<lambda>resp.
     Some \<lparr>tp_trace_id = trace, tp_session_id = session, tp_parent = parent, tp_tenant = tenant, tp_model = model,
       tp_status = status, tp_latency = latency, tp_tokens = tokens, tp_cache_hit = hit, tp_prompt = prompt,
       tp_response = resp\<rparr>))))))))))))"

record trace_query =
  tq_session_id :: "string option"
  tq_tenant_id :: "string option"
  tq_limit :: "u32 option"

record audit_query =
  aq_tenant_id :: "string option"
  aq_session_id :: "string option"
  aq_limit :: "u32 option"

section \<open>The store\<close>

record tracer_env =
  te_sd :: serde
  te_url :: string
  te_uuid :: "string \<Rightarrow> string option"
  te_lossy :: "string \<Rightarrow> string"

type_synonym analytics = "nat \<Rightarrow> upstream_req \<Rightarrow> http_result"

type_synonym 'a tracer = "upstream_req list \<Rightarrow> (string + 'a) \<times> upstream_req list"

definition tr_bind :: "'a tracer \<Rightarrow> ('a \<Rightarrow> 'b tracer) \<Rightarrow> 'b tracer" where
  "tr_bind m f sent = (case m sent of (Inl e, sent1) \<Rightarrow> (Inl e, sent1) | (Inr x, sent1) \<Rightarrow> f x sent1)"

text \<open>\<open>text().await.unwrap_or_default()\<close>.\<close>

definition response_text :: "tracer_env \<Rightarrow> http_response \<Rightarrow> string" where
  "response_text te r = (case body_bytes (hr_body r) of Inl _ \<Rightarrow> [] | Inr b \<Rightarrow> te_lossy te b)"

text \<open>One request: the texts of transport errors are left out.\<close>

definition send_store :: "tracer_env \<Rightarrow> analytics \<Rightarrow> upstream_req \<Rightarrow> http_response tracer" where
  "send_store te ch rq sent =
     (case ch (length sent) rq of
        HErr e \<Rightarrow> (Inl [], sent @ [rq])
      | HOk r \<Rightarrow> (if is_success (hr_status r) then Inr r else Inl (response_text te r), sent @ [rq]))"

definition build_url :: "tracer_env \<Rightarrow> string \<Rightarrow> string" where
  "build_url te extra = te_url te @ (if contains_str (te_url te) ''?'' then ''&'' else ''?'') @ extra"

definition insert_request :: "tracer_env \<Rightarrow> string \<Rightarrow> json \<Rightarrow> upstream_req" where
  "insert_request te table row =
     \<lparr>ur_url = build_url te (''query=INSERT INTO '' @ table @ '' FORMAT JSONEachRow''),
      ur_headers = [(''content-type'', ''application/json'')], ur_body = print_value (te_sd te) row\<rparr>"

definition insert_row :: "tracer_env \<Rightarrow> analytics \<Rightarrow> string \<Rightarrow> json \<Rightarrow> unit tracer" where
  "insert_row te ch table row = tr_bind (send_store te ch (insert_request te table row)) (\<lambda>_ sent. (Inr (), sent))"

definition run_query :: "tracer_env \<Rightarrow> analytics \<Rightarrow> string \<Rightarrow> json tracer" where
  "run_query te ch q = tr_bind (send_store te ch \<lparr>ur_url = te_url te, ur_headers = [], ur_body = q\<rparr>)
     (\<lambda>r sent. (ok_or (reply_json (te_sd te) r) [], sent))"

definition trace_record :: "trace_payload \<Rightarrow> json" where
  "trace_record p = jobject
     [(''trace_id'', JStr (tp_trace_id p)), (''session_id'', JStr (tp_session_id p)),
      (''parent_trace_id'', opt_json (tp_parent p)), (''tenant_id'', JStr (tp_tenant p)),
      (''model'', JStr (tp_model p)), (''status'', jnat (ucast (tp_status p))), (''latency_ms'', jnat (ucast (tp_latency p))),
      (''total_tokens'', jnat (ucast (tp_tokens p))), (''cache_hit'', JBool (tp_cache_hit p))]"

definition audit_record_json :: "trace_payload \<Rightarrow> json" where
  "audit_record_json p = jobject
     [(''trace_id'', JStr (tp_trace_id p)), (''session_id'', JStr (tp_session_id p)), (''tenant_id'', JStr (tp_tenant p)),
      (''prompt_content'', JStr (tp_prompt p)), (''response_content'', JStr (tp_response p)), (''model'', JStr (tp_model p))]"

definition traces_table :: string where "traces_table = ''RedEye_telemetry.agent_traces''"
definition audit_table :: string where "audit_table = ''RedEye_telemetry.compliance_audit_log''"

definition insert_trace :: "tracer_env \<Rightarrow> analytics \<Rightarrow> trace_payload \<Rightarrow> unit tracer" where
  "insert_trace te ch p = insert_row te ch traces_table (trace_record p)"

definition insert_audit :: "tracer_env \<Rightarrow> analytics \<Rightarrow> trace_payload \<Rightarrow> unit tracer" where
  "insert_audit te ch p = insert_row te ch audit_table (audit_record_json p)"

text \<open>A query for the rows of one UUID, whose text is the library's hyphenated form.\<close>

definition rows_query :: "string \<Rightarrow> string \<Rightarrow> string \<Rightarrow> u32 \<Rightarrow> string" where
  "rows_query table column u limit =
     ''SELECT * FROM '' @ table @ '' WHERE '' @ column @ '' = '' @ squote @ u @ squote @
     '' ORDER BY created_at DESC LIMIT '' @ show_nat (unat limit) @ '' FORMAT JSON''"

definition query_traces :: "tracer_env \<Rightarrow> analytics \<Rightarrow> string \<Rightarrow> u32 \<Rightarrow> json tracer" where
  "query_traces te ch session limit =
     (case te_uuid te session of
        None \<Rightarrow> (\<lambda>sent. (Inl ''Invalid session_id format: '', sent))
      | Some u \<Rightarrow> run_query te ch (rows_query traces_table ''session_id'' u limit))"

definition query_audit :: "tracer_env \<Rightarrow> analytics \<Rightarrow> string \<Rightarrow> u32 \<Rightarrow> json tracer" where
  "query_audit te ch tenant limit =
     (case te_uuid te tenant of
        None \<Rightarrow> (\<lambda>sent. (Inl ''Invalid tenant_id format: '', sent))
      | Some u \<Rightarrow> run_query te ch (rows_query audit_table ''tenant_id'' u limit))"

definition ingest_trace :: "tracer_env \<Rightarrow> analytics \<Rightarrow> trace_payload \<Rightarrow> unit tracer" where
  "ingest_trace te ch p = tr_bind (insert_trace te ch p) (\<lambda>_. insert_audit te ch p)"

section \<open>Handlers\<close>

type_synonym tracer_page = "upstream_req list \<Rightarrow> response \<times> upstream_req list"

text \<open>A use case whose error becomes an internal one.\<close>

definition tracer_reply :: "string \<Rightarrow> ('a \<Rightarrow> json) \<Rightarrow> 'a tracer \<Rightarrow> tracer_page" where
  "tracer_reply what f m sent =
     (case m sent of
        (Inl e, sent1) \<Rightarrow> (tracer_error_response (TeInternal (what @ e)), sent1)
      | (Inr x, sent1) \<Rightarrow> (json_response 200 (f x), sent1))"

definition ingest_handler :: "tracer_env \<Rightarrow> analytics \<Rightarrow> trace_payload \<Rightarrow> tracer_page" where
  "ingest_handler te ch p = tracer_reply ''Failed to ingest trace: '' (\<lambda>_. jobject [(''ingested'', JBool True)]) (ingest_trace te ch p)"

definition default_limit :: "u32 option \<Rightarrow> u32" where
  "default_limit l = (case l of None \<Rightarrow> 50 | Some n \<Rightarrow> n)"

definition traces_handler :: "tracer_env \<Rightarrow> analytics \<Rightarrow> trace_query \<Rightarrow> tracer_page" where
  "traces_handler te ch q =
     (let session = str_or [] (tq_session_id q) in
      if session = [] then (\<lambda>sent. (tracer_error_response (TeBadRequest ''session_id query parameter is required''), sent))
      else tracer_reply ''Failed to query traces: '' id (query_traces te ch session (default_limit (tq_limit q))))"

definition audit_handler :: "tracer_env \<Rightarrow> analytics \<Rightarrow> audit_query \<Rightarrow> tracer_page" where
  "audit_handler te ch q =
     (let tenant = str_or [] (aq_tenant_id q) in
      if tenant = [] then (\<lambda>sent. (tracer_error_response (TeBadRequest ''tenant_id query parameter is required''), sent))
      else tracer_reply ''Failed to query audit: '' id (query_audit te ch tenant (default_limit (aq_limit q))))"

section \<open>Compliance metrics\<close>

fun parsed_u64 :: "json \<Rightarrow> u64 option" where
  "parsed_u64 (JStr s) = parse_u64 s"
| "parsed_u64 (JNum n) = as_u64 (JNum n)"
| "parsed_u64 _ = None"

definition parse_u64_field :: "json \<Rightarrow> string \<Rightarrow> u64" where
  "parse_u64_field v field =
     (case Option.bind (Option.bind (Option.bind (Option.bind (jget v ''data'') as_arr) first_of)
         (\<lambda>row. jget row field)) parsed_u64 of
        None \<Rightarrow> 0 | Some n \<Rightarrow> n)"

record region_count =
  rg_region :: string
  rg_count :: u64

definition parse_region_row :: "json \<Rightarrow> region_count option" where
  "parse_region_row row =
     Option.bind (Option.bind (jget row ''detected_region'') as_str) (\<lambda>region.
     Option.bind (Option.bind (jget row ''cnt'') parsed_u64) (\<lambda>n.
     Some \<lparr>rg_region = region, rg_count = n\<rparr>))"

definition parse_region_breakdown :: "json \<Rightarrow> region_count list" where
  "parse_region_breakdown v =
     (case Option.bind (jget v ''data'') as_arr of None \<Rightarrow> [] | Some rows \<Rightarrow> List.map_filter parse_region_row rows)"

definition indent :: "nat \<Rightarrow> string \<Rightarrow> string" where
  "indent n s = replicate n (CHR 0x20) @ s"

text \<open>A raw string literal: its lines, each on a line of its own, and the indentation before the closing quote.\<close>

definition raw_block :: "nat \<Rightarrow> nat \<Rightarrow> string list \<Rightarrow> string" where
  "raw_block n m ls = concat (map (\<lambda>l. CHR 0x0A # indent n l) ls) @ CHR 0x0A # indent m []"

definition sql_lines :: "string list \<Rightarrow> string" where
  "sql_lines = raw_block 8 4"

definition metrics_table :: string where "metrics_table = ''RedEye_telemetry.compliance_engine_metrics''"

definition total_metrics_query :: string where
  "total_metrics_query = sql_lines [''SELECT count() AS total'', ''FROM '' @ metrics_table, ''FORMAT JSON'']"

definition blocks_query :: string where
  "blocks_query = sql_lines [''SELECT count() AS total'', ''FROM '' @ metrics_table,
     ''WHERE compliance_action = 'GEO_BLOCKED'' @ squote, ''FORMAT JSON'']"

definition redactions_query :: string where
  "redactions_query = sql_lines [''SELECT sum(entity_count) AS total'', ''FROM '' @ metrics_table,
     ''WHERE compliance_action = 'PII_MASKED'' @ squote, ''FORMAT JSON'']"

definition region_query :: string where
  "region_query = sql_lines [''SELECT detected_region, count() AS cnt'', ''FROM '' @ metrics_table,
     ''WHERE detected_region != '' @ squote @ squote, ''GROUP BY detected_region'', ''ORDER BY cnt DESC'', ''FORMAT JSON'']"

definition region_json :: "region_count \<Rightarrow> json" where
  "region_json r = jobject [(''region'', JStr (rg_region r)), (''count'', jnat (rg_count r))]"

text \<open>\<open>raw_query(...).await.map(f).unwrap_or(default)\<close>.\<close>

definition metric :: "tracer_env \<Rightarrow> analytics \<Rightarrow> string \<Rightarrow> (json \<Rightarrow> 'a) \<Rightarrow> 'a \<Rightarrow> upstream_req list \<Rightarrow> 'a \<times> upstream_req list" where
  "metric te ch q f d sent =
     (case run_query te ch q sent of (Inl _, sent1) \<Rightarrow> (d, sent1) | (Inr v, sent1) \<Rightarrow> (f v, sent1))"

definition compliance_metrics_handler :: "tracer_env \<Rightarrow> analytics \<Rightarrow> tracer_page" where
  "compliance_metrics_handler te ch sent =
     (let (scanned, s1) = metric te ch total_metrics_query (\<lambda>v. parse_u64_field v ''total'') 0 sent;
          (blocks, s2) = metric te ch blocks_query (\<lambda>v. parse_u64_field v ''total'') 0 s1;
          (redactions, s3) = metric te ch redactions_query (\<lambda>v. parse_u64_field v ''total'') 0 s2;
          (regions, s4) = metric te ch region_query parse_region_breakdown [] s3
      in (json_response 200 (jobject [(''total_scanned'', jnat scanned), (''dpdp_blocks'', jnat blocks),
            (''pii_redactions'', jnat redactions), (''region_breakdown'', JArr (map region_json regions))]), s4))"

definition tracer_health :: response where
  "tracer_health = json_response 200 (jobject [(''status'', JStr ''ok''), (''service'', JStr ''redeye_tracer'')])"

section \<open>Routes\<close>

text \<open>The route table; no layer in front of it looks at a credential.\<close>

datatype tracer_event =
    TrIngest trace_payload
  | TrTraces trace_query
  | TrAudit audit_query
  | TrMetrics
  | TrHealth

fun tracer_route :: "tracer_env \<Rightarrow> analytics \<Rightarrow> tracer_event \<Rightarrow> tracer_page" where
  "tracer_route te ch (TrIngest p) = ingest_handler te ch p"
| "tracer_route te ch (TrTraces q) = traces_handler te ch q"
| "tracer_route te ch (TrAudit q) = audit_handler te ch q"
| "tracer_route te ch TrMetrics = compliance_metrics_handler te ch"
| "tracer_route te ch TrHealth = (\<lambda>sent. (tracer_health, sent))"

text \<open>A body posted to the ingestion route; extra fields are passed over.\<close>

definition posted_event :: "tracer_env \<Rightarrow> string \<Rightarrow> tracer_event option" where
  "posted_event te b = map_option TrIngest (Option.bind (parse_value (te_sd te) b) de_trace_payload)"

section \<open>Schema\<close>

text \<open>Statements of the start-up, sent one after another up to the first that fails.\<close>

definition database_ddl :: string where
  "database_ddl = ''CREATE DATABASE IF NOT EXISTS RedEye_telemetry;''"

definition traces_ddl :: string where
  "traces_ddl = raw_block 12 8
     [''CREATE TABLE IF NOT EXISTS '' @ traces_table @ '' ('',
      ''    trace_id UUID, session_id UUID, parent_trace_id Nullable(UUID),'',
      ''    tenant_id String, model String, status UInt16, latency_ms UInt32,'',
      ''    prompt_tokens UInt32 DEFAULT 0, completion_tokens UInt32 DEFAULT 0,'',
      ''    total_tokens UInt32 DEFAULT 0, cache_hit Bool DEFAULT false,'',
      ''    created_at DateTime DEFAULT now()'',
      '') ENGINE = MergeTree ORDER BY (session_id, created_at)'',
      ''TTL created_at + INTERVAL 180 DAY;'']"

definition audit_ddl :: string where
  "audit_ddl = raw_block 12 8
     [''CREATE TABLE IF NOT EXISTS '' @ audit_table @ '' ('',
      ''    trace_id UUID, session_id UUID, tenant_id String,'',
      ''    prompt_content String, response_content String, model String,'',
      ''    flagged Bool DEFAULT false, flag_reason String DEFAULT '' @ squote @ squote @ '','',
      ''    created_at DateTime DEFAULT now()'',
      '') ENGINE = MergeTree ORDER BY (tenant_id, created_at)'',
      ''TTL created_at + INTERVAL 365 DAY;'']"

definition metrics_ddl :: string where
  "metrics_ddl = raw_block 12 8
     [''CREATE TABLE IF NOT EXISTS '' @ metrics_table @ '' ('',
      ''    trace_id          UUID,'',
      ''    tenant_id         String,'',
      ''    compliance_action String,'',
      ''    detected_region   String,'',
      ''    entity_type       String  DEFAULT '' @ squote @ squote @ '','',
      ''    entity_count      UInt32  DEFAULT 0,'',
      ''    created_at        DateTime DEFAULT now()'',
      '') ENGINE = MergeTree ORDER BY (tenant_id, created_at)'',
      ''TTL created_at + INTERVAL 90 DAY;'']"

fun send_ddl :: "tracer_env \<Rightarrow> analytics \<Rightarrow> string list \<Rightarrow> unit tracer" where
  "send_ddl te ch [] = (\<lambda>sent. (Inr (), sent))"
| "send_ddl te ch (q # qs) =
     tr_bind (send_store te ch \<lparr>ur_url = te_url te, ur_headers = [], ur_body = q\<rparr>) (\<lambda>_. send_ddl te ch qs)"

definition ensure_schema :: "tracer_env \<Rightarrow> analytics \<Rightarrow> unit tracer" where
  "ensure_schema te ch = send_ddl te ch [database_ddl, traces_ddl, audit_ddl, metrics_ddl]"

end
