(* ===== verification/Tracer_Properties.thy ===== *)
theory Tracer_Properties
  imports Tracer Proxy_Properties Admin_Properties
begin

text \<open>
  Properties of the tracer service: what becomes of a trace the gateway sends, the outcome of an
  ingestion, and what a reader can make the service ask of the store.
\<close>

section \<open>Ingestion\<close>

text \<open>A trace with a 16-bit status survives the JSON between the two services.\<close>

definition payload_of :: "telemetry_job \<Rightarrow> string \<Rightarrow> trace_payload" where
  "payload_of j content =
     \<lparr>tp_trace_id = tr_trace_id (tj_trace j), tp_session_id = tr_session_id (tj_trace j),
      tp_parent = tr_parent (tj_trace j), tp_tenant = tj_tenant j, tp_model = tj_model j,
      tp_status = of_nat (tj_status j), tp_latency = tj_latency j, tp_tokens = tj_tokens j,
      tp_cache_hit = tj_cache_hit j, tp_prompt = tj_prompt j, tp_response = content\<rparr>"

lemma de_u16_of_nat: "n < 2 ^ 16 \<Longrightarrow> de_u16 (jnat (of_nat n)) = Some (of_nat n)"
proof -
  assume n: "n < 2 ^ 16"
  then have u: "unat (of_nat n :: u64) = n" by (simp add: unat_of_nat)
  moreover have "(ucast (of_nat n :: u64) :: u16) = of_nat n"
    by (rule word_unat_eq_iff [THEN iffD2]) (use n u in \<open>simp add: unsigned_ucast_eq unat_of_nat take_bit_nat_def\<close>)
  ultimately show ?thesis using n by (simp add: jnat_def)
qed

lemma de_u32_jnat: "de_u32 (jnat (ucast (n :: u32))) = Some n"
  using de_u32_ser [of n] by (simp add: json_u32_def)

lemma de_opt_json: "de_opt as_str (Some (opt_json x)) = Some x"
  by (cases x) (simp_all add: de_opt_def opt_json_def)

lemma trace_row_read: "tj_status j < 2 ^ 16 \<Longrightarrow> de_trace_payload (trace_row j content) = Some (payload_of j content)"
  by (simp add: de_trace_payload_def trace_row_def struct_view_jobject de_req_def de_u16_of_nat de_u32_jnat de_opt_json
      payload_of_def)

text \<open>Whether the store takes request number \<open>n\<close>.\<close>

definition accepts :: "analytics \<Rightarrow> nat \<Rightarrow> upstream_req \<Rightarrow> bool" where
  "accepts ch n rq \<longleftrightarrow> (case ch n rq of HErr e \<Rightarrow> False | HOk r \<Rightarrow> is_success (hr_status r))"

lemma send_store_accepts:
  "\<exists>e. send_store te ch rq sent =
     (if accepts ch (length sent) rq then (Inr (case ch (length sent) rq of HOk r \<Rightarrow> r), sent @ [rq]) else (Inl e, sent @ [rq]))"
  by (auto simp: send_store_def accepts_def split: http_result.split)

lemma insert_row_accepts:
  "\<exists>e. insert_row te ch table row sent =
     (if accepts ch (length sent) (insert_request te table row) then Inr () else Inl e, sent @ [insert_request te table row])"
  using send_store_accepts [of te ch "insert_request te table row" sent]
  by (auto simp: insert_row_def tr_bind_def split: if_splits)

abbreviation trace_insert :: "tracer_env \<Rightarrow> trace_payload \<Rightarrow> upstream_req" where
  "trace_insert te p \<equiv> insert_request te traces_table (trace_record p)"

abbreviation audit_insert :: "tracer_env \<Rightarrow> trace_payload \<Rightarrow> upstream_req" where
  "audit_insert te p \<equiv> insert_request te audit_table (audit_record_json p)"

lemma ingest_cases:
  fixes te ch p sent
  defines "a \<equiv> accepts ch (length sent) (trace_insert te p)"
    and "b \<equiv> accepts ch (Suc (length sent)) (audit_insert te p)"
  shows "\<exists>e. ingest_trace te ch p sent =
    (if a \<and> b then Inr () else Inl e, sent @ trace_insert te p # (if a then [audit_insert te p] else []))"
  using insert_row_accepts [of te ch traces_table "trace_record p" sent]
    insert_row_accepts [of te ch audit_table "audit_record_json p" "sent @ [trace_insert te p]"]
  by (auto simp: a_def b_def ingest_trace_def tr_bind_def insert_trace_def insert_audit_def)

text \<open>An ingestion is acknowledged exactly when both rows were taken: the trace row is sent first, the
  audit row only after it was taken; a failure of either is answered with the same error,
  which shows nothing of the store's text, and a trace row already taken stays.\<close>

theorem ingest_outcome:
  "fst (ingest_handler te ch p sent) =
     (if accepts ch (length sent) (insert_request te traces_table (trace_record p)) \<and>
         accepts ch (Suc (length sent)) (insert_request te audit_table (audit_record_json p))
      then json_response 200 (jobject [(''ingested'', JBool True)])
      else tracer_error_response (TeInternal [])) \<and>
   snd (ingest_handler te ch p sent) =
     sent @ insert_request te traces_table (trace_record p) #
       (if accepts ch (length sent) (insert_request te traces_table (trace_record p))
        then [insert_request te audit_table (audit_record_json p)] else [])"
proof -
  have "tracer_error_response (TeInternal m) = tracer_error_response (TeInternal [])" for m
    by (simp add: tracer_error_response_def)
  then show ?thesis
    using ingest_cases [where te = te and ch = ch and p = p and sent = sent]
    by (auto simp: ingest_handler_def tracer_reply_def)
qed

text \<open>The jobs a call leaves carry its own tenant, prompt and trace.\<close>

fun job_of :: "proxy_request \<Rightarrow> job \<Rightarrow> bool" where
  "job_of q (TelemetryJob j) = (tj_prompt j = pq_prompt q \<and> tj_tenant j = pq_tenant q \<and> tj_trace j = pq_trace q)"
| "job_of q (StreamJob j cs) = (tj_prompt j = pq_prompt q \<and> tj_tenant j = pq_tenant q \<and> tj_trace j = pq_trace q)"
| "job_of q (SendJob v) = True"

definition adds_jobs :: "proxy_request \<Rightarrow> ('s, 'c, 'e) gw_state \<Rightarrow> ('s, 'c, 'e) gw_state \<Rightarrow> bool" where
  "adds_jobs q st st' \<longleftrightarrow> (\<exists>js. gs_jobs st' = gs_jobs st @ js \<and> list_all (job_of q) js)"

lemma adds_jobs_refl: "gs_jobs st' = gs_jobs st \<Longrightarrow> adds_jobs q st st'"
  by (simp add: adds_jobs_def)

lemma adds_jobs_spawn: "adds_jobs q st st1 \<Longrightarrow> job_of q j \<Longrightarrow> adds_jobs q st (spawn_job j st1)"
  unfolding adds_jobs_def spawn_job_def by force

lemma send_jobs [simp]:
  "gs_jobs (send_telemetry p st) = gs_jobs st"
  "gs_jobs (send_trace_to_tracer p st) = gs_jobs st"
  by (simp_all add: send_telemetry_def send_trace_to_tracer_def)

lemma early_jobs [simp]:
  "gs_jobs (snd (redact_stage ev re q st)) = gs_jobs st"
  "gs_jobs (snd (cache_stage ev re q st)) = gs_jobs st"
  "gs_jobs (snd (preflight ev re q v st)) = gs_jobs st"
  "gs_jobs (snd (burn_stage ev re q st)) = gs_jobs st"
  by (simp_all add: redact_stage_def cache_stage_def preflight_def burn_stage_def Let_def split: option.split)

lemma admission_jobs [simp]: "gs_jobs (snd (admission_stage ev re q v st)) = gs_jobs st"
  by (simp add: admission_stage_def report_blocked_def Let_def split: option.split sum.split)

lemma fan_out_jobs: "adds_jobs q st (fan_out_stage ev re t b st)"
  by (auto simp: fan_out_stage_def Let_def adds_jobs_def spawn_job_def send_telemetry_def)

lemma buffered_jobs: "adds_jobs q st (snd (handle_buffered_response ev re q r a b st))"
proof (cases "body_bytes (hr_body r)")
  case (Inr raw)
  have "adds_jobs q st (f\<lparr>gs_redis := x\<rparr>)" if "adds_jobs q st f" for f x using that by (simp add: adds_jobs_def)
  with Inr show ?thesis
    by (simp add: handle_buffered_response_def spawn_telemetry_def Let_def adds_jobs_spawn fan_out_jobs)
qed (simp add: handle_buffered_response_def adds_jobs_refl)

lemma upstream_jobs: "adds_jobs q st (snd (upstream_stage ev re q body v prep st))"
proof -
  have base: "adds_jobs q st st2" if "adds_jobs q (st\<lparr>gs_breaker := x, gs_upstream := y\<rparr>) st2" for st2 x y
    using that by (simp add: adds_jobs_def)
  show ?thesis
    by (auto simp: upstream_stage_def handle_streaming_response_def Let_def split: sum.split
        intro!: base [OF buffered_jobs] adds_jobs_spawn intro: adds_jobs_refl)
qed

lemma pipeline_jobs: "adds_jobs q st (snd (execute_proxy ev re q st))"
proof (cases rule: execute_proxy_cases [of ev re q st])
  case (cached body parsed content)
  then show ?thesis by (simp add: handle_cache_hit_def spawn_telemetry_def Let_def adds_jobs_spawn adds_jobs_refl)
next
  case (admitted body parsed v prep)
  with upstream_jobs [of q "snd (admission_stage ev re q v (snd (cache_stage ev re q (snd (redact_stage ev re q st)))))"]
  show ?thesis by (simp add: adds_jobs_def)
qed (simp_all add: adds_jobs_refl)


section \<open>Reading\<close>

definition fixed_queries :: "string set" where
  "fixed_queries = {total_metrics_query, blocks_query, redactions_query, region_query}"

text \<open>A query a reader may cause: a fixed text, or the rows of one UUID of one of the two tables.\<close>

definition read_query :: "tracer_env \<Rightarrow> string \<Rightarrow> bool" where
  "read_query te b \<longleftrightarrow> b \<in> fixed_queries \<or>
     (\<exists>table column u limit. (table, column) \<in> {(traces_table, ''session_id''), (audit_table, ''tenant_id'')} \<and>
       te_uuid te u = Some u \<and> CHR 0x27 \<notin> set u \<and> b = rows_query table column u limit)"

definition reads :: "tracer_env \<Rightarrow> upstream_req list \<Rightarrow> upstream_req list \<Rightarrow> bool" where
  "reads te sent sent' \<longleftrightarrow> (\<exists>bs. sent' = sent @ map (\<lambda>b. \<lparr>ur_url = te_url te, ur_headers = [], ur_body = b\<rparr>) bs \<and>
     list_all (read_query te) bs)"

lemma reads_refl [simp]: "reads te sent sent"
  unfolding reads_def by (rule exI [of _ "[]"]) simp

lemma reads_run: "reads te sent sent1 \<Longrightarrow> read_query te b \<Longrightarrow> reads te sent (snd (run_query te ch b sent1))"
proof -
  assume r: "reads te sent sent1" and q: "read_query te b"
  have "snd (run_query te ch b sent1) = sent1 @ [\<lparr>ur_url = te_url te, ur_headers = [], ur_body = b\<rparr>]"
    using send_store_accepts [of te ch "\<lparr>ur_url = te_url te, ur_headers = [], ur_body = b\<rparr>" sent1]
    by (auto simp: run_query_def tr_bind_def split: if_splits)
  moreover from r obtain bs where "sent1 = sent @ map (\<lambda>b. \<lparr>ur_url = te_url te, ur_headers = [], ur_body = b\<rparr>) bs"
    "list_all (read_query te) bs" by (auto simp: reads_def)
  ultimately show ?thesis using q unfolding reads_def by (intro exI [of _ "bs @ [b]"]) simp
qed

lemma reads_metric: "reads te sent sent1 \<Longrightarrow> b \<in> fixed_queries \<Longrightarrow> reads te sent (snd (metric te ch b f d sent1))"
  using reads_run [of te sent sent1 b ch] by (auto simp: metric_def read_query_def split: prod.split sum.split)

lemma reads_rows:
  assumes "uuid_lib (te_uuid te)" and "te_uuid te x = Some u"
    and "(table, column) \<in> {(traces_table, ''session_id''), (audit_table, ''tenant_id'')}"
  shows "reads te sent (snd (run_query te ch (rows_query table column u limit) sent))"
proof -
  have "te_uuid te u = Some u \<and> CHR 0x27 \<notin> set u" using assms(1,2) unfolding uuid_lib_def by blast
  with assms(3) have "read_query te (rows_query table column u limit)" unfolding read_query_def by blast
  then show ?thesis by (intro reads_run) simp_all
qed

lemma snd_tracer_reply: "snd (tracer_reply what f m sent) = snd (m sent)"
  by (simp add: tracer_reply_def split: prod.split sum.split)

text \<open>What a reader can make the service ask: whatever the parameters of a request to a read route, the
  service sends the store only fixed queries and queries for the rows of one UUID, in the form
  the library prints, at the address of the store; an ingestion aside, nothing a client writes
  reaches the text of a statement.\<close>

theorem reads_are_uuid_queries:
  assumes "uuid_lib (te_uuid te)" and "\<nexists>p. e = TrIngest p"
  shows "\<exists>bs. snd (tracer_route te ch e sent) =
      sent @ map (\<lambda>b. \<lparr>ur_url = te_url te, ur_headers = [], ur_body = b\<rparr>) bs \<and> list_all (read_query te) bs"
proof -
  have "reads te sent (snd (tracer_route te ch e sent))"
  proof (cases e)
    case (TrTraces q)
    then show ?thesis
      using reads_rows [OF assms(1)]
      by (auto simp: traces_handler_def query_traces_def snd_tracer_reply Let_def split: option.split)
  next
    case (TrAudit q)
    then show ?thesis
      using reads_rows [OF assms(1)]
      by (auto simp: audit_handler_def query_audit_def snd_tracer_reply Let_def split: option.split)
  next
    case TrMetrics
    have s: "snd (case x of (a, s) \<Rightarrow> g a s) = snd (g (fst x) (snd x))" for x :: "'x \<times> 'y" and g :: "'x \<Rightarrow> 'y \<Rightarrow> 'z \<times> 'w"
      by (simp add: case_prod_beta)
    from TrMetrics show ?thesis
      by (simp add: compliance_metrics_handler_def Let_def case_prod_beta)
        (intro reads_metric reads_refl; simp add: fixed_queries_def)
  qed (use assms(2) in auto)
  then show ?thesis by (simp add: reads_def)
qed

section \<open>A concrete service\<close>

definition tr_sample :: tracer_env where
  "tr_sample = \<lparr>te_sd = sd1, te_url = ''http://store'', te_uuid = (\<lambda>s. if s = ''0a1b'' then Some ''0a1b'' else None), te_lossy = id\<rparr>"

definition taking_store :: analytics where
  "taking_store = (\<lambda>n rq. HOk \<lparr>hr_status = 200, hr_headers = [], hr_body = []\<rparr>)"

lemma accepts_store: "accepts taking_store n rq"
  by (simp add: accepts_def taking_store_def is_success_def)

lemma reads_are_uuid_queries_witness:
  "\<exists>bs. snd (tracer_route tr_sample taking_store
       (TrAudit \<lparr>aq_tenant_id = Some ''0a1b'', aq_session_id = None, aq_limit = None\<rparr>) []) =
     map (\<lambda>b. \<lparr>ur_url = ''http://store'', ur_headers = [], ur_body = b\<rparr>) bs \<and> list_all (read_query tr_sample) bs"
proof -
  have "uuid_lib (te_uuid tr_sample)" by (simp add: uuid_lib_def tr_sample_def)
  from reads_are_uuid_queries [OF this, of "TrAudit \<lparr>aq_tenant_id = Some ''0a1b'', aq_session_id = None, aq_limit = None\<rparr>"
      taking_store "[]"]
  show ?thesis by (simp add: tr_sample_def)
qed


end
