(* ===== verification/Latency_Worker.thy ===== *)
theory Latency_Worker
  imports Tracer Redis
begin

text \<open>
  The worker that keeps the latency ranking (\<open>redeye_tracer/src/infrastructure/latency_worker.rs\<close>):
  each tick asks the analytics store for the 95th percentile of every provider, smooths it into
  an exponential moving average and replaces the ranking in Redis.
\<close>

section \<open>Smoothing\<close>

text \<open>The float operations the worker needs beyond those of the gateway, and its polling interval.\<close>

record latency_env =
  le_tracer :: tracer_env
  le_F :: f64_ops
  le_add :: "f64 \<Rightarrow> f64 \<Rightarrow> f64"
  le_sub :: "f64 \<Rightarrow> f64 \<Rightarrow> f64"
  le_interval :: u64

definition default_alpha :: "latency_env \<Rightarrow> f64" where
  "default_alpha le = f_dec (le_F le) 3 1"

definition default_interval :: u64 where "default_interval = 10"

text \<open>\<open>LATENCY_WORKER_INTERVAL_SECS\<close> read from the environment.\<close>

definition interval_setting :: "string option \<Rightarrow> u64" where
  "interval_setting v = (case Option.bind v parse_u64 of None \<Rightarrow> default_interval | Some n \<Rightarrow> n)"

definition compute_ema :: "latency_env \<Rightarrow> f64 option \<Rightarrow> f64 \<Rightarrow> f64 \<Rightarrow> f64" where
  "compute_ema le previous raw alpha =
     (case previous of
        None \<Rightarrow> raw
      | Some prev \<Rightarrow> le_add le (f_mul (le_F le) alpha raw)
          (f_mul (le_F le) (le_sub le (f_dec (le_F le) 1 0) alpha) prev))"

section \<open>The measurements\<close>

definition p95_query :: "u64 \<Rightarrow> string" where
  "p95_query interval = raw_block 12 12
     [''SELECT'',
      ''    executed_provider,'',
      ''    quantile(0.95)(latency_ms) AS p95'',
      ''FROM RedEye_telemetry.request_logs'',
      ''WHERE created_at >= now() - INTERVAL '' @ show_nat (unat interval) @ '' SECOND'',
      ''  AND status = 200'',
      ''  AND executed_provider != '' @ squote @ squote,
      ''GROUP BY executed_provider'',
      ''FORMAT JSON'']"

text \<open>\<open>x > 0.0\<close>, false of a NaN.\<close>

definition positive :: "f64_ops \<Rightarrow> f64 \<Rightarrow> bool" where
  "positive F x \<longleftrightarrow> f_ge F x (f_dec F 0 0) \<and> \<not> f_ge F (f_dec F 0 0) x"

fun p95_cell :: "latency_env \<Rightarrow> json \<Rightarrow> f64 option" where
  "p95_cell le (JStr s) = Some (case f_text (le_F le) (Raw s) of None \<Rightarrow> f_dec (le_F le) 0 0 | Some x \<Rightarrow> x)"
| "p95_cell le (JNum n) = Some (case de_f64 (le_F le) (JNum n) of None \<Rightarrow> f_dec (le_F le) 0 0 | Some x \<Rightarrow> x)"
| "p95_cell le _ = None"

definition p95_row :: "latency_env \<Rightarrow> json \<Rightarrow> (string \<times> f64) option" where
  "p95_row le row =
     (case as_str (jindex row ''executed_provider'') of
        None \<Rightarrow> None
      | Some p \<Rightarrow>
          if p = [] then None
          else (case p95_cell le (jindex row ''p95'') of
                  None \<Rightarrow> None
                | Some x \<Rightarrow> if positive (le_F le) x then Some (p, x) else None))"

text \<open>The hash maps of the code, as association lists with distinct keys.\<close>

definition p95_map :: "latency_env \<Rightarrow> json \<Rightarrow> (string \<times> f64) list" where
  "p95_map le v =
     (case as_arr (jindex v ''data'') of
        None \<Rightarrow> []
      | Some rows \<Rightarrow> foldl (\<lambda>m (p, x). AList.update p x m) [] (List.map_filter (p95_row le) rows))"

definition query_p95_latencies :: "latency_env \<Rightarrow> analytics \<Rightarrow> (string \<times> f64) list tracer" where
  "query_p95_latencies le ch =
     tr_bind (run_query (le_tracer le) ch (p95_query (le_interval le))) (\<lambda>v sent. (Inr (p95_map le v), sent))"

section \<open>The ranking\<close>

definition rankings_key :: string where "rankings_key = ''redeye:latency:rankings''"
definition rankings_ttl :: nat where "rankings_ttl = 30"

definition smooth :: "latency_env \<Rightarrow> (string \<times> f64) list \<Rightarrow> (string \<times> f64) list \<Rightarrow> (string \<times> f64) list" where
  "smooth le = foldl (\<lambda>ema (p, raw). AList.update p (compute_ema le (map_of ema p) raw (default_alpha le)) ema)"

definition ranking_commands :: "(string \<times> f64) list \<Rightarrow> rcmd list" where
  "ranking_commands ema = DEL rankings_key # map (\<lambda>(p, x). ZADDF rankings_key x p) ema @ [EXPIRE rankings_key rankings_ttl]"

text \<open>The worker's averages, the server and the requests sent so far.\<close>

record 's latency_state =
  ls_ema :: "(string \<times> f64) list"
  ls_redis :: 's
  ls_sent :: "upstream_req list"
  ls_failures :: nat

text \<open>
  The transaction runs as one step of the server. The worker sees an error when the call was
  lost or one of the commands was refused.
\<close>

definition push_ranking ::
  "(nat \<Rightarrow> rcmd \<Rightarrow> 's \<Rightarrow> rval \<times> 's) \<Rightarrow> fault \<Rightarrow> nat \<Rightarrow> (string \<times> f64) list \<Rightarrow> 's \<Rightarrow> bool \<times> 's" where
  "push_ranking exec f t ema s =
     (let r = redis_call f (exec_all (exec t) (ranking_commands ema)) s
      in (case fst r of None \<Rightarrow> False | Some vs \<Rightarrow> RErr \<notin> set vs, snd r))"

definition latency_tick ::
  "latency_env \<Rightarrow> (nat \<Rightarrow> rcmd \<Rightarrow> 's \<Rightarrow> rval \<times> 's) \<Rightarrow> analytics \<Rightarrow> fault \<Rightarrow> nat \<Rightarrow>
   's latency_state \<Rightarrow> bool \<times> 's latency_state" where
  "latency_tick le exec ch f t w =
     (case query_p95_latencies le ch (ls_sent w) of
        (Inl e, sent) \<Rightarrow> (False, w\<lparr>ls_sent := sent\<rparr>)
      | (Inr raw, sent) \<Rightarrow>
          if raw = [] then (True, w\<lparr>ls_sent := sent\<rparr>)
          else
            let ema = smooth le (ls_ema w) raw
            in if ema = [] then (True, w\<lparr>ls_ema := ema, ls_sent := sent\<rparr>)
               else let (pushed, s) = push_ranking exec f t ema (ls_redis w)
                    in (pushed, w\<lparr>ls_ema := ema, ls_redis := s, ls_sent := sent\<rparr>))"

text \<open>One turn of the loop, which counts the failures in a row.\<close>

definition latency_turn ::
  "latency_env \<Rightarrow> (nat \<Rightarrow> rcmd \<Rightarrow> 's \<Rightarrow> rval \<times> 's) \<Rightarrow> analytics \<Rightarrow> fault \<Rightarrow> nat \<Rightarrow>
   's latency_state \<Rightarrow> 's latency_state" where
  "latency_turn le exec ch f t w =
     (let (ok, w1) = latency_tick le exec ch f t w
      in w1\<lparr>ls_failures := (if ok then 0 else Suc (ls_failures w))\<rparr>)"

definition latency_start :: "'s \<Rightarrow> 's latency_state" where
  "latency_start s = \<lparr>ls_ema = [], ls_redis = s, ls_sent = [], ls_failures = 0\<rparr>"

text \<open>A run: at each turn the clock of the server and the fate of the call.\<close>

fun latency_run ::
  "latency_env \<Rightarrow> (nat \<Rightarrow> rcmd \<Rightarrow> 's \<Rightarrow> rval \<times> 's) \<Rightarrow> analytics \<Rightarrow> (nat \<times> fault) list \<Rightarrow>
   's latency_state \<Rightarrow> 's latency_state" where
  "latency_run le exec ch [] w = w"
| "latency_run le exec ch ((t, f) # es) w = latency_run le exec ch es (latency_turn le exec ch f t w)"

end
