(* ===== verification/Latency_Properties.thy ===== *)
theory Latency_Properties
  imports Latency_Worker Fixtures
begin

text \<open>
  The latency ranking against its reference: per provider the moving average of every
  percentile the store reported, whatever happened to the writes in between.
\<close>

section \<open>Reference\<close>

text \<open>What turn number \<open>k\<close> of the worker learns from the store.\<close>

definition measured :: "latency_env \<Rightarrow> analytics \<Rightarrow> nat \<Rightarrow> (string \<times> f64) list" where
  "measured le ch k =
     (case ch k \<lparr>ur_url = te_url (le_tracer le), ur_headers = [], ur_body = p95_query (le_interval le)\<rparr> of
        HErr e \<Rightarrow> []
      | HOk r \<Rightarrow>
          if is_success (hr_status r)
          then (case reply_json (te_sd (le_tracer le)) r of None \<Rightarrow> [] | Some v \<Rightarrow> p95_map le v)
          else [])"

definition ema_of :: "latency_env \<Rightarrow> f64 list \<Rightarrow> f64 option" where
  "ema_of le = foldl (\<lambda>a x. Some (compute_ema le a x (default_alpha le))) None"

definition observations :: "latency_env \<Rightarrow> analytics \<Rightarrow> nat \<Rightarrow> string \<Rightarrow> f64 list" where
  "observations le ch n p = List.map_filter (\<lambda>k. map_of (measured le ch k) p) [0..<n]"

lemma observations_Suc:
  "observations le ch (Suc n) p =
     observations le ch n p @ (case map_of (measured le ch n) p of None \<Rightarrow> [] | Some x \<Rightarrow> [x])"
  by (simp add: observations_def List.map_filter_def split: option.split)

lemma ema_of_snoc: "ema_of le (xs @ [x]) = Some (compute_ema le (ema_of le xs) x (default_alpha le))"
  by (simp add: ema_of_def)

section \<open>Maps\<close>

lemma distinct_foldl_update: "distinct (map fst m) \<Longrightarrow> distinct (map fst (foldl (\<lambda>m (p, x). AList.update p (g m p x) m) m xs))"
  by (induction xs arbitrary: m) (auto simp: distinct_update)

lemma p95_map_distinct: "distinct (map fst (p95_map le v))"
  using distinct_foldl_update [of "[] :: (string \<times> f64) list" "\<lambda>m p x. x"] by (simp add: p95_map_def split: option.split)

lemma measured_distinct: "distinct (map fst (measured le ch k))"
  by (simp add: measured_def p95_map_distinct split: http_result.split option.split)

lemma smooth_distinct: "distinct (map fst ema) \<Longrightarrow> distinct (map fst (smooth le ema raw))"
  unfolding smooth_def
  using distinct_foldl_update [of ema "\<lambda>ema p raw. compute_ema le (map_of ema p) raw (default_alpha le)"] by simp

lemma update_not_empty [simp]: "AList.update p x m \<noteq> []"
  by (cases m) auto

lemma smooth_not_empty: "ema \<noteq> [] \<or> raw \<noteq> [] \<Longrightarrow> smooth le ema raw \<noteq> []"
proof (induction raw arbitrary: ema)
  case (Cons e raw)
  then show ?case by (cases e) (auto simp: smooth_def)
qed (simp add: smooth_def)

lemma smooth_map:
  "distinct (map fst raw) \<Longrightarrow>
   map_of (smooth le ema raw) p =
     (case map_of raw p of None \<Rightarrow> map_of ema p
      | Some x \<Rightarrow> Some (compute_ema le (map_of ema p) x (default_alpha le)))"
proof (induction raw arbitrary: ema)
  case (Cons e raw)
  obtain q x where e: "e = (q, x)" by (cases e)
  have "map_of raw q = None" using Cons.prems by (simp add: e map_of_eq_None_iff)
  moreover have "map_of (smooth le ema (e # raw)) p =
      map_of (smooth le (AList.update q (compute_ema le (map_of ema q) x (default_alpha le)) ema) raw) p"
    by (simp add: smooth_def e)
  ultimately show ?case using Cons by (auto simp: e update_conv' split: option.split)
qed (simp add: smooth_def)

lemma update_fresh: "p \<notin> fst ` set z \<Longrightarrow> AList.update p x z = z @ [(p, x)]"
  by (induction z) auto

lemma foldl_update_fresh:
  "distinct (map fst (z @ xs)) \<Longrightarrow> foldl (\<lambda>m (p, x). AList.update p x m) z xs = z @ xs"
proof (induction xs arbitrary: z)
  case (Cons e xs)
  obtain p x where e: "e = (p, x)" by (cases e)
  have "AList.update p x z = z @ [(p, x)]"
    using Cons.prems by (intro update_fresh) (auto simp: e)
  with Cons show ?case by (simp add: e)
qed simp

section \<open>One turn\<close>

lemma query_measured:
  "(\<exists>e. query_p95_latencies le ch sent = (Inl e, sent @ [rq]) \<and> measured le ch (length sent) = []) \<or>
   query_p95_latencies le ch sent = (Inr (measured le ch (length sent)), sent @ [rq])"
  if "rq = \<lparr>ur_url = te_url (le_tracer le), ur_headers = [], ur_body = p95_query (le_interval le)\<rparr>"
  using that
  by (auto simp: query_p95_latencies_def run_query_def tr_bind_def send_store_def measured_def ok_or_def
      split: http_result.split option.split)

lemma turn_state:
  fixes w :: "'s latency_state" and t :: nat and f :: fault and ch :: analytics and le :: latency_env
    and exec :: "nat \<Rightarrow> rcmd \<Rightarrow> 's \<Rightarrow> rval \<times> 's"
  defines "w' \<equiv> latency_turn le exec ch f t w"
  shows "ls_ema w' = smooth le (ls_ema w) (measured le ch (length (ls_sent w))) \<and>
    length (ls_sent w') = Suc (length (ls_sent w)) \<and>
    (measured le ch (length (ls_sent w)) \<noteq> [] \<longrightarrow>
      ls_redis w' = snd (push_ranking exec f t (ls_ema w') (ls_redis w)))"
proof -
  have "smooth le ema [] = ema" for ema by (simp add: smooth_def)
  then show ?thesis
    using query_measured [OF refl, of le ch "ls_sent w"] smooth_not_empty [of "ls_ema w" "measured le ch (length (ls_sent w))" le]
    by (auto simp: w'_def latency_turn_def latency_tick_def Let_def split: prod.splits if_splits)
qed

lemma run_append: "latency_run le exec ch (es @ es') w = latency_run le exec ch es' (latency_run le exec ch es w)"
  by (induction es arbitrary: w) auto

lemma run_ema:
  fixes s :: 's and ch :: analytics and le :: latency_env and exec :: "nat \<Rightarrow> rcmd \<Rightarrow> 's \<Rightarrow> rval \<times> 's"
  defines "w es \<equiv> latency_run le exec ch es (latency_start s)"
  shows "length (ls_sent (w es)) = length es \<and> distinct (map fst (ls_ema (w es))) \<and>
    (\<forall>p. map_of (ls_ema (w es)) p = ema_of le (observations le ch (length es) p))"
proof (induction es rule: rev_induct)
  case Nil
  then show ?case by (simp add: w_def latency_start_def ema_of_def observations_def List.map_filter_def)
next
  case (snoc e es)
  obtain t f where e: "e = (t, f)" by (cases e)
  have "w (es @ [e]) = latency_turn le exec ch f t (w es)" by (simp add: w_def run_append e)
  with snoc show ?case
    using turn_state [of le exec ch f t "w es"]
    by (auto simp: smooth_distinct smooth_map [OF measured_distinct] observations_Suc ema_of_snoc split: option.split)
qed

context redis_server
begin

definition ranked :: "(string \<times> f64) list \<Rightarrow> (rdata \<times> nat option) option" where
  "ranked z = (if z = [] then None else Some (DRanks z, None))"

lemma ranked_simps [simp]: "ranks_at (ranked z) = Some z" "ttl_of (ranked z) = None" "at_time t (ranked z) = ranked z"
  by (simp_all add: ranked_def ranks_at_def ttl_of_def at_time_def)

lemma adds_rank:
  "view s t k = ranked z \<Longrightarrow> \<forall>(p, x) \<in> set xs. f_ge F x x \<Longrightarrow>
   view (snd (exec_all (exec t) (map (\<lambda>(p, x). ZADDF k x p) xs) s)) t k =
     ranked (foldl (\<lambda>m (p, x). AList.update p x m) z xs)"
proof (induction xs arbitrary: s z)
  case (Cons e xs)
  obtain p x where e: "e = (p, x)" by (cases e)
  have "view (snd (exec t (ZADDF k x p) s)) t k = ranked (AList.update p x z)"
    using Cons.prems exec_key [of t "ZADDF k x p" s] by (simp add: e) (simp add: ranked_def at_time_def)
  with Cons show ?case by (simp add: e Let_def)
qed simp

lemma exec_all_append:
  "snd (exec_all ex (cs @ ds) s') = snd (exec_all ex ds (snd (exec_all ex cs s')))"
  by (induction cs arbitrary: s') (simp_all add: Let_def)

lemma ranking_pushed:
  assumes "ema \<noteq> []" "distinct (map fst ema)" "\<forall>(p, x) \<in> set ema. f_ge F x x" "t \<le> t'"
  shows "view (snd (push_ranking exec Delivered t ema s)) t' rankings_key =
    (if t' < t + 30000 then Some (DRanks ema, Some (t + 30000)) else None)"
proof -
  let ?s1 = "snd (exec t (DEL rankings_key) s)"
  let ?s2 = "snd (exec_all (exec t) (map (\<lambda>(p, x). ZADDF rankings_key x p) ema) ?s1)"
  have "view ?s1 t rankings_key = ranked []"
    using exec_key [of t "DEL rankings_key" s] by (simp add: ranked_def at_time_def)
  from adds_rank [OF this assms(3)] have "view ?s2 t rankings_key = ranked ema"
    using foldl_update_fresh [of "[]" ema] assms(2) by simp
  then have "view (snd (exec t (EXPIRE rankings_key rankings_ttl) ?s2)) t rankings_key =
      Some (DRanks ema, Some (t + 30000))"
    using exec_key [of t "EXPIRE rankings_key rankings_ttl" ?s2] assms(1)
    by (simp add: ranked_def rankings_ttl_def at_time_def)
  moreover have "snd (push_ranking exec Delivered t ema s) = snd (exec t (EXPIRE rankings_key rankings_ttl) ?s2)"
    by (simp add: push_ranking_def ranking_commands_def exec_all_append Let_def)
  ultimately show ?thesis using time_passes [OF assms(4)] by (simp add: at_time_def)
qed

end

text \<open>C25. The latency ranking is the moving average of all measurements: after any number of turns, whatever
  was lost of their writes, a turn that learns a percentile and reaches the server leaves a
  ranking with exactly the average of every provider measured so far; it is there for thirty
  seconds and then gone.\<close>

theorem ranking_is_average:
  assumes "redis_server (le_F le) exec view" and "measured le ch (length es) \<noteq> []"
    and "\<And>p x. ema_of le (observations le ch (Suc (length es)) p) = Some x \<Longrightarrow> f_ge (le_F le) x x"
  shows "\<exists>z. distinct (map fst z) \<and>
    (\<forall>p. map_of z p = ema_of le (observations le ch (Suc (length es)) p)) \<and>
    (\<forall>t' \<ge> t. view (ls_redis (latency_run le exec ch (es @ [(t, Delivered)]) (latency_start s))) t' rankings_key =
      (if t' < t + 30000 then Some (DRanks z, Some (t + 30000)) else None))"
proof -
  let ?w = "latency_run le exec ch es (latency_start s)"
  let ?w' = "latency_run le exec ch (es @ [(t, Delivered)]) (latency_start s)"
  have w': "?w' = latency_turn le exec ch Delivered t ?w" by (simp add: run_append)
  have ema: "distinct (map fst (ls_ema ?w'))"
    "\<And>p. map_of (ls_ema ?w') p = ema_of le (observations le ch (Suc (length es)) p)"
    using run_ema [of le exec ch "es @ [(t, Delivered)]" s] by auto
  have len: "length (ls_sent ?w) = length es" using run_ema [of le exec ch es s] by simp
  have redis: "ls_redis ?w' = snd (push_ranking exec Delivered t (ls_ema ?w') (ls_redis ?w))"
    and "ls_ema ?w' = smooth le (ls_ema ?w) (measured le ch (length es))"
    using turn_state [of le exec ch Delivered t ?w] assms(2) by (simp_all add: len w')
  then have "ls_ema ?w' \<noteq> []" using assms(2) smooth_not_empty by metis
  moreover have "\<forall>(p, x) \<in> set (ls_ema ?w'). f_ge (le_F le) x x"
    using assms(3) ema map_of_is_SomeI [OF ema(1)] by fastforce
  ultimately have "view (ls_redis ?w') t' rankings_key =
      (if t' < t + 30000 then Some (DRanks (ls_ema ?w'), Some (t + 30000)) else None)" if "t \<le> t'" for t'
    using redis_server.ranking_pushed [OF assms(1) _ ema(1) _ that] redis by simp
  with ema show ?thesis by blast
qed

section \<open>A concrete run\<close>

definition te_sample :: tracer_env where
  "te_sample = \<lparr>te_sd = sd0\<lparr>parse_value := (\<lambda>b. Some (JObj [(''data'',
       JArr [JObj [(''executed_provider'', JStr ''openai''), (''p95'', jnat 200)]])]))\<rparr>,
     te_url = ''http://store'', te_uuid = (\<lambda>s. if s = ''u'' then Some ''u'' else None), te_lossy = id\<rparr>"

definition lat_sample :: latency_env where
  "lat_sample = \<lparr>le_tracer = te_sample, le_F = F0, le_add = (+), le_sub = (-), le_interval = 10\<rparr>"

definition ch_sample :: analytics where
  "ch_sample = (\<lambda>n rq. HOk \<lparr>hr_status = 200, hr_headers = [], hr_body = [Chunk ''rows'']\<rparr>)"

lemma measured_sample: "measured lat_sample ch_sample k = [(''openai'', 200)]"
  by (simp add: measured_def ch_sample_def lat_sample_def te_sample_def is_success_def reply_json_def p95_map_def
      p95_row_def positive_def List.map_filter_def jindex_def jnat_def fixture_defs)

lemma ranking_is_average_witness:
  "\<exists>z. map_of z ''openai'' = ema_of lat_sample [200, 200] \<and>
     ref_view (ls_redis (latency_run lat_sample (ref_exec F0) ch_sample ([(0, LostRequest)] @ [(10000, Delivered)])
       (latency_start (\<lambda>_. None)))) 39999 rankings_key = Some (DRanks z, Some 40000)"
proof -
  let ?w = "latency_run lat_sample (ref_exec F0) ch_sample ([(0, LostRequest)] @ [(10000, Delivered)])
    (latency_start (\<lambda>_. None))"
  have obs: "observations lat_sample ch_sample (Suc (length [(0::nat, LostRequest)])) p = (if p = ''openai'' then [200, 200] else [])" for p
    by (simp add: observations_def measured_sample List.map_filter_def)
  have F: "le_F lat_sample = F0" "f_ge F0 x x" for x by (simp_all add: lat_sample_def F0_def)
  have "redis_server (le_F lat_sample) (ref_exec F0) ref_view" using ref.redis_server_axioms [of F0] F(1) by metis
  from ranking_is_average [OF this, of ch_sample "[(0, LostRequest)]" 10000 "\<lambda>_. None"]
  obtain z where "\<forall>p. map_of z p = ema_of lat_sample (if p = ''openai'' then [200, 200] else [])"
    "\<forall>t' \<ge> 10000. ref_view (ls_redis ?w) t' rankings_key =
      (if t' < 10000 + 30000 then Some (DRanks z, Some (10000 + 30000)) else None)"
    unfolding obs by (auto simp: measured_sample F simp del: latency_run.simps)
  then show ?thesis by (intro exI [of _ z]) simp
qed

end
