(* ===== verification/Startup_Properties.thy ===== *)
theory Startup_Properties
  imports Startup Guards_Properties Sandbox_Properties Admin_Properties Compliance_Properties
begin

text \<open>
  What the start of the services guarantees of what they serve, and where a start that succeeds
  leaves them with a setting or a neighbour that does not do what it is for.
\<close>

section \<open>Starts\<close>

named_theorems boot_simps \<open>the steps of a start\<close>

lemma boot_steps [boot_simps]:
  "expect ok msg = Inr u \<longleftrightarrow> ok" "attempt ok msg = Inr u \<longleftrightarrow> ok"
  "ok_or r e = Inr x \<longleftrightarrow> r = Some x" "require_env env key = Inr v \<longleftrightarrow> env key = Some v"
  by (simp_all add: expect_def attempt_def ok_or_def require_env_def split: option.split)

declare res_bind_eq_Inr [boot_simps]

lemma cors_created:
  "create_cors_layer w dev methods headers env = Inr p \<Longrightarrow>
     co_credentials p \<and> (case env ''DASHBOARD_URL'' of
        None \<Rightarrow> co_origins p = dev | Some url \<Rightarrow> co_origins p = [url] \<and> list_all hdr_visible url)"
  by (auto simp: create_cors_layer_def boot_simps header_value_def Let_def split: option.splits if_splits)

lemma gateway_started:
  assumes "gateway_boot G words sd w env = Inr app"
  shows "env ''JWT_SECRET'' \<noteq> None" "gateway_cors w env = Inr (ga_cors app)"
    and "read_gateway_settings env = Inr (ga_settings app)"
  using assms by (auto simp: gateway_boot_def boot_simps Let_def read_gateway_settings_def)

text \<open>The origin policies of the services that have started.\<close>

definition started_cors :: "boot_world \<Rightarrow> environ \<Rightarrow> cors_policy set" where
  "started_cors w env =
     {ga_cors app | app G words sd. gateway_boot G words sd w env = Inr app} \<union>
     {ca_cors app | app. compliance_boot w env = Inr app} \<union>
     {ta_cors app | app ch te sent. tracer_boot w env ch te = (Inr app, sent)} \<union>
     {p. auth_boot w env = Inr p} \<union> {p. \<exists>port. config_boot w env = Inr (port, p)}"

lemma started_cors_created:
  "p \<in> started_cors w env \<Longrightarrow>
     p \<in> {p. gateway_cors w env = Inr p \<or> compliance_cors w env = Inr p \<or> tracer_cors w env = Inr p \<or>
       auth_cors w env = Inr p \<or> build_cors w env = Inr p}"
  by (auto simp: started_cors_def dest: gateway_started)
    (auto simp: compliance_boot_def tracer_boot_def auth_boot_def config_boot_def boot_simps Let_def)

text \<open>The services that let a browser send credentials trust one address: with \<open>DASHBOARD_URL\<close> set
  every service that started allows exactly that origin, or did not take the value for a header and
  allows the local dashboard only; without it only ports of the local machine are allowed.\<close>

theorem one_trusted_origin:
  assumes "p \<in> started_cors w env"
  shows "co_credentials p \<and> (case env ''DASHBOARD_URL'' of
      Some url \<Rightarrow> co_origins p = (if list_all hdr_visible url then [url] else [''http://localhost:5173''])
    | None \<Rightarrow> \<forall>x \<in> set (co_origins p). starts_with x ''http://localhost:'' \<or> starts_with x ''http://127.0.0.1:'')"
proof -
  have dev: "\<forall>x \<in> set (co_origins p). starts_with x ''http://localhost:'' \<or> starts_with x ''http://127.0.0.1:''"
    if "set (co_origins p) \<subseteq> {''http://localhost:5173'', ''http://localhost:3000'', ''http://127.0.0.1:5173'', ''http://127.0.0.1:3000''}"
    using that by (auto simp: starts_with_def)
  have visible: "list_all hdr_visible ''http://localhost:5173''" by code_simp
  from started_cors_created [OF assms] consider
    (strict) dev methods headers where "create_cors_layer w dev methods headers env = Inr p"
      "set dev \<subseteq> {''http://localhost:5173'', ''http://localhost:3000'', ''http://127.0.0.1:5173'', ''http://127.0.0.1:3000''}"
  | (config) "build_cors w env = Inr p"
    by (auto simp: gateway_cors_def compliance_cors_def tracer_cors_def auth_cors_def dev_origins_def)
  then show ?thesis
  proof cases
    case strict
    show ?thesis
    proof (cases "env ''DASHBOARD_URL''")
      case None
      with cors_created [OF strict(1)] dev strict(2) show ?thesis by simp
    qed (use cors_created [OF strict(1)] in auto)
  next
    case config
    then show ?thesis
      using visible
      by (auto simp: build_cors_def boot_simps Let_def optional_env_def header_value_def starts_with_def split: option.splits)
  qed
qed

section \<open>No route without a credential\<close>

lemma refused_401:
  assumes "hq_method rq \<noteq> ''OPTIONS''" "hq_path rq \<noteq> ''/health''" "hq_path rq \<noteq> ''/v1/health''"
    and "ae_secret ae \<noteq> None" and "\<And>h. ae_keys ae h \<noteq> KeyDbError"
    and "\<And>tenant. \<not> verified_tenant ae (hq_headers rq) tenant"
  shows "auth_middleware ae nxt rq st = (status_response 401, st)"
proof (cases "request_token (hq_headers rq)")
  case None
  with assms(1-3) show ?thesis by (simp add: auth_middleware_def)
next
  case (Some ta)
  obtain token api where ta: "ta = (token, api)" by (cases ta)
  show ?thesis
    using assms Some ta
    by (cases api) (auto simp: auth_middleware_def verified_tenant_def handle_api_key_def handle_jwt_def verify_jwt_def
      split: key_row.split option.split)
qed

text \<open>The routes with a page behind them.\<close>

definition protected :: "gateway_target option \<Rightarrow> bool" where
  "protected t \<longleftrightarrow> t \<noteq> None \<and> t \<noteq> Some ToHealth"

lemma target_admin: "gateway_target m path = Some (ToAdmin p) \<Longrightarrow> map_of admin_pages p \<noteq> None \<and> p \<noteq> ''/health'' \<and> p \<noteq> ''/v1/health''"
  by (auto simp: gateway_target_def gateway_paths_def admin_pages_def split: if_splits)


section \<open>The completion route of a started compliance service\<close>

text \<open>C10. The compliance service as it starts is fail-closed: its completion route says where a JSON body
  may go only when the prompt has none of the injection patterns and the policy service has
  explicitly allowed it, and the address it names is the one of the started configuration for the
  region of the request.\<close>

theorem started_completion_needs_allow:
  assumes "compliance_boot w env = Inr app" and "parse_value sd body = Some payload"
    and "rstatus (fst (completion_route lc uc sd (ca_config app) (ca_security app) opa ts (Some body) hs log)) = 200"
  shows "(\<forall>p k. jget_str payload ''prompt'' = Some p \<longrightarrow> k \<in> set injection_patterns \<longrightarrow> \<not> contains_str (lc p) k) \<and>
    (\<exists>resp r. opa (opa_policy_request sd (sy_opa_url compliance_security) (guard_input compliance_security hs payload)) = HOk resp \<and>
      is_success (hr_status resp) \<and> Option.bind (reply_json sd resp) de_opa_response = Some r \<and> ox_allow r) \<and>
    rbody (fst (completion_route lc uc sd (ca_config app) (ca_security app) opa ts (Some body) hs log)) =
      rbody (check_routing (build_residency_rule (extract_region uc hs) compliance_config))"
proof -
  have app: "ca_config app = compliance_config" "ca_security app = compliance_security"
    using assms(1) by (auto simp: compliance_boot_def boot_simps)
  let ?d = "guard_decision lc sd compliance_security opa hs body"
  have allowed: "fst ?d"
    using assms(3) by (auto simp: app completion_route_def security_guard_middleware_def Let_def violation_response_def split: if_splits)
  have "cp_fail_closed (sy_policy compliance_security)" by (simp add: compliance_security_def)
  from guard_allows [OF assms(2) this allowed] show ?thesis
    using assms(3) allowed
    by (auto simp: app completion_route_def security_guard_middleware_def geo_routing_middleware_def Let_def
        compliance_response_def split: if_splits option.splits)
qed

section \<open>The sandbox of a started gateway\<close>

lemma sandbox_path: "''/v1/data/redeye/mcp/allow'' \<notin> (fst \<circ> snd) ` set compliance_paths"
  by (simp add: compliance_paths_def)


section \<open>A window of no seconds\<close>

context redis_server
begin

lemma rate_zero_window:
  fixes limit :: u32
  assumes "view s t key = None"
  defines "r \<equiv> rate_check exec limit 0 (t, Delivered) (t, Delivered) key s"
  shows "rd_blocked (fst r) \<longleftrightarrow> unat limit < 1" and "view (snd r) t key = None"
proof -
  let ?i = "exec t (INCRBY key 1) s"
  have i: "fst ?i = RInt 1" "view (snd ?i) t key = Some (DStr (Dec 1), None)"
    using assms(1) exec_key [of t "INCRBY key 1" s]
    by (simp_all add: exec_reply int_at_def ttl_of_def at_time_def i64_range_def)
  have "view (snd (exec t (EXPIRE key 0) (snd ?i))) t key = None"
    using exec_key [of t "EXPIRE key 0" "snd ?i"] i by (simp add: at_time_def)
  with i show "view (snd r) t key = None" by (simp add: r_def rate_check_def rate_script_def Let_def)
  show "rd_blocked (fst r) \<longleftrightarrow> unat limit < 1"
    using i uint_less_nat [of limit 1] by (simp add: r_def rate_check_def rate_script_def Let_def)
qed

lemma rate_run_zero_window:
  "view s t key = None \<Longrightarrow> sorted (t # ts) \<Longrightarrow> 1 \<le> unat limit \<Longrightarrow> False \<notin> set (rate_run exec limit 0 key ts s)"
proof (induction ts arbitrary: t s)
  case (Cons u ts)
  have "view s u key = None" using Cons.prems(1,2) time_passes [of t u s key] by (simp add: at_time_def)
  note step = rate_zero_window [OF this, of limit]
  have "False \<notin> set (rate_run exec limit 0 key ts (snd (rate_check exec limit 0 (u, Delivered) (u, Delivered) key s)))"
    by (rule Cons.IH [OF step(2) _ Cons.prems(3)]) (use Cons.prems(2) in simp)
  with step(1) Cons.prems(3) show ?case by (simp add: Let_def)
qed simp

end

text \<open>A window of no seconds switches the limiter off: the start accepts \<open>RATE_LIMIT_WINDOW_SECS=0\<close>, and
  then every request is admitted, however many come and whatever the limit, because the counter
  expires as soon as it is made.\<close>

theorem zero_window_never_limits:
  assumes "redis_server F exec view" and "gateway_boot G words sd w env = Inr app"
    and "env ''RATE_LIMIT_WINDOW_SECS'' = Some ''0''" and "1 \<le> unat (gc_rate_max (ga_settings app))"
    and "view s t key = None" and "sorted (t # ts)"
  shows "False \<notin> set (rate_run exec (ro_limit (gateway_limits app ro)) (ro_window (gateway_limits app ro)) key ts s)"
proof -
  have "read_u32 ''0'' = Some 0" by (simp add: read_u32_def parse_u64_def strip_prefix_def starts_with_def is_digit_def)
  with gateway_started(3) [OF assms(2)] assms(3) have "gc_rate_window (ga_settings app) = 0"
    by (cases "ga_settings app") (auto simp: read_gateway_settings_def boot_simps parse_env_def optional_env_def)
  with redis_server.rate_run_zero_window [OF assms(1,5,6,4)] show ?thesis by (simp add: gateway_limits_def)
qed

section \<open>Concrete starts\<close>

definition world_sample :: boot_world where
  "world_sample = \<lparr>bw_redis_open = (\<lambda>_. True), bw_redis_connect = (\<lambda>_. True), bw_redis_ping = True, bw_http_client = True,
     bw_db_connect = (\<lambda>_. True), bw_migrate = True, bw_channel = (\<lambda>_. True), bw_model = True, bw_pii_engine = True,
     bw_cors = (\<lambda>p. ''*'' \<notin> set (co_origins p)), bw_listen = (\<lambda>_. True)\<rparr>"

definition environ_sample :: "(string \<times> string) list \<Rightarrow> environ" where
  "environ_sample extra = map_of (extra @ [(''JWT_SECRET'', ''s''), (''REDIS_URL'', ''r''), (''CLICKHOUSE_URL'', ''c''),
     (''DATABASE_URL'', ''d'')])"

lemma numbers_sample:
  "read_u16 ''8080'' = Some 8080" "read_u32 ''60'' = Some 60" "read_u32 ''0'' = Some 0"
  by (simp_all add: read_u16_def read_u32_def parse_u64_def strip_prefix_def starts_with_def is_digit_def)

lemma gateway_boots_sample:
  assumes "extra \<in> {[], [(''RATE_LIMIT_WINDOW_SECS'', ''0'')], [(''DASHBOARD_URL'', ''https://d'')]}"
  obtains app where "gateway_boot G0 words sd1 world_sample (environ_sample extra) = Inr app"
    "gc_rate_max (ga_settings app) = 60" "gc_compliance_url (ga_settings app) = ''http://localhost:8083''"
proof -
  have "list_all hdr_visible ''https://d''" by code_simp
  with assms that show thesis
    by (auto simp: gateway_boot_def read_gateway_settings_def parse_env_def optional_env_def require_env_def expect_def
        ok_or_def Let_def environ_sample_def world_sample_def numbers_sample gateway_cors_def create_cors_layer_def
        dev_origins_def header_value_def)
qed

lemma one_trusted_origin_witness:
  "\<exists>p. p \<in> started_cors world_sample (environ_sample [(''DASHBOARD_URL'', ''https://d'')]) \<and> co_origins p = [''https://d'']"
proof -
  let ?env = "environ_sample [(''DASHBOARD_URL'', ''https://d'')]"
  obtain app where "gateway_boot G0 (\<lambda>_. []) sd1 world_sample ?env = Inr app"
    using gateway_boots_sample [of "[(''DASHBOARD_URL'', ''https://d'')]" "\<lambda>_. []"] by blast
  then have p: "ga_cors app \<in> started_cors world_sample ?env" by (auto simp: started_cors_def)
  have "list_all hdr_visible ''https://d''" by code_simp
  with one_trusted_origin [OF p] have "co_origins (ga_cors app) = [''https://d'']" by (simp add: environ_sample_def)
  with p show ?thesis by blast
qed


lemma compliance_boots_sample:
  "compliance_boot world_sample (environ_sample []) = Inr \<lparr>ca_config = compliance_config, ca_security = compliance_security,
     ca_cors = \<lparr>co_origins = dev_origins, co_credentials = True, co_methods = [''GET'', ''POST'', ''PUT'', ''DELETE'', ''OPTIONS''],
       co_headers = [''authorization'', ''content-type'', ''x-csrf-token'']\<rparr>\<rparr>"
  by (simp add: compliance_boot_def compliance_cors_def create_cors_layer_def environ_sample_def world_sample_def dev_origins_def
      expect_def Let_def)

lemma prompt_routed_sample:
  "rstatus (fst (completion_route id ascii_upper sd1 compliance_config compliance_security opa_yes ''t'' (Some (enc_json prompt_body)) [] [])) = 200"
proof -
  have "fst (guard_decision id sd1 compliance_security opa_yes [] (enc_json prompt_body))"
    by (simp add: guard_decision_def prompt_body_def jget_str_def contains_prompt_injection_def injection_patterns_def
        starts_with_def evaluate_policy_def opa_yes_def is_success_def reply_json_def de_opa_response_def
        de_opa_result_def struct_view_def de_req_def de_opt_def)
  moreover have "extract_region ascii_upper [] = ''GLOBAL''" by code_simp
  ultimately show ?thesis
    by (simp add: completion_route_def security_guard_middleware_def geo_routing_middleware_def Let_def check_routing_def
        json_response_def)
qed

lemma started_completion_needs_allow_witness:
  "\<exists>resp r. opa_yes (opa_policy_request sd1 ''http://opa-server:8181'' (guard_input compliance_security [] prompt_body)) = HOk resp \<and>
     Option.bind (reply_json sd1 resp) de_opa_response = Some r \<and> ox_allow r"
  using started_completion_needs_allow [OF compliance_boots_sample, of sd1 "enc_json prompt_body" prompt_body id ascii_upper
      opa_yes "''t''" "[]" "[]"] prompt_routed_sample
  by (auto simp: compliance_security_def)


lemma zero_window_never_limits_witness:
  "\<exists>app. gateway_boot G0 (\<lambda>_. []) sd1 world_sample (environ_sample [(''RATE_LIMIT_WINDOW_SECS'', ''0'')]) = Inr app \<and>
     False \<notin> set (rate_run (ref_exec F0) (ro_limit (gateway_limits app ro_sample)) (ro_window (gateway_limits app ro_sample))
       ''k'' (replicate 100 7) Map.empty)"
proof -
  obtain app where app: "gateway_boot G0 (\<lambda>_. []) sd1 world_sample (environ_sample [(''RATE_LIMIT_WINDOW_SECS'', ''0'')]) = Inr app"
    and max: "gc_rate_max (ga_settings app) = 60"
    using gateway_boots_sample [of "[(''RATE_LIMIT_WINDOW_SECS'', ''0'')]" "\<lambda>_. []"] by blast
  have "False \<notin> set (rate_run (ref_exec F0) (ro_limit (gateway_limits app ro_sample)) (ro_window (gateway_limits app ro_sample))
       ''k'' (replicate 100 7) Map.empty)"
    by (rule zero_window_never_limits [OF ref.redis_server_axioms app, where t = 7])
      (simp_all add: environ_sample_def max ref_view_def at_time_def sorted_replicate)
  with app show ?thesis by blast
qed

end
