(* ===== verification/Spec2Isabelle.thy ===== *)
theory Spec2Isabelle
  imports Guards_Properties Translator_Properties Router_Properties Tool_Router_Properties
    Mcp_Properties Sandbox_Properties L1_Cache Proxy_Properties Gateway_Properties Telemetry
    Pii_Properties Compliance_Properties Auth_Properties Concurrency_Properties
    Config_Properties Config_Concurrency_Properties Admin_Properties Semantic_Cache_Properties Tracer_Properties Latency_Properties Startup_Properties
begin

text \<open>
  A verification of the RedEye gateway (\<open>redeye_gateway/src\<close>), the proxy that stands between
  AI agents and language-model providers, and of the services around it: compliance, which redacts
  and guards its traffic (\<open>redeye_compliance/src\<close>), auth, which issues the credentials it accepts
  (\<open>redeye_auth/src\<close>), config, which keeps settings, keys and the routing mesh
  (\<open>redeye_config/src\<close>), the second-level cache (\<open>redeye_cache/src\<close>) and the tracer with its latency
  worker (\<open>redeye_tracer/src\<close>).

  \<^bold>\<open>The program.\<close> A chat request passes the trace-context middleware, the rate limiter and
  authentication (\<open>api/routes.rs\<close>), then the handler (\<open>api/handlers.rs\<close>), which charges the
  session's loop budget, warms up tool servers, strips registered tool schemas and hands the
  request to the proxy pipeline (\<open>usecases/proxy.rs\<close>). The pipeline redacts personal data
  through the compliance service, looks into two cache levels, prepares the upstream request
  from the routing map, runs the token bucket, the loop guard and the burn-rate guard,
  calls the provider with fail-over over the model's keys, and treats the reply: it is
  unified to the OpenAI form, checked by the tool sandbox, searched for the schema tool and
  for tool calls to fan out, and charged to the tenant's bucket. Background tasks record spend,
  telemetry and traces and fill the caches; a worker batches telemetry for the analytics store.
  The compliance service finds personal data in two tiers and replaces it by tokens
  (\<open>usecases/pii_engine.rs\<close>); its completion route stands behind the policy guard and the
  residency lock. The auth service keeps accounts, sessions, one-time passwords and keys in
  PostgreSQL (\<open>api/handlers.rs\<close>); the gateway reads its key tables and shares its JWT secret and
  its master key. The config service changes settings and keys in the same database and publishes
  the routing mesh over Redis, which the gateway's subscriber reads. The cache service answers the
  gateway's second-level lookups from embeddings in PostgreSQL. The tracer writes the traces the
  gateway posts into the analytics store, as a trace row and then an audit row, and its worker ranks the providers by latency; the gateway's admin pages read the same store.

  \<^bold>\<open>The theories.\<close>
  \<^item> \<open>Prelude\<close>, \<open>Json\<close>, \<open>Json_Codec\<close>, \<open>Fixtures\<close>: results and their chaining, Rust string operations,
    header maps, ordered maps; JSON values as \<open>serde_json\<close> has them, with the JSON library as
    the parameter \<open>serde\<close>; a concrete codec that shows the round-trip law can hold.
  \<^item> \<open>Redis\<close>: the commands the code sends, the documented reply and effect of each over a
    key space with expiry, the locale \<open>redis_server\<close>, and a reference server that
    interprets it. A call happens at a time and may be delivered, lost, or lose its reply.
  \<^item> \<open>Guards\<close> (\<open>usecases/behavior_guard.rs\<close>, the bucket functions of \<open>usecases/proxy.rs\<close>,
    \<open>api/middleware/rate_limit.rs\<close>): one definition per guard, script and middleware;
    \<open>Gateway_Error\<close> (\<open>error.rs\<close>) has the errors and their responses. \<open>Guards_Laws\<close> and
    \<open>Guards_Budget\<close> hold the run-level invariants, \<open>Guards_Properties\<close> the properties.
  \<^item> \<open>Gateway_Models\<close> (\<open>domain/models.rs\<close>), \<open>Translators\<close> (\<open>infrastructure/translators.rs\<close>,
    \<open>infrastructure/schema_mapper.rs\<close>): records, derived readers and writers, and the three
    translators; \<open>Translator_Laws\<close> states the translator interface as a locale and
    interprets it on all three.
  \<^item> \<open>Router\<close> (\<open>infrastructure/llm_router.rs\<close>, \<open>routing_strategy.rs\<close>, \<open>config_subscriber.rs\<close>), with
    \<open>Ttl_Cache\<close> for the circuit breaker; \<open>Router_Laws\<close> has the fail-over reference that the
    loop refines.
  \<^item> \<open>Tool_Router\<close> (\<open>usecases/tool_router.rs\<close>), \<open>Mcp\<close> (\<open>infrastructure/mcp_registry.rs\<close>,
    \<open>mcp_client.rs\<close>), \<open>Sandbox\<close> (\<open>enforce_mcp_sandbox\<close>), \<open>L1_Cache\<close> (\<open>infrastructure/l1_cache.rs\<close>).
  \<^item> \<open>Proxy\<close> (\<open>usecases/proxy.rs\<close>, \<open>cache_client.rs\<close>, \<open>clickhouse_logger.rs\<close>): the pipeline stage by
    stage and the jobs it leaves behind, \<open>Gateway_Api\<close> the HTTP surface and \<open>Telemetry\<close> the
    worker of \<open>main.rs\<close>.
  \<^item> \<open>Compliance_Models\<close>, \<open>Pii_Engine\<close>, \<open>Compliance_Api\<close>, \<open>Geo_Routing\<close>, \<open>Security_Guard\<close>: the compliance
    service (\<open>error.rs\<close>, \<open>domain/models.rs\<close>, \<open>usecases/pii_engine.rs\<close>, \<open>api/handlers.rs\<close>,
    \<open>api/middleware/geo_routing.rs\<close>, \<open>api/middleware/security.rs\<close>, \<open>usecases/opa_client.rs\<close>).
    \<open>Pii_Laws\<close> has the pattern-matcher interface and the laws of the substitution, \<open>Pii_Scan\<close> the
    scanner against its reference definitions.
  \<^item> \<open>Auth_Models\<close>, \<open>Auth_Security\<close>, \<open>Auth_Db\<close>, \<open>Auth_Api\<close>: the auth service, its credentials, its
    SQL statements under the constraints of the migrations, and its handlers as computations
    that read and write the tables, fail or panic, call by call. \<open>Auth_Laws\<close> states what keeps an
    invariant of the tables as a locale over the statements and lifts it to every history.
  \<^item> \<open>Interleaving\<close>: requests at the same time, as trees of atomic actions whose steps interleave, and
    what all interleavings keep. \<open>Auth_Concurrency\<close> cuts a refresh and a one-time password
    verification at their calls, \<open>Config_Concurrency\<close> an update of settings and a registration; both
    show that a thread run alone is its handler. Their properties are in \<open>Concurrency_Properties\<close>
    and \<open>Config_Concurrency_Properties\<close>.
  \<^item> \<open>Config_Models\<close>, \<open>Config_Db\<close>, \<open>Config_Api\<close>, \<open>Config_Mesh\<close>: the config service (\<open>domain/models.rs\<close>,
    \<open>error.rs\<close>, \<open>infrastructure/db.rs\<close>, \<open>redis_sync.rs\<close>, \<open>crypto.rs\<close>, \<open>api/handlers.rs\<close>); \<open>Config_Laws\<close>
    has the frames of its statements, and \<open>Config_Mesh\<close> joins registration, publication and the
    gateway's routing map against one specification of the map.
  \<^item> \<open>Semantic_Cache\<close>: the cache service (\<open>usecases/semantic_search.rs\<close>, \<open>infrastructure\<close>, both
    interfaces) seen from the gateway's client. \<open>Tracer\<close> and \<open>Latency_Worker\<close>: the tracer
    (\<open>api/handlers.rs\<close>, \<open>usecases\<close>, \<open>infrastructure/clickhouse_repo.rs\<close>, \<open>latency_worker.rs\<close>). \<open>Admin\<close>:
    the metrics pages of the gateway's \<open>api/handlers.rs\<close>, each query with its text.
  \<^item> \<open>Startup\<close>: the start of every service (\<open>main.rs\<close>, \<open>api/routes.rs\<close>, \<open>api/router.rs\<close>), from the environment
    to the settings the parts are given, with the cross-origin policies and the gateway's route table;
    what connects, binds or loads is the parameter \<open>boot_world\<close>. The theories \<open>X_Properties\<close> hold the properties of \<open>X\<close> with the requests that witness them.

  \<^bold>\<open>How state corresponds.\<close> Code that mutates shared state takes and returns it: the Redis
  server (any type with a view that obeys \<open>redis_server\<close>), the breaker and the exact cache (types
  with the documented laws of an expiring cache), the in-process counters, the ring of
  embeddings, the routing map and the semaphore. \<open>gw_state\<close> collects them together with
  everything the gateway has sent (upstream, compliance, telemetry, tracer, L2) in order, so
  that a property can say what was not sent. \<open>gw_env\<close> is what stays fixed. What the outside
  answers is an argument: functions from the request sent to the reply. Detached tasks are jobs
  of \<open>gw_state\<close>; \<open>run_job\<close> gives the effect of each, in any order.

  \<^bold>\<open>Conventions.\<close> Strings are UTF-8 byte lists. \<open>u32\<close>, \<open>u64\<close> are words and wrap where the release
  build wraps. Errors are the left summand of a sum. Floats are bit patterns whose arithmetic
  is a record of operations. Digests, \<open>to_lowercase\<close>, the PII pattern, JWT and AES are parameters,
  and so are the JSON library, Redis, the caches, the embedding model, UUIDs and clocks. Texts
  that a library puts into error messages are left out. There is no fuel: every loop of the
  modelled code is structurally recursive or has a measure.

  \<^bold>\<open>What is shown.\<close> Safety of the admission path (no personal data forwarded unredacted, no
  forged tenant, no provider contacted without admission, repetition broken, bucket never
  overdrawn, window exact), functional correctness of routing (ordered fail-over, quarantine, key
  selection), of the translations (round trip, role alternation, reply shape), of the lazy
  schemas, the tool servers and the sandbox, exactly-once delivery to the telemetry store, and
  the places where the code departs from its comments, stated as theorems about the code:
  lock-out by reconciliation, header rotation at the limiter, the sandbox's ambiguous and
  multi-call cases, the cache shared by tenants, streams that are not inspected, the budget
  a content type evades, and names the scanner misses. For the cache: an answer is only ever served
  to the tenant it was stored for. For the admin pages and the tracer: every query is one of a fixed
  list restricted to the caller's tenant or to a UUID, a trace posted by the gateway is one the
  tracer reads, and the ranking is exactly the moving average. For the compliance service: redaction is
  reversible, confined to string values and, behind the gateway, the only form in which a
  matching prompt leaves; the scan decides exactly what its two tiers promise; a completion
  needs the policy's permission and leaves one audit record. For the auth service: the
  integrity of the tables over every history with lost calls and every interleaving of the
  threads, single use of refresh tokens and one-time passwords in a sequence of requests, atomic
  sign-up, schedules that end, and credentials that the gateway's own authentication accepts; and
  where it falls short: unlimited guesses, the one workspace name of external accounts, the
  providers onboarding cannot route, the refresh token two concurrent requests can both exchange.
  For the config service: bounded settings, isolation of tenants, revocation that the gateway
  honours, reads that follow writes, independence of Redis, and the mesh that reaches the gateway,
  the bounds and the isolation under every interleaving; and where it falls short: every
  registration replaces the whole mesh, one of two updates can be lost, and a mesh that is out
  of date can be published last.

  For the starts: a gateway that has started answers no route without a credential, a compliance
  service that has started is fail-closed, all services trust the one dashboard address; and where
  a start goes wrong: a window of no seconds, and a sandbox whose policy service has no such route.

  \<^bold>\<open>Not modelled.\<close> What the framework does: sockets, parsing of requests, the body limits (but for the
  redaction endpoint), preflight answers, logging, the arena buffer in which the gateway serialises
  a request (its contents are modelled); the types of the gateway's \<open>domain/compliance.rs\<close>, which nothing
  uses, the placeholder \<open>publish_api_key_to_gateway\<close>, which only logs and is not called, generated
  protocol code, the tests and fuzz targets, the dashboard and the deployment files. Requests of the
  auth and config services interleave where \<open>Auth_Concurrency\<close> and \<open>Config_Concurrency\<close> say: a
  transaction is one step, and handlers other than a refresh, a one-time password verification, an
  update of settings and a registration are one step too; requests of the cache service run one
  after another.
\<close>

end
